(* ===== verification/Prelude.thy ===== *)
theory Prelude
  imports Main
begin

text \<open>
  Shared vocabulary of the development: the collections of rewrite rules the component
  proofs use, the JavaScript values and operators the services rely on (nullish coalescing,
  truthiness of strings, \<open>Math.min\<close>, \<open>Math.max\<close>, \<open>Math.ceil\<close> of a quotient, decimal
  rendering of integers, \<open>Date.prototype.toISOString\<close>) and generic lemmas on lists.
  Strings are lists of bytes (UTF-8); numbers are the integers the code computes with.
\<close>

named_theorems io_simps \<open>evaluation of effectful computations\<close>
named_theorems table_simps \<open>lookups in tables after statements\<close>

section \<open>Values of the source language\<close>

text \<open>A JSON value as it can sit in a \<open>jsonb\<close> column written by the services.\<close>

datatype jval = JNull | JBool bool | JNum int | JStr string

text \<open>An object with JSON values; a key whose value is undefined is absent.\<close>

type_synonym meta = "string \<Rightarrow> jval option"

text \<open>Milliseconds since the epoch, as \<open>Date.now()\<close> returns them.\<close>

type_synonym instant = int

text \<open>The operator \<open>x ?? d\<close> on a property read from a JSON object.\<close>

fun nullish :: "jval option \<Rightarrow> jval \<Rightarrow> jval" where
  "nullish None d = d"
| "nullish (Some JNull) d = d"
| "nullish (Some v) d = v"

text \<open>The optional chain \<open>m?.k\<close> on a nullable object.\<close>

definition opt_get :: "meta option \<Rightarrow> string \<Rightarrow> jval option" where
  "opt_get m k = (case m of None \<Rightarrow> None | Some m' \<Rightarrow> m' k)"

text \<open>\<open>x ?? d\<close> on a value that is null or undefined when it is \<open>None\<close>.\<close>

definition or_else :: "'a option \<Rightarrow> 'a \<Rightarrow> 'a" where
  "or_else x d = (case x of None \<Rightarrow> d | Some v \<Rightarrow> v)"

text \<open>Truthiness of an optional string: undefined, null and the empty string are falsy.\<close>

definition truthy :: "string option \<Rightarrow> bool" where
  "truthy s = (case s of None \<Rightarrow> False | Some t \<Rightarrow> t \<noteq> [])"

text \<open>The spread \<open>{...a, ...b}\<close>: keys of the later object win.\<close>

definition spread :: "meta \<Rightarrow> meta \<Rightarrow> meta" where
  "spread a b = (\<lambda>k. case b k of None \<Rightarrow> a k | Some v \<Rightarrow> Some v)"

text \<open>\<open>Math.ceil(a / b)\<close> for integers with \<open>b > 0\<close>.\<close>

definition ceil_div :: "int \<Rightarrow> int \<Rightarrow> int" where
  "ceil_div a b = - ((- a) div b)"

lemma opt_get_simps [simp]:
  "opt_get None k = None" "opt_get (Some m) k = m k"
  by (simp_all add: opt_get_def)

lemma or_else_simps [simp]:
  "or_else None d = d" "or_else (Some v) d = v"
  by (simp_all add: or_else_def)

lemma truthy_simps [simp]:
  "truthy None = False" "truthy (Some s) = (s \<noteq> [])"
  by (simp_all add: truthy_def)

lemma truthyE: "truthy s \<Longrightarrow> (\<And>t. s = Some t \<Longrightarrow> t \<noteq> [] \<Longrightarrow> P) \<Longrightarrow> P"
  by (cases s) auto

lemma spread_apply [simp]:
  "spread a b k = (case b k of None \<Rightarrow> a k | Some v \<Rightarrow> Some v)"
  by (simp add: spread_def)

lemma ceil_div_bounds:
  assumes "0 < b"
  shows "a \<le> ceil_div a b * b" and "(ceil_div a b - 1) * b < a"
proof -
  define q where "q = (- a) div b"
  have split: "b * q + (- a) mod b = - a" unfolding q_def by (rule mult_div_mod_eq)
  have range: "0 \<le> (- a) mod b" "(- a) mod b < b" using assms by simp_all
  have "ceil_div a b * b = - (b * q)" by (simp add: ceil_div_def q_def)
  with split range show "a \<le> ceil_div a b * b" "(ceil_div a b - 1) * b < a"
    by (simp_all add: left_diff_distrib)
qed

section \<open>Rendering of numbers and dates\<close>

definition digit :: "nat \<Rightarrow> char" where
  "digit n = char_of (48 + n)"

fun show_nat :: "nat \<Rightarrow> string" where
  "show_nat n = (if n < 10 then [digit n] else show_nat (n div 10) @ [digit (n mod 10)])"

declare show_nat.simps [simp del]

definition show_int :: "int \<Rightarrow> string" where
  "show_int i = (if i < 0 then CHR ''-'' # show_nat (nat (- i)) else show_nat (nat i))"

text \<open>\<open>padStart(w, '0')\<close>.\<close>

definition zero_pad :: "nat \<Rightarrow> nat \<Rightarrow> string" where
  "zero_pad w n = (let s = show_nat n in replicate (w - length s) (CHR ''0'') @ s)"

text \<open>Year, month and day of the proleptic Gregorian calendar from days since the epoch.\<close>

definition civil_from_days :: "int \<Rightarrow> int \<times> int \<times> int" where
  "civil_from_days days =
     (let z = days + 719468;
          era = z div 146097;
          doe = z mod 146097;
          yoe = (doe - doe div 1460 + doe div 36524 - doe div 146096) div 365;
          doy = doe - (365 * yoe + yoe div 4 - yoe div 100);
          mp = (5 * doy + 2) div 153;
          d = doy - (153 * mp + 2) div 5 + 1;
          m = (if mp < 10 then mp + 3 else mp - 9);
          y = yoe + era * 400 + (if m \<le> 2 then 1 else 0)
      in (y, m, d))"

definition show_year :: "int \<Rightarrow> string" where
  "show_year y =
     (if 0 \<le> y \<and> y \<le> 9999 then zero_pad 4 (nat y)
      else if y < 0 then CHR ''-'' # zero_pad 6 (nat (- y))
      else CHR ''+'' # zero_pad 6 (nat y))"

definition toISOString :: "instant \<Rightarrow> string" where
  "toISOString t =
     (let (y, m, d) = civil_from_days (t div 86400000);
          ms = t mod 86400000
      in show_year y @ ''-'' @ zero_pad 2 (nat m) @ ''-'' @ zero_pad 2 (nat d) @ ''T'' @
         zero_pad 2 (nat (ms div 3600000)) @ '':'' @
         zero_pad 2 (nat (ms div 60000 mod 60)) @ '':'' @
         zero_pad 2 (nat (ms div 1000 mod 60)) @ ''.'' @
         zero_pad 3 (nat (ms mod 1000)) @ ''Z'')"

section \<open>Lists\<close>

lemma find_append: "List.find p (xs @ ys) = (case List.find p xs of None \<Rightarrow> List.find p ys | Some x \<Rightarrow> Some x)"
  by (induction xs) auto

lemma distinct_map_append_one:
  "distinct (map f (xs @ [x])) \<longleftrightarrow> distinct (map f xs) \<and> f x \<notin> f ` set xs"
  by auto

lemma distinct_map_filter_le:
  assumes "distinct (map f xs)"
  shows "length (filter (\<lambda>x. f x = k \<and> p x) xs) =
    (case List.find (\<lambda>x. f x = k) xs of None \<Rightarrow> 0 | Some x \<Rightarrow> if p x then 1 else 0)"
  using assms
proof (induction xs)
  case Nil
  then show ?case by simp
next
  case (Cons x xs)
  show ?case
  proof (cases "f x = k")
    case True
    with Cons.prems have "\<forall>y \<in> set xs. f y \<noteq> k" by (metis distinct.simps(2) imageI list.simps(9) list.set_map)
    then have "filter (\<lambda>y. f y = k \<and> p y) xs = []"
      by (simp add: filter_empty_conv)
    with True show ?thesis by simp
  next
    case False
    with Cons show ?thesis by simp
  qed
qed

end
