(* ===== verification/Effects.thy ===== *)
theory Effects
  imports Prelude
begin

text \<open>
  The effect type of the services: an \<open>async\<close> function is a state transformer that ends
  with a value or with a thrown exception. The exceptions are the classes the sources throw.
  Two ways of reasoning about such computations are set up: triples with a postcondition
  for normal and one for exceptional ends, and guarantees (a reflexive and transitive
  relation between the state before and the state after), the latter as a locale that every
  component instantiates with its own relation.
\<close>

section \<open>Exceptions\<close>

datatype exn =
    JsError string
  | NotFoundException string
  | ForbiddenException
  | ConflictException string
  | UnauthorizedException string
  | InternalServerErrorException string
  | WsException string
  | BadRequestException "string list"
  | HttpException int string

text \<open>The \<open>message\<close> property of a thrown error.\<close>

fun error_message :: "exn \<Rightarrow> string" where
  "error_message (JsError m) = m"
| "error_message (NotFoundException m) = m"
| "error_message ForbiddenException = ''Forbidden''"
| "error_message (ConflictException m) = m"
| "error_message (UnauthorizedException m) = m"
| "error_message (InternalServerErrorException m) = m"
| "error_message (WsException m) = m"
| "error_message (BadRequestException ms) = ''Bad Request Exception''"
| "error_message (HttpException status m) = m"

section \<open>Computations\<close>

type_synonym ('w, 'a) io = "'w \<Rightarrow> (exn + 'a) \<times> 'w"

definition io_return :: "'a \<Rightarrow> ('w, 'a) io" where
  "io_return a = (\<lambda>w. (Inr a, w))"

definition io_raise :: "exn \<Rightarrow> ('w, 'a) io" where
  "io_raise e = (\<lambda>w. (Inl e, w))"

definition io_bind :: "('w, 'a) io \<Rightarrow> ('a \<Rightarrow> ('w, 'b) io) \<Rightarrow> ('w, 'b) io" where
  "io_bind m f = (\<lambda>w. case m w of (Inl e, w') \<Rightarrow> (Inl e, w') | (Inr a, w') \<Rightarrow> f a w')"

definition io_seq :: "('w, 'a) io \<Rightarrow> ('w, 'b) io \<Rightarrow> ('w, 'b) io" where
  "io_seq m n = io_bind m (\<lambda>_. n)"

definition io_try :: "('w, 'a) io \<Rightarrow> (exn \<Rightarrow> ('w, 'a) io) \<Rightarrow> ('w, 'a) io" where
  "io_try m h = (\<lambda>w. case m w of (Inl e, w') \<Rightarrow> h e w' | (Inr a, w') \<Rightarrow> (Inr a, w'))"

definition io_gets :: "('w \<Rightarrow> 'a) \<Rightarrow> ('w, 'a) io" where
  "io_gets f = (\<lambda>w. (Inr (f w), w))"

definition io_modify :: "('w \<Rightarrow> 'w) \<Rightarrow> ('w, unit) io" where
  "io_modify f = (\<lambda>w. (Inr (), f w))"

lemma io_apply [simp, io_simps]:
  "io_return a w = (Inr a, w)"
  "io_raise e w = (Inl e, w)"
  "io_gets g w = (Inr (g w), w)"
  "io_modify h w = (Inr (), h w)"
  by (simp_all add: io_return_def io_raise_def io_gets_def io_modify_def)

declare io_bind_def [io_simps] io_seq_def [io_simps] io_try_def [io_simps]

lemma io_bind_eval:
  "m w = (Inr a, w') \<Longrightarrow> io_bind m f w = f a w'"
  "m w = (Inl e, w') \<Longrightarrow> io_bind m f w = (Inl e, w')"
  by (simp_all add: io_bind_def)

lemma io_seq_eval:
  "m w = (Inr a, w') \<Longrightarrow> io_seq m n w = n w'"
  "m w = (Inl e, w') \<Longrightarrow> io_seq m n w = (Inl e, w')"
  by (simp_all add: io_seq_def io_bind_def)

lemma io_try_eval:
  "m w = (Inr a, w') \<Longrightarrow> io_try m h w = (Inr a, w')"
  "m w = (Inl e, w') \<Longrightarrow> io_try m h w = h e w'"
  by (simp_all add: io_try_def)

text \<open>The computations form a monad, and a raise ends a sequence.\<close>

lemma io_bind_return_left [simp]: "io_bind (io_return a) f = f a"
  by (simp add: io_bind_def fun_eq_iff)

lemma io_bind_return_right [simp]: "io_bind m io_return = m"
  by (auto simp: io_bind_def fun_eq_iff split: prod.splits sum.splits)

lemma io_bind_assoc: "io_bind (io_bind m f) g = io_bind m (\<lambda>a. io_bind (f a) g)"
  by (auto simp: io_bind_def fun_eq_iff split: prod.splits sum.splits)

lemma io_bind_raise [simp]: "io_bind (io_raise e) f = io_raise e"
  by (simp add: io_bind_def fun_eq_iff)

lemma io_bind_InrE:
  assumes "io_bind m f w = (Inr b, w'')"
  obtains a w' where "m w = (Inr a, w')" and "f a w' = (Inr b, w'')"
  using assms by (auto simp: io_bind_def split: prod.splits sum.splits)

section \<open>Triples\<close>

definition triple ::
  "('w \<Rightarrow> bool) \<Rightarrow> ('w, 'a) io \<Rightarrow> ('a \<Rightarrow> 'w \<Rightarrow> bool) \<Rightarrow> (exn \<Rightarrow> 'w \<Rightarrow> bool) \<Rightarrow> bool" where
  "triple P m Q E \<longleftrightarrow>
     (\<forall>w. P w \<longrightarrow> (case m w of (Inl e, w') \<Rightarrow> E e w' | (Inr a, w') \<Rightarrow> Q a w'))"

lemma tripleI:
  assumes "\<And>w a w'. P w \<Longrightarrow> m w = (Inr a, w') \<Longrightarrow> Q a w'"
    and "\<And>w e w'. P w \<Longrightarrow> m w = (Inl e, w') \<Longrightarrow> E e w'"
  shows "triple P m Q E"
  using assms by (auto simp: triple_def split: prod.splits sum.splits)

lemma tripleD_Inr: "triple P m Q E \<Longrightarrow> P w \<Longrightarrow> m w = (Inr a, w') \<Longrightarrow> Q a w'"
  by (force simp: triple_def)

lemma tripleD_Inl: "triple P m Q E \<Longrightarrow> P w \<Longrightarrow> m w = (Inl e, w') \<Longrightarrow> E e w'"
  by (force simp: triple_def)

lemma triple_total:
  assumes "triple P m Q (\<lambda>_ _. False)" and "P w"
  obtains a w' where "m w = (Inr a, w')" and "Q a w'"
proof (cases "m w")
  case (Pair r w')
  then show ?thesis
    using assms that by (cases r) (auto dest: tripleD_Inr tripleD_Inl)
qed

lemma triple_weaken:
  assumes "triple P' m Q' E'" and "\<And>w. P w \<Longrightarrow> P' w"
    and "\<And>a w. Q' a w \<Longrightarrow> Q a w" and "\<And>e w. E' e w \<Longrightarrow> E e w"
  shows "triple P m Q E"
  using assms by (fastforce simp: triple_def split: prod.splits sum.splits)

lemma triple_pre: "triple P' m Q E \<Longrightarrow> (\<And>w. P w \<Longrightarrow> P' w) \<Longrightarrow> triple P m Q E"
  by (rule triple_weaken)

lemma triple_return: "(\<And>w. P w \<Longrightarrow> Q a w) \<Longrightarrow> triple P (io_return a) Q E"
  by (simp add: triple_def)

lemma triple_raise: "(\<And>w. P w \<Longrightarrow> E e w) \<Longrightarrow> triple P (io_raise e) Q E"
  by (simp add: triple_def)

lemma triple_gets: "(\<And>w. P w \<Longrightarrow> Q (f w) w) \<Longrightarrow> triple P (io_gets f) Q E"
  by (simp add: triple_def)

lemma triple_modify: "(\<And>w. P w \<Longrightarrow> Q () (f w)) \<Longrightarrow> triple P (io_modify f) Q E"
  by (simp add: triple_def)

lemma triple_bind:
  assumes "triple P m R E" and "\<And>a. triple (R a) (f a) Q E"
  shows "triple P (io_bind m f) Q E"
  using assms by (fastforce simp: triple_def io_bind_def split: prod.splits sum.splits)

lemma triple_seq:
  assumes "triple P m (\<lambda>_. R) E" and "triple R n Q E"
  shows "triple P (io_seq m n) Q E"
  unfolding io_seq_def by (rule triple_bind [OF assms(1)]) (rule assms(2))

lemma triple_try:
  assumes "triple P m Q R" and "\<And>e. triple (R e) (h e) Q E"
  shows "triple P (io_try m h) Q E"
  using assms by (fastforce simp: triple_def io_try_def split: prod.splits sum.splits)

lemma triple_if:
  "(b \<Longrightarrow> triple P m Q E) \<Longrightarrow> (\<not> b \<Longrightarrow> triple P n Q E) \<Longrightarrow> triple P (if b then m else n) Q E"
  by simp

lemma triple_assume: "(\<And>w. P w \<Longrightarrow> B) \<Longrightarrow> (B \<Longrightarrow> triple P m Q E) \<Longrightarrow> triple P m Q E"
  by (fastforce simp: triple_def)

section \<open>Guarantees\<close>

definition guarantee :: "('w \<Rightarrow> 'w \<Rightarrow> bool) \<Rightarrow> ('w, 'a) io \<Rightarrow> bool" where
  "guarantee R m \<longleftrightarrow> (\<forall>w. R w (snd (m w)))"

lemma guaranteeD: "guarantee R m \<Longrightarrow> m w = (r, w') \<Longrightarrow> R w w'"
  by (metis guarantee_def snd_conv)

lemma guaranteeI: "(\<And>w r w'. m w = (r, w') \<Longrightarrow> R w w') \<Longrightarrow> guarantee R m"
  by (metis guarantee_def prod.collapse)

locale effect_preorder =
  fixes R :: "'w \<Rightarrow> 'w \<Rightarrow> bool"
  assumes refl: "R w w"
    and trans: "R u v \<Longrightarrow> R v w \<Longrightarrow> R u w"
begin

lemma return: "guarantee R (io_return a)"
  by (simp add: guarantee_def refl)

lemma raise: "guarantee R (io_raise e)"
  by (simp add: guarantee_def refl)

lemma gets: "guarantee R (io_gets f)"
  by (simp add: guarantee_def refl)

lemma modify: "(\<And>w. R w (f w)) \<Longrightarrow> guarantee R (io_modify f)"
  by (simp add: guarantee_def)

lemma bind:
  assumes "guarantee R m" and "\<And>a. guarantee R (f a)"
  shows "guarantee R (io_bind m f)"
  unfolding guarantee_def
proof
  fix w
  obtain r w1 where m: "m w = (r, w1)" by (cases "m w")
  from assms(1) m have 1: "R w w1" by (rule guaranteeD)
  show "R w (snd (io_bind m f w))"
  proof (cases r)
    case (Inl e)
    with m 1 show ?thesis by (simp add: io_bind_eval)
  next
    case (Inr a)
    have "R w1 (snd (f a w1))" using assms(2) by (simp add: guarantee_def)
    with 1 have "R w (snd (f a w1))" by (rule trans)
    with m Inr show ?thesis by (simp add: io_bind_eval)
  qed
qed

lemma seq: "guarantee R m \<Longrightarrow> guarantee R n \<Longrightarrow> guarantee R (io_seq m n)"
  unfolding io_seq_def by (rule bind)

lemma catch:
  assumes "guarantee R m" and "\<And>e. guarantee R (h e)"
  shows "guarantee R (io_try m h)"
  unfolding guarantee_def
proof
  fix w
  obtain r w1 where m: "m w = (r, w1)" by (cases "m w")
  from assms(1) m have 1: "R w w1" by (rule guaranteeD)
  show "R w (snd (io_try m h w))"
  proof (cases r)
    case (Inr a)
    with m 1 show ?thesis by (simp add: io_try_eval)
  next
    case (Inl e)
    have "R w1 (snd (h e w1))" using assms(2) by (simp add: guarantee_def)
    with 1 have "R w (snd (h e w1))" by (rule trans)
    with m Inl show ?thesis by (simp add: io_try_eval)
  qed
qed

lemma cond: "(b \<Longrightarrow> guarantee R m) \<Longrightarrow> (\<not> b \<Longrightarrow> guarantee R n) \<Longrightarrow> guarantee R (if b then m else n)"
  by simp

lemmas rules = return raise gets bind seq catch cond

end

section \<open>Thrown exceptions\<close>

text \<open>A computation throws only exceptions of the class \<open>E\<close>.\<close>

definition throws :: "(exn \<Rightarrow> bool) \<Rightarrow> ('w, 'a) io \<Rightarrow> bool" where
  "throws E m \<longleftrightarrow> (\<forall>w e w'. m w = (Inl e, w') \<longrightarrow> E e)"

lemma throwsD: "throws E m \<Longrightarrow> m w = (Inl e, w') \<Longrightarrow> E e"
  by (auto simp: throws_def)

lemma throws_rules:
  "throws E (io_return a)" "E e \<Longrightarrow> throws E (io_raise e)" "throws E (io_gets f)" "throws E (io_modify g)"
  "throws E m \<Longrightarrow> (\<And>a. throws E (k a)) \<Longrightarrow> throws E (io_bind m k)"
  "throws E m1 \<Longrightarrow> throws E m2 \<Longrightarrow> throws E (io_seq m1 m2)"
  "(\<And>e. throws E (h e)) \<Longrightarrow> throws E (io_try m3 h)"
  "(b \<Longrightarrow> throws E m) \<Longrightarrow> (\<not> b \<Longrightarrow> throws E n) \<Longrightarrow> throws E (if b then m else n)"
  by (auto simp: throws_def io_seq_def io_bind_def io_try_def split: prod.splits sum.splits)

end
