(* ===== verification/Entities.thy ===== *)
theory Entities
  imports Prelude
begin

text \<open>
  The data of the program: the status enumeration, the rows of the tables \<open>videos\<close>, \<open>users\<close>,
  \<open>messages\<close> and \<open>failed_jobs\<close>, the jobs of the queue, the domain events and the contract types of the AI
  provider. Nullable columns and optional properties are options; dates are instants.
\<close>

section \<open>Partial updates\<close>

text \<open>A property of a partial update: not given, null, or a value.\<close>

datatype 'a given = Undefined | Null | Value 'a

section \<open>Videos (modules/videos)\<close>

datatype video_status = PENDING | PROCESSING | COMPLETED | FAILED | CANCELLED

text \<open>The string value of each member of the enumeration.\<close>

fun status_string :: "video_status \<Rightarrow> string" where
  "status_string PENDING = ''pending''"
| "status_string PROCESSING = ''processing''"
| "status_string COMPLETED = ''completed''"
| "status_string FAILED = ''failed''"
| "status_string CANCELLED = ''cancelled''"

lemma status_string_inject [simp]: "status_string s = status_string t \<longleftrightarrow> s = t"
  by (cases s; cases t) simp_all

record video =
  v_id :: string
  v_title :: string
  v_prompt :: string
  v_negativePrompt :: "string option"
  v_status :: video_status
  v_videoUrl :: "string option"
  v_thumbnailUrl :: "string option"
  v_errorMessage :: "string option"
  v_durationSeconds :: "int option"
  v_width :: "int option"
  v_height :: "int option"
  v_fps :: "int option"
  v_model :: "string option"
  v_queueJobId :: "string option"
  v_metadata :: "meta option"
  v_userId :: string
  v_createdAt :: instant
  v_updatedAt :: instant

record create_video_dto =
  cv_title :: string
  cv_prompt :: string
  cv_negativePrompt :: "string option"
  cv_width :: "int option"
  cv_height :: "int option"
  cv_fps :: "int option"
  cv_model :: "string option"

record update_video_dto =
  uv_title :: "string given"

section \<open>Users (modules/users)\<close>

datatype user_role = ADMIN | USER

fun role_string :: "user_role \<Rightarrow> string" where
  "role_string ADMIN = ''admin''"
| "role_string USER = ''user''"

lemma role_string_inject [simp]: "role_string r = role_string s \<longleftrightarrow> r = s"
  by (cases r; cases s) simp_all

text \<open>
  The columns of \<open>users\<close> that \<open>safeFields\<close> selects, and the whole row, which has the hash of
  the password besides.
\<close>

record safe_user =
  us_id :: string
  us_firstName :: string
  us_lastName :: string
  us_email :: string
  us_username :: "string option"
  us_role :: user_role
  us_isActive :: bool
  us_createdAt :: instant
  us_updatedAt :: instant

record user = safe_user +
  us_password :: string

record create_user_dto =
  cu_firstName :: string
  cu_lastName :: string
  cu_email :: string
  cu_password :: string
  cu_username :: "string option"
  cu_role :: "user_role option"

record update_user_dto =
  uu_firstName :: "string given"
  uu_lastName :: "string given"
  uu_username :: "string given"

section \<open>Chat messages (modules/chat)\<close>

record message =
  mg_id :: string
  mg_content :: string
  mg_senderId :: string
  mg_senderEmail :: string
  mg_room :: string
  mg_createdAt :: instant

section \<open>Dead-letter records (modules/queue)\<close>

record failed_job =
  f_id :: string
  f_videoId :: string
  f_queueJobId :: "string option"
  f_errorMessage :: string
  f_jobData :: meta
  f_jobName :: string
  f_attemptsMade :: int
  f_retried :: bool
  f_retriedAt :: "instant option"
  f_retryJobId :: "string option"
  f_failedAt :: instant

section \<open>Queue jobs\<close>

text \<open>The job options the modules pass to BullMQ.\<close>

record job_opts =
  o_attempts :: "int option"
  o_backoff :: "(string \<times> int) option"
  o_removeOnComplete :: "int option"
  o_removeOnFail :: "int option"

record queue_job =
  j_id :: string
  j_name :: string
  j_videoId :: string
  j_opts :: job_opts
  j_attemptsMade :: int
  j_progress :: jval
  j_state :: string
  j_failedReason :: "string option"
  j_processedOn :: "instant option"
  j_finishedOn :: "instant option"

definition VIDEO_GENERATION_QUEUE :: string where
  "VIDEO_GENERATION_QUEUE = ''video-generation''"

definition GENERATE :: string where
  "GENERATE = ''generate''"

definition VIDEO_GENERATION_JOB :: string where
  "VIDEO_GENERATION_JOB = GENERATE"

text \<open>
  \<open>videos.module.ts\<close> registers the queue by its name only; \<open>queue.module.ts\<close> registers it
  with default job options. Each service adds jobs through the handle of its own module.
\<close>

definition videos_module_job_defaults :: job_opts where
  "videos_module_job_defaults =
     \<lparr>o_attempts = None, o_backoff = None, o_removeOnComplete = None, o_removeOnFail = None\<rparr>"

definition queue_module_job_defaults :: job_opts where
  "queue_module_job_defaults =
     \<lparr>o_attempts = Some 3, o_backoff = Some (''exponential'', 5000),
      o_removeOnComplete = Some 100, o_removeOnFail = Some 500\<rparr>"

text \<open>A call of \<open>add\<close> without options.\<close>

definition no_job_opts :: job_opts where
  "no_job_opts =
     \<lparr>o_attempts = None, o_backoff = None, o_removeOnComplete = None, o_removeOnFail = None\<rparr>"

text \<open>\<open>{...defaults, ...opts}\<close>, as \<open>Queue.add\<close> merges them.\<close>

definition merge_job_opts :: "job_opts \<Rightarrow> job_opts \<Rightarrow> job_opts" where
  "merge_job_opts d p =
     \<lparr>o_attempts = (case o_attempts p of None \<Rightarrow> o_attempts d | Some v \<Rightarrow> Some v),
      o_backoff = (case o_backoff p of None \<Rightarrow> o_backoff d | Some v \<Rightarrow> Some v),
      o_removeOnComplete = (case o_removeOnComplete p of None \<Rightarrow> o_removeOnComplete d | Some v \<Rightarrow> Some v),
      o_removeOnFail = (case o_removeOnFail p of None \<Rightarrow> o_removeOnFail d | Some v \<Rightarrow> Some v)\<rparr>"

section \<open>Domain events (shared/events)\<close>

datatype video_event =
    VideoCreated (ev_videoId: string) (ev_userId: string) (ev_prompt: string) (ev_queueJobId: string)
  | VideoProcessingStarted (ev_videoId: string) (ev_jobAttempt: int)
  | VideoProgressUpdated (ev_videoId: string) (ev_percent: int) (ev_message: string)
  | VideoCompleted (ev_videoId: string) (ev_videoUrl: string) (ev_thumbnailUrl: "string option")
  | VideoFailed (ev_videoId: string) (ev_errorMessage: string) (ev_attemptsMade: int)

fun event_name :: "video_event \<Rightarrow> string" where
  "event_name (VideoCreated _ _ _ _) = ''video.created''"
| "event_name (VideoProcessingStarted _ _) = ''video.processing.started''"
| "event_name (VideoProgressUpdated _ _ _) = ''video.progress.updated''"
| "event_name (VideoCompleted _ _ _) = ''video.completed''"
| "event_name (VideoFailed _ _ _) = ''video.failed''"

section \<open>Contract of the AI provider\<close>

record generate_params =
  p_prompt :: string
  p_negativePrompt :: "string option"
  p_width :: "int option"
  p_height :: "int option"
  p_fps :: "int option"
  p_model :: "string option"

datatype gen_status = GenPending | GenProcessing | GenCompleted | GenFailed

record generate_result =
  g_jobId :: string
  g_status :: gen_status
  g_videoUrl :: "string option"
  g_thumbnailUrl :: "string option"
  g_errorMessage :: "string option"
  g_estimatedDurationMs :: "int option"
  g_alreadyStored :: "bool option"

text \<open>State the simulator keeps per job.\<close>

record fake_job_state =
  k_videoId :: string
  k_params :: generate_params
  k_startedAt :: instant
  k_completionDelayMs :: int

section \<open>Cached status\<close>

record status_snapshot =
  s_status :: video_status
  s_progress :: jval
  s_message :: jval
  s_updatedAt :: string

text \<open>
  What a cache key can hold: the serialised form of a snapshot, or text that is not JSON.
\<close>

datatype cache_value = Serialized status_snapshot | NotJson string

record cache_entry =
  c_value :: cache_value
  c_expires :: instant

end
