(* ===== verification/Tables.thy ===== *)
theory Tables
  imports Prelude
begin

text \<open>
  A database table as the repositories see it: the list of its rows in insertion order, each
  with a primary key. The statements the services issue are here: select by key, update or
  delete with a condition (with the number of rows it touched), insert, and a page of an
  ordered selection. The laws of a keyed table are a locale; every table of the program
  interprets it.
\<close>

section \<open>Statements\<close>

definition select_key :: "('r \<Rightarrow> string) \<Rightarrow> string \<Rightarrow> 'r list \<Rightarrow> 'r option" where
  "select_key key k t = List.find (\<lambda>r. key r = k) t"

text \<open>\<open>UPDATE ... SET f WHERE id = k AND p\<close>\<close>

definition update_key ::
  "('r \<Rightarrow> string) \<Rightarrow> string \<Rightarrow> ('r \<Rightarrow> bool) \<Rightarrow> ('r \<Rightarrow> 'r) \<Rightarrow> 'r list \<Rightarrow> 'r list" where
  "update_key key k p f t = map (\<lambda>r. if key r = k \<and> p r then f r else r) t"

text \<open>The row count of that statement.\<close>

definition affected :: "('r \<Rightarrow> string) \<Rightarrow> string \<Rightarrow> ('r \<Rightarrow> bool) \<Rightarrow> 'r list \<Rightarrow> nat" where
  "affected key k p t = length (filter (\<lambda>r. key r = k \<and> p r) t)"

definition delete_key :: "('r \<Rightarrow> string) \<Rightarrow> string \<Rightarrow> 'r list \<Rightarrow> 'r list" where
  "delete_key key k t = filter (\<lambda>r. key r \<noteq> k) t"

definition insert_row :: "'r \<Rightarrow> 'r list \<Rightarrow> 'r list" where
  "insert_row r t = t @ [r]"

text \<open>The primary key constraint.\<close>

definition keyed :: "('r \<Rightarrow> string) \<Rightarrow> 'r list \<Rightarrow> bool" where
  "keyed key t \<longleftrightarrow> distinct (map key t)"

text \<open>
  \<open>ORDER BY at DESC\<close>: newest first, rows of the same instant in a fixed order of the store.
\<close>

definition newest_first :: "('r \<Rightarrow> int) \<Rightarrow> 'r list \<Rightarrow> 'r list" where
  "newest_first at t = rev (sort_key at t)"

text \<open>\<open>OFFSET skip LIMIT take\<close>\<close>

definition page_of :: "nat \<Rightarrow> nat \<Rightarrow> 'r list \<Rightarrow> 'r list" where
  "page_of skip take_n t = take take_n (drop skip t)"

lemma set_insert_row [simp]: "set (insert_row r t) = insert r (set t)"
  by (auto simp: insert_row_def)

lemma select_key_SomeD: "select_key key k t = Some r \<Longrightarrow> r \<in> set t \<and> key r = k"
  by (auto simp: select_key_def find_Some_iff)

lemma select_key_None_iff: "select_key key k t = None \<longleftrightarrow> k \<notin> key ` set t"
  by (auto simp: select_key_def find_None_iff)

lemma select_key_set: "keyed key t \<Longrightarrow> r \<in> set t \<Longrightarrow> select_key key (key r) t = Some r"
proof (cases "select_key key (key r) t")
  case None
  moreover assume "r \<in> set t"
  ultimately show ?thesis by (auto simp: select_key_None_iff)
next
  case (Some s)
  moreover assume "keyed key t" "r \<in> set t"
  ultimately show ?thesis
    using select_key_SomeD [OF Some] by (auto simp: keyed_def distinct_map dest: inj_onD)
qed

lemma select_key_filter:
  assumes "keyed key t"
  shows "select_key key k (filter p t) =
    (case select_key key k t of None \<Rightarrow> None | Some r \<Rightarrow> if p r then Some r else None)"
  using assms
proof (induction t)
  case Nil
  then show ?case by (simp add: select_key_def)
next
  case (Cons r t)
  then have IH: "select_key key k (filter p t) =
      (case select_key key k t of None \<Rightarrow> None | Some r \<Rightarrow> if p r then Some r else None)"
    by (simp add: keyed_def)
  have "key r = k \<Longrightarrow> select_key key k t = None"
    using Cons.prems by (auto simp: keyed_def select_key_None_iff)
  with IH show ?case by (auto simp: select_key_def)
qed

section \<open>Laws of a keyed table\<close>

locale keyed_table =
  fixes key :: "'r \<Rightarrow> string"
    and lookup :: "string \<Rightarrow> 'r list \<Rightarrow> 'r option"
    and upd :: "string \<Rightarrow> ('r \<Rightarrow> bool) \<Rightarrow> ('r \<Rightarrow> 'r) \<Rightarrow> 'r list \<Rightarrow> 'r list"
    and count :: "string \<Rightarrow> ('r \<Rightarrow> bool) \<Rightarrow> 'r list \<Rightarrow> nat"
    and ins :: "'r \<Rightarrow> 'r list \<Rightarrow> 'r list"
    and del :: "string \<Rightarrow> 'r list \<Rightarrow> 'r list"
    and wf :: "'r list \<Rightarrow> bool"
  assumes lookup_key: "lookup k t = Some r \<Longrightarrow> key r = k"
    and lookup_upd: "(\<And>r. key (f r) = key r) \<Longrightarrow>
      lookup k' (upd k p f t) =
        (if k' = k then map_option (\<lambda>r. if p r then f r else r) (lookup k t) else lookup k' t)"
    and count_wf: "wf t \<Longrightarrow>
      count k p t = (case lookup k t of None \<Rightarrow> 0 | Some r \<Rightarrow> if p r then 1 else 0)"
    and lookup_ins: "lookup (key r) t = None \<Longrightarrow>
      lookup k' (ins r t) = (if k' = key r then Some r else lookup k' t)"
    and lookup_del: "lookup k' (del k t) = (if k' = k then None else lookup k' t)"
    and wf_upd: "(\<And>r. key (f r) = key r) \<Longrightarrow> wf t \<Longrightarrow> wf (upd k p f t)"
    and wf_ins: "lookup (key r) t = None \<Longrightarrow> wf t \<Longrightarrow> wf (ins r t)"
    and wf_del: "wf t \<Longrightarrow> wf (del k t)"
begin

lemma upd_miss:
  assumes "\<And>r. key (f r) = key r" and "count k p t = 0" and "wf t"
  shows "lookup k' (upd k p f t) = lookup k' t"
proof (cases "lookup k t")
  case None
  with assms(1) show ?thesis by (simp add: lookup_upd)
next
  case (Some r)
  with assms(2,3) have "\<not> p r" by (auto simp: count_wf split: if_splits)
  with Some assms(1) show ?thesis by (simp add: lookup_upd)
qed

text \<open>A statement guarded by a value that its own update changes succeeds at most once.\<close>

lemma compare_and_set_once:
  assumes key: "\<And>r. key (f r) = key r" and wf: "wf t"
    and flips: "\<And>r. p r \<Longrightarrow> \<not> p (f r)"
  shows "count k p (upd k p f t) = 0"
  using wf wf_upd [OF key wf] flips
  by (auto simp: count_wf lookup_upd key split: option.splits)

text \<open>Updates of different rows commute as far as lookups can tell.\<close>

lemma upd_commute:
  assumes "\<And>r. key (f r) = key r" and "\<And>r. key (g r) = key r" and "k \<noteq> l"
  shows "lookup k' (upd k p f (upd l q g t)) = lookup k' (upd l q g (upd k p f t))"
  using assms by (simp add: lookup_upd)

lemma ins_other: "lookup (key r) t = None \<Longrightarrow> k \<noteq> key r \<Longrightarrow> lookup k (ins r t) = lookup k t"
  by (simp add: lookup_ins)

lemma del_ins: "lookup (key r) t = None \<Longrightarrow> lookup k (del (key r) (ins r t)) = lookup k t"
  by (simp add: lookup_del lookup_ins)

end

lemma keyed_table_list:
  "keyed_table key (select_key key) (update_key key) (affected key) insert_row
     (delete_key key) (keyed key)"
proof
  fix k t r
  assume "select_key key k t = Some r"
  then show "key r = k" by (auto simp: select_key_def find_Some_iff)
next
  fix f :: "'a \<Rightarrow> 'a" and k' k p t
  assume key: "\<And>r. key (f r) = key r"
  show "select_key key k' (update_key key k p f t) =
     (if k' = k then map_option (\<lambda>r. if p r then f r else r) (select_key key k t)
      else select_key key k' t)"
    by (induction t) (auto simp: select_key_def update_key_def key)
next
  fix t k p
  assume "keyed key t"
  then show "affected key k p t =
      (case select_key key k t of None \<Rightarrow> 0 | Some r \<Rightarrow> if p r then 1 else 0)"
    by (simp add: keyed_def affected_def select_key_def distinct_map_filter_le)
next
  fix r t k'
  assume "select_key key (key r) t = None"
  then show "select_key key k' (insert_row r t) = (if k' = key r then Some r else select_key key k' t)"
    by (auto simp: select_key_def insert_row_def find_append split: option.split)
next
  fix k' k t
  show "select_key key k' (delete_key key k t) = (if k' = k then None else select_key key k' t)"
    by (induction t) (auto simp: select_key_def delete_key_def)
next
  fix f :: "'a \<Rightarrow> 'a" and k p t
  assume key: "\<And>r. key (f r) = key r" and "keyed key t"
  moreover have "map key (update_key key k p f t) = map key t"
    by (auto simp: update_key_def key)
  ultimately show "keyed key (update_key key k p f t)" by (simp add: keyed_def)
next
  fix r t
  assume "select_key key (key r) t = None" and "keyed key t"
  then show "keyed key (insert_row r t)"
    by (auto simp: keyed_def insert_row_def select_key_def find_None_iff)
next
  fix t k
  assume "keyed key t"
  then show "keyed key (delete_key key k t)"
    by (auto simp: keyed_def delete_key_def distinct_map intro: inj_on_subset)
qed

section \<open>Pages of an ordered selection\<close>

lemma length_newest_first [simp]: "length (newest_first at t) = length t"
  by (simp add: newest_first_def)

lemma set_newest_first [simp]: "set (newest_first at t) = set t"
  by (simp add: newest_first_def)

lemma sorted_newest_first: "sorted_wrt (\<lambda>x y. at y \<le> at x) (newest_first at t)"
proof -
  have "sorted (map at (sort_key at t))" by simp
  then show ?thesis
    by (simp add: newest_first_def sorted_wrt_rev sorted_wrt_map)
qed

text \<open>The pages of one size, laid end to end, are the whole selection.\<close>

lemma pages_concat_take:
  "concat (map (\<lambda>i. page_of (i * n) n t) [0..<m]) = take (m * n) t"
proof (induction m)
  case 0
  then show ?case by simp
next
  case (Suc m)
  have "take (Suc m * n) t = take (m * n) t @ take n (drop (m * n) t)"
    by (metis add.commute mult_Suc take_add)
  with Suc show ?case by (simp add: page_of_def)
qed

lemma pages_concat:
  assumes "length t \<le> m * n"
  shows "concat (map (\<lambda>i. page_of (i * n) n t) [0..<m]) = t"
  using assms by (simp add: pages_concat_take)

lemma length_page_of_le: "length (page_of s n t) \<le> n"
  by (simp add: page_of_def)

end
