(* ===== verification/World.thy ===== *)
theory World
  imports Effects Entities Tables
begin

text \<open>
  The state the services share (the four tables, the Redis keys, the jobs of the queue, the
  objects of the bucket, the memory of the simulated provider, the emitted events, the
  socket messages and the clock) and the environment that decides what no source file does:
  which external call is served, refused or loses its reply, how long it takes, which
  identifiers the database and the queue generate, and what OpenAI, a source URL and the
  URL signer answer. The environment is a parameter of every operation that uses it.
\<close>

section \<open>Environment\<close>

datatype service = Database | Redis | Queue | OpenAI | S3 | Https

text \<open>
  A call is served; or refused, without effect, with an error; or lost: the effect happened
  but the caller sees an error.
\<close>

datatype outcome = Served | Refused string | Lost string

datatype s3_command =
    PutObject (cmd_bucket: string) (cmd_key: string)
  | GetObject (cmd_bucket: string) (cmd_key: string)
  | DeleteObject (cmd_bucket: string) (cmd_key: string)

record env =
  e_outcome :: "service \<Rightarrow> nat \<Rightarrow> outcome"
  e_latency :: "nat \<Rightarrow> nat"
  e_uuid :: "nat \<Rightarrow> string"
  e_job_id :: "nat \<Rightarrow> string"
  e_chat :: "string \<Rightarrow> string option"
  e_http :: "string \<Rightarrow> nat option \<times> string"
  e_sign :: "s3_command \<Rightarrow> int \<Rightarrow> string"
  e_gateway :: bool

section \<open>State\<close>

text \<open>A message pushed to the members of a socket room.\<close>

record ws_message =
  m_room :: string
  m_event :: string
  m_payload :: meta

record world =
  w_videos :: "video list"
  w_failed_jobs :: "failed_job list"
  w_cache :: "string \<Rightarrow> cache_entry option"
  w_jobs :: "queue_job list"
  w_objects :: "string \<Rightarrow> (string \<times> string) option"
  w_ai_jobs :: "string \<Rightarrow> fake_job_state option"
  w_events :: "video_event list"
  w_sent :: "ws_message list"
  w_users :: "user list"
  w_messages :: "message list"
  w_chat :: "ws_message list"
  w_now :: instant
  w_calls :: nat

type_synonym 'a act = "(world, 'a) io"

definition initial_world :: world where
  "initial_world =
     \<lparr>w_videos = [], w_failed_jobs = [], w_cache = (\<lambda>_. None), w_jobs = [],
      w_objects = (\<lambda>_. None), w_ai_jobs = (\<lambda>_. None), w_events = [], w_sent = [],
      w_users = [], w_messages = [], w_chat = [], w_now = 0, w_calls = 0\<rparr>"

section \<open>External calls\<close>

definition external :: "env \<Rightarrow> service \<Rightarrow> 'a act \<Rightarrow> 'a act" where
  "external env svc op = (\<lambda>w.
     let n = w_calls w;
         w1 = w\<lparr>w_calls := Suc n, w_now := w_now w + int (e_latency env n)\<rparr>
     in case e_outcome env svc n of
          Served \<Rightarrow> op w1
        | Refused msg \<Rightarrow> (Inl (JsError msg), w1)
        | Lost msg \<Rightarrow> (Inl (JsError msg), snd (op w1)))"

text \<open>
  A call that is started and not awaited, with its rejection caught: the caller neither
  waits for it nor sees its error.
\<close>

definition detached :: "unit act \<Rightarrow> unit act" where
  "detached m = (\<lambda>w. (Inr (), (snd (m w))\<lparr>w_now := w_now w\<rparr>))"

definition sleep :: "int \<Rightarrow> unit act" where
  "sleep ms = io_modify (\<lambda>w. w\<lparr>w_now := w_now w + ms\<rparr>)"

definition current_time :: "instant act" where
  "current_time = io_gets w_now"

section \<open>Tables of the program\<close>

definition find_video :: "string \<Rightarrow> video list \<Rightarrow> video option" where
  "find_video = select_key v_id"

definition find_failed_job :: "string \<Rightarrow> failed_job list \<Rightarrow> failed_job option" where
  "find_failed_job = select_key f_id"

definition find_job :: "string \<Rightarrow> queue_job list \<Rightarrow> queue_job option" where
  "find_job = select_key j_id"

interpretation videos: keyed_table v_id find_video "update_key v_id" "affected v_id"
    insert_row "delete_key v_id" "keyed v_id"
  unfolding find_video_def by (rule keyed_table_list)

interpretation failed_jobs: keyed_table f_id find_failed_job "update_key f_id" "affected f_id"
    insert_row "delete_key f_id" "keyed f_id"
  unfolding find_failed_job_def by (rule keyed_table_list)

interpretation jobs: keyed_table j_id find_job "update_key j_id" "affected j_id"
    insert_row "delete_key j_id" "keyed j_id"
  unfolding find_job_def by (rule keyed_table_list)

definition find_user :: "string \<Rightarrow> user list \<Rightarrow> user option" where
  "find_user = select_key us_id"

definition find_user_by_email :: "string \<Rightarrow> user list \<Rightarrow> user option" where
  "find_user_by_email = select_key us_email"

interpretation users: keyed_table us_id find_user "update_key us_id" "affected us_id"
    insert_row "delete_key us_id" "keyed us_id"
  unfolding find_user_def by (rule keyed_table_list)

interpretation users_by_email: keyed_table us_email find_user_by_email "update_key us_email"
    "affected us_email" insert_row "delete_key us_email" "keyed us_email"
  unfolding find_user_by_email_def by (rule keyed_table_list)

text \<open>The unique columns of \<open>users\<close>; a missing username is not compared.\<close>

definition unique_users :: "user list \<Rightarrow> bool" where
  "unique_users t \<longleftrightarrow>
     keyed us_id t \<and> keyed us_email t \<and>
     (\<forall>r \<in> set t. \<forall>s \<in> set t. us_username r \<noteq> None \<longrightarrow> us_username r = us_username s \<longrightarrow> us_id r = us_id s)"

lemma unique_users_Nil [simp]: "unique_users []"
  by (simp add: unique_users_def keyed_def)

text \<open>The keys of the tables and the identifiers of the queue are distinct.\<close>

definition wf_world :: "world \<Rightarrow> bool" where
  "wf_world w \<longleftrightarrow> keyed v_id (w_videos w) \<and> keyed f_id (w_failed_jobs w) \<and> keyed j_id (w_jobs w) \<and>
     unique_users (w_users w) \<and> keyed mg_id (w_messages w)"

text \<open>What a client of the videos table can observe of one row.\<close>

definition row :: "world \<Rightarrow> string \<Rightarrow> video option" where
  "row w k = find_video k (w_videos w)"

definition status_of :: "world \<Rightarrow> string \<Rightarrow> video_status option" where
  "status_of w k = map_option v_status (row w k)"

section \<open>Statements on the tables, as the repositories issue them\<close>

text \<open>Errors of the database.\<close>

definition duplicate_key :: exn where
  "duplicate_key = JsError ''duplicate key value violates unique constraint''"

definition null_violation :: exn where
  "null_violation = JsError ''null value violates not-null constraint''"

definition foreign_key_violation :: exn where
  "foreign_key_violation = JsError ''insert or update on table videos violates foreign key constraint''"

text \<open>\<open>UPDATE\<close> through the repository also refreshes the update date column.\<close>

definition touch :: "instant \<Rightarrow> (video \<Rightarrow> video) \<Rightarrow> video \<Rightarrow> video" where
  "touch t f v = (f v)\<lparr>v_updatedAt := t\<rparr>"

definition db_find_video :: "env \<Rightarrow> string \<Rightarrow> video option act" where
  "db_find_video env k = external env Database (io_gets (\<lambda>w. find_video k (w_videos w)))"

definition db_update_video ::
  "env \<Rightarrow> string \<Rightarrow> (video \<Rightarrow> bool) \<Rightarrow> (video \<Rightarrow> video) \<Rightarrow> nat act" where
  "db_update_video env k p f = external env Database (\<lambda>w.
     (Inr (affected v_id k p (w_videos w)),
      w\<lparr>w_videos := update_key v_id k p (touch (w_now w) f) (w_videos w)\<rparr>))"

text \<open>Integer columns hold 32 bits; a number that needs more is an error of the statement.\<close>

definition int4 :: "int \<Rightarrow> bool" where
  "int4 n \<longleftrightarrow> - (2 ^ 31) \<le> n \<and> n < 2 ^ 31"

definition integers_fit :: "video \<Rightarrow> bool" where
  "integers_fit v \<longleftrightarrow> pred_option int4 (v_durationSeconds v) \<and> pred_option int4 (v_width v) \<and>
     pred_option int4 (v_height v) \<and> pred_option int4 (v_fps v)"

lemma integers_fit_frame [simp]:
  "integers_fit (v\<lparr>v_id := k\<rparr>) = integers_fit v" "integers_fit (v\<lparr>v_title := t\<rparr>) = integers_fit v"
  "integers_fit (v\<lparr>v_status := s\<rparr>) = integers_fit v" "integers_fit (v\<lparr>v_videoUrl := u\<rparr>) = integers_fit v"
  "integers_fit (v\<lparr>v_thumbnailUrl := u\<rparr>) = integers_fit v"
  "integers_fit (v\<lparr>v_errorMessage := e\<rparr>) = integers_fit v"
  "integers_fit (v\<lparr>v_metadata := m\<rparr>) = integers_fit v" "integers_fit (v\<lparr>v_queueJobId := j\<rparr>) = integers_fit v"
  "integers_fit (v\<lparr>v_createdAt := a\<rparr>) = integers_fit v" "integers_fit (v\<lparr>v_updatedAt := a\<rparr>) = integers_fit v"
  by (simp_all add: integers_fit_def)

definition out_of_range :: exn where
  "out_of_range = JsError ''value is out of range for type integer''"

text \<open>
  The database generates the identifier and both dates of a new row, and refuses a row with a
  number that is out of range or whose owner does not exist.
\<close>

definition db_insert_video :: "env \<Rightarrow> video \<Rightarrow> video act" where
  "db_insert_video env v = external env Database (\<lambda>w.
     let v' = v\<lparr>v_id := e_uuid env (w_calls w), v_createdAt := w_now w, v_updatedAt := w_now w\<rparr>
     in if \<not> integers_fit v' then (Inl out_of_range, w)
        else if find_user (v_userId v') (w_users w) = None
        then (Inl foreign_key_violation, w)
        else if find_video (v_id v') (w_videos w) = None
        then (Inr v', w\<lparr>w_videos := insert_row v' (w_videos w)\<rparr>)
        else (Inl (JsError ''duplicate key value violates unique constraint''), w))"

definition db_delete_video :: "env \<Rightarrow> string \<Rightarrow> unit act" where
  "db_delete_video env k = external env Database (\<lambda>w.
     (Inr (), w\<lparr>w_videos := delete_key v_id k (w_videos w)\<rparr>))"

section \<open>Queue operations\<close>

definition new_job :: "string \<Rightarrow> string \<Rightarrow> string \<Rightarrow> job_opts \<Rightarrow> queue_job" where
  "new_job jid name videoId opts =
     \<lparr>j_id = jid, j_name = name, j_videoId = videoId, j_opts = opts, j_attemptsMade = 0,
      j_progress = JNum 0, j_state = ''waiting'', j_failedReason = None,
      j_processedOn = None, j_finishedOn = None\<rparr>"

definition queue_add :: "env \<Rightarrow> job_opts \<Rightarrow> string \<Rightarrow> string \<Rightarrow> job_opts \<Rightarrow> queue_job act" where
  "queue_add env defaults name videoId opts = external env Queue (\<lambda>w.
     let j = new_job (e_job_id env (w_calls w)) name videoId (merge_job_opts defaults opts)
     in case find_job (j_id j) (w_jobs w) of
          None \<Rightarrow> (Inr j, w\<lparr>w_jobs := insert_row j (w_jobs w)\<rparr>)
        | Some j' \<Rightarrow> (Inr j', w))"

definition job_updateProgress :: "env \<Rightarrow> queue_job \<Rightarrow> int \<Rightarrow> unit act" where
  "job_updateProgress env job n = external env Queue (\<lambda>w.
     (Inr (), w\<lparr>w_jobs := update_key j_id (j_id job) (\<lambda>_. True)
                            (\<lambda>j. j\<lparr>j_progress := JNum n\<rparr>) (w_jobs w)\<rparr>))"

section \<open>Redis operations\<close>

definition redis_get :: "env \<Rightarrow> string \<Rightarrow> cache_value option act" where
  "redis_get env k = external env Redis (io_gets (\<lambda>w.
     case w_cache w k of
       None \<Rightarrow> None
     | Some c \<Rightarrow> if w_now w < c_expires c then Some (c_value c) else None))"

definition redis_set :: "env \<Rightarrow> string \<Rightarrow> cache_value \<Rightarrow> int \<Rightarrow> unit act" where
  "redis_set env k v seconds = external env Redis (io_modify (\<lambda>w.
     w\<lparr>w_cache := (w_cache w)(k := Some \<lparr>c_value = v, c_expires = w_now w + seconds * 1000\<rparr>)\<rparr>))"

definition redis_del :: "env \<Rightarrow> string \<Rightarrow> unit act" where
  "redis_del env k = external env Redis (io_modify (\<lambda>w. w\<lparr>w_cache := (w_cache w)(k := None)\<rparr>))"

section \<open>Guarantees about the shared state\<close>

text \<open>
  A relation on worlds that does not look at the clock or at the number of calls is kept by
  every external call whose operation keeps it.
\<close>

locale world_preorder = effect_preorder R for R :: "world \<Rightarrow> world \<Rightarrow> bool" +
  assumes tick: "R w (w\<lparr>w_calls := c, w_now := t\<rparr>)"
begin

lemma tick_now: "R w (w\<lparr>w_now := t\<rparr>)"
  using tick [of w t "w_calls w"] by simp

lemma ext_call:
  assumes "guarantee R op"
  shows "guarantee R (external env svc op)"
proof (rule guaranteeI)
  fix w r w'
  assume run: "external env svc op w = (r, w')"
  let ?w1 = "w\<lparr>w_calls := Suc (w_calls w), w_now := w_now w + int (e_latency env (w_calls w))\<rparr>"
  have 1: "R w ?w1" by (rule tick)
  have "R ?w1 (snd (op ?w1))" using assms by (simp add: guarantee_def)
  with 1 have 2: "R w (snd (op ?w1))" by (rule trans)
  from run 1 2 show "R w w'"
    by (auto simp: external_def Let_def split: outcome.splits)
qed

lemma detach: "guarantee R m \<Longrightarrow> guarantee R (detached m)"
  unfolding guarantee_def detached_def by (metis snd_conv tick_now trans)

lemma wait: "guarantee R (sleep ms)"
  unfolding sleep_def by (rule modify) (rule tick_now)

lemma clock: "guarantee R current_time"
  unfolding current_time_def by (rule gets)

lemmas world_rules = rules ext_call detach wait clock

end

context world_preorder
begin

text \<open>The primitive calls, relative to what they write.\<close>

lemma db_find: "guarantee R (db_find_video env k)"
  unfolding db_find_video_def by (intro ext_call gets)

lemma cache_get: "guarantee R (redis_get env k)"
  unfolding redis_get_def by (intro ext_call gets)

lemma cache_set: "(\<And>w ca. R w (w\<lparr>w_cache := ca\<rparr>)) \<Longrightarrow> guarantee R (redis_set env k v n)"
  unfolding redis_set_def by (intro ext_call modify)

lemma cache_del: "(\<And>w ca. R w (w\<lparr>w_cache := ca\<rparr>)) \<Longrightarrow> guarantee R (redis_del env k)"
  unfolding redis_del_def by (intro ext_call modify)

lemma add_job:
  assumes "\<And>w j. find_job (j_id j) (w_jobs w) = None \<Longrightarrow> R w (w\<lparr>w_jobs := insert_row j (w_jobs w)\<rparr>)"
  shows "guarantee R (queue_add env d n v opts)"
  unfolding queue_add_def
  by (intro ext_call) (use assms in \<open>simp add: guarantee_def Let_def refl split: option.split\<close>)

lemma job_progress:
  assumes "\<And>w. R w (w\<lparr>w_jobs := update_key j_id (j_id job) (\<lambda>_. True)
                             (\<lambda>j. j\<lparr>j_progress := JNum n\<rparr>) (w_jobs w)\<rparr>)"
  shows "guarantee R (job_updateProgress env job n)"
  unfolding job_updateProgress_def
  by (intro ext_call) (simp add: guarantee_def assms)

end

text \<open>The component \<open>f\<close> of the state is left alone.\<close>

definition keeps :: "(world \<Rightarrow> 'x) \<Rightarrow> world \<Rightarrow> world \<Rightarrow> bool" where
  "keeps f w w' \<longleftrightarrow> f w' = f w"

interpretation keeps_videos: world_preorder "keeps w_videos"
  by unfold_locales (simp_all add: keeps_def)

interpretation keeps_failed_jobs: world_preorder "keeps w_failed_jobs"
  by unfold_locales (simp_all add: keeps_def)

interpretation keeps_jobs: world_preorder "keeps w_jobs"
  by unfold_locales (simp_all add: keeps_def)

interpretation keeps_cache: world_preorder "keeps w_cache"
  by unfold_locales (simp_all add: keeps_def)

interpretation keeps_events: world_preorder "keeps w_events"
  by unfold_locales (simp_all add: keeps_def)

interpretation keeps_sent: world_preorder "keeps w_sent"
  by unfold_locales (simp_all add: keeps_def)

interpretation keeps_users: world_preorder "keeps w_users"
  by unfold_locales (simp_all add: keeps_def)

text \<open>The part of the state that the AI provider and the object store have no business with.\<close>

definition business_state ::
  "world \<Rightarrow> video list \<times> failed_job list \<times> queue_job list \<times> (string \<Rightarrow> cache_entry option) \<times>
    video_event list \<times> ws_message list \<times> user list \<times> message list \<times> ws_message list" where
  "business_state w = (w_videos w, w_failed_jobs w, w_jobs w, w_cache w, w_events w, w_sent w,
     w_users w, w_messages w, w_chat w)"

interpretation keeps_business: world_preorder "keeps business_state"
  by unfold_locales (simp_all add: keeps_def business_state_def)

text \<open>The key constraints survive.\<close>

definition keeps_wf :: "world \<Rightarrow> world \<Rightarrow> bool" where
  "keeps_wf w w' \<longleftrightarrow> (wf_world w \<longrightarrow> wf_world w')"

interpretation wf: world_preorder keeps_wf
  by unfold_locales (simp_all add: keeps_wf_def wf_world_def)

text \<open>Rows other than the one with key \<open>k\<close> are left alone.\<close>

definition only_row :: "string \<Rightarrow> world \<Rightarrow> world \<Rightarrow> bool" where
  "only_row k w w' \<longleftrightarrow> (\<forall>k'. k' \<noteq> k \<longrightarrow> row w' k' = row w k')"

interpretation only_row: world_preorder "only_row k" for k
  by unfold_locales (simp_all add: only_row_def row_def)

lemma touch_key [simp, table_simps]: "(\<And>r. v_id (f r) = v_id r) \<Longrightarrow> v_id (touch t f v) = v_id v"
  by (simp add: touch_def)

lemma row_update [table_simps]:
  assumes "\<And>r. v_id (f r) = v_id r"
  shows "row (w\<lparr>w_videos := update_key v_id k p f (w_videos w)\<rparr>) k' =
    (if k' = k then map_option (\<lambda>r. if p r then f r else r) (row w k) else row w k')"
  using assms by (simp add: row_def videos.lookup_upd)

lemma row_frame [simp]:
  "row (w\<lparr>w_now := t\<rparr>) k = row w k"
  "row (w\<lparr>w_calls := c\<rparr>) k = row w k"
  "row (w\<lparr>w_cache := ca\<rparr>) k = row w k"
  "row (w\<lparr>w_jobs := js\<rparr>) k = row w k"
  "row (w\<lparr>w_events := es\<rparr>) k = row w k"
  "row (w\<lparr>w_sent := ss\<rparr>) k = row w k"
  "row (w\<lparr>w_users := us\<rparr>) k = row w k"
  "row (w\<lparr>w_messages := ms\<rparr>) k = row w k"
  "row (w\<lparr>w_chat := ss\<rparr>) k = row w k"
  "row (w\<lparr>w_failed_jobs := fs\<rparr>) k = row w k"
  "row (w\<lparr>w_ai_jobs := ai\<rparr>) k = row w k"
  "row (w\<lparr>w_objects := ob\<rparr>) k = row w k"
  by (simp_all add: row_def)

section \<open>Evaluation of external calls\<close>

definition ticked :: "env \<Rightarrow> world \<Rightarrow> world" where
  "ticked env w = w\<lparr>w_calls := Suc (w_calls w), w_now := w_now w + int (e_latency env (w_calls w))\<rparr>"

lemma ticked_sel [simp]:
  "w_videos (ticked env w) = w_videos w"
  "w_failed_jobs (ticked env w) = w_failed_jobs w"
  "w_cache (ticked env w) = w_cache w"
  "w_jobs (ticked env w) = w_jobs w"
  "w_objects (ticked env w) = w_objects w"
  "w_ai_jobs (ticked env w) = w_ai_jobs w"
  "w_events (ticked env w) = w_events w"
  "w_sent (ticked env w) = w_sent w"
  "w_users (ticked env w) = w_users w"
  "w_messages (ticked env w) = w_messages w"
  "w_chat (ticked env w) = w_chat w"
  "w_calls (ticked env w) = Suc (w_calls w)"
  by (simp_all add: ticked_def)

lemma now_ticked: "w_now (ticked env w) = w_now w + int (e_latency env (w_calls w))"
  by (simp add: ticked_def)

lemma row_ticked [simp]: "row (ticked env w) k = row w k"
  by (simp add: row_def)

lemma external_cases:
  "external env svc op w =
     (case e_outcome env svc (w_calls w) of
        Served \<Rightarrow> op (ticked env w)
      | Refused msg \<Rightarrow> (Inl (JsError msg), ticked env w)
      | Lost msg \<Rightarrow> (Inl (JsError msg), snd (op (ticked env w))))"
  by (simp only: external_def ticked_def Let_def)

lemma external_InrD: "external env svc op w = (Inr a, w') \<Longrightarrow> op (ticked env w) = (Inr a, w')"
  by (auto simp: external_cases split: outcome.splits)

text \<open>A service that is up during the whole run.\<close>

definition up :: "env \<Rightarrow> service \<Rightarrow> bool" where
  "up env svc \<longleftrightarrow> (\<forall>n. e_outcome env svc n = Served)"

lemma external_up [io_simps]: "up env svc \<Longrightarrow> external env svc op w = op (ticked env w)"
  by (simp add: external_cases up_def)

lemma triple_external_up:
  assumes "up env svc" and "triple P' op Q E" and "\<And>w. P w \<Longrightarrow> P' (ticked env w)"
  shows "triple P (external env svc op) Q E"
  using assms by (simp add: triple_def external_up)

text \<open>An external call under any outcome: what it can do and how it can fail.\<close>

lemma triple_external:
  assumes op: "triple P' op Q E'" and pre: "\<And>w. P w \<Longrightarrow> P' (ticked env w)"
    and refused: "\<And>w m. P w \<Longrightarrow> E (JsError m) (ticked env w)"
    and lost: "\<And>a w m. Q a w \<Longrightarrow> E (JsError m) w"
    and failed: "\<And>e w m. E' e w \<Longrightarrow> E e w \<and> E (JsError m) w"
  shows "triple P (external env svc op) Q E"
proof (rule tripleI)
  fix w a w'
  assume P: "P w" and run: "external env svc op w = (Inr a, w')"
  from run have "op (ticked env w) = (Inr a, w')"
    by (simp add: external_cases split: outcome.splits)
  with op pre [OF P] show "Q a w'" by (rule tripleD_Inr)
next
  fix w e w'
  assume P: "P w" and run: "external env svc op w = (Inl e, w')"
  show "E e w'"
  proof (cases "e_outcome env svc (w_calls w)")
    case Served
    with run have "op (ticked env w) = (Inl e, w')" by (simp add: external_cases)
    with op pre [OF P] have "E' e w'" by (rule tripleD_Inl)
    with failed show ?thesis by blast
  next
    case (Refused m)
    with run refused [OF P] show ?thesis by (auto simp: external_cases)
  next
    case (Lost m)
    with run have e: "e = JsError m" and w': "w' = snd (op (ticked env w))"
      by (auto simp: external_cases)
    obtain r where r: "op (ticked env w) = (r, w')" by (metis w' prod.collapse)
    show ?thesis
    proof (cases r)
      case (Inl e')
      with r op pre [OF P] have "E' e' w'" by (blast dest: tripleD_Inl)
      with failed e show ?thesis by blast
    next
      case (Inr a)
      with r op pre [OF P] have "Q a w'" by (blast dest: tripleD_Inr)
      with lost e show ?thesis by blast
    qed
  qed
qed

text \<open>The state after an update of one row was executed.\<close>

definition after_update ::
  "env \<Rightarrow> string \<Rightarrow> (video \<Rightarrow> bool) \<Rightarrow> (video \<Rightarrow> video) \<Rightarrow> world \<Rightarrow> world" where
  "after_update env k p f w = (ticked env w)
     \<lparr>w_videos := update_key v_id k p (touch (w_now (ticked env w)) f) (w_videos w)\<rparr>"

lemma db_update_video_cases:
  "db_update_video env k p f w =
     (case e_outcome env Database (w_calls w) of
        Served \<Rightarrow> (Inr (affected v_id k p (w_videos w)), after_update env k p f w)
      | Refused m \<Rightarrow> (Inl (JsError m), ticked env w)
      | Lost m \<Rightarrow> (Inl (JsError m), after_update env k p f w))"
  by (simp add: db_update_video_def external_cases after_update_def split: outcome.split)

lemma row_after_update [table_simps]:
  assumes "\<And>r. v_id (f r) = v_id r"
  shows "row (after_update env k p f w) k' =
    (if k' = k
     then map_option (\<lambda>r. if p r then touch (w_now (ticked env w)) f r else r) (row w k)
     else row w k')"
  using assms by (simp add: row_def after_update_def videos.lookup_upd)

lemma after_update_frame [simp]:
  "w_failed_jobs (after_update env k p f w) = w_failed_jobs w"
  "w_jobs (after_update env k p f w) = w_jobs w"
  "w_cache (after_update env k p f w) = w_cache w"
  "w_objects (after_update env k p f w) = w_objects w"
  "w_ai_jobs (after_update env k p f w) = w_ai_jobs w"
  "w_events (after_update env k p f w) = w_events w"
  "w_sent (after_update env k p f w) = w_sent w"
  "w_users (after_update env k p f w) = w_users w"
  "w_messages (after_update env k p f w) = w_messages w"
  "w_chat (after_update env k p f w) = w_chat w"
  "w_calls (after_update env k p f w) = Suc (w_calls w)"
  "w_now (after_update env k p f w) = w_now (ticked env w)"
  by (simp_all add: after_update_def)

lemma wf_after_update:
  assumes "\<And>r. v_id (f r) = v_id r" and "wf_world w"
  shows "wf_world (after_update env k p f w)"
  using assms by (auto simp: wf_world_def after_update_def intro: videos.wf_upd)

lemma affected_row:
  "wf_world w \<Longrightarrow> affected v_id k p (w_videos w) =
     (case row w k of None \<Rightarrow> 0 | Some v \<Rightarrow> if p v then 1 else 0)"
  by (simp add: wf_world_def videos.count_wf row_def)

lemma guarantee_db_update_video:
  assumes "\<And>w. R w (ticked env w)" and "\<And>w. R w (after_update env k p f w)"
  shows "guarantee R (db_update_video env k p f)"
  using assms by (simp add: guarantee_def db_update_video_cases split: outcome.splits)

section \<open>Classes of exceptions\<close>

text \<open>A class of exceptions that contains the errors of the drivers bounds every external call.\<close>

locale error_class =
  fixes E :: "exn \<Rightarrow> bool"
  assumes driver: "E (JsError m)"
begin

lemma call:
  assumes "throws E op"
  shows "throws E (external env svc op)"
  using assms by (auto simp: throws_def external_cases driver split: outcome.splits)

lemma quiet_steps:
  "throws E (detached m)" "throws E (sleep ms)" "throws E current_time"
  by (simp_all add: throws_def detached_def sleep_def current_time_def)

lemma statements:
  "throws E (db_find_video env k)" "throws E (db_update_video env k p f)" "throws E (db_insert_video env v)"
  "throws E (db_delete_video env k)" "throws E (queue_add env d n vid opts)"
  "throws E (job_updateProgress env job i)" "throws E (redis_get env key)" "throws E (redis_set env key val s)"
  "throws E (redis_del env key)"
  unfolding db_find_video_def db_update_video_def db_insert_video_def db_delete_video_def queue_add_def
    job_updateProgress_def redis_get_def redis_set_def redis_del_def foreign_key_violation_def out_of_range_def
  by (intro call; auto simp: throws_def Let_def driver split: option.splits if_splits)+

lemmas rules = throws_rules call quiet_steps statements

end

end
