(* ===== verification/Job_Status.thy ===== *)
theory Job_Status
  imports World
begin

text \<open>
  \<open>JobStatusService\<close> (modules/queue/job-status.service.ts): the status machine of a video,
  kept in the database by guarded updates and mirrored in Redis for fast reads. First the
  operations as the service has them, then the abstract machine they implement: a
  compare-and-set on the map from identifiers to statuses.
\<close>

section \<open>Operations\<close>

definition CACHE_TTL_SECONDS :: int where
  "CACHE_TTL_SECONDS = 300"

definition statusKey :: "string \<Rightarrow> string" where
  "statusKey videoId = ''video:status:'' @ videoId"

fun VALID_TRANSITIONS :: "video_status \<Rightarrow> video_status list option" where
  "VALID_TRANSITIONS PENDING = Some [PROCESSING, FAILED]"
| "VALID_TRANSITIONS PROCESSING = Some [PROCESSING, COMPLETED, FAILED]"
| "VALID_TRANSITIONS _ = None"

text \<open>\<open>allowed?.includes(newStatus)\<close>\<close>

definition transition_allowed :: "video_status \<Rightarrow> video_status \<Rightarrow> bool" where
  "transition_allowed from to =
     (case VALID_TRANSITIONS from of None \<Rightarrow> False | Some allowed \<Rightarrow> to \<in> set allowed)"

record status_extra =
  x_videoUrl :: "string option"
  x_thumbnailUrl :: "string option"
  x_metadata :: "meta option"

definition no_extra :: status_extra where
  "no_extra = \<lparr>x_videoUrl = None, x_thumbnailUrl = None, x_metadata = None\<rparr>"

text \<open>The assignments of \<open>.set(fields)\<close>: an undefined extra leaves its column alone.\<close>

definition apply_extra :: "video_status \<Rightarrow> status_extra \<Rightarrow> video \<Rightarrow> video" where
  "apply_extra newStatus extra v =
     v\<lparr>v_status := newStatus,
       v_videoUrl := (case x_videoUrl extra of None \<Rightarrow> v_videoUrl v | Some u \<Rightarrow> Some u),
       v_thumbnailUrl := (case x_thumbnailUrl extra of None \<Rightarrow> v_thumbnailUrl v | Some u \<Rightarrow> Some u),
       v_metadata := (case x_metadata extra of None \<Rightarrow> v_metadata v | Some m \<Rightarrow> Some m)\<rparr>"

definition writeCache :: "env \<Rightarrow> string \<Rightarrow> video_status \<Rightarrow> jval \<Rightarrow> jval \<Rightarrow> unit act" where
  "writeCache env videoId status progress message =
     io_bind current_time (\<lambda>t.
     redis_set env (statusKey videoId)
       (Serialized \<lparr>s_status = status, s_progress = progress, s_message = message,
                    s_updatedAt = toISOString t\<rparr>)
       CACHE_TTL_SECONDS)"

definition transitionStatus ::
  "env \<Rightarrow> string \<Rightarrow> video_status \<Rightarrow> video_status \<Rightarrow> status_extra \<Rightarrow> bool act" where
  "transitionStatus env videoId expectedStatus newStatus extra =
     (if \<not> transition_allowed expectedStatus newStatus then io_return False
      else
        io_bind (db_update_video env videoId (\<lambda>v. v_status v = expectedStatus)
                   (apply_extra newStatus extra))
          (\<lambda>hits.
             if hits = 0 then io_return False
             else
               io_seq
                 (detached (writeCache env videoId newStatus
                    (nullish (opt_get (x_metadata extra) ''progressPercent'') (JNum 0))
                    (nullish (opt_get (x_metadata extra) ''progressMessage'') (JStr []))))
                 (io_return True)))"

definition progress_meta :: "int \<Rightarrow> string \<Rightarrow> meta" where
  "progress_meta percent message =
     [''progressPercent'' \<mapsto> JNum percent, ''progressMessage'' \<mapsto> JStr message]"

definition updateProgress :: "env \<Rightarrow> string \<Rightarrow> int \<Rightarrow> string \<Rightarrow> meta \<Rightarrow> unit act" where
  "updateProgress env videoId percent message additionalMeta =
     io_seq
       (db_update_video env videoId (\<lambda>v. v_status v = PROCESSING)
          (\<lambda>v. v\<lparr>v_metadata := Some (spread (progress_meta percent message) additionalMeta)\<rparr>))
       (detached (writeCache env videoId PROCESSING (JNum percent) (JStr message)))"

definition evictCache :: "env \<Rightarrow> string \<Rightarrow> unit act" where
  "evictCache env videoId =
     io_try (redis_del env (statusKey videoId)) (\<lambda>err. io_return ())"

definition failed_fields :: "string \<Rightarrow> video \<Rightarrow> video" where
  "failed_fields errorMessage v =
     v\<lparr>v_status := FAILED, v_errorMessage := Some errorMessage,
       v_metadata := Some (progress_meta 0 ''Failed'')\<rparr>"

definition markFailed :: "env \<Rightarrow> string \<Rightarrow> string \<Rightarrow> unit act" where
  "markFailed env videoId errorMessage =
     io_seq (db_update_video env videoId (\<lambda>_. True) (failed_fields errorMessage))
            (evictCache env videoId)"

text \<open>The snapshot of a row: \<open>metadata?.progressPercent ?? 0\<close>, \<open>metadata?.progressMessage ?? ''\<close>.\<close>

definition snapshot_of :: "video \<Rightarrow> instant \<Rightarrow> status_snapshot" where
  "snapshot_of v t =
     \<lparr>s_status = v_status v,
      s_progress = nullish (opt_get (v_metadata v) ''progressPercent'') (JNum 0),
      s_message = nullish (opt_get (v_metadata v) ''progressMessage'') (JStr []),
      s_updatedAt = toISOString t\<rparr>"

definition loadFromDb :: "env \<Rightarrow> string \<Rightarrow> status_snapshot option act" where
  "loadFromDb env videoId =
     io_try
       (io_bind (db_find_video env videoId) (\<lambda>video.
          case video of
            None \<Rightarrow> io_return None
          | Some v \<Rightarrow>
              io_bind current_time (\<lambda>t.
              io_seq (redis_set env (statusKey videoId) (Serialized (snapshot_of v t)) CACHE_TTL_SECONDS)
                     (io_return (Some (snapshot_of v t))))))
       (\<lambda>err. io_return None)"

text \<open>
  \<open>JSON.parse\<close> of a cached value; it throws on text that is not JSON. An empty string is
  falsy and does not reach it.
\<close>

definition parse_cached :: "cache_value \<Rightarrow> status_snapshot option act" where
  "parse_cached c =
     (case c of Serialized s \<Rightarrow> io_return (Some s)
              | NotJson txt \<Rightarrow> io_raise (JsError ''Unexpected token in JSON''))"

definition getCachedStatus :: "env \<Rightarrow> string \<Rightarrow> status_snapshot option act" where
  "getCachedStatus env videoId =
     io_bind
       (io_try
          (io_bind (redis_get env (statusKey videoId)) (\<lambda>raw.
             case raw of
               None \<Rightarrow> io_return None
             | Some c \<Rightarrow> if c = NotJson [] then io_return None else parse_cached c))
          (\<lambda>err. io_return None))
       (\<lambda>cached. case cached of Some s \<Rightarrow> io_return (Some s) | None \<Rightarrow> loadFromDb env videoId)"

section \<open>The abstract machine\<close>

text \<open>
  Statuses of all videos as one map, and the compare-and-set the service promises: a move
  is made only along a valid edge and only from the expected status.
\<close>

type_synonym status_map = "string \<Rightarrow> video_status option"

definition statuses :: "world \<Rightarrow> status_map" where
  "statuses w = (\<lambda>k. status_of w k)"

definition cas :: "string \<Rightarrow> video_status \<Rightarrow> video_status \<Rightarrow> status_map \<Rightarrow> bool \<times> status_map" where
  "cas k from to m =
     (if transition_allowed from to \<and> m k = Some from then (True, m(k \<mapsto> to)) else (False, m))"

inductive status_edge :: "video_status \<Rightarrow> video_status \<Rightarrow> bool" where
  start: "status_edge PENDING PROCESSING"
| abort: "status_edge PENDING FAILED"
| progress: "status_edge PROCESSING PROCESSING"
| complete: "status_edge PROCESSING COMPLETED"
| fail: "status_edge PROCESSING FAILED"

inductive_cases status_edgeE: "status_edge s t"
inductive_simps status_edge_simps [simp]:
  "status_edge PENDING t" "status_edge PROCESSING t" "status_edge COMPLETED t"
  "status_edge FAILED t" "status_edge CANCELLED t"

lemma transition_allowed_iff: "transition_allowed s t \<longleftrightarrow> status_edge s t"
  by (cases s) (auto simp: transition_allowed_def)

definition terminal :: "video_status \<Rightarrow> bool" where
  "terminal s \<longleftrightarrow> s \<in> {COMPLETED, FAILED, CANCELLED}"

lemma terminal_no_edge: "terminal s \<Longrightarrow> \<not> status_edge s t"
  by (auto simp: terminal_def)

lemma not_terminal: "\<not> terminal s \<longleftrightarrow> s = PENDING \<or> s = PROCESSING"
  by (cases s) (auto simp: terminal_def)

text \<open>Statuses reachable from one another by valid moves only.\<close>

definition status_path :: "video_status \<Rightarrow> video_status \<Rightarrow> bool" where
  "status_path = status_edge\<^sup>*\<^sup>*"

lemma status_path_from_terminal:
  assumes "status_path s t" and "terminal s"
  shows "t = s"
  using assms unfolding status_path_def
  by (induction rule: converse_rtranclp_induct) (auto dest: terminal_no_edge)

section \<open>Effects of the operations on one row\<close>

lemma apply_extra_sel [simp, table_simps]:
  "v_id (apply_extra st x v) = v_id v"
  "v_status (apply_extra st x v) = st"
  "v_userId (apply_extra st x v) = v_userId v"
  "v_errorMessage (apply_extra st x v) = v_errorMessage v"
  "v_videoUrl (apply_extra st x v) = (case x_videoUrl x of None \<Rightarrow> v_videoUrl v | Some u \<Rightarrow> Some u)"
  by (simp_all add: apply_extra_def)

lemma failed_fields_sel [simp, table_simps]:
  "v_id (failed_fields m v) = v_id v" "v_userId (failed_fields m v) = v_userId v"
  "v_status (failed_fields m v) = FAILED"
  "v_errorMessage (failed_fields m v) = Some m"
  by (simp_all add: failed_fields_def)

lemma touch_sel [simp, table_simps]:
  "v_status (touch t f v) = v_status (f v)"
  "v_videoUrl (touch t f v) = v_videoUrl (f v)"
  "v_errorMessage (touch t f v) = v_errorMessage (f v)"
  "v_metadata (touch t f v) = v_metadata (f v)"
  by (simp_all add: touch_def)

text \<open>A cache write that is not awaited changes the cache and the call counter only.\<close>

lemma detached_writeCache:
  obtains ca c where
    "detached (writeCache env k st pr ms) w = (Inr (), w\<lparr>w_cache := ca, w_calls := c\<rparr>)"
proof -
  define ca where "ca = (w_cache w)(statusKey k \<mapsto>
      \<lparr>c_value = Serialized \<lparr>s_status = st, s_progress = pr, s_message = ms,
                              s_updatedAt = toISOString (w_now w)\<rparr>,
       c_expires = w_now (ticked env w) + CACHE_TTL_SECONDS * 1000\<rparr>)"
  have "snd (writeCache env k st pr ms w) = (ticked env w)\<lparr>w_cache := ca\<rparr> \<or>
      snd (writeCache env k st pr ms w) = ticked env w"
    by (simp add: writeCache_def redis_set_def current_time_def io_bind_def external_cases ca_def
        split: outcome.splits)
  then have "detached (writeCache env k st pr ms) w =
        (Inr (), w\<lparr>w_cache := ca, w_calls := Suc (w_calls w)\<rparr>) \<or>
      detached (writeCache env k st pr ms) w =
        (Inr (), w\<lparr>w_cache := w_cache w, w_calls := Suc (w_calls w)\<rparr>)"
    by (auto simp: detached_def ticked_def)
  then show ?thesis using that by blast
qed

definition with_cache :: "env \<Rightarrow> string \<Rightarrow> video_status \<Rightarrow> jval \<Rightarrow> jval \<Rightarrow> world \<Rightarrow> world" where
  "with_cache env k st pr ms w = snd (detached (writeCache env k st pr ms) w)"

lemma detached_eq [io_simps]:
  "detached (writeCache env k st pr ms) w = (Inr (), with_cache env k st pr ms w)"
  by (simp add: with_cache_def detached_def)

lemma with_cacheE:
  obtains ca c where "with_cache env k st pr ms w = w\<lparr>w_cache := ca, w_calls := c\<rparr>"
  by (rule detached_writeCache [of env k st pr ms w]) (simp add: with_cache_def)

lemma with_cache_frame [simp]:
  "w_videos (with_cache env k st pr ms w) = w_videos w"
  "w_failed_jobs (with_cache env k st pr ms w) = w_failed_jobs w"
  "w_jobs (with_cache env k st pr ms w) = w_jobs w"
  "w_objects (with_cache env k st pr ms w) = w_objects w"
  "w_ai_jobs (with_cache env k st pr ms w) = w_ai_jobs w"
  "w_events (with_cache env k st pr ms w) = w_events w"
  "w_sent (with_cache env k st pr ms w) = w_sent w"
  "w_users (with_cache env k st pr ms w) = w_users w"
  "w_messages (with_cache env k st pr ms w) = w_messages w"
  "w_chat (with_cache env k st pr ms w) = w_chat w"
  "w_now (with_cache env k st pr ms w) = w_now w"
  by (rule with_cacheE [of env k st pr ms w], simp)+

lemma row_with_cache [simp]: "row (with_cache env k st pr ms w) = row w"
  by (simp add: row_def fun_eq_iff)

text \<open>The values the cache write of a transition takes from its extra metadata.\<close>

definition moved :: "env \<Rightarrow> string \<Rightarrow> video_status \<Rightarrow> status_extra \<Rightarrow> world \<Rightarrow> world" where
  "moved env k to x w = with_cache env k to
     (nullish (opt_get (x_metadata x) ''progressPercent'') (JNum 0))
     (nullish (opt_get (x_metadata x) ''progressMessage'') (JStr [])) w"

lemma moved_frame [simp]:
  "w_videos (moved env k to x w) = w_videos w"
  "w_failed_jobs (moved env k to x w) = w_failed_jobs w"
  "w_jobs (moved env k to x w) = w_jobs w"
  "w_objects (moved env k to x w) = w_objects w"
  "w_ai_jobs (moved env k to x w) = w_ai_jobs w"
  "w_events (moved env k to x w) = w_events w"
  "w_sent (moved env k to x w) = w_sent w"
  "w_users (moved env k to x w) = w_users w"
  "w_messages (moved env k to x w) = w_messages w"
  "w_chat (moved env k to x w) = w_chat w"
  "row (moved env k to x w) = row w"
  by (simp_all add: moved_def)

abbreviation after_move :: "env \<Rightarrow> string \<Rightarrow> video_status \<Rightarrow> video_status \<Rightarrow> status_extra \<Rightarrow> world \<Rightarrow> world" where
  "after_move env k from to x w \<equiv> after_update env k (\<lambda>v. v_status v = from) (apply_extra to x) w"

lemma transitionStatus_eval:
  "transitionStatus env k from to x w =
     (if \<not> transition_allowed from to then (Inr False, w)
      else case e_outcome env Database (w_calls w) of
        Served \<Rightarrow>
          if affected v_id k (\<lambda>v. v_status v = from) (w_videos w) = 0
          then (Inr False, after_move env k from to x w)
          else (Inr True, moved env k to x (after_move env k from to x w))
      | Refused m \<Rightarrow> (Inl (JsError m), ticked env w)
      | Lost m \<Rightarrow> (Inl (JsError m), after_move env k from to x w))"
  by (simp add: transitionStatus_def io_simps db_update_video_cases detached_eq
      moved_def split: outcome.split)

definition progressed :: "int \<Rightarrow> string \<Rightarrow> meta \<Rightarrow> video \<Rightarrow> video" where
  "progressed percent message extra v =
     v\<lparr>v_metadata := Some (spread (progress_meta percent message) extra)\<rparr>"

lemma progressed_sel [simp, table_simps]:
  "v_id (progressed n m x v) = v_id v"
  "v_status (progressed n m x v) = v_status v"
  "v_videoUrl (progressed n m x v) = v_videoUrl v"
  "v_errorMessage (progressed n m x v) = v_errorMessage v"
  by (simp_all add: progressed_def)

abbreviation after_progress :: "env \<Rightarrow> string \<Rightarrow> int \<Rightarrow> string \<Rightarrow> meta \<Rightarrow> world \<Rightarrow> world" where
  "after_progress env k n m x w \<equiv> after_update env k (\<lambda>v. v_status v = PROCESSING) (progressed n m x) w"

lemma updateProgress_eval:
  "updateProgress env k n m x w =
     (case e_outcome env Database (w_calls w) of
        Served \<Rightarrow> (Inr (), with_cache env k PROCESSING (JNum n) (JStr m) (after_progress env k n m x w))
      | Refused msg \<Rightarrow> (Inl (JsError msg), ticked env w)
      | Lost msg \<Rightarrow> (Inl (JsError msg), after_progress env k n m x w))"
  by (simp add: updateProgress_def io_simps db_update_video_cases detached_eq
      progressed_def [abs_def] split: outcome.split)

text \<open>Eviction never raises, and touches the cache and the clock only.\<close>

definition evicted :: "env \<Rightarrow> string \<Rightarrow> world \<Rightarrow> world" where
  "evicted env k w = snd (evictCache env k w)"

lemma evictCache_eq [io_simps]: "evictCache env k w = (Inr (), evicted env k w)"
  by (simp add: evicted_def evictCache_def redis_del_def io_try_def external_cases split: outcome.split)

lemma evicted_frame [simp]:
  "w_videos (evicted env k w) = w_videos w"
  "w_failed_jobs (evicted env k w) = w_failed_jobs w"
  "w_jobs (evicted env k w) = w_jobs w"
  "w_objects (evicted env k w) = w_objects w"
  "w_ai_jobs (evicted env k w) = w_ai_jobs w"
  "w_events (evicted env k w) = w_events w"
  "w_sent (evicted env k w) = w_sent w"
  "w_users (evicted env k w) = w_users w"
  "w_messages (evicted env k w) = w_messages w"
  "w_chat (evicted env k w) = w_chat w"
  by (simp_all add: evicted_def evictCache_def redis_del_def io_try_def external_cases split: outcome.split)

lemma row_evicted [simp]: "row (evicted env k w) = row w"
  by (simp add: row_def fun_eq_iff)

lemma markFailed_eval:
  "markFailed env k m w =
     (case e_outcome env Database (w_calls w) of
        Served \<Rightarrow> (Inr (), evicted env k (after_update env k (\<lambda>_. True) (failed_fields m) w))
      | Refused msg \<Rightarrow> (Inl (JsError msg), ticked env w)
      | Lost msg \<Rightarrow> (Inl (JsError msg), after_update env k (\<lambda>_. True) (failed_fields m) w))"
  by (simp add: markFailed_def io_simps db_update_video_cases evictCache_eq
      split: outcome.split)

section \<open>Refinement of the abstract machine\<close>

lemma statuses_after_move:
  "statuses (after_move env k from to x w) =
     (if statuses w k = Some from then (statuses w)(k \<mapsto> to) else statuses w)"
  by (cases "row w k") (auto simp: statuses_def status_of_def fun_eq_iff table_simps)

lemma statuses_eq_row: "row w' = row w \<Longrightarrow> statuses w' = statuses w"
  by (simp add: statuses_def status_of_def fun_eq_iff)

lemma statuses_frame [simp]:
  "statuses (ticked env w) = statuses w"
  "statuses (moved env k to x w) = statuses w"
  "statuses (with_cache env k st pr ms w) = statuses w"
  "statuses (evicted env k w) = statuses w"
  by (rule statuses_eq_row, simp add: fun_eq_iff)+

lemma affected_status:
  assumes "wf_world w"
  shows "affected v_id k (\<lambda>v. v_status v = from) (w_videos w) = 0 \<longleftrightarrow> statuses w k \<noteq> Some from"
  using affected_row [OF assms, of k "\<lambda>v. v_status v = from"]
  by (cases "row w k") (auto simp: statuses_def status_of_def)

lemma transitionStatus_cas:
  assumes "wf_world w" and "transitionStatus env k from to x w = (Inr b, w')"
  shows "(b, statuses w') = cas k from to (statuses w)"
  using assms
  by (auto simp: transitionStatus_eval cas_def statuses_after_move affected_status
      split: if_splits outcome.splits)

lemma transitionStatus_cas_error:
  assumes "transitionStatus env k from to x w = (Inl e, w')"
  shows "statuses w' = statuses w \<or> statuses w' = snd (cas k from to (statuses w))"
  using assms
  by (auto simp: transitionStatus_eval cas_def statuses_after_move split: if_splits outcome.splits)

lemma wf_with_cache [simp]: "wf_world (with_cache env k st pr ms w) = wf_world w"
  by (simp add: wf_world_def)

lemma wf_moved [simp]: "wf_world (moved env k to x w) = wf_world w"
  by (simp add: wf_world_def)

lemma wf_evicted [simp]: "wf_world (evicted env k w) = wf_world w"
  by (simp add: wf_world_def)

lemma wf_ticked [simp]: "wf_world (ticked env w) = wf_world w"
  by (simp add: wf_world_def)

section \<open>Guarantees\<close>

context world_preorder
begin

lemma ticked: "R w (ticked env w)"
  unfolding ticked_def by (rule tick)

lemma transitionStatus:
  assumes "\<And>w. transition_allowed from to \<Longrightarrow> R w (after_move env k from to x w)"
    and "\<And>w. R w (moved env k to x w)"
  shows "guarantee R (transitionStatus env k from to x)"
  using assms(1) trans [OF assms(1) assms(2)] refl ticked
  by (auto simp: guarantee_def transitionStatus_eval split: outcome.split)

lemma updateProgress:
  assumes "\<And>w. R w (after_progress env k n m x w)"
    and "\<And>w. R w (with_cache env k PROCESSING (JNum n) (JStr m) w)"
  shows "guarantee R (updateProgress env k n m x)"
  using assms(1) trans [OF assms] ticked
  by (auto simp: guarantee_def updateProgress_eval split: outcome.split)

lemma markFailed:
  assumes "\<And>w. R w (after_update env k (\<lambda>_. True) (failed_fields m) w)" and "\<And>w. R w (evicted env k w)"
  shows "guarantee R (markFailed env k m)"
  using assms(1) trans [OF assms] ticked
  by (auto simp: guarantee_def markFailed_eval split: outcome.split)

end

lemma wf_status_ops:
  "guarantee keeps_wf (transitionStatus env k from to x)"
  "guarantee keeps_wf (updateProgress env k n m meta)"
  "guarantee keeps_wf (markFailed env k m)"
  by (intro wf.transitionStatus wf.updateProgress wf.markFailed;
      simp add: keeps_wf_def wf_after_update)+

lemma only_row_status_ops:
  "guarantee (only_row k) (transitionStatus env k from to x)"
  "guarantee (only_row k) (updateProgress env k n m meta)"
  "guarantee (only_row k) (markFailed env k m)"
  by (intro only_row.transitionStatus only_row.updateProgress only_row.markFailed;
      simp add: only_row_def row_after_update)+

lemma frame_status_ops:
  "guarantee (keeps w_failed_jobs) (transitionStatus env k from to x)"
  "guarantee (keeps w_failed_jobs) (updateProgress env k n m meta)"
  "guarantee (keeps w_failed_jobs) (markFailed env k m)"
  "guarantee (keeps w_events) (transitionStatus env k from to x)"
  "guarantee (keeps w_events) (updateProgress env k n m meta)"
  "guarantee (keeps w_events) (markFailed env k m)"
  by (intro keeps_failed_jobs.transitionStatus keeps_failed_jobs.updateProgress
        keeps_failed_jobs.markFailed keeps_events.transitionStatus keeps_events.updateProgress
        keeps_events.markFailed; simp add: keeps_def)+

section \<open>The status store as an interface\<close>

text \<open>
  What a worker relies on: a move either implements the compare-and-set on the abstract map
  or fails with an error after doing all or nothing of it.
\<close>

locale status_store =
  fixes move :: "string \<Rightarrow> video_status \<Rightarrow> video_status \<Rightarrow> 'x \<Rightarrow> 'w \<Rightarrow> (exn + bool) \<times> 'w"
    and view :: "'w \<Rightarrow> status_map"
    and wf :: "'w \<Rightarrow> bool"
  assumes move_cas: "wf w \<Longrightarrow> move k from to x w = (Inr b, w') \<Longrightarrow> (b, view w') = cas k from to (view w)"
    and move_error: "move k from to x w = (Inl e, w') \<Longrightarrow>
      view w' = view w \<or> view w' = snd (cas k from to (view w))"
    and move_wf: "wf w \<Longrightarrow> move k from to x w = (r, w') \<Longrightarrow> wf w'"
begin

lemma view_after:
  assumes "wf w" and "move k from to x w = (r, w')"
  shows "view w' = view w \<or>
    status_edge from to \<and> view w k = Some from \<and> view w' = (view w)(k \<mapsto> to)"
proof (cases r)
  case (Inl e)
  with assms(2) have "view w' = view w \<or> view w' = snd (cas k from to (view w))"
    by (auto dest: move_error)
  then show ?thesis by (auto simp: cas_def transition_allowed_iff split: if_splits)
next
  case (Inr b)
  with assms have "(b, view w') = cas k from to (view w)" by (auto dest: move_cas)
  then show ?thesis by (auto simp: cas_def transition_allowed_iff split: if_splits)
qed

lemma success:
  assumes "wf w" and "move k from to x w = (Inr True, w')"
  shows "status_edge from to" and "view w k = Some from" and "view w' = (view w)(k \<mapsto> to)"
  using move_cas [OF assms] by (auto simp: cas_def transition_allowed_iff split: if_splits)

text \<open>No move leads into \<open>PENDING\<close>.\<close>

lemma never_pending_again:
  assumes "wf w" and "move k from to x w = (r, w')" and "view w l \<noteq> Some PENDING"
  shows "view w' l \<noteq> Some PENDING"
  using view_after [OF assms(1,2)] assms(3) by (auto elim: status_edgeE split: if_splits)

text \<open>A status only ever moves along valid edges.\<close>

lemma moves_along_path:
  assumes "wf w" and "move k from to x w = (r, w')" and "view w l = Some s"
  shows "\<exists>t. view w' l = Some t \<and> status_path s t"
  using view_after [OF assms(1,2)] assms(3) by (auto simp: status_path_def)

end

interpretation job_status: status_store "\<lambda>k from to x. transitionStatus env k from to x" statuses wf_world
  for env
proof
  fix w k s t x b w'
  assume "wf_world w" and "transitionStatus env k s t x w = (Inr b, w')"
  then show "(b, statuses w') = cas k s t (statuses w)" by (rule transitionStatus_cas)
next
  fix w k s t x e w'
  assume "transitionStatus env k s t x w = (Inl e, w')"
  then show "statuses w' = statuses w \<or> statuses w' = snd (cas k s t (statuses w))"
    by (rule transitionStatus_cas_error)
next
  fix w k s t x r w'
  assume "wf_world w" and "transitionStatus env k s t x w = (r, w')"
  then show "wf_world w'"
    using guaranteeD [OF wf_status_ops(1)] by (auto simp: keeps_wf_def)
qed

text \<open>
  Any number of workers calling \<open>transitionStatus\<close> in some order: each claim is a call with
  its arguments and its environment, and the results are collected.
\<close>

record claim =
  cl_env :: env
  cl_video :: string
  cl_from :: video_status
  cl_to :: video_status
  cl_extra :: status_extra

fun run_claims :: "claim list \<Rightarrow> world \<Rightarrow> (claim \<times> (exn + bool)) list \<times> world" where
  "run_claims [] w = ([], w)"
| "run_claims (c # cs) w =
     (let (r, w1) = transitionStatus (cl_env c) (cl_video c) (cl_from c) (cl_to c) (cl_extra c) w;
          (rs, w2) = run_claims cs w1
      in ((c, r) # rs, w2))"

definition won_from_pending :: "string \<Rightarrow> claim \<times> (exn + bool) \<Rightarrow> bool" where
  "won_from_pending k cr \<longleftrightarrow>
     cl_video (fst cr) = k \<and> cl_from (fst cr) = PENDING \<and> snd cr = Inr True"

lemma run_claims_wf: "wf_world w \<Longrightarrow> run_claims cs w = (rs, w') \<Longrightarrow> wf_world w'"
proof (induction cs arbitrary: w rs)
  case Nil
  then show ?case by simp
next
  case (Cons c cs)
  obtain r w1 where
    1: "transitionStatus (cl_env c) (cl_video c) (cl_from c) (cl_to c) (cl_extra c) w = (r, w1)"
    by fastforce
  with Cons.prems(1) have "wf_world w1" by (rule job_status.move_wf)
  with 1 Cons show ?case by (auto split: prod.splits)
qed

lemma no_win_without_pending:
  assumes "wf_world w" and "statuses w k \<noteq> Some PENDING" and "run_claims cs w = (rs, w')"
  shows "filter (won_from_pending k) rs = []"
  using assms
proof (induction cs arbitrary: w rs)
  case Nil
  then show ?case by simp
next
  case (Cons c cs)
  obtain r w1 where
    1: "transitionStatus (cl_env c) (cl_video c) (cl_from c) (cl_to c) (cl_extra c) w = (r, w1)"
    by fastforce
  obtain rs' where 2: "run_claims cs w1 = (rs', w')" and rs: "rs = (c, r) # rs'"
    using 1 Cons.prems(3) by (auto split: prod.splits)
  from 1 Cons.prems(1) have "wf_world w1" by (blast intro: job_status.move_wf)
  moreover from 1 Cons.prems(1,2) have "statuses w1 k \<noteq> Some PENDING"
    by (blast dest: job_status.never_pending_again)
  ultimately have "filter (won_from_pending k) rs' = []" using 2 by (rule Cons.IH)
  moreover have "\<not> won_from_pending k (c, r)"
  proof
    assume "won_from_pending k (c, r)"
    with 1 Cons.prems(1) have "statuses w k = Some PENDING"
      by (auto simp: won_from_pending_def dest: job_status.success)
    with Cons.prems(2) show False by simp
  qed
  ultimately show ?case using rs by simp
qed

lemma wins_at_most_once:
  assumes "wf_world w" and "run_claims cs w = (rs, w')"
  shows "length (filter (won_from_pending k) rs) \<le> 1"
  using assms
proof (induction cs arbitrary: w rs)
  case Nil
  then show ?case by simp
next
  case (Cons c cs)
  obtain r w1 where
    1: "transitionStatus (cl_env c) (cl_video c) (cl_from c) (cl_to c) (cl_extra c) w = (r, w1)"
    by fastforce
  obtain rs' where 2: "run_claims cs w1 = (rs', w')" and rs: "rs = (c, r) # rs'"
    using 1 Cons.prems(2) by (auto split: prod.splits)
  from 1 Cons.prems(1) have wf1: "wf_world w1" by (blast intro: job_status.move_wf)
  show ?case
  proof (cases "won_from_pending k (c, r)")
    case False
    with rs Cons.IH [OF wf1 2] show ?thesis by simp
  next
    case True
    with 1 Cons.prems(1) have "status_edge PENDING (cl_to c)" "statuses w1 k = Some (cl_to c)"
      by (auto simp: won_from_pending_def dest: job_status.success)
    then have "statuses w1 k \<noteq> Some PENDING" by auto
    with wf1 2 have "filter (won_from_pending k) rs' = []" by (blast dest: no_win_without_pending)
    with rs show ?thesis by simp
  qed
qed

section \<open>Terminal rows and status paths\<close>

text \<open>Rows in a terminal status are not touched at all.\<close>

definition frozen :: "world \<Rightarrow> world \<Rightarrow> bool" where
  "frozen w w' \<longleftrightarrow> (\<forall>k v. row w k = Some v \<and> terminal (v_status v) \<longrightarrow> row w' k = Some v)"

text \<open>Every status moves along valid edges.\<close>

definition advances :: "world \<Rightarrow> world \<Rightarrow> bool" where
  "advances w w' \<longleftrightarrow>
     (\<forall>k s. statuses w k = Some s \<longrightarrow> (\<exists>t. statuses w' k = Some t \<and> status_path s t))"

interpretation frozen: world_preorder frozen
  by unfold_locales (auto simp: frozen_def row_def)

interpretation advances: world_preorder advances
proof
  show "advances w w" for w by (auto simp: advances_def status_path_def)
next
  fix u v w
  assume "advances u v" and "advances v w"
  then show "advances u w"
    unfolding advances_def status_path_def by (metis rtranclp_trans)
next
  show "advances w (w\<lparr>w_calls := c, w_now := t\<rparr>)" for w c t
    by (auto simp: advances_def statuses_def status_of_def row_def status_path_def)
qed

lemma frozen_status_ops:
  "guarantee frozen (transitionStatus env k s t x)"
  "guarantee frozen (updateProgress env k n m meta)"
proof -
  show "guarantee frozen (transitionStatus env k s t x)"
  proof (rule frozen.transitionStatus)
    fix w
    assume "transition_allowed s t"
    then have "\<not> terminal s" by (auto simp: transition_allowed_iff dest: terminal_no_edge)
    then show "frozen w (after_move env k s t x w)"
      by (auto simp: frozen_def table_simps)
  qed (simp add: frozen_def)
  show "guarantee frozen (updateProgress env k n m meta)"
    by (rule frozen.updateProgress) (auto simp: frozen_def table_simps terminal_def)
qed

lemma advances_status_ops:
  "guarantee advances (transitionStatus env k s t x)"
  "guarantee advances (updateProgress env k n m meta)"
proof -
  show "guarantee advances (transitionStatus env k s t x)"
  proof (rule advances.transitionStatus)
    fix w
    assume "transition_allowed s t"
    then have "status_edge s t" by (simp add: transition_allowed_iff)
    then show "advances w (after_move env k s t x w)"
      by (auto simp: advances_def statuses_after_move status_path_def)
  qed (auto simp: advances_def status_path_def)
  show "guarantee advances (updateProgress env k n m meta)"
  proof (rule advances.updateProgress)
    fix w
    have "statuses (after_progress env k n m meta w) = statuses w"
      by (cases "row w k") (auto simp: statuses_def status_of_def table_simps fun_eq_iff)
    then show "advances w (after_progress env k n m meta w)"
      by (auto simp: advances_def status_path_def)
  qed (auto simp: advances_def status_path_def)
qed

section \<open>Cached reads\<close>

lemma statusKey_inject [simp]: "statusKey a = statusKey b \<longleftrightarrow> a = b"
  by (simp add: statusKey_def)

lemma loadFromDb_total: "\<exists>s w'. loadFromDb env k w = (Inr s, w')"
  by (auto simp: loadFromDb_def io_try_def split: prod.splits sum.splits)

lemma getCachedStatus_total: "\<exists>s w'. getCachedStatus env k w = (Inr s, w')"
  using loadFromDb_total
  by (auto simp: getCachedStatus_def io_simps split: prod.splits sum.splits option.splits)

lemma loadFromDb_keeps_videos: "guarantee (keeps w_videos) (loadFromDb env k)"
  unfolding loadFromDb_def
  by (auto intro!: keeps_videos.world_rules keeps_videos.db_find keeps_videos.cache_set
      simp: keeps_def split: option.split)

lemma getCachedStatus_keeps_videos: "guarantee (keeps w_videos) (getCachedStatus env k)"
  unfolding getCachedStatus_def parse_cached_def
  by (auto intro!: keeps_videos.world_rules keeps_videos.cache_get loadFromDb_keeps_videos
      split: option.split cache_value.split)

text \<open>The entry a key holds, if it has not expired at time \<open>t\<close>.\<close>

definition live_entry :: "world \<Rightarrow> string \<Rightarrow> instant \<Rightarrow> cache_value option" where
  "live_entry w k t =
     (case w_cache w (statusKey k) of
        None \<Rightarrow> None
      | Some c \<Rightarrow> if t < c_expires c then Some (c_value c) else None)"

lemma getCachedStatus_hit:
  assumes "up env Redis" and "live_entry w k (w_now (ticked env w)) = Some (Serialized s)"
  shows "getCachedStatus env k w = (Inr (Some s), ticked env w)"
  using assms
  by (auto simp: getCachedStatus_def redis_get_def io_simps parse_cached_def
      live_entry_def split: option.splits if_splits)

lemma getCachedStatus_miss:
  assumes "up env Redis" and "live_entry w k (w_now (ticked env w)) = None"
  shows "getCachedStatus env k w = loadFromDb env k (ticked env w)"
  using assms
  by (auto simp: getCachedStatus_def redis_get_def io_simps
      live_entry_def split: option.splits if_splits)

text \<open>The state after a snapshot was stored.\<close>

definition stored :: "env \<Rightarrow> string \<Rightarrow> status_snapshot \<Rightarrow> world \<Rightarrow> world" where
  "stored env k s w = (ticked env w)\<lparr>w_cache := (w_cache w)(statusKey k \<mapsto>
     \<lparr>c_value = Serialized s, c_expires = w_now (ticked env w) + CACHE_TTL_SECONDS * 1000\<rparr>)\<rparr>"

lemma loadFromDb_up:
  assumes "up env Redis" and "up env Database"
  shows "loadFromDb env k w =
    (case row w k of
       None \<Rightarrow> (Inr None, ticked env w)
     | Some v \<Rightarrow>
         (let s = snapshot_of v (w_now (ticked env w))
          in (Inr (Some s), stored env k s (ticked env w))))"
  using assms
  by (auto simp: loadFromDb_def db_find_video_def redis_set_def io_simps current_time_def stored_def row_def Let_def split: option.splits)

lemma live_stored:
  "live_entry (stored env k s w) k t =
     (if t < w_now (ticked env w) + CACHE_TTL_SECONDS * 1000 then Some (Serialized s) else None)"
  by (simp add: live_entry_def stored_def)

lemma now_stored [simp]: "w_now (stored env k s w) = w_now (ticked env w)"
  by (simp add: stored_def)

end
