(* ===== verification/Video_Dto.thy ===== *)
theory Video_Dto
  imports Entities
begin

text \<open>
  The response objects of the video endpoints (modules/videos/dto) and their construction
  from a row.
\<close>

section \<open>VideoResponseDto\<close>

record generation_params_dto =
  gp_width :: "int option"
  gp_height :: "int option"
  gp_fps :: "int option"
  gp_model :: "string option"

record video_response_dto =
  vr_id :: string
  vr_title :: string
  vr_prompt :: string
  vr_negativePrompt :: "string option"
  vr_status :: video_status
  vr_queueJobId :: "string option"
  vr_videoUrl :: "string option"
  vr_thumbnailUrl :: "string option"
  vr_durationSeconds :: "int option"
  vr_generationParams :: generation_params_dto
  vr_errorMessage :: "string option"
  vr_createdAt :: instant
  vr_updatedAt :: instant

definition video_response_from :: "video \<Rightarrow> video_response_dto" where
  "video_response_from v =
     \<lparr>vr_id = v_id v, vr_title = v_title v, vr_prompt = v_prompt v,
      vr_negativePrompt = v_negativePrompt v, vr_status = v_status v,
      vr_queueJobId = v_queueJobId v, vr_videoUrl = v_videoUrl v,
      vr_thumbnailUrl = v_thumbnailUrl v, vr_durationSeconds = v_durationSeconds v,
      vr_generationParams =
        \<lparr>gp_width = v_width v, gp_height = v_height v, gp_fps = v_fps v, gp_model = v_model v\<rparr>,
      vr_errorMessage = v_errorMessage v, vr_createdAt = v_createdAt v,
      vr_updatedAt = v_updatedAt v\<rparr>"

section \<open>VideoStatusResponseDto\<close>

record video_progress_dto =
  vp_percent :: jval
  vp_message :: jval
  vp_estimatedSecondsRemaining :: "jval option"

record video_status_response_dto =
  vs_id :: string
  vs_status :: video_status
  vs_queueJobId :: "string option"
  vs_createdAt :: instant
  vs_updatedAt :: instant
  vs_progress :: "video_progress_dto option"
  vs_errorMessage :: "string option"
  vs_resultReady :: bool

text \<open>The default message ends with the ellipsis character, three bytes in UTF-8.\<close>

definition processing_message :: string where
  "processing_message = ''Processing'' @ [CHR 0xE2, CHR 0x80, CHR 0xA6]"

definition video_status_response_from :: "video \<Rightarrow> video_status_response_dto" where
  "video_status_response_from v =
     \<lparr>vs_id = v_id v, vs_status = v_status v, vs_queueJobId = v_queueJobId v,
      vs_createdAt = v_createdAt v, vs_updatedAt = v_updatedAt v,
      vs_progress =
        (if v_status v = PROCESSING
         then Some \<lparr>vp_percent = nullish (opt_get (v_metadata v) ''progressPercent'') (JNum 0),
                    vp_message = nullish (opt_get (v_metadata v) ''progressMessage'') (JStr processing_message),
                    vp_estimatedSecondsRemaining = opt_get (v_metadata v) ''estimatedSecondsRemaining''\<rparr>
         else None),
      vs_errorMessage = v_errorMessage v,
      vs_resultReady = (v_status v = COMPLETED)\<rparr>"

section \<open>PaginatedVideosDto\<close>

text \<open>The result of a JavaScript division that was rounded up: a number, or not finite.\<close>

datatype js_number = Fin int | PosInf | NaN

definition js_ceil_quotient :: "nat \<Rightarrow> int \<Rightarrow> js_number" where
  "js_ceil_quotient count limit =
     (if limit = 0 then (if count = 0 then NaN else PosInf)
      else Fin (if 0 < limit then ceil_div (int count) limit else - (int count div (- limit))))"

text \<open>\<open>page < n\<close> on numbers.\<close>

fun js_less :: "int \<Rightarrow> js_number \<Rightarrow> bool" where
  "js_less page (Fin n) = (page < n)"
| "js_less page PosInf = True"
| "js_less page NaN = False"

record pagination_meta_dto =
  pm_total :: nat
  pm_page :: int
  pm_limit :: int
  pm_totalPages :: js_number
  pm_hasNextPage :: bool
  pm_hasPreviousPage :: bool

record paginated_videos_dto =
  pv_items :: "video_response_dto list"
  pv_meta :: pagination_meta_dto

section \<open>VideoResultDto\<close>

record video_file_meta_dto =
  vf_contentType :: string
  vf_sizeBytes :: jval
  vf_durationSeconds :: int
  vf_width :: "int option"
  vf_height :: "int option"
  vf_fps :: "int option"

record video_result_dto =
  vd_videoId :: string
  vd_downloadUrl :: string
  vd_thumbnailUrl :: "string option"
  vd_expiresInSeconds :: int
  vd_expiresAt :: string
  vd_file :: video_file_meta_dto

end
