(* ===== verification/Url.thy ===== *)
theory Url
  imports Prelude
begin

text \<open>
  What the code uses of the \<open>URL\<close> class of the platform: \<open>new URL(s).pathname\<close> for URLs of a
  special scheme with an authority (http, https, ws, wss, ftp), as the URL standard parses
  them. The host parser (IDNA) and the other schemes are parameters. \<open>None\<close> is the
  \<open>TypeError\<close> the constructor throws.
\<close>

section \<open>Parsing\<close>

record url_lib =
  u_host_ok :: "string \<Rightarrow> bool"
  u_other :: "string \<Rightarrow> string option"

definition code :: "char \<Rightarrow> nat" where
  "code c = of_char c"

definition c0_or_space :: "char \<Rightarrow> bool" where
  "c0_or_space c \<longleftrightarrow> code c \<le> 32"

definition tab_or_newline :: "char \<Rightarrow> bool" where
  "tab_or_newline c \<longleftrightarrow> code c \<in> {9, 10, 13}"

definition url_clean :: "string \<Rightarrow> string" where
  "url_clean s =
     filter (\<lambda>c. \<not> tab_or_newline c)
       (rev (dropWhile c0_or_space (rev (dropWhile c0_or_space s))))"

definition slash :: "char \<Rightarrow> bool" where
  "slash c \<longleftrightarrow> c = CHR ''/'' \<or> c = CHR 0x5C"

definition ends_authority :: "char \<Rightarrow> bool" where
  "ends_authority c \<longleftrightarrow> slash c \<or> c = CHR ''?'' \<or> c = CHR ''#''"

definition ends_path :: "char \<Rightarrow> bool" where
  "ends_path c \<longleftrightarrow> c = CHR ''?'' \<or> c = CHR ''#''"

definition lower_char :: "char \<Rightarrow> char" where
  "lower_char c = (if 65 \<le> code c \<and> code c \<le> 90 then char_of (code c + 32) else c)"

definition special_schemes :: "string list" where
  "special_schemes = [''http'', ''https'', ''ws'', ''wss'', ''ftp'']"

definition hex_digit :: "nat \<Rightarrow> char" where
  "hex_digit n = (if n < 10 then char_of (48 + n) else char_of (55 + n))"

definition in_path_encode_set :: "char \<Rightarrow> bool" where
  "in_path_encode_set c \<longleftrightarrow>
     code c \<le> 32 \<or> 126 < code c \<or> code c \<in> {34, 35, 60, 62, 63, 94, 96, 123, 125}"

definition percent_encode :: "string \<Rightarrow> string" where
  "percent_encode s = concat (map (\<lambda>c.
     if in_path_encode_set c then [CHR ''%'', hex_digit (code c div 16), hex_digit (code c mod 16)]
     else [c]) s)"

definition single_dot :: "string \<Rightarrow> bool" where
  "single_dot s \<longleftrightarrow> map lower_char s \<in> {''.'', ''%2e''}"

definition double_dot :: "string \<Rightarrow> bool" where
  "double_dot s \<longleftrightarrow> map lower_char s \<in> {''..'', ''.%2e'', ''%2e.'', ''%2e%2e''}"

text \<open>The segments between slashes.\<close>

fun split_slash :: "string \<Rightarrow> string list" where
  "split_slash [] = [[]]"
| "split_slash (c # s) =
     (if slash c then [] # split_slash s
      else case split_slash s of [] \<Rightarrow> [[c]] | seg # segs \<Rightarrow> (c # seg) # segs)"

fun path_segments :: "string list \<Rightarrow> string list \<Rightarrow> string list" where
  "path_segments [] acc = acc"
| "path_segments [s] acc =
     (if double_dot s then butlast acc @ [[]]
      else if single_dot s then acc @ [[]]
      else acc @ [percent_encode s])"
| "path_segments (s # t # rest) acc =
     path_segments (t # rest)
       (if double_dot s then butlast acc
        else if single_dot s then acc
        else acc @ [percent_encode s])"

definition render_path :: "string list \<Rightarrow> string" where
  "render_path segs = concat (map (\<lambda>s. CHR ''/'' # s) segs)"

text \<open>The host and port part of an authority: what follows the last @ sign.\<close>

definition host_port :: "string \<Rightarrow> string" where
  "host_port auth = rev (takeWhile (\<lambda>c. c \<noteq> CHR ''@'') (rev auth))"

definition valid_authority :: "url_lib \<Rightarrow> string \<Rightarrow> bool" where
  "valid_authority lib auth \<longleftrightarrow> host_port auth \<noteq> [] \<and> u_host_ok lib (host_port auth)"

definition url_pathname :: "url_lib \<Rightarrow> string \<Rightarrow> string option" where
  "url_pathname lib input =
     (let s = url_clean input;
          scheme = map lower_char (takeWhile (\<lambda>c. c \<noteq> CHR '':'') s);
          rest = dropWhile slash (drop (Suc (length scheme)) s);
          auth = takeWhile (\<lambda>c. \<not> ends_authority c) rest;
          after = dropWhile (\<lambda>c. \<not> ends_authority c) rest;
          path = takeWhile (\<lambda>c. \<not> ends_path c) after;
          body = (case path of [] \<Rightarrow> [] | c # p \<Rightarrow> if slash c then p else path)
      in if scheme \<notin> set special_schemes \<or> CHR '':'' \<notin> set s then u_other lib s
         else if \<not> valid_authority lib auth then None
         else Some (render_path (path_segments (split_slash body) [])))"

section \<open>Plain URLs\<close>

text \<open>
  The characters of identifiers, bucket names and object keys the services build: letters,
  digits, hyphen, underscore and dot.
\<close>

definition plain_char :: "char \<Rightarrow> bool" where
  "plain_char c \<longleftrightarrow>
     48 \<le> code c \<and> code c \<le> 57 \<or> 65 \<le> code c \<and> code c \<le> 90 \<or> 97 \<le> code c \<and> code c \<le> 122 \<or>
     code c \<in> {45, 46, 95}"

text \<open>A segment of plain characters that is not empty and not a dot segment.\<close>

definition plain_segment :: "string \<Rightarrow> bool" where
  "plain_segment s \<longleftrightarrow> s \<noteq> [] \<and> (\<forall>c \<in> set s. plain_char c) \<and> s \<noteq> ''.'' \<and> s \<noteq> ''..''"

text \<open>Segments joined by slashes.\<close>

fun join_slash :: "string list \<Rightarrow> string" where
  "join_slash [] = []"
| "join_slash [s] = s"
| "join_slash (s # t # rest) = s @ CHR ''/'' # join_slash (t # rest)"

section \<open>Parsing of plain URLs\<close>

lemma char_code: "c = d \<longleftrightarrow> code c = code d"
  by (simp add: code_def)

lemma slash_code: "slash c \<longleftrightarrow> code c = 47 \<or> code c = 92"
  by (simp add: slash_def char_code) (simp add: code_def)

lemma ends_authority_code: "ends_authority c \<longleftrightarrow> code c \<in> {47, 92, 63, 35}"
  unfolding ends_authority_def slash_code
  by (simp add: char_code [of c "CHR ''?''"] char_code [of c "CHR ''#''"]) (simp add: code_def)

lemma ends_path_code: "ends_path c \<longleftrightarrow> code c \<in> {63, 35}"
  unfolding ends_path_def
  by (simp add: char_code [of c "CHR ''?''"] char_code [of c "CHR ''#''"]) (simp add: code_def)

lemma plain_charD:
  assumes "plain_char c"
  shows "\<not> slash c" "\<not> ends_authority c" "\<not> ends_path c" "32 < code c"
    "\<not> in_path_encode_set c" "c \<noteq> CHR ''%''" "c \<noteq> CHR ''/''" "c \<noteq> CHR ''@''"
proof -
  show "\<not> slash c" using assms by (auto simp: plain_char_def slash_code)
  then show "c \<noteq> CHR ''/''" by (auto simp: slash_def)
  show "\<not> ends_authority c" using assms by (auto simp: plain_char_def ends_authority_code)
  show "\<not> ends_path c" using assms by (auto simp: plain_char_def ends_path_code)
  show "32 < code c" using assms by (auto simp: plain_char_def)
  show "\<not> in_path_encode_set c" using assms by (auto simp: plain_char_def in_path_encode_set_def)
  show "c \<noteq> CHR ''%''" "c \<noteq> CHR ''@''" using assms by (auto simp: plain_char_def code_def)
qed

lemma lower_char_fixed:
  assumes "code d < 65 \<or> 122 < code d"
  shows "lower_char c = d \<longleftrightarrow> c = d"
proof -
  have "code (char_of (code c + 32)) = code c + 32" if "code c \<le> 90"
    using that by (simp add: code_def of_char_of take_bit_eq_mod)
  with assms show ?thesis by (auto simp: lower_char_def char_code)
qed

lemma plain_not_dots:
  assumes "plain_segment s"
  shows "\<not> single_dot s" and "\<not> double_dot s"
proof -
  have dot: "lower_char c = CHR ''.'' \<longleftrightarrow> c = CHR ''.''" for c
    by (rule lower_char_fixed) (simp add: code_def)
  have pct: "lower_char c = CHR ''%'' \<longleftrightarrow> c = CHR ''%''" for c
    by (rule lower_char_fixed) (simp add: code_def)
  have no_pct: "CHR ''%'' \<notin> set s" using assms by (auto simp: plain_segment_def dest: plain_charD(6))
  have no_pct': "CHR ''%'' \<notin> set (map lower_char s)"
  proof
    assume "CHR ''%'' \<in> set (map lower_char s)"
    then obtain c where "c \<in> set s" and "CHR ''%'' = lower_char c" by (metis imageE list.set_map)
    from \<open>CHR ''%'' = lower_char c\<close> [symmetric] have "c = CHR ''%''" by (rule pct [THEN iffD1])
    with \<open>c \<in> set s\<close> no_pct show False by blast
  qed
  have "map lower_char s \<noteq> ''.''"
  proof
    assume "map lower_char s = ''.''"
    then have "s = ''.''" by (auto simp: dot)
    with assms show False by (simp add: plain_segment_def)
  qed
  moreover have "map lower_char s \<noteq> ''..''"
  proof
    assume "map lower_char s = ''..''"
    then have "s = ''..''" by (auto simp: dot)
    with assms show False by (simp add: plain_segment_def)
  qed
  ultimately show "\<not> single_dot s" "\<not> double_dot s"
    using no_pct' by (auto simp: single_dot_def double_dot_def)
qed

lemma percent_encode_plain: "\<forall>c \<in> set s. plain_char c \<Longrightarrow> percent_encode s = s"
  by (induction s) (auto simp: percent_encode_def dest: plain_charD(5))

lemma split_slash_nonempty: "split_slash s \<noteq> []"
  by (induction s) (auto split: list.splits)

lemma split_slash_append:
  assumes "\<forall>c \<in> set s. \<not> slash c"
  shows "split_slash (s @ CHR ''/'' # t) = s # split_slash t"
  using assms by (induction s) (auto simp: slash_def)

lemma split_slash_single: "\<forall>c \<in> set s. \<not> slash c \<Longrightarrow> split_slash s = [s]"
  by (induction s) auto

lemma split_join:
  assumes "segs \<noteq> []" and "\<forall>s \<in> set segs. plain_segment s"
  shows "split_slash (join_slash segs) = segs"
  using assms
proof (induction segs rule: join_slash.induct)
  case 1
  then show ?case by simp
next
  case (2 s)
  then show ?case by (auto simp: plain_segment_def intro!: split_slash_single dest: plain_charD(1))
next
  case (3 s t rest)
  then have "\<forall>c \<in> set s. \<not> slash c" by (auto simp: plain_segment_def dest: plain_charD(1))
  with 3 show ?case by (simp add: split_slash_append)
qed

lemma path_segments_plain:
  assumes "\<forall>s \<in> set segs. plain_segment s"
  shows "path_segments segs acc = acc @ segs"
  using assms
  by (induction segs acc rule: path_segments.induct)
    (auto simp: plain_not_dots percent_encode_plain plain_segment_def)

lemma render_join: "segs \<noteq> [] \<Longrightarrow> render_path segs = CHR ''/'' # join_slash segs"
  by (induction segs rule: join_slash.induct) (auto simp: render_path_def)

lemma join_slash_chars:
  assumes "\<forall>s \<in> set segs. plain_segment s" and "c \<in> set (join_slash segs)"
  shows "plain_char c \<or> c = CHR ''/''"
  using assms by (induction segs rule: join_slash.induct) (auto simp: plain_segment_def)

lemma url_clean_id:
  assumes "\<forall>c \<in> set s. 32 < code c"
  shows "url_clean s = s"
proof -
  have skip: "dropWhile c0_or_space t = t" if "\<forall>c \<in> set t. 32 < code c" for t
    using that by (cases t) (auto simp: c0_or_space_def)
  have "filter (\<lambda>c. \<not> tab_or_newline c) s = s"
    using assms by (auto simp: filter_id_conv tab_or_newline_def)
  with skip [of s] skip [of "rev s"] assms show ?thesis by (simp add: url_clean_def)
qed

text \<open>A host name with an optional port.\<close>

definition host_name :: "string \<Rightarrow> bool" where
  "host_name h \<longleftrightarrow> h \<noteq> [] \<and> (\<forall>c \<in> set h. plain_char c \<or> c = CHR '':'')"

lemma host_char:
  assumes "plain_char c \<or> c = CHR '':''"
  shows "\<not> ends_authority c" and "32 < code c" and "\<not> slash c" and "c \<noteq> CHR ''@''"
  using assms by (auto dest: plain_charD simp: ends_authority_code slash_code) (auto simp: code_def)

lemma path_char:
  assumes "plain_char c \<or> c = CHR ''/''"
  shows "32 < code c" and "\<not> ends_path c"
  using assms by (auto dest: plain_charD simp: ends_path_code) (auto simp: code_def)

lemma url_pathname_plain:
  assumes scheme: "scheme = ''http'' \<or> scheme = ''https''"
    and host: "host_name host" "u_host_ok lib host"
    and segs: "segs \<noteq> []" "\<forall>s \<in> set segs. plain_segment s"
  shows "url_pathname lib (scheme @ ''://'' @ host @ ''/'' @ join_slash segs) =
    Some (CHR ''/'' # join_slash segs)"
proof -
  let ?p = "join_slash segs"
  let ?u = "scheme @ ''://'' @ host @ ''/'' @ ?p"
  have p: "\<forall>c \<in> set ?p. 32 < code c \<and> \<not> ends_path c"
    using join_slash_chars [OF segs(2)] path_char by blast
  have h: "\<forall>c \<in> set host. 32 < code c \<and> \<not> ends_authority c \<and> \<not> slash c \<and> c \<noteq> CHR ''@''"
  proof
    fix c
    assume "c \<in> set host"
    with host(1) have "plain_char c \<or> c = CHR '':''" by (simp add: host_name_def)
    from host_char [OF this]
    show "32 < code c \<and> \<not> ends_authority c \<and> \<not> slash c \<and> c \<noteq> CHR ''@''" by simp
  qed
  have clean: "url_clean ?u = ?u"
  proof (rule url_clean_id)
    have "\<forall>c \<in> set (scheme @ ''://''). 32 < code c" "32 < code (CHR ''/'')"
      using scheme by (auto simp: code_def)
    with p h show "\<forall>c \<in> set ?u. 32 < code c" by auto
  qed
  have sch: "map lower_char (takeWhile (\<lambda>c. c \<noteq> CHR '':'') ?u) = scheme"
    using scheme by (auto simp: lower_char_def code_def)
  have rest: "dropWhile slash (drop (Suc (length scheme)) ?u) = host @ CHR ''/'' # ?p"
  proof -
    have "dropWhile slash (host @ CHR ''/'' # ?p) = host @ CHR ''/'' # ?p"
      using h host(1) by (cases host) (auto simp: host_name_def)
    with scheme show ?thesis by (auto simp: slash_def)
  qed
  have auth: "takeWhile (\<lambda>c. \<not> ends_authority c) (host @ CHR ''/'' # ?p) = host"
      "dropWhile (\<lambda>c. \<not> ends_authority c) (host @ CHR ''/'' # ?p) = CHR ''/'' # ?p"
    using h by (auto simp: takeWhile_append dropWhile_append ends_authority_def slash_def)
  have path: "takeWhile (\<lambda>c. \<not> ends_path c) (CHR ''/'' # ?p) = CHR ''/'' # ?p"
    unfolding takeWhile_eq_all_conv using p by (simp add: ends_path_def)
  have hp: "host_port host = host"
  proof -
    have "takeWhile (\<lambda>c. c \<noteq> CHR ''@'') (rev host) = rev host"
      unfolding takeWhile_eq_all_conv using h by simp
    then show ?thesis by (simp only: host_port_def rev_rev_ident)
  qed
  have "render_path (path_segments (split_slash ?p) []) = CHR ''/'' # ?p"
    using segs by (simp add: split_join path_segments_plain render_join)
  moreover have "scheme \<in> set special_schemes" "CHR '':'' \<in> set ?u"
    using scheme by (auto simp: special_schemes_def)
  moreover have "valid_authority lib host"
    using host by (simp add: valid_authority_def hp host_name_def)
  ultimately show ?thesis
    unfolding url_pathname_def Let_def clean sch rest auth path by (simp add: slash_def)
qed

end
