(* ===== verification/Storage.thy ===== *)
theory Storage
  imports World Url
begin

text \<open>
  \<open>StorageService\<close> (modules/storage/storage.service.ts): uploads with retries and exponential
  backoff, downloads of a source URL, presigned URLs and the public URL of an object. The
  operations a worker or a video service uses are collected in a record, the contract
  \<open>IStorageService\<close>.
\<close>

section \<open>Operations\<close>

definition MAX_RETRY_ATTEMPTS :: nat where
  "MAX_RETRY_ATTEMPTS = 3"

definition BASE_RETRY_DELAY_MS :: int where
  "BASE_RETRY_DELAY_MS = 200"

text \<open>The values of the configuration the service reads.\<close>

record storage_config =
  sc_bucket :: "string option"
  sc_endpoint :: "string option"
  sc_region :: "string option"

definition bucket_of :: "storage_config \<Rightarrow> string" where
  "bucket_of cfg = or_else (sc_bucket cfg) ''ai-gen-video-storage''"

definition getPublicUrl :: "storage_config \<Rightarrow> string \<Rightarrow> string" where
  "getPublicUrl cfg key =
     (if truthy (sc_endpoint cfg)
      then the (sc_endpoint cfg) @ ''/'' @ bucket_of cfg @ ''/'' @ key
      else ''https://'' @ bucket_of cfg @ ''.s3.'' @ or_else (sc_region cfg) ''us-east-1'' @
           ''.amazonaws.com/'' @ key)"

text \<open>The loop of \<open>withRetry\<close> from one attempt on.\<close>

function retry_from :: "'a act \<Rightarrow> nat \<Rightarrow> nat \<Rightarrow> exn \<Rightarrow> 'a act" where
  "retry_from operation maxAttempts attempt lastError =
     (if attempt \<le> maxAttempts
      then io_try operation (\<lambda>error.
             if attempt < maxAttempts
             then io_seq (sleep (BASE_RETRY_DELAY_MS * 2 ^ (attempt - 1)))
                         (retry_from operation maxAttempts (attempt + 1) error)
             else retry_from operation maxAttempts (attempt + 1) error)
      else io_raise lastError)"
  by pat_completeness auto
termination
  by (relation "measure (\<lambda>(operation, maxAttempts, attempt, lastError). Suc maxAttempts - attempt)") auto

declare retry_from.simps [simp del]

definition withRetry :: "'a act \<Rightarrow> nat \<Rightarrow> 'a act" where
  "withRetry operation maxAttempts =
     retry_from operation maxAttempts 1 (JsError ''S3 operation failed after all retry attempts'')"

definition s3_put :: "env \<Rightarrow> string \<Rightarrow> string \<Rightarrow> string \<Rightarrow> unit act" where
  "s3_put env key buffer contentType =
     external env S3 (io_modify (\<lambda>w. w\<lparr>w_objects := (w_objects w)(key \<mapsto> (buffer, contentType))\<rparr>))"

definition s3_delete :: "env \<Rightarrow> string \<Rightarrow> unit act" where
  "s3_delete env key =
     external env S3 (io_modify (\<lambda>w. w\<lparr>w_objects := (w_objects w)(key := None)\<rparr>))"

definition uploadBuffer ::
  "env \<Rightarrow> storage_config \<Rightarrow> string \<Rightarrow> string \<Rightarrow> string \<Rightarrow> string act" where
  "uploadBuffer env cfg buffer key contentType =
     io_try
       (io_seq (withRetry (s3_put env key buffer contentType) MAX_RETRY_ATTEMPTS)
               (io_return (getPublicUrl cfg key)))
       (\<lambda>error. io_raise (InternalServerErrorException (''S3 upload failed for key: '' @ key)))"

definition downloadToBuffer :: "env \<Rightarrow> string \<Rightarrow> string act" where
  "downloadToBuffer env url =
     io_bind (external env Https (io_return (e_http env url))) (\<lambda>(statusCode, body).
     case statusCode of
       None \<Rightarrow> io_return body
     | Some c \<Rightarrow>
         if c \<ge> 400
         then io_raise (JsError (''HTTP '' @ show_nat c @ '' downloading '' @ url))
         else io_return body)"

definition uploadFromUrl :: "env \<Rightarrow> storage_config \<Rightarrow> string \<Rightarrow> string \<Rightarrow> string act" where
  "uploadFromUrl env cfg sourceUrl key =
     io_bind
       (io_try (downloadToBuffer env sourceUrl)
          (\<lambda>error. io_raise (InternalServerErrorException ''Failed to fetch video from source URL'')))
       (\<lambda>buffer. uploadBuffer env cfg buffer key ''video/mp4'')"

definition getPresignedUploadUrl :: "env \<Rightarrow> storage_config \<Rightarrow> string \<Rightarrow> int \<Rightarrow> string act" where
  "getPresignedUploadUrl env cfg key expiresIn =
     io_try
       (external env S3 (io_return (e_sign env (PutObject (bucket_of cfg) key) expiresIn)))
       (\<lambda>error. io_raise (InternalServerErrorException ''Failed to generate upload URL''))"

text \<open>\<open>Math.min(Math.max(expiresIn, 60), 86400)\<close>\<close>

definition clamp_expiry :: "int \<Rightarrow> int" where
  "clamp_expiry expiresIn = min (max expiresIn 60) 86400"

definition getPresignedDownloadUrl :: "env \<Rightarrow> storage_config \<Rightarrow> string \<Rightarrow> int \<Rightarrow> string act" where
  "getPresignedDownloadUrl env cfg key expiresIn =
     (let clampedExpiry = clamp_expiry expiresIn
      in io_try
           (external env S3 (io_return (e_sign env (GetObject (bucket_of cfg) key) clampedExpiry)))
           (\<lambda>error. io_raise (InternalServerErrorException ''Failed to generate download URL'')))"

definition deleteObject :: "env \<Rightarrow> storage_config \<Rightarrow> string \<Rightarrow> unit act" where
  "deleteObject env cfg key =
     io_try (withRetry (s3_delete env key) MAX_RETRY_ATTEMPTS)
       (\<lambda>error. io_raise (InternalServerErrorException (''S3 delete failed for key: '' @ key)))"

section \<open>The contract as an interface\<close>

record storage_service =
  st_uploadBuffer :: "string \<Rightarrow> string \<Rightarrow> string \<Rightarrow> string act"
  st_uploadFromUrl :: "string \<Rightarrow> string \<Rightarrow> string act"
  st_getPresignedUploadUrl :: "string \<Rightarrow> int \<Rightarrow> string act"
  st_getPresignedDownloadUrl :: "string \<Rightarrow> int \<Rightarrow> string act"
  st_deleteObject :: "string \<Rightarrow> unit act"

definition storageService :: "env \<Rightarrow> storage_config \<Rightarrow> storage_service" where
  "storageService env cfg =
     \<lparr>st_uploadBuffer = uploadBuffer env cfg, st_uploadFromUrl = uploadFromUrl env cfg,
      st_getPresignedUploadUrl = getPresignedUploadUrl env cfg,
      st_getPresignedDownloadUrl = getPresignedDownloadUrl env cfg,
      st_deleteObject = deleteObject env cfg\<rparr>"

section \<open>Retries\<close>

context world_preorder
begin

lemma retry:
  assumes "guarantee R operation"
  shows "guarantee R (retry_from operation m a e)"
  using assms
proof (induction operation m a e rule: retry_from.induct)
  case (1 operation m a e)
  then show ?case
    by (subst retry_from.simps) (auto intro!: world_rules)
qed

end

text \<open>If every failed try restores \<open>I\<close>, so does the whole loop, and its success is a success of the operation.\<close>

lemma triple_retry:
  assumes "triple I operation Q (\<lambda>_. I)" and "\<And>w t. I w \<Longrightarrow> I (w\<lparr>w_now := t\<rparr>)"
  shows "triple I (retry_from operation m a e) Q (\<lambda>_. I)"
  using assms
proof (induction operation m a e rule: retry_from.induct)
  case (1 operation m a e)
  have nap: "triple I (sleep n) (\<lambda>_. I) (\<lambda>_. I)" for n
    unfolding sleep_def by (rule triple_modify) (rule "1.prems"(2))
  show ?case
  proof (cases "a \<le> m")
    case False
    then show ?thesis by (subst retry_from.simps) (simp add: triple_raise)
  next
    case True
    have step: "triple I (if a < m
            then io_seq (sleep (BASE_RETRY_DELAY_MS * 2 ^ (a - 1))) (retry_from operation m (a + 1) e')
            else retry_from operation m (a + 1) e') Q (\<lambda>_. I)" for e'
      using True "1.IH" "1.prems" by (auto intro: triple_seq [OF nap])
    show ?thesis
      by (subst retry_from.simps) (simp add: True triple_try [OF "1.prems"(1) step])
  qed
qed

text \<open>How many calls a loop of at most \<open>k\<close> tries makes when the next call has number \<open>n\<close>.\<close>

fun tries :: "(nat \<Rightarrow> outcome) \<Rightarrow> nat \<Rightarrow> nat \<Rightarrow> nat" where
  "tries f n 0 = 0"
| "tries f n (Suc k) = (if f n = Served then 1 else Suc (tries f (Suc n) k))"

lemma tries_le: "tries f n k \<le> k"
  by (induction k arbitrary: n) auto

lemma served_within: "(\<exists>i < Suc k. f (n + i) = Served) \<longleftrightarrow> f n = Served \<or> (\<exists>i < k. f (Suc n + i) = Served)"
  by (auto simp: less_Suc_eq_0_disj)

text \<open>The milliseconds slept between \<open>t\<close> tries, the first of which is attempt \<open>a\<close>.\<close>

definition backoff :: "nat \<Rightarrow> nat \<Rightarrow> int" where
  "backoff a t = (\<Sum>i < t - 1. BASE_RETRY_DELAY_MS * 2 ^ (a - 1 + i))"

definition latency :: "env \<Rightarrow> nat \<Rightarrow> nat \<Rightarrow> int" where
  "latency env n t = (\<Sum>i < t. int (e_latency env (n + i)))"

lemma latency_Suc: "latency env n (Suc t) = int (e_latency env n) + latency env (Suc n) t"
  by (simp add: latency_def sum.lessThan_Suc_shift del: sum.lessThan_Suc)

lemma backoff_Suc:
  assumes "1 \<le> a" and "0 < t"
  shows "backoff a (Suc t) = BASE_RETRY_DELAY_MS * 2 ^ (a - 1) + backoff (Suc a) t"
proof -
  obtain u where "t = Suc u" using assms(2) by (cases t) auto
  moreover obtain b where "a = Suc b" using assms(1) by (cases a) auto
  ultimately show ?thesis
    by (simp add: backoff_def sum.lessThan_Suc_shift del: sum.lessThan_Suc)
qed

lemma backoff_one: "backoff a (Suc 0) = 0"
  by (simp add: backoff_def)

lemma backoff_closed: "backoff 1 t = BASE_RETRY_DELAY_MS * (2 ^ (t - 1) - 1)"
proof -
  have "(\<Sum>i < n. c * 2 ^ i) = c * (2 ^ n - 1)" for n and c :: int
    by (induction n) (auto simp: algebra_simps)
  then show ?thesis by (simp add: backoff_def)
qed

lemma retry_run:
  assumes body: "\<And>w. \<exists>x w'. body w = (Inr x, w') \<and> w_calls w' = w_calls w \<and> w_now w' = w_now w"
    and "k = Suc m - a" and "1 \<le> a" and "0 < k"
    and "retry_from (external env svc body) m a e w = (r, w')"
  shows "(isl r \<longleftrightarrow> (\<forall>i < k. e_outcome env svc (w_calls w + i) \<noteq> Served)) \<and>
    w_calls w' = w_calls w + tries (e_outcome env svc) (w_calls w) k \<and>
    w_now w' = w_now w + latency env (w_calls w) (tries (e_outcome env svc) (w_calls w) k)
      + backoff a (tries (e_outcome env svc) (w_calls w) k)"
  using assms(2-)
proof (induction k arbitrary: a e w)
  case 0
  then show ?case by simp
next
  case (Suc k)
  let ?op = "external env svc body" and ?f = "e_outcome env svc" and ?n = "w_calls w"
  from Suc.prems have am: "a \<le> m" by simp
  have unf: "retry_from ?op m a e w =
      io_try ?op (\<lambda>error. if a < m then io_seq (sleep (BASE_RETRY_DELAY_MS * 2 ^ (a - 1)))
            (retry_from ?op m (a + 1) error) else retry_from ?op m (a + 1) error) w"
    using am by (simp add: retry_from.simps [of ?op m a e])
  show ?case
  proof (cases "?f ?n = Served")
    case True
    obtain x w1 where w1: "body (ticked env w) = (Inr x, w1)" "w_calls w1 = Suc ?n"
      "w_now w1 = w_now (ticked env w)"
      using body [of "ticked env w"] by auto
    with True have "?op w = (Inr x, w1)" by (simp add: external_cases)
    with unf Suc.prems(4) have "r = Inr x" "w' = w1" by (simp_all add: io_try_def)
    with True w1 show ?thesis
      by (auto simp: latency_def backoff_def now_ticked intro!: exI [of _ 0])
  next
    case False
    obtain e1 w1 where w1: "?op w = (Inl e1, w1)" "w_calls w1 = Suc ?n"
      "w_now w1 = w_now (ticked env w)"
      using False body [of "ticked env w"]
      by (cases "?f ?n") (auto simp: external_cases)
    show ?thesis
    proof (cases k)
      case 0
      with Suc.prems have "\<not> a < m" "\<not> a + 1 \<le> m" by simp_all
      with w1 unf Suc.prems(4) have "r = Inl e1" "w' = w1"
        by (simp_all add: io_try_def retry_from.simps [of ?op m "Suc a" e1] io_raise_def)
      with False 0 w1 show ?thesis by (simp add: latency_def backoff_def now_ticked)
    next
      case (Suc k')
      let ?w2 = "w1\<lparr>w_now := w_now w1 + BASE_RETRY_DELAY_MS * 2 ^ (a - 1)\<rparr>"
      from Suc Suc.prems have "a < m" by simp
      with w1 unf Suc.prems(4) have run: "retry_from ?op m (a + 1) e1 ?w2 = (r, w')"
        by (simp add: io_simps sleep_def)
      have IH: "(isl r \<longleftrightarrow> (\<forall>i < k. ?f (w_calls ?w2 + i) \<noteq> Served)) \<and>
          w_calls w' = w_calls ?w2 + tries ?f (w_calls ?w2) k \<and>
          w_now w' = w_now ?w2 + latency env (w_calls ?w2) (tries ?f (w_calls ?w2) k)
            + backoff (a + 1) (tries ?f (w_calls ?w2) k)"
        by (rule Suc.IH [OF _ _ _ run]) (use Suc Suc.prems in auto)
      have pos: "0 < tries ?f (Suc ?n) k" using Suc by simp
      have "(\<forall>i < Suc k. ?f (?n + i) \<noteq> Served) \<longleftrightarrow> (\<forall>i < k. ?f (Suc ?n + i) \<noteq> Served)"
        using False by (auto simp: less_Suc_eq_0_disj)
      with IH w1 False show ?thesis
        using backoff_Suc [OF Suc.prems(2) pos]
        by (simp add: latency_Suc now_ticked)
    qed
  qed
qed

section \<open>The object store a worker relies on\<close>

locale object_store =
  fixes storage :: storage_service
  assumes upload_frame: "guarantee (keeps business_state) (st_uploadFromUrl storage url key)"
    and presign_frame: "guarantee (keeps business_state) (st_getPresignedDownloadUrl storage key ttl)"
begin

lemma store_triple:
  assumes "\<And>w w'. keeps business_state w w' \<Longrightarrow> I w \<Longrightarrow> I w'"
  shows "triple I (st_uploadFromUrl storage url key) (\<lambda>_. I) (\<lambda>_. I)"
    and "triple I (st_getPresignedDownloadUrl storage key ttl) (\<lambda>_. I) (\<lambda>_. I)"
  using assms upload_frame presign_frame
  by (blast intro: tripleI dest: guaranteeD)+

end

lemma s3_put_frame: "guarantee (keeps business_state) (s3_put env key buffer ct)"
  unfolding s3_put_def
  by (intro keeps_business.world_rules keeps_business.modify) (simp add: keeps_def business_state_def)

lemma uploadBuffer_frame: "guarantee (keeps business_state) (uploadBuffer env cfg buffer key ct)"
  unfolding uploadBuffer_def withRetry_def
  by (intro keeps_business.world_rules keeps_business.retry s3_put_frame)

lemma downloadToBuffer_frame: "guarantee (keeps business_state) (downloadToBuffer env url)"
  unfolding downloadToBuffer_def
  by (auto intro!: keeps_business.world_rules split: option.split prod.split)

lemma storageService_frame:
  "guarantee (keeps business_state) (uploadFromUrl env cfg url key)"
  "guarantee (keeps business_state) (getPresignedDownloadUrl env cfg key ttl)"
  unfolding uploadFromUrl_def getPresignedDownloadUrl_def Let_def
  by (intro keeps_business.world_rules downloadToBuffer_frame uploadBuffer_frame)+

interpretation s3_store: object_store "storageService env cfg" for env cfg
  by unfold_locales (simp_all add: storageService_def storageService_frame)

end
