(* ===== verification/Gateway.thy ===== *)
theory Gateway
  imports World
begin

text \<open>
  \<open>VideoGateway\<close> (modules/gateway/video.gateway.ts): sockets subscribe to the room of a
  video, and every domain event is forwarded to the room of the video it is about.
\<close>

section \<open>Rooms and subscriptions\<close>

definition roomName :: "string \<Rightarrow> string" where
  "roomName videoId = ''video:'' @ videoId"

record socket =
  sk_id :: string
  sk_rooms :: "string list"

record ws_reply =
  re_event :: string
  re_videoId :: string

definition socket_join :: "string \<Rightarrow> 'z socket_scheme \<Rightarrow> 'z socket_scheme" where
  "socket_join room c = c\<lparr>sk_rooms := List.insert room (sk_rooms c)\<rparr>"

definition socket_leave :: "string \<Rightarrow> 'z socket_scheme \<Rightarrow> 'z socket_scheme" where
  "socket_leave room c = c\<lparr>sk_rooms := removeAll room (sk_rooms c)\<rparr>"

definition handleSubscribe :: "string \<Rightarrow> socket \<Rightarrow> ws_reply \<times> socket" where
  "handleSubscribe videoId client =
     (let room = roomName videoId
      in (\<lparr>re_event = ''subscribed'', re_videoId = videoId\<rparr>, socket_join room client))"

definition handleUnsubscribe :: "string \<Rightarrow> socket \<Rightarrow> ws_reply \<times> socket" where
  "handleUnsubscribe videoId client =
     (let room = roomName videoId
      in (\<lparr>re_event = ''unsubscribed'', re_videoId = videoId\<rparr>, socket_leave room client))"

section \<open>Forwarding of domain events\<close>

text \<open>An object literal with an optional string property, which JSON drops when undefined.\<close>

definition opt_str :: "string \<Rightarrow> string option \<Rightarrow> meta \<Rightarrow> meta" where
  "opt_str k s m = (case s of None \<Rightarrow> m | Some v \<Rightarrow> m(k \<mapsto> JStr v))"

text \<open>The payload of each listener, by event.\<close>

fun event_payload :: "video_event \<Rightarrow> meta" where
  "event_payload (VideoCreated vid uid prompt jid) =
     [''videoId'' \<mapsto> JStr vid, ''queueJobId'' \<mapsto> JStr jid]"
| "event_payload (VideoProcessingStarted vid attempt) =
     [''videoId'' \<mapsto> JStr vid, ''attempt'' \<mapsto> JNum attempt]"
| "event_payload (VideoProgressUpdated vid percent message) =
     [''videoId'' \<mapsto> JStr vid, ''percent'' \<mapsto> JNum percent, ''message'' \<mapsto> JStr message]"
| "event_payload (VideoCompleted vid url thumb) =
     opt_str ''thumbnailUrl'' thumb [''videoId'' \<mapsto> JStr vid, ''videoUrl'' \<mapsto> JStr url]"
| "event_payload (VideoFailed vid message attempts) =
     [''videoId'' \<mapsto> JStr vid, ''errorMessage'' \<mapsto> JStr message, ''attemptsMade'' \<mapsto> JNum attempts]"

definition gateway_message :: "video_event \<Rightarrow> ws_message" where
  "gateway_message ev =
     \<lparr>m_room = roomName (ev_videoId ev), m_event = event_name ev, m_payload = event_payload ev\<rparr>"

definition broadcastToVideo :: "string \<Rightarrow> string \<Rightarrow> meta \<Rightarrow> unit act" where
  "broadcastToVideo videoId event payload = io_modify (\<lambda>w.
     w\<lparr>w_sent := w_sent w @ [\<lparr>m_room = roomName videoId, m_event = event, m_payload = payload\<rparr>]\<rparr>)"

definition on_gateway :: "video_event \<Rightarrow> unit act" where
  "on_gateway ev = io_modify (\<lambda>w. w\<lparr>w_sent := w_sent w @ [gateway_message ev]\<rparr>)"

text \<open>What a socket receives: the messages of the rooms it is in.\<close>

definition received :: "socket \<Rightarrow> ws_message list \<Rightarrow> ws_message list" where
  "received c ms = filter (\<lambda>m. m_room m \<in> set (sk_rooms c)) ms"

section \<open>Lemmas\<close>

lemma roomName_inject [simp]: "roomName a = roomName b \<longleftrightarrow> a = b"
  by (simp add: roomName_def)

lemma subscribe_rooms [simp]:
  "set (sk_rooms (snd (handleSubscribe v c))) = insert (roomName v) (set (sk_rooms c))"
  by (simp add: handleSubscribe_def socket_join_def Let_def)

lemma unsubscribe_rooms [simp]:
  "set (sk_rooms (snd (handleUnsubscribe v c))) = set (sk_rooms c) - {roomName v}"
  by (simp add: handleUnsubscribe_def socket_leave_def Let_def)

lemma payload_videoId [simp]: "event_payload ev ''videoId'' = Some (JStr (ev_videoId ev))"
  by (cases ev) (simp_all add: opt_str_def split: option.split)

lemma gateway_message_sel [simp]:
  "m_room (gateway_message ev) = roomName (ev_videoId ev)"
  "m_event (gateway_message ev) = event_name ev"
  "m_payload (gateway_message ev) = event_payload ev"
  by (simp_all add: gateway_message_def)

text \<open>
  A socket that subscribed and unsubscribed, starting from no rooms, is in the rooms of the
  videos whose last request was a subscription.
\<close>

datatype ws_request = Subscribe string | Unsubscribe string

fun handle_request :: "ws_request \<Rightarrow> socket \<Rightarrow> socket" where
  "handle_request (Subscribe v) c = snd (handleSubscribe v c)"
| "handle_request (Unsubscribe v) c = snd (handleUnsubscribe v c)"

definition handle_requests :: "ws_request list \<Rightarrow> socket \<Rightarrow> socket" where
  "handle_requests rs c = fold handle_request rs c"

fun subscribed :: "string \<Rightarrow> ws_request list \<Rightarrow> bool \<Rightarrow> bool" where
  "subscribed v [] b = b"
| "subscribed v (Subscribe u # rs) b = subscribed v rs (v = u \<or> b)"
| "subscribed v (Unsubscribe u # rs) b = subscribed v rs (b \<and> v \<noteq> u)"

lemma room_after_requests:
  "roomName v \<in> set (sk_rooms (handle_requests rs c)) \<longleftrightarrow>
     subscribed v rs (roomName v \<in> set (sk_rooms c))"
proof (induction rs arbitrary: c)
  case Nil
  then show ?case by (simp add: handle_requests_def)
next
  case (Cons r rs)
  then show ?case
    by (cases r) (auto simp: handle_requests_def)
qed

end
