(* ===== verification/Dlq.thy ===== *)
theory Dlq
  imports World Gateway
begin

text \<open>
  \<open>DlqService\<close> (modules/queue/dlq.service.ts): the dead-letter records of jobs whose final
  attempt failed, the listener that writes them, the listing and the manual retry; and the
  event bus that runs the listeners of an emitted event.
\<close>

section \<open>Statements on the table of dead-letter records\<close>

definition db_find_failed_job :: "env \<Rightarrow> string \<Rightarrow> failed_job option act" where
  "db_find_failed_job env k =
     external env Database (io_gets (\<lambda>w. find_failed_job k (w_failed_jobs w)))"

text \<open>The database generates the identifier and the creation date.\<close>

definition db_insert_failed_job :: "env \<Rightarrow> failed_job \<Rightarrow> failed_job act" where
  "db_insert_failed_job env r = external env Database (\<lambda>w.
     let r' = r\<lparr>f_id := e_uuid env (w_calls w), f_failedAt := w_now w\<rparr>
     in if find_failed_job (f_id r') (w_failed_jobs w) = None
        then (Inr r', w\<lparr>w_failed_jobs := insert_row r' (w_failed_jobs w)\<rparr>)
        else (Inl (JsError ''duplicate key value violates unique constraint''), w))"

definition db_update_failed_job :: "env \<Rightarrow> string \<Rightarrow> (failed_job \<Rightarrow> failed_job) \<Rightarrow> unit act" where
  "db_update_failed_job env k f = external env Database (\<lambda>w.
     (Inr (), w\<lparr>w_failed_jobs := update_key f_id k (\<lambda>_. True) f (w_failed_jobs w)\<rparr>))"

text \<open>
  \<open>ORDER BY ... DESC\<close> with \<open>skip\<close> and \<open>take\<close>. The database rejects negative bounds; a
  \<open>take\<close> of 0 puts no limit on the query.
\<close>

definition select_page :: "('r \<Rightarrow> instant) \<Rightarrow> int \<Rightarrow> int \<Rightarrow> 'r list \<Rightarrow> exn + 'r list" where
  "select_page at skip take_n t =
     (if skip < 0 then Inl (JsError ''OFFSET must not be negative'')
      else if take_n < 0 then Inl (JsError ''LIMIT must not be negative'')
      else if take_n = 0 then Inr (drop (nat skip) (newest_first at t))
      else Inr (page_of (nat skip) (nat take_n) (newest_first at t)))"

section \<open>Operations\<close>

record failed_job_dto =
  fd_id :: string
  fd_videoId :: string
  fd_queueJobId :: "string option"
  fd_errorMessage :: string
  fd_jobName :: string
  fd_attemptsMade :: int
  fd_retried :: bool
  fd_retriedAt :: "string option"
  fd_retryJobId :: "string option"
  fd_failedAt :: string

record paginated_failed_jobs =
  pf_items :: "failed_job_dto list"
  pf_total :: nat
  pf_page :: int
  pf_limit :: int

record retry_failed_job_dto =
  rf_id :: string
  rf_retryJobId :: string
  rf_videoId :: string

definition toDto :: "failed_job \<Rightarrow> failed_job_dto" where
  "toDto r =
     \<lparr>fd_id = f_id r, fd_videoId = f_videoId r, fd_queueJobId = f_queueJobId r,
      fd_errorMessage = f_errorMessage r, fd_jobName = f_jobName r,
      fd_attemptsMade = f_attemptsMade r, fd_retried = f_retried r,
      fd_retriedAt = map_option toISOString (f_retriedAt r),
      fd_retryJobId = f_retryJobId r, fd_failedAt = toISOString (f_failedAt r)\<rparr>"

text \<open>The record of a failure; identifier and date are set by the database.\<close>

definition failed_job_of :: "string \<Rightarrow> string \<Rightarrow> int \<Rightarrow> string option \<Rightarrow> failed_job" where
  "failed_job_of videoId errorMessage attemptsMade queueJobId =
     \<lparr>f_id = [], f_videoId = videoId, f_queueJobId = queueJobId,
      f_errorMessage = errorMessage, f_jobData = [''videoId'' \<mapsto> JStr videoId],
      f_jobName = GENERATE, f_attemptsMade = attemptsMade, f_retried = False,
      f_retriedAt = None, f_retryJobId = None, f_failedAt = 0\<rparr>"

definition onVideoFailed :: "env \<Rightarrow> string \<Rightarrow> string \<Rightarrow> int \<Rightarrow> unit act" where
  "onVideoFailed env videoId errorMessage attemptsMade =
     io_try
       (io_bind (db_find_video env videoId) (\<lambda>video.
        io_bind (db_insert_failed_job env
                   (failed_job_of videoId errorMessage attemptsMade (Option.bind video v_queueJobId)))
          (\<lambda>saved. io_return ())))
       (\<lambda>err. io_return ())"

definition listFailedJobs :: "env \<Rightarrow> int \<Rightarrow> int \<Rightarrow> paginated_failed_jobs act" where
  "listFailedJobs env page limit =
     external env Database (\<lambda>w.
       case select_page f_failedAt ((page - 1) * limit) limit (w_failed_jobs w) of
         Inl e \<Rightarrow> (Inl e, w)
       | Inr items \<Rightarrow>
           (Inr \<lparr>pf_items = map toDto items, pf_total = length (w_failed_jobs w),
                 pf_page = page, pf_limit = limit\<rparr>, w))"

definition reset_fields :: "video \<Rightarrow> video" where
  "reset_fields v =
     v\<lparr>v_status := PENDING, v_errorMessage := None, v_metadata := Some (\<lambda>_. None),
       v_queueJobId := None\<rparr>"

text \<open>The part of \<open>retryFailedJob\<close> after its two guards.\<close>

definition retry_record :: "env \<Rightarrow> string \<Rightarrow> failed_job \<Rightarrow> retry_failed_job_dto act" where
  "retry_record env rid r =
     io_bind (db_update_video env (f_videoId r) (\<lambda>_. True) reset_fields) (\<lambda>_.
     io_bind (queue_add env queue_module_job_defaults GENERATE (f_videoId r)
                \<lparr>o_attempts = Some 3, o_backoff = Some (''exponential'', 5000),
                 o_removeOnComplete = Some 100, o_removeOnFail = Some 500\<rparr>) (\<lambda>job.
     io_bind current_time (\<lambda>now.
     io_bind (db_update_video env (f_videoId r) (\<lambda>_. True)
                (\<lambda>v. v\<lparr>v_queueJobId := Some (j_id job)\<rparr>)) (\<lambda>_.
     io_bind (db_update_failed_job env rid
                (\<lambda>x. x\<lparr>f_retried := True, f_retriedAt := Some now,
                       f_retryJobId := Some (j_id job)\<rparr>)) (\<lambda>_.
     io_return \<lparr>rf_id = f_id r, rf_retryJobId = j_id job, rf_videoId = f_videoId r\<rparr>)))))"

definition retryFailedJob :: "env \<Rightarrow> string \<Rightarrow> retry_failed_job_dto act" where
  "retryFailedJob env rid =
     io_bind (db_find_failed_job env rid) (\<lambda>found.
     case found of
       None \<Rightarrow> io_raise (NotFoundException (''DLQ record '' @ rid @ '' not found''))
     | Some r \<Rightarrow>
         if f_retried r
         then io_raise (ConflictException (''DLQ record '' @ rid @ '' was already retried at '' @
                (case f_retriedAt r of None \<Rightarrow> ''undefined'' | Some t \<Rightarrow> toISOString t)))
         else retry_record env rid r)"

definition getFailedJob :: "env \<Rightarrow> string \<Rightarrow> failed_job_dto act" where
  "getFailedJob env rid =
     io_bind (db_find_failed_job env rid) (\<lambda>found.
     case found of
       None \<Rightarrow> io_raise (NotFoundException (''DLQ record '' @ rid @ '' not found''))
     | Some r \<Rightarrow> io_return (toDto r))"

section \<open>The event bus\<close>

text \<open>
  \<open>eventEmitter.emit\<close>: the event is published, the gateway of the process forwards it (a
  worker process loads no gateway), and the dead-letter listener handles a failure without
  being awaited.
\<close>

definition emit :: "env \<Rightarrow> video_event \<Rightarrow> unit act" where
  "emit env ev =
     io_seq (io_modify (\<lambda>w. w\<lparr>w_events := w_events w @ [ev]\<rparr>))
       (io_seq (if e_gateway env then on_gateway ev else io_return ())
          (case ev of
             VideoFailed vid message attempts \<Rightarrow> detached (onVideoFailed env vid message attempts)
           | _ \<Rightarrow> io_return ()))"

section \<open>The listener\<close>

lemma find_after_insert:
  "find_failed_job (f_id r) t = None \<Longrightarrow> find_failed_job (f_id r) (insert_row r t) = Some r"
  by (simp add: failed_jobs.lookup_ins)

text \<open>The record the listener stores, when the database serves it.\<close>

definition stored_failure :: "env \<Rightarrow> string \<Rightarrow> string \<Rightarrow> int \<Rightarrow> world \<Rightarrow> failed_job" where
  "stored_failure env k m a w =
     (failed_job_of k m a (Option.bind (row w k) v_queueJobId))
       \<lparr>f_id := e_uuid env (Suc (Suc (w_calls w))), f_failedAt := w_now (ticked env (ticked env w))\<rparr>"

lemma stored_failure_sel [simp]:
  "f_id (stored_failure env k m a w) = e_uuid env (Suc (Suc (w_calls w)))"
  "f_videoId (stored_failure env k m a w) = k"
  "f_errorMessage (stored_failure env k m a w) = m"
  "f_attemptsMade (stored_failure env k m a w) = a"
  "\<not> f_retried (stored_failure env k m a w)"
  "f_jobName (stored_failure env k m a w) = GENERATE"
  by (simp_all add: stored_failure_def failed_job_of_def)

lemma onVideoFailed_up:
  assumes "up env Database"
    and "find_failed_job (e_uuid env (Suc (Suc (w_calls w)))) (w_failed_jobs w) = None"
  shows "onVideoFailed env k m a w =
    (Inr (), (ticked env (ticked env w))
       \<lparr>w_failed_jobs := insert_row (stored_failure env k m a w) (w_failed_jobs w)\<rparr>)"
  using assms
  by (simp add: onVideoFailed_def db_find_video_def db_insert_failed_job_def io_simps stored_failure_def row_def Let_def)

text \<open>The listener records the failure exactly if the database serves its lookup and does the insert.\<close>

definition recorder_served :: "env \<Rightarrow> nat \<Rightarrow> bool" where
  "recorder_served env n \<longleftrightarrow> e_outcome env Database n = Served \<and> (\<forall>m. e_outcome env Database (Suc n) \<noteq> Refused m)"

lemma onVideoFailed_records:
  assumes "find_failed_job (e_uuid env (Suc (Suc (w_calls w)))) (w_failed_jobs w) = None"
  shows "w_failed_jobs (snd (onVideoFailed env k m a w)) =
    (if recorder_served env (w_calls w) then insert_row (stored_failure env k m a w) (w_failed_jobs w)
     else w_failed_jobs w)"
proof (cases "e_outcome env Database (w_calls w) = Served")
  case True
  then show ?thesis
    using assms
    by (cases "e_outcome env Database (Suc (w_calls w))")
      (simp_all add: recorder_served_def onVideoFailed_def db_find_video_def db_insert_failed_job_def
        io_try_def io_bind_def external_cases io_simps stored_failure_def row_def Let_def)
next
  case False
  then show ?thesis
    by (cases "e_outcome env Database (w_calls w)")
      (simp_all add: recorder_served_def onVideoFailed_def db_find_video_def io_try_def io_bind_def external_cases io_simps)
qed

lemma onVideoFailed_total: "\<exists>w'. onVideoFailed env k m a w = (Inr (), w')"
  by (auto simp: onVideoFailed_def io_try_def split: prod.splits sum.splits)

text \<open>The listener writes at most one record and touches no other table.\<close>

lemma insert_failed_job_keeps:
  assumes "\<And>w fs. f w = f (w\<lparr>w_failed_jobs := fs\<rparr>)" and "\<And>w. f (ticked env w) = f w"
  shows "guarantee (keeps f) (db_insert_failed_job env r)"
  using assms
  by (auto simp: guarantee_def keeps_def db_insert_failed_job_def external_cases Let_def
      split: outcome.split)

lemma onVideoFailed_frame:
  "guarantee (keeps w_videos) (onVideoFailed env k m a)"
  "guarantee (keeps w_events) (onVideoFailed env k m a)"
  "guarantee (keeps w_sent) (onVideoFailed env k m a)"
  unfolding onVideoFailed_def
  by (intro keeps_videos.world_rules keeps_videos.db_find keeps_events.world_rules keeps_events.db_find
      keeps_sent.world_rules keeps_sent.db_find insert_failed_job_keeps; simp)+

section \<open>Emission of a failure\<close>

text \<open>The state when the listener of a failure starts.\<close>

definition published :: "env \<Rightarrow> video_event \<Rightarrow> world \<Rightarrow> world" where
  "published env ev w = w\<lparr>w_events := w_events w @ [ev],
     w_sent := (if e_gateway env then w_sent w @ [gateway_message ev] else w_sent w)\<rparr>"

lemma published_frame [simp]:
  "w_videos (published env ev w) = w_videos w"
  "w_failed_jobs (published env ev w) = w_failed_jobs w"
  "w_jobs (published env ev w) = w_jobs w"
  "w_cache (published env ev w) = w_cache w"
  "w_calls (published env ev w) = w_calls w"
  "w_now (published env ev w) = w_now w"
  "w_events (published env ev w) = w_events w @ [ev]"
  "row (published env ev w) k = row w k"
  by (simp_all add: published_def row_def)

lemma emit_failed:
  "emit env (VideoFailed k m a) w =
     (Inr (), (snd (onVideoFailed env k m a (published env (VideoFailed k m a) w)))\<lparr>w_now := w_now w\<rparr>)"
  by (simp add: emit_def io_simps on_gateway_def detached_def published_def)

lemma emit_failed_frame:
  assumes "emit env (VideoFailed k m a) w = (r, w')"
  shows "r = Inr ()" and "w_videos w' = w_videos w" and "w_events w' = w_events w @ [VideoFailed k m a]"
proof -
  obtain u w1 where 1: "onVideoFailed env k m a (published env (VideoFailed k m a) w) = (u, w1)"
    by fastforce
  with assms show "r = Inr ()" "w_videos w' = w_videos w"
      "w_events w' = w_events w @ [VideoFailed k m a]"
    using guaranteeD [OF onVideoFailed_frame(1) 1] guaranteeD [OF onVideoFailed_frame(2) 1]
    by (auto simp: emit_failed keeps_def)
qed

lemma emit_failed_up:
  assumes "up env Database"
    and "find_failed_job (e_uuid env (Suc (Suc (w_calls w)))) (w_failed_jobs w) = None"
  shows "w_failed_jobs (snd (emit env (VideoFailed k m a) w)) =
    insert_row (stored_failure env k m a w) (w_failed_jobs w)"
  using assms
  by (simp add: emit_failed onVideoFailed_up stored_failure_def now_ticked)

lemma emit_failed_records:
  assumes "find_failed_job (e_uuid env (Suc (Suc (w_calls w)))) (w_failed_jobs w) = None"
  shows "w_failed_jobs (snd (emit env (VideoFailed k m a) w)) =
    (if recorder_served env (w_calls w) then insert_row (stored_failure env k m a w) (w_failed_jobs w)
     else w_failed_jobs w)"
  using onVideoFailed_records [of env "published env (VideoFailed k m a) w" k m a] assms
  by (simp add: emit_failed stored_failure_def now_ticked)

lemma wf_insert_failed_job: "guarantee keeps_wf (db_insert_failed_job env r)"
  unfolding db_insert_failed_job_def
  by (intro wf.ext_call) (auto simp: guarantee_def keeps_wf_def wf_world_def Let_def intro: failed_jobs.wf_ins)

lemma wf_onVideoFailed: "guarantee keeps_wf (onVideoFailed env k m a)"
  unfolding onVideoFailed_def by (intro wf.world_rules wf.db_find wf_insert_failed_job)

lemma wf_emit: "guarantee keeps_wf (emit env ev)"
proof -
  have "guarantee keeps_wf (io_modify (\<lambda>w. w\<lparr>w_events := w_events w @ [ev]\<rparr>))"
    "guarantee keeps_wf (on_gateway ev)"
    unfolding on_gateway_def by (intro wf.modify; simp add: keeps_wf_def wf_world_def)+
  then show ?thesis
    unfolding emit_def by (auto intro!: wf.world_rules wf_onVideoFailed split: video_event.split)
qed

section \<open>Manual retry\<close>

lemma db_find_failed_job_InrD:
  "db_find_failed_job env rid w = (Inr x, w') \<Longrightarrow> x = find_failed_job rid (w_failed_jobs w) \<and> w' = ticked env w"
  by (auto simp: db_find_failed_job_def dest!: external_InrD)

lemma retry_failed_jobs_frame:
  "guarantee (keeps w_failed_jobs) (db_update_video env k p f)"
  "guarantee (keeps w_failed_jobs) (queue_add env d n v opts)"
  by (rule guarantee_db_update_video, simp_all add: keeps_def)
    (rule keeps_failed_jobs.add_job, simp add: keeps_def)

text \<open>A retry that returned has marked its record, whatever happened on the way.\<close>

lemma retry_record_marks:
  assumes run: "retry_record env rid r w = (Inr d, w')" and r: "find_failed_job rid (w_failed_jobs w) = Some r"
  shows "\<exists>now. find_failed_job rid (w_failed_jobs w') =
    Some (r\<lparr>f_retried := True, f_retriedAt := Some now, f_retryJobId := Some (rf_retryJobId d)\<rparr>)"
proof -
  from run obtain n2 w2 job w3 now w4 n5 w5 where
    2: "db_update_video env (f_videoId r) (\<lambda>_. True) reset_fields w = (Inr n2, w2)" and
    3: "queue_add env queue_module_job_defaults GENERATE (f_videoId r)
          \<lparr>o_attempts = Some 3, o_backoff = Some (''exponential'', 5000),
           o_removeOnComplete = Some 100, o_removeOnFail = Some 500\<rparr> w2 = (Inr job, w3)" and
    4: "current_time w3 = (Inr now, w4)" and
    5: "db_update_video env (f_videoId r) (\<lambda>_. True)
          (\<lambda>v. v\<lparr>v_queueJobId := Some (j_id job)\<rparr>) w4 = (Inr n5, w5)" and
    6: "db_update_failed_job env rid (\<lambda>x. x\<lparr>f_retried := True, f_retriedAt := Some now,
          f_retryJobId := Some (j_id job)\<rparr>) w5 = (Inr (), w')" and
    7: "rf_retryJobId d = j_id job"
    unfolding retry_record_def by (auto elim!: io_bind_InrE)
  have "w_failed_jobs w5 = w_failed_jobs w"
    using guaranteeD [OF retry_failed_jobs_frame(1) 2] guaranteeD [OF retry_failed_jobs_frame(2) 3]
      4 guaranteeD [OF retry_failed_jobs_frame(1) 5]
    by (simp add: keeps_def current_time_def)
  with 6 7 r show ?thesis
    by (auto simp: db_update_failed_job_def failed_jobs.lookup_upd dest!: external_InrD)
qed

lemma wf_row_steps:
  "keeps_wf w (ticked env w)"
  "(\<And>v. v_id (f v) = v_id v) \<Longrightarrow> keeps_wf w (after_update env k p f w)"
  by (auto simp: keeps_wf_def wf_after_update wf_world_def [of "ticked env w"] wf_world_def [of w])

lemma wf_retry_record: "guarantee keeps_wf (retry_record env rid r)"
proof -
  have rows: "guarantee keeps_wf (db_update_video env k (\<lambda>_. True) reset_fields)"
    "guarantee keeps_wf (db_update_video env k (\<lambda>_. True) (\<lambda>v. v\<lparr>v_queueJobId := j\<rparr>))" for k j
    by (rule guarantee_db_update_video; simp add: wf_row_steps reset_fields_def)+
  have queue: "guarantee keeps_wf (queue_add env d n k opts)" for d n k opts
    by (rule wf.add_job) (simp add: keeps_wf_def wf_world_def jobs.wf_ins)
  have mark: "guarantee keeps_wf (db_update_failed_job env rid (\<lambda>x. x\<lparr>f_retried := b, f_retriedAt := t, f_retryJobId := j\<rparr>))"
    for b t j
    unfolding db_update_failed_job_def
    by (intro wf.ext_call) (simp add: guarantee_def keeps_wf_def wf_world_def failed_jobs.wf_upd)
  show ?thesis
    unfolding retry_record_def by (intro wf.world_rules rows queue mark)
qed

lemma retryFailedJob_InrD:
  assumes "retryFailedJob env rid w = (Inr d, w')"
  obtains r where "find_failed_job rid (w_failed_jobs w) = Some r" and "\<not> f_retried r"
    and "retry_record env rid r (ticked env w) = (Inr d, w')"
  using assms
  by (auto simp: retryFailedJob_def elim!: io_bind_InrE dest!: db_find_failed_job_InrD
      split: option.splits if_splits)

lemma retryFailedJob_marks:
  assumes "retryFailedJob env rid w = (Inr d, w')"
  shows "\<exists>r t. find_failed_job rid (w_failed_jobs w') = Some r \<and> f_retried r \<and>
    f_retriedAt r = Some t \<and> f_retryJobId r = Some (rf_retryJobId d)"
  using assms by (rule retryFailedJob_InrD) (auto dest!: retry_record_marks)

lemma retryFailedJob_conflict:
  assumes "up env Database" and "find_failed_job rid (w_failed_jobs w) = Some r" and "f_retried r"
  shows "retryFailedJob env rid w =
    (Inl (ConflictException (''DLQ record '' @ rid @ '' was already retried at '' @
       (case f_retriedAt r of None \<Rightarrow> ''undefined'' | Some t \<Rightarrow> toISOString t))), ticked env w)"
  using assms
  by (simp add: retryFailedJob_def io_simps db_find_failed_job_def)

text \<open>What a served retry does.\<close>

lemma reset_fields_sel [simp]:
  "v_id (reset_fields v) = v_id v" "v_status (reset_fields v) = PENDING"
  "v_errorMessage (reset_fields v) = None" "v_userId (reset_fields v) = v_userId v"
  by (simp_all add: reset_fields_def)

lemma retry_record_up:
  assumes "up env Database" and "up env Queue"
    and jid: "jid = e_job_id env (Suc (Suc (w_calls w)))"
    and fresh: "find_job jid (w_jobs w) = None"
    and v: "row w (f_videoId r) = Some v"
  shows "\<exists>w' v'. retry_record env rid r w =
      (Inr \<lparr>rf_id = f_id r, rf_retryJobId = jid, rf_videoId = f_videoId r\<rparr>, w') \<and>
    w_jobs w' = insert_row (new_job jid GENERATE (f_videoId r) queue_module_job_defaults) (w_jobs w) \<and>
    row w' (f_videoId r) = Some v' \<and> v_status v' = PENDING \<and> v_errorMessage v' = None \<and>
    v_queueJobId v' = Some jid"
proof -
  let ?k = "f_videoId r"
  let ?w1 = "after_update env ?k (\<lambda>_. True) reset_fields w"
  let ?w2 = "(ticked env ?w1)\<lparr>w_jobs := insert_row (new_job jid GENERATE ?k queue_module_job_defaults) (w_jobs w)\<rparr>"
  let ?w3 = "after_update env ?k (\<lambda>_. True) (\<lambda>v. v\<lparr>v_queueJobId := Some jid\<rparr>) ?w2"
  have opts: "merge_job_opts queue_module_job_defaults \<lparr>o_attempts = Some 3,
      o_backoff = Some (''exponential'', 5000), o_removeOnComplete = Some 100, o_removeOnFail = Some 500\<rparr>
    = queue_module_job_defaults"
    by (simp add: merge_job_opts_def queue_module_job_defaults_def)
  have upd: "db_update_video env k p f u = (Inr (affected v_id k p (w_videos u)), after_update env k p f u)"
    for k p f u
    using assms(1) by (simp add: db_update_video_cases up_def)
  have j: "j_id (new_job i n vd os) = i" for i n vd os by (simp add: new_job_def)
  have "\<exists>w'. retry_record env rid r w =
      (Inr \<lparr>rf_id = f_id r, rf_retryJobId = jid, rf_videoId = ?k\<rparr>, w') \<and>
      w_jobs w' = w_jobs ?w3 \<and> w_videos w' = w_videos ?w3"
    using assms(1,2) jid fresh
    by (simp add: retry_record_def io_simps upd queue_add_def Let_def opts j
        current_time_def db_update_failed_job_def)
  then obtain w' where run: "retry_record env rid r w =
      (Inr \<lparr>rf_id = f_id r, rf_retryJobId = jid, rf_videoId = ?k\<rparr>, w')"
    and jobs: "w_jobs w' = w_jobs ?w3" and vids: "w_videos w' = w_videos ?w3" by blast
  have "row ?w1 ?k = Some (touch (w_now (ticked env w)) reset_fields v)"
    using v by (simp add: table_simps)
  then obtain v' where "row ?w3 ?k = Some v'" "v_status v' = PENDING" "v_errorMessage v' = None"
    "v_queueJobId v' = Some jid"
    by (simp add: table_simps touch_def)
  moreover have "row w' ?k = row ?w3 ?k" using vids by (simp add: row_def)
  ultimately show ?thesis using run jobs by auto
qed

section \<open>Listing\<close>

lemma select_page_eval:
  assumes "1 \<le> page" and "0 < limit"
  shows "select_page at ((page - 1) * limit) limit t =
    Inr (page_of (nat (page - 1) * nat limit) (nat limit) (newest_first at t))"
proof -
  have "((page - 1) * limit < 0) = False" using assms by (auto simp: mult_less_0_iff)
  then show ?thesis using assms unfolding select_page_def by (simp add: nat_mult_distrib)
qed

lemma select_page_concat:
  assumes "0 < n" and "length t \<le> m * n"
    and "\<And>i. items i = map g (page_of (i * n) n (newest_first at t))"
  shows "concat (map items [0..<m]) = map g (newest_first at t)"
proof -
  have "items = (\<lambda>i. map g (page_of (i * n) n (newest_first at t)))"
    using assms(3) by (rule ext)
  then have "concat (map items [0..<m]) = map g (concat (map (\<lambda>i. page_of (i * n) n (newest_first at t)) [0..<m]))"
    by (simp add: map_concat comp_def)
  also have "\<dots> = map g (newest_first at t)"
    using assms(2) by (subst pages_concat) simp_all
  finally show ?thesis .
qed

lemma listFailedJobs_up:
  assumes "up env Database" and "1 \<le> page" and "0 < limit"
  shows "listFailedJobs env page limit w =
    (Inr \<lparr>pf_items = map toDto (page_of (nat (page - 1) * nat limit) (nat limit)
             (newest_first f_failedAt (w_failed_jobs w))),
          pf_total = length (w_failed_jobs w), pf_page = page, pf_limit = limit\<rparr>, ticked env w)"
  using assms by (simp add: listFailedJobs_def external_up select_page_eval)

end
