(* ===== verification/Videos.thy ===== *)
theory Videos
  imports World Video_Dto Storage Dlq
begin

text \<open>
  \<open>VideosService\<close> and \<open>VideosController\<close> (modules/videos): creation and queueing of a video,
  the paginated listing, reads that check the owner, the download links, the update of the
  title and the removal.
\<close>

section \<open>Operations of the service\<close>

definition MAX_PRESIGN_TTL :: int where
  "MAX_PRESIGN_TTL = 86400"

text \<open>The entity as it is inserted: absent columns take the defaults of the table.\<close>

definition new_video :: "string \<Rightarrow> create_video_dto \<Rightarrow> video" where
  "new_video userId dto =
     \<lparr>v_id = [], v_title = cv_title dto, v_prompt = cv_prompt dto,
      v_negativePrompt = cv_negativePrompt dto, v_status = PENDING, v_videoUrl = None,
      v_thumbnailUrl = None, v_errorMessage = None, v_durationSeconds = None,
      v_width = Some (or_else (cv_width dto) 1024), v_height = Some (or_else (cv_height dto) 576),
      v_fps = Some (or_else (cv_fps dto) 24), v_model = cv_model dto, v_queueJobId = None,
      v_metadata = Some (\<lambda>_. None), v_userId = userId, v_createdAt = 0, v_updatedAt = 0\<rparr>"

definition createAndQueue :: "env \<Rightarrow> string \<Rightarrow> create_video_dto \<Rightarrow> video act" where
  "createAndQueue env userId dto =
     io_bind (db_insert_video env (new_video userId dto)) (\<lambda>saved.
     io_bind (queue_add env videos_module_job_defaults VIDEO_GENERATION_JOB (v_id saved)
                no_job_opts) (\<lambda>job.
     io_bind (db_update_video env (v_id saved) (\<lambda>_. True)
                (\<lambda>v. v\<lparr>v_queueJobId := Some (j_id job)\<rparr>)) (\<lambda>_.
     io_seq (emit env (VideoCreated (v_id saved) userId (v_prompt saved) (j_id job)))
            (io_return (saved\<lparr>v_queueJobId := Some (j_id job)\<rparr>)))))"

text \<open>The rows the listing selects.\<close>

definition videos_of :: "string \<Rightarrow> video_status option \<Rightarrow> video list \<Rightarrow> video list" where
  "videos_of userId status t =
     filter (\<lambda>v. v_userId v = userId \<and> (case status of None \<Rightarrow> True | Some s \<Rightarrow> v_status v = s)) t"

definition findAllForUser ::
  "env \<Rightarrow> string \<Rightarrow> video_status option \<Rightarrow> int \<Rightarrow> int \<Rightarrow> paginated_videos_dto act" where
  "findAllForUser env userId status page limit =
     external env Database (\<lambda>w.
       let rows = videos_of userId status (w_videos w);
           rowCount = length rows;
           totalPages = js_ceil_quotient rowCount limit
       in case select_page v_createdAt ((page - 1) * limit) limit rows of
            Inl e \<Rightarrow> (Inl e, w)
          | Inr videos \<Rightarrow>
              (Inr \<lparr>pv_items = map video_response_from videos,
                    pv_meta = \<lparr>pm_total = rowCount, pm_page = page, pm_limit = limit,
                               pm_totalPages = totalPages,
                               pm_hasNextPage = js_less page totalPages,
                               pm_hasPreviousPage = (1 < page)\<rparr>\<rparr>, w))"

definition video_not_found :: "string \<Rightarrow> exn" where
  "video_not_found k = NotFoundException (''Video '' @ k @ '' not found'')"

definition findOneForUser :: "env \<Rightarrow> string \<Rightarrow> string \<Rightarrow> video act" where
  "findOneForUser env k userId =
     io_bind (db_find_video env k) (\<lambda>found.
     case found of
       None \<Rightarrow> io_raise (video_not_found k)
     | Some v \<Rightarrow> if v_userId v \<noteq> userId then io_raise ForbiddenException else io_return v)"

definition findById :: "env \<Rightarrow> string \<Rightarrow> video act" where
  "findById env k =
     io_bind (db_find_video env k) (\<lambda>found.
     case found of None \<Rightarrow> io_raise (video_not_found k) | Some v \<Rightarrow> io_return v)"

text \<open>The replacement of \<open>/^\/[^/]+\//\<close> by the empty string.\<close>

definition strip_bucket :: "string \<Rightarrow> string" where
  "strip_bucket p =
     (case p of
        c # r \<Rightarrow>
          if c = CHR ''/'' \<and> takeWhile (\<lambda>d. d \<noteq> CHR ''/'') r \<noteq> [] \<and> CHR ''/'' \<in> set r
          then tl (dropWhile (\<lambda>d. d \<noteq> CHR ''/'') r) else p
      | [] \<Rightarrow> p)"

definition extractS3Key :: "url_lib \<Rightarrow> string \<Rightarrow> string" where
  "extractS3Key lib url =
     (case url_pathname lib url of Some p \<Rightarrow> strip_bucket p | None \<Rightarrow> url)"

definition getVideoResult ::
  "env \<Rightarrow> url_lib \<Rightarrow> storage_service \<Rightarrow> string \<Rightarrow> string \<Rightarrow> int \<Rightarrow> video_result_dto act" where
  "getVideoResult env lib storage k userId expiresIn =
     io_bind (findOneForUser env k userId) (\<lambda>v.
     if v_status v \<noteq> COMPLETED \<or> \<not> truthy (v_videoUrl v)
     then io_raise (ConflictException
            (''Video is not yet completed. Current status: '' @ status_string (v_status v)))
     else
       let ttl = min (max expiresIn 60) MAX_PRESIGN_TTL;
           videoKey = extractS3Key lib (the (v_videoUrl v))
       in
       io_bind (st_getPresignedDownloadUrl storage videoKey ttl) (\<lambda>downloadUrl.
       io_bind (if truthy (v_thumbnailUrl v)
                then io_bind (st_getPresignedDownloadUrl storage
                                (extractS3Key lib (the (v_thumbnailUrl v))) ttl)
                       (\<lambda>u. io_return (Some u))
                else io_return None) (\<lambda>thumbnailUrl.
       io_bind current_time (\<lambda>now.
       io_return
         \<lparr>vd_videoId = v_id v, vd_downloadUrl = downloadUrl, vd_thumbnailUrl = thumbnailUrl,
          vd_expiresInSeconds = ttl, vd_expiresAt = toISOString (now + ttl * 1000),
          vd_file = \<lparr>vf_contentType = ''video/mp4'',
                     vf_sizeBytes = nullish (opt_get (v_metadata v) ''sizeBytes'') (JNum 0),
                     vf_durationSeconds = or_else (v_durationSeconds v) 0,
                     vf_width = v_width v, vf_height = v_height v, vf_fps = v_fps v\<rparr>\<rparr>))))"

text \<open>
  \<open>Object.assign\<close> of the changes to a loaded row, and \<open>save\<close> of the result: the repository reads
  the row again and writes every column in which it differs from the entity; if nothing differs
  it writes nothing, and if the row is gone it inserts the entity. The title takes no null, and
  the owner has to exist.
\<close>

definition assign_title :: "string given \<Rightarrow> video \<Rightarrow> video" where
  "assign_title title v = (case title of Value t \<Rightarrow> v\<lparr>v_title := t\<rparr> | _ \<Rightarrow> v)"

definition save_row :: "video \<Rightarrow> video act" where
  "save_row v w =
    (let owner_missing = (find_user (v_userId v) (w_users w) = None)
     in case find_video (v_id v) (w_videos w) of
          None \<Rightarrow>
            if owner_missing then (Inl foreign_key_violation, w)
            else (Inr v, w\<lparr>w_videos := insert_row v (w_videos w)\<rparr>)
        | Some r \<Rightarrow>
            if v\<lparr>v_updatedAt := v_updatedAt r\<rparr> = r then (Inr v, w)
            else if v_userId v \<noteq> v_userId r \<and> owner_missing then (Inl foreign_key_violation, w)
            else (Inr (v\<lparr>v_updatedAt := w_now w\<rparr>),
                  w\<lparr>w_videos := update_key v_id (v_id v) (\<lambda>_. True)
                      (\<lambda>x. v\<lparr>v_id := v_id x, v_updatedAt := w_now w\<rparr>) (w_videos w)\<rparr>))"

definition db_save_video :: "env \<Rightarrow> video \<Rightarrow> string given \<Rightarrow> video act" where
  "db_save_video env v title = external env Database
     (if title = Null then (\<lambda>w. (Inl null_violation, w)) else save_row (assign_title title v))"

definition update :: "env \<Rightarrow> string \<Rightarrow> string \<Rightarrow> update_video_dto \<Rightarrow> video act" where
  "update env k userId dto =
     io_bind (findOneForUser env k userId) (\<lambda>v. db_save_video env v (uv_title dto))"

record update_status_extra =
  u_videoUrl :: "string option"
  u_thumbnailUrl :: "string option"
  u_errorMessage :: "string option"
  u_durationSeconds :: "int option"
  u_metadata :: "meta option"

definition keep_or :: "'a option \<Rightarrow> 'a option \<Rightarrow> 'a option" where
  "keep_or new old = (case new of None \<Rightarrow> old | Some v \<Rightarrow> Some v)"

definition updateStatus :: "env \<Rightarrow> string \<Rightarrow> video_status \<Rightarrow> update_status_extra \<Rightarrow> video act" where
  "updateStatus env k status extra =
     io_bind (db_update_video env k (\<lambda>_. True) (\<lambda>v.
       v\<lparr>v_status := status,
         v_videoUrl := keep_or (u_videoUrl extra) (v_videoUrl v),
         v_thumbnailUrl := keep_or (u_thumbnailUrl extra) (v_thumbnailUrl v),
         v_errorMessage := keep_or (u_errorMessage extra) (v_errorMessage v),
         v_durationSeconds := keep_or (u_durationSeconds extra) (v_durationSeconds v),
         v_metadata := keep_or (u_metadata extra) (v_metadata v)\<rparr>)) (\<lambda>_.
     findById env k)"

definition remove :: "env \<Rightarrow> string \<Rightarrow> string \<Rightarrow> unit act" where
  "remove env k userId =
     io_bind (findOneForUser env k userId) (\<lambda>v. db_delete_video env (v_id v))"

section \<open>Handlers of the controller\<close>

definition videos_create :: "env \<Rightarrow> string \<Rightarrow> create_video_dto \<Rightarrow> video_response_dto act" where
  "videos_create env userId dto =
     io_bind (createAndQueue env userId dto) (\<lambda>v. io_return (video_response_from v))"

definition videos_findAll ::
  "env \<Rightarrow> string \<Rightarrow> video_status option \<Rightarrow> int option \<Rightarrow> int option \<Rightarrow> paginated_videos_dto act" where
  "videos_findAll env userId status page limit =
     findAllForUser env userId status (or_else page 1) (or_else limit 20)"

definition videos_getStatus :: "env \<Rightarrow> string \<Rightarrow> string \<Rightarrow> video_status_response_dto act" where
  "videos_getStatus env userId k =
     io_bind (findOneForUser env k userId) (\<lambda>v. io_return (video_status_response_from v))"

definition videos_getResult ::
  "env \<Rightarrow> url_lib \<Rightarrow> storage_service \<Rightarrow> string \<Rightarrow> string \<Rightarrow> int option \<Rightarrow> video_result_dto act" where
  "videos_getResult env lib storage userId k expiresIn =
     getVideoResult env lib storage k userId (or_else expiresIn 3600)"

definition videos_update :: "env \<Rightarrow> string \<Rightarrow> string \<Rightarrow> update_video_dto \<Rightarrow> video_response_dto act" where
  "videos_update env userId k dto =
     io_bind (update env k userId dto) (\<lambda>v. io_return (video_response_from v))"

definition videos_remove :: "env \<Rightarrow> string \<Rightarrow> string \<Rightarrow> unit act" where
  "videos_remove env userId k = remove env k userId"

end
