(* ===== verification/Ai_Provider.thy ===== *)
theory Ai_Provider
  imports World
begin

text \<open>
  \<open>AiService\<close> and \<open>FakeVideoProvider\<close> (modules/ai): the simulated provider keeps its jobs in
  memory and completes each after a delay; the service delegates to it and enhances prompts
  through OpenAI. The operations a worker uses are collected in a record, the contract
  \<open>IAiService\<close> of shared/contracts, so that another provider can take their place.
\<close>

section \<open>The contract\<close>

record ai_service =
  ai_generateVideo :: "generate_params \<Rightarrow> string \<Rightarrow> generate_result act"
  ai_getGenerationStatus :: "string \<Rightarrow> generate_result act"
  ai_enhancePrompt :: "string \<Rightarrow> string act"

section \<open>The simulated provider\<close>

text \<open>\<open>configService.get('ai.simulationDelayMs') ?? 5_000\<close>\<close>

definition defaultDelayMs :: "int option \<Rightarrow> int" where
  "defaultDelayMs configured = or_else configured 5000"

definition fake_job_id :: "string \<Rightarrow> instant \<Rightarrow> string" where
  "fake_job_id videoId t = ''fake-'' @ videoId @ ''-'' @ show_int t"

definition buildVideoUrl :: "string \<Rightarrow> string" where
  "buildVideoUrl videoId = ''https://fake-cdn.example.com/videos/'' @ videoId @ ''/output.mp4''"

definition buildThumbnailUrl :: "string \<Rightarrow> string" where
  "buildThumbnailUrl videoId = ''https://fake-cdn.example.com/videos/'' @ videoId @ ''/thumb.jpg''"

definition pending_result :: "string \<Rightarrow> generate_result" where
  "pending_result jobId =
     \<lparr>g_jobId = jobId, g_status = GenProcessing, g_videoUrl = None, g_thumbnailUrl = None,
      g_errorMessage = None, g_estimatedDurationMs = None, g_alreadyStored = None\<rparr>"

definition submit :: "int option \<Rightarrow> string \<Rightarrow> generate_params \<Rightarrow> generate_result act" where
  "submit delay videoId params = (\<lambda>w.
     let jobId = fake_job_id videoId (w_now w)
     in (Inr ((pending_result jobId)\<lparr>g_estimatedDurationMs := Some (defaultDelayMs delay)\<rparr>),
         w\<lparr>w_ai_jobs := (w_ai_jobs w)(jobId \<mapsto>
             \<lparr>k_videoId = videoId, k_params = params, k_startedAt = w_now w,
              k_completionDelayMs = defaultDelayMs delay\<rparr>)\<rparr>))"

definition checkStatus :: "string \<Rightarrow> generate_result act" where
  "checkStatus jobId = (\<lambda>w.
     case w_ai_jobs w jobId of
       None \<Rightarrow>
         (Inr ((pending_result jobId)\<lparr>g_status := GenFailed,
                 g_errorMessage := Some ''Job not found in simulator''\<rparr>), w)
     | Some st \<Rightarrow>
         (let elapsed = w_now w - k_startedAt st;
              isComplete = k_completionDelayMs st \<le> elapsed
          in if \<not> isComplete then (Inr (pending_result jobId), w)
             else (Inr ((pending_result jobId)\<lparr>g_status := GenCompleted,
                          g_videoUrl := Some (buildVideoUrl (k_videoId st)),
                          g_thumbnailUrl := Some (buildThumbnailUrl (k_videoId st)),
                          g_alreadyStored := Some True\<rparr>),
                   w\<lparr>w_ai_jobs := (w_ai_jobs w)(jobId := None)\<rparr>)))"

section \<open>The service\<close>

definition generateVideo :: "int option \<Rightarrow> generate_params \<Rightarrow> string \<Rightarrow> generate_result act" where
  "generateVideo delay params videoId = submit delay videoId params"

definition getGenerationStatus :: "string \<Rightarrow> generate_result act" where
  "getGenerationStatus jobId = checkStatus jobId"

text \<open>\<open>completion.choices[0]?.message?.content ?? prompt\<close>; any error falls back to the prompt.\<close>

definition enhancePrompt :: "env \<Rightarrow> string \<Rightarrow> string act" where
  "enhancePrompt env prompt =
     io_try
       (io_bind (external env OpenAI (io_return (e_chat env prompt))) (\<lambda>content.
        io_return (or_else content prompt)))
       (\<lambda>err. io_return prompt)"

definition aiService :: "env \<Rightarrow> int option \<Rightarrow> ai_service" where
  "aiService env delay =
     \<lparr>ai_generateVideo = generateVideo delay, ai_getGenerationStatus = getGenerationStatus,
      ai_enhancePrompt = enhancePrompt env\<rparr>"

section \<open>The contract as an interface\<close>

locale ai_provider =
  fixes ai :: ai_service
  assumes generate_frame: "guarantee (keeps business_state) (ai_generateVideo ai params videoId)"
    and poll_frame: "guarantee (keeps business_state) (ai_getGenerationStatus ai jobId)"
    and enhance_frame: "guarantee (keeps business_state) (ai_enhancePrompt ai prompt)"
begin

text \<open>Whatever holds of the business state before a provider call holds after it.\<close>

lemma provider_triple:
  assumes "\<And>w w'. keeps business_state w w' \<Longrightarrow> I w \<Longrightarrow> I w'"
  shows "triple I (ai_generateVideo ai params videoId) (\<lambda>_. I) (\<lambda>_. I)"
    and "triple I (ai_getGenerationStatus ai jobId) (\<lambda>_. I) (\<lambda>_. I)"
    and "triple I (ai_enhancePrompt ai prompt) (\<lambda>_. I) (\<lambda>_. I)"
  using assms generate_frame poll_frame enhance_frame
  by (blast intro: tripleI dest: guaranteeD)+

end

lemma submit_frame: "guarantee (keeps business_state) (submit delay videoId params)"
  by (simp add: guarantee_def submit_def keeps_def business_state_def Let_def)

lemma checkStatus_frame: "guarantee (keeps business_state) (checkStatus jobId)"
  by (simp add: guarantee_def checkStatus_def keeps_def business_state_def Let_def split: option.split)

lemma enhancePrompt_frame: "guarantee (keeps business_state) (enhancePrompt env prompt)"
  unfolding enhancePrompt_def by (intro keeps_business.world_rules)

interpretation fake_ai: ai_provider "aiService env delay" for env delay
  by unfold_locales
    (simp_all add: aiService_def generateVideo_def getGenerationStatus_def submit_frame
      checkStatus_frame enhancePrompt_frame)

section \<open>Life cycle of a simulated job\<close>

lemma enhancePrompt_total: "\<exists>p w'. enhancePrompt env prompt w = (Inr p, w')"
  by (auto simp: enhancePrompt_def io_try_def split: prod.splits sum.splits)

lemma checkStatus_submitted:
  assumes "w_ai_jobs w jobId = Some st"
  shows "checkStatus jobId w =
    (if w_now w - k_startedAt st < k_completionDelayMs st then (Inr (pending_result jobId), w)
     else (Inr ((pending_result jobId)\<lparr>g_status := GenCompleted,
                  g_videoUrl := Some (buildVideoUrl (k_videoId st)),
                  g_thumbnailUrl := Some (buildThumbnailUrl (k_videoId st)),
                  g_alreadyStored := Some True\<rparr>),
           w\<lparr>w_ai_jobs := (w_ai_jobs w)(jobId := None)\<rparr>))"
  using assms by (simp add: checkStatus_def Let_def)

lemma checkStatus_unknown:
  "w_ai_jobs w jobId = None \<Longrightarrow>
     checkStatus jobId w =
       (Inr ((pending_result jobId)\<lparr>g_status := GenFailed,
               g_errorMessage := Some ''Job not found in simulator''\<rparr>), w)"
  by (simp add: checkStatus_def)

end
