(* ===== verification/Processor.thy ===== *)
theory Processor
  imports Job_Status Videos Ai_Provider Storage Dlq
begin

text \<open>
  \<open>VideoGenerationProcessor\<close> (modules/queue/processors/video-generation.processor.ts): one
  attempt at a video generation job. The AI and storage services are arguments, as they are
  injected; the status service, the videos service and the event bus are those of the model.
\<close>

section \<open>The poll loop\<close>

definition max_poll_attempts :: nat where
  "max_poll_attempts = 30"

text \<open>The progress after a number of polls: \<open>40 + Math.min(50, pollAttempts * 2)\<close>.\<close>

definition poll_percent :: "nat \<Rightarrow> int" where
  "poll_percent n = 40 + min 50 (int n * 2)"

definition poll_remaining :: "nat \<Rightarrow> int" where
  "poll_remaining n = max 0 ((int max_poll_attempts - int n) * 10)"

definition poll_message :: "nat \<Rightarrow> string" where
  "poll_message n = ''Rendering... (poll '' @ show_nat n @ ''/'' @ show_nat max_poll_attempts @ '')''"

definition output_key :: "string \<Rightarrow> string" where
  "output_key videoId = ''videos/'' @ videoId @ ''/output.mp4''"

definition completed_meta :: meta where
  "completed_meta = progress_meta 100 ''Completed''"

text \<open>What happens once a poll returned a URL.\<close>

definition finish_video ::
  "env \<Rightarrow> storage_service \<Rightarrow> queue_job \<Rightarrow> string \<Rightarrow> generate_result \<Rightarrow> unit act" where
  "finish_video env storage job videoId result =
     io_bind
       (if g_alreadyStored result = Some True then io_return (the (g_videoUrl result))
        else st_uploadFromUrl storage (the (g_videoUrl result)) (output_key videoId))
       (\<lambda>storedUrl.
        io_bind (transitionStatus env videoId PROCESSING COMPLETED
                   \<lparr>x_videoUrl = Some storedUrl, x_thumbnailUrl = g_thumbnailUrl result,
                    x_metadata = Some completed_meta\<rparr>) (\<lambda>_.
        io_seq (job_updateProgress env job 100)
               (emit env (VideoCompleted videoId storedUrl (g_thumbnailUrl result)))))"

text \<open>
  The loop, entered with the status of the last answer and the number of polls made. Leaving
  it without a URL is an error.
\<close>

function poll_loop ::
  "env \<Rightarrow> ai_service \<Rightarrow> storage_service \<Rightarrow> queue_job \<Rightarrow> string \<Rightarrow> string \<Rightarrow> gen_status \<Rightarrow> nat \<Rightarrow> unit act"
where
  "poll_loop env ai storage job videoId aiJobId status pollAttempts =
     (if status = GenProcessing \<and> pollAttempts < max_poll_attempts
      then
        io_seq (sleep 10000) (
        io_bind (ai_getGenerationStatus ai aiJobId) (\<lambda>result.
        let n = pollAttempts + 1 in
        io_seq (updateProgress env videoId (poll_percent n) (poll_message n)
                  [''estimatedSecondsRemaining'' \<mapsto> JNum (poll_remaining n)]) (
        io_seq (job_updateProgress env job (poll_percent n)) (
        io_seq (emit env (VideoProgressUpdated videoId (poll_percent n) (poll_message n))) (
        if truthy (g_videoUrl result) then finish_video env storage job videoId result
        else poll_loop env ai storage job videoId aiJobId (g_status result) n)))))
      else io_raise (JsError (''AI provider did not return a video after '' @
             show_nat pollAttempts @ '' polling attempts'')))"
  by pat_completeness auto
termination
  by (relation "measure (\<lambda>(_, _, _, _, _, _, _, n). max_poll_attempts - n)") auto

declare poll_loop.simps [simp del]

section \<open>One attempt\<close>

definition start_extra :: status_extra where
  "start_extra = \<lparr>x_videoUrl = None, x_thumbnailUrl = None,
     x_metadata = Some (progress_meta 10 ''Starting generation...'')\<rparr>"

text \<open>\<open>estimatedDurationMs ? Math.ceil(estimatedDurationMs / 1000) : undefined\<close>\<close>

definition submitted_meta :: "generate_result \<Rightarrow> meta" where
  "submitted_meta g =
     (case g_estimatedDurationMs g of
        None \<Rightarrow> [''aiJobId'' \<mapsto> JStr (g_jobId g)]
      | Some ms \<Rightarrow>
          if ms = 0 then [''aiJobId'' \<mapsto> JStr (g_jobId g)]
          else [''aiJobId'' \<mapsto> JStr (g_jobId g),
                ''estimatedSecondsRemaining'' \<mapsto> JNum (ceil_div ms 1000)])"

definition params_of :: "video \<Rightarrow> string \<Rightarrow> generate_params" where
  "params_of v enhancedPrompt =
     \<lparr>p_prompt = enhancedPrompt, p_negativePrompt = v_negativePrompt v, p_width = v_width v,
      p_height = v_height v, p_fps = v_fps v, p_model = v_model v\<rparr>"

text \<open>The body of the \<open>try\<close> block after the transition to \<open>PROCESSING\<close> succeeded.\<close>

definition generate_started ::
  "env \<Rightarrow> ai_service \<Rightarrow> storage_service \<Rightarrow> queue_job \<Rightarrow> video \<Rightarrow> unit act" where
  "generate_started env ai storage job video =
     (let videoId = j_videoId job in
      io_seq (job_updateProgress env job 10) (
      io_seq (emit env (VideoProcessingStarted videoId (j_attemptsMade job + 1))) (
      io_bind (ai_enhancePrompt ai (v_prompt video)) (\<lambda>enhancedPrompt.
      io_seq (updateProgress env videoId 20 ''Prompt enhanced, submitting to AI provider...'' (\<lambda>_. None)) (
      io_seq (job_updateProgress env job 20) (
      io_bind (ai_generateVideo ai (params_of video enhancedPrompt) videoId) (\<lambda>generationResult.
      io_seq (updateProgress env videoId 40 ''Job submitted, waiting for AI provider...''
                (submitted_meta generationResult)) (
      io_seq (job_updateProgress env job 40) (
      poll_loop env ai storage job videoId (g_jobId generationResult) (g_status generationResult) 0)))))))))"

definition generate_body ::
  "env \<Rightarrow> ai_service \<Rightarrow> storage_service \<Rightarrow> queue_job \<Rightarrow> unit act" where
  "generate_body env ai storage job =
     io_bind (findById env (j_videoId job)) (\<lambda>video.
     io_bind (transitionStatus env (j_videoId job) (v_status video) PROCESSING start_extra) (\<lambda>started.
     if \<not> started then io_return () else generate_started env ai storage job video))"

definition isFinalAttempt :: "queue_job \<Rightarrow> bool" where
  "isFinalAttempt job \<longleftrightarrow> or_else (o_attempts (j_opts job)) 1 - 1 \<le> j_attemptsMade job"

definition handleVideoGeneration ::
  "env \<Rightarrow> ai_service \<Rightarrow> storage_service \<Rightarrow> queue_job \<Rightarrow> unit act" where
  "handleVideoGeneration env ai storage job =
     io_try (generate_body env ai storage job)
       (\<lambda>error.
          let errorMessage = error_message error in
          io_seq
            (if isFinalAttempt job
             then io_seq (markFailed env (j_videoId job) errorMessage)
                    (emit env (VideoFailed (j_videoId job) errorMessage (j_attemptsMade job + 1)))
             else io_return ())
            (io_raise error))"

definition process :: "env \<Rightarrow> ai_service \<Rightarrow> storage_service \<Rightarrow> queue_job \<Rightarrow> unit act" where
  "process env ai storage job =
     (if j_name job = GENERATE then handleVideoGeneration env ai storage job else io_return ())"

end
