(* ===== verification/Worker_Run.thy ===== *)
theory Worker_Run
  imports Processor
begin

text \<open>
  What one attempt of the worker does to the shared state. Guarantees cover every run,
  whatever calls fail; triples follow the row of the video and the events from phase to phase.
  The AI provider and the object store are the two interfaces a worker is built on: the
  lemmas about the loop and the attempt are proved for any implementation of them.
\<close>

section \<open>Events of an attempt\<close>

definition progress_event :: "string \<Rightarrow> nat \<Rightarrow> video_event" where
  "progress_event k i = VideoProgressUpdated k (poll_percent i) (poll_message i)"

definition attempt_events :: "string \<Rightarrow> int \<Rightarrow> nat \<Rightarrow> video_event list" where
  "attempt_events k attempt n =
     VideoProcessingStarted k attempt # map (progress_event k) [1..<Suc n]"

lemma attempt_events_Suc:
  "attempt_events k a (Suc n) = attempt_events k a n @ [progress_event k (Suc n)]"
  by (simp add: attempt_events_def)

lemma attempt_events_0: "attempt_events k a 0 = [VideoProcessingStarted k a]"
  by (simp add: attempt_events_def)

text \<open>The percentages a list of events announces.\<close>

definition progress_percents :: "video_event list \<Rightarrow> int list" where
  "progress_percents evs = concat (map (\<lambda>ev. case ev of VideoProgressUpdated _ p _ \<Rightarrow> [p] | _ \<Rightarrow> []) evs)"

lemma progress_percents_append [simp]:
  "progress_percents (xs @ ys) = progress_percents xs @ progress_percents ys"
  by (simp add: progress_percents_def)

lemma percents_attempt: "progress_percents (attempt_events k a n) = map poll_percent [1..<Suc n]"
proof -
  have "progress_percents (map (progress_event k) ns) = map poll_percent ns" for ns
    by (induction ns) (simp_all add: progress_percents_def progress_event_def)
  then show ?thesis by (simp add: attempt_events_def progress_percents_def)
qed

lemma poll_percent_mono: "i \<le> j \<Longrightarrow> poll_percent i \<le> poll_percent j"
  by (simp add: poll_percent_def)

lemma poll_percent_range: "1 \<le> i \<Longrightarrow> 42 \<le> poll_percent i \<and> poll_percent i \<le> 90"
  by (simp add: poll_percent_def)

section \<open>Guarantees of an attempt\<close>

definition quiet :: "video_event \<Rightarrow> bool" where
  "quiet ev = (case ev of VideoFailed _ _ _ \<Rightarrow> False | _ \<Rightarrow> True)"

lemma emit_quiet:
  assumes "quiet ev"
  shows "emit env ev w = (Inr (), w\<lparr>w_events := w_events w @ [ev],
    w_sent := (if e_gateway env then w_sent w @ [gateway_message ev] else w_sent w)\<rparr>)"
  using assms
  by (cases ev) (simp_all add: emit_def quiet_def io_simps on_gateway_def)

context world_preorder
begin

lemma emit:
  assumes "quiet ev"
    and "\<And>w. R w (w\<lparr>w_events := w_events w @ [ev],
                 w_sent := (if e_gateway env then w_sent w @ [gateway_message ev] else w_sent w)\<rparr>)"
  shows "guarantee R (emit env ev)"
  using assms by (simp add: guarantee_def emit_quiet)

lemma business:
  assumes "\<And>w w'. keeps business_state w w' \<Longrightarrow> R w w'" and "guarantee (keeps business_state) m"
  shows "guarantee R m"
  using assms by (simp add: guarantee_def)

lemma find_by_id: "guarantee R (findById env k)"
  unfolding findById_def by (auto intro!: world_rules db_find split: option.split)

end

locale generation_worker = ai_provider ai + object_store storage
  for ai :: ai_service and storage :: storage_service

text \<open>
  The conditions under which a relation is kept by every step of an attempt at video \<open>k\<close>.
\<close>

locale attempt_relation = world_preorder R for R :: "world \<Rightarrow> world \<Rightarrow> bool" +
  fixes env :: env and k :: string
  assumes on_business: "keeps business_state w w' \<Longrightarrow> R w w'"
    and on_emit: "R w (w\<lparr>w_events := w_events w @ [ev],
                     w_sent := (if e_gateway env then w_sent w @ [gateway_message ev] else w_sent w)\<rparr>)"
    and on_jobs: "R w (w\<lparr>w_jobs := update_key j_id jid (\<lambda>_. True)
                     (\<lambda>j. j\<lparr>j_progress := JNum p\<rparr>) (w_jobs w)\<rparr>)"
    and on_cache: "R w (with_cache env k st pr ms w)"
    and on_progress: "R w (after_progress env k n m additionalMeta w)"
    and on_start: "transition_allowed s PROCESSING \<Longrightarrow> R w (after_move env k s PROCESSING x w)"
    and on_complete: "x_videoUrl x \<noteq> None \<Longrightarrow> R w (after_move env k PROCESSING COMPLETED x w)"
begin

lemma on_moved: "R w (moved env k st x w)"
  unfolding moved_def by (rule on_cache)

lemma progress_step: "guarantee R (updateProgress env k n m x)"
  by (intro updateProgress on_progress on_cache)

lemma job_step: "guarantee R (job_updateProgress env job n)"
  by (intro job_progress on_jobs)

lemma emit_step: "quiet ev \<Longrightarrow> guarantee R (emit env ev)"
  by (rule emit) (assumption, rule on_emit)

lemma start_step: "guarantee R (transitionStatus env k s PROCESSING x)"
  by (intro transitionStatus on_start on_moved)

lemma complete_step: "x_videoUrl x \<noteq> None \<Longrightarrow> guarantee R (transitionStatus env k PROCESSING COMPLETED x)"
  by (intro transitionStatus on_complete on_moved)

lemmas steps = world_rules progress_step job_step emit_step start_step complete_step find_by_id

end

context attempt_relation
begin

lemma finish_video_keeps:
  assumes "generation_worker ai storage"
  shows "guarantee R (finish_video env storage job k result)"
proof -
  have up: "guarantee R (st_uploadFromUrl storage url key)" for url key
    using assms by (auto simp: generation_worker_def object_store_def intro: business on_business)
  show ?thesis
    unfolding finish_video_def by (intro steps up) (simp_all add: quiet_def)
qed

lemma poll_loop_keeps:
  assumes "generation_worker ai storage"
  shows "guarantee R (poll_loop env ai storage job k jid s n)"
proof (induction "max_poll_attempts - n" arbitrary: n s)
  case 0
  then show ?case by (subst poll_loop.simps) (simp add: raise)
next
  case (Suc d)
  have poll: "guarantee R (ai_getGenerationStatus ai jid)"
    using assms by (auto simp: generation_worker_def ai_provider_def intro: business on_business)
  have quiet: "quiet (VideoProgressUpdated k p m)" for p m by (simp add: quiet_def)
  have again: "guarantee R (poll_loop env ai storage job k jid s' (Suc n))" for s'
    by (rule Suc.hyps(1)) (use Suc.hyps(2) in simp)
  show ?case
    by (subst poll_loop.simps)
      (auto simp: Let_def intro!: steps poll quiet again finish_video_keeps [OF assms])
qed

lemma generate_body_keeps:
  assumes "generation_worker ai storage" and "j_videoId job = k"
  shows "guarantee R (generate_body env ai storage job)"
proof -
  have ai: "guarantee R (ai_enhancePrompt ai p)" "guarantee R (ai_generateVideo ai ps k)" for p ps
    using assms(1) by (auto simp: generation_worker_def ai_provider_def intro: business on_business)
  have quiet: "quiet (VideoProcessingStarted k a)" for a by (simp add: quiet_def)
  show ?thesis
    unfolding generate_body_def generate_started_def Let_def assms(2)
    by (intro steps ai quiet poll_loop_keeps [OF assms(1)])
qed

end

section \<open>Instances\<close>

text \<open>No row becomes \<open>FAILED\<close>.\<close>

definition no_new_failure :: "world \<Rightarrow> world \<Rightarrow> bool" where
  "no_new_failure w w' \<longleftrightarrow> (\<forall>k. statuses w' k = Some FAILED \<longrightarrow> statuses w k = Some FAILED)"

lemma keeps_businessD:
  assumes "keeps business_state w w'"
  shows "w_videos w' = w_videos w" "w_failed_jobs w' = w_failed_jobs w" "w_jobs w' = w_jobs w"
    "w_cache w' = w_cache w" "w_events w' = w_events w" "w_sent w' = w_sent w" "w_users w' = w_users w"
    "w_messages w' = w_messages w" "w_chat w' = w_chat w" "row w' = row w" "statuses w' = statuses w"
proof -
  show 1: "w_videos w' = w_videos w" "w_failed_jobs w' = w_failed_jobs w" "w_jobs w' = w_jobs w"
    "w_cache w' = w_cache w" "w_events w' = w_events w" "w_sent w' = w_sent w" "w_users w' = w_users w"
    "w_messages w' = w_messages w" "w_chat w' = w_chat w"
    using assms by (simp_all add: keeps_def business_state_def)
  then show 2: "row w' = row w" by (simp add: row_def fun_eq_iff)
  then show "statuses w' = statuses w" by (rule statuses_eq_row)
qed

lemma statuses_upd [simp]:
  "statuses (w\<lparr>w_events := es, w_sent := ss\<rparr>) = statuses w"
  "statuses (w\<lparr>w_jobs := js\<rparr>) = statuses w"
  "statuses (w\<lparr>w_calls := c, w_now := t\<rparr>) = statuses w"
  by (rule statuses_eq_row, simp add: fun_eq_iff row_def)+

lemma statuses_after_progress [simp]: "statuses (after_progress env k n m x w) = statuses w"
  by (rule ext) (cases "row w k"; auto simp: statuses_def status_of_def row_after_update)

interpretation attempt_advances: attempt_relation advances env k for env k
  by unfold_locales
    (auto simp: advances_def statuses_after_move status_path_def keeps_businessD transition_allowed_iff)

interpretation attempt_no_failure: attempt_relation no_new_failure env k for env k
  by unfold_locales
    (auto simp: no_new_failure_def statuses_after_move keeps_businessD split: if_splits)

interpretation attempt_only_row: attempt_relation "only_row k" env k for env k
  by unfold_locales (auto simp: only_row_def table_simps keeps_businessD)

interpretation attempt_wf: attempt_relation keeps_wf env k for env k
  by unfold_locales
    (auto simp: keeps_wf_def wf_after_update,
     auto simp: wf_world_def keeps_businessD intro: jobs.wf_upd)

interpretation attempt_failed_jobs: attempt_relation "keeps w_failed_jobs" env k for env k
  by unfold_locales (auto simp: keeps_def business_state_def)

interpretation attempt_users: attempt_relation "keeps w_users" env k for env k
  by unfold_locales (auto simp: keeps_def business_state_def)

text \<open>
  What reaches the sockets: the message of every event, in their order, if the process has the
  gateway, and nothing otherwise.
\<close>

definition pushed :: "env \<Rightarrow> world \<Rightarrow> world \<Rightarrow> bool" where
  "pushed env w w' \<longleftrightarrow> (\<exists>es. w_events w' = w_events w @ es \<and>
     w_sent w' = w_sent w @ (if e_gateway env then map gateway_message es else []))"

lemma pushed_frame: "w_events w' = w_events w \<Longrightarrow> w_sent w' = w_sent w \<Longrightarrow> pushed env w w'"
  by (simp add: pushed_def)

lemma pushed_trans: "pushed env w w' \<Longrightarrow> pushed env w' w'' \<Longrightarrow> pushed env w w''"
  by (clarsimp simp: pushed_def) (metis append.assoc map_append)

lemma pushed_emit: "w_events w' = w_events w @ [ev] \<Longrightarrow>
  w_sent w' = (if e_gateway env then w_sent w @ [gateway_message ev] else w_sent w) \<Longrightarrow> pushed env w w'"
  by (simp add: pushed_def)

interpretation pushed: world_preorder "pushed env" for env
  by unfold_locales (auto intro: pushed_frame pushed_trans)

lemma emit_pushes: "guarantee (pushed env) (emit env ev)"
proof (cases "quiet ev")
  case True
  then show ?thesis by (rule pushed.emit) (auto intro: pushed_emit)
next
  case False
  then obtain k m a where ev: "ev = VideoFailed k m a" by (cases ev) (auto simp: quiet_def)
  have "w_events (snd (onVideoFailed env k m a u)) = w_events u" "w_sent (snd (onVideoFailed env k m a u)) = w_sent u" for u
    using onVideoFailed_frame(2,3) [of env k m a] by (simp_all add: guarantee_def keeps_def)
  then show ?thesis
    by (auto simp: guarantee_def ev emit_failed published_def intro!: pushed_emit)
qed

interpretation attempt_pushed: attempt_relation "pushed env" env k for env k
  by unfold_locales (auto intro: pushed_frame pushed_emit simp: keeps_businessD)

section \<open>Phases of an attempt\<close>

text \<open>
  The state inside an attempt at video \<open>k\<close> that started in \<open>w0\<close>: the row satisfies \<open>P\<close> and
  the attempt has emitted \<open>evs\<close>.
\<close>

definition phase :: "world \<Rightarrow> string \<Rightarrow> (video \<Rightarrow> bool) \<Rightarrow> video_event list \<Rightarrow> world \<Rightarrow> bool" where
  "phase w0 k P evs w \<longleftrightarrow>
     wf_world w \<and> (\<exists>v. row w k = Some v \<and> P v) \<and> w_events w = w_events w0 @ evs"

abbreviation in_status :: "video_status \<Rightarrow> video \<Rightarrow> bool" where
  "in_status s v \<equiv> v_status v = s"

lemma phase_business: "keeps business_state w w' \<Longrightarrow> phase w0 k P evs w \<Longrightarrow> phase w0 k P evs w'"
  by (simp add: phase_def keeps_businessD wf_world_def)

lemma phase_weaken: "phase w0 k P evs w \<Longrightarrow> (\<And>v. P v \<Longrightarrow> Q v) \<Longrightarrow> phase w0 k Q evs w"
  by (auto simp: phase_def)

lemma phase_frame [simp]:
  "phase w0 k P evs (ticked env w) = phase w0 k P evs w"
  "phase w0 k P evs (with_cache env k' st pr ms w) = phase w0 k P evs w"
  "phase w0 k P evs (moved env k' st x w) = phase w0 k P evs w"
  by (simp_all add: phase_def)

lemma phase_time [simp]: "phase w0 k P evs (w\<lparr>w_now := t\<rparr>) = phase w0 k P evs w"
  by (simp add: phase_def wf_world_def)

lemma phase_update:
  assumes "phase w0 k P evs w" and "\<And>r. v_id (f r) = v_id r"
    and "\<And>v t. P v \<Longrightarrow> p v \<Longrightarrow> Q (touch t f v)" and "\<And>v. P v \<Longrightarrow> \<not> p v \<Longrightarrow> Q v"
  shows "phase w0 k Q evs (after_update env k p f w)"
proof -
  from assms(1) obtain v where v: "row w k = Some v" "P v" by (auto simp: phase_def)
  let ?v' = "if p v then touch (w_now (ticked env w)) f v else v"
  have "row (after_update env k p f w) k = Some ?v'"
    using v assms(2) by (simp add: table_simps)
  moreover have "Q ?v'" using v assms(3,4) by simp
  ultimately show ?thesis using assms(1,2) by (auto simp: phase_def wf_after_update)
qed

lemma progress_triple:
  "triple (phase w0 k (in_status s) evs) (updateProgress env k n m x)
     (\<lambda>_. phase w0 k (in_status s) evs) (\<lambda>_. phase w0 k (in_status s) evs)"
proof -
  have "phase w0 k (in_status s) evs w \<Longrightarrow> phase w0 k (in_status s) evs (after_progress env k n m x w)" for w
    by (rule phase_update) auto
  then show ?thesis
    by (auto simp: triple_def updateProgress_eval split: outcome.split)
qed

lemma job_triple:
  "triple (phase w0 k P evs) (job_updateProgress env job n) (\<lambda>_. phase w0 k P evs) (\<lambda>_. phase w0 k P evs)"
proof -
  have "triple (phase w0 k P evs)
      (\<lambda>w. (Inr (), w\<lparr>w_jobs := update_key j_id (j_id job) (\<lambda>_. True)
                            (\<lambda>j. j\<lparr>j_progress := JNum n\<rparr>) (w_jobs w)\<rparr>))
      (\<lambda>_. phase w0 k P evs) (\<lambda>_. phase w0 k P evs)"
    by (auto simp: triple_def phase_def wf_world_def intro: jobs.wf_upd)
  then show ?thesis
    unfolding job_updateProgress_def by (rule triple_external) simp_all
qed

lemma emit_triple:
  assumes "quiet ev"
  shows "triple (phase w0 k P evs) (emit env ev) (\<lambda>_. phase w0 k P (evs @ [ev])) (\<lambda>_. phase w0 k P evs)"
  using assms by (auto simp: triple_def emit_quiet phase_def wf_world_def row_def)

lemma sleep_triple: "triple (phase w0 k P evs) (sleep n) (\<lambda>_. phase w0 k P evs) (\<lambda>_. phase w0 k P evs)"
  unfolding sleep_def by (rule triple_modify) simp

lemma complete_triple:
  "triple (phase w0 k (in_status PROCESSING) evs)
     (transitionStatus env k PROCESSING COMPLETED \<lparr>x_videoUrl = Some u, x_thumbnailUrl = th, x_metadata = m\<rparr>)
     (\<lambda>_. phase w0 k (\<lambda>v. v_status v = COMPLETED \<and> v_videoUrl v = Some u) evs)
     (\<lambda>_. phase w0 k (\<lambda>v. v_status v \<in> {PROCESSING, COMPLETED}) evs)"
proof -
  let ?x = "\<lparr>x_videoUrl = Some u, x_thumbnailUrl = th, x_metadata = m\<rparr>"
  let ?P = "phase w0 k (in_status PROCESSING) evs"
  have 1: "?P w \<Longrightarrow> phase w0 k (\<lambda>v. v_status v = COMPLETED \<and> v_videoUrl v = Some u) evs
      (after_move env k PROCESSING COMPLETED ?x w)" for w
    by (erule phase_update) auto
  have 2: "?P w \<Longrightarrow> phase w0 k (\<lambda>v. v_status v \<in> {PROCESSING, COMPLETED}) evs
      (after_move env k PROCESSING COMPLETED ?x w)" for w
    by (erule phase_update) auto
  have 3: "?P w \<Longrightarrow> affected v_id k (in_status PROCESSING) (w_videos w) \<noteq> 0" for w
    by (auto simp: phase_def affected_row)
  have 4: "?P w \<Longrightarrow> phase w0 k (\<lambda>v. v_status v \<in> {PROCESSING, COMPLETED}) evs w" for w
    by (erule phase_weaken) simp
  have "transition_allowed PROCESSING COMPLETED" by (simp add: transition_allowed_iff)
  with 1 2 3 4 show ?thesis
    by (auto simp: triple_def transitionStatus_eval split: outcome.split)
qed

text \<open>How an attempt can end: in the middle of a phase, or with the video completed.\<close>

definition interrupted :: "world \<Rightarrow> string \<Rightarrow> int \<Rightarrow> world \<Rightarrow> bool" where
  "interrupted w0 k a w \<longleftrightarrow>
     (\<exists>n \<le> max_poll_attempts.
        phase w0 k (\<lambda>v. v_status v \<in> {PROCESSING, COMPLETED}) (attempt_events k a n) w)"

definition delivered :: "world \<Rightarrow> string \<Rightarrow> int \<Rightarrow> world \<Rightarrow> bool" where
  "delivered w0 k a w \<longleftrightarrow>
     (\<exists>n u th. 1 \<le> n \<and> n \<le> max_poll_attempts \<and>
        phase w0 k (\<lambda>v. v_status v = COMPLETED \<and> v_videoUrl v = Some u)
          (attempt_events k a n @ [VideoCompleted k u th]) w)"

lemma interruptedI:
  "phase w0 k P (attempt_events k a n) w \<Longrightarrow> n \<le> max_poll_attempts \<Longrightarrow>
     (\<And>v. P v \<Longrightarrow> v_status v \<in> {PROCESSING, COMPLETED}) \<Longrightarrow> interrupted w0 k a w"
  unfolding interrupted_def by (blast intro: phase_weaken)

text \<open>
  How the body of an attempt ends: it skips a video whose status admits no move to
  \<open>PROCESSING\<close>, delivers it, or stops with an error at some point.
\<close>

definition skipped :: "world \<Rightarrow> string \<Rightarrow> world \<Rightarrow> bool" where
  "skipped w0 k w \<longleftrightarrow> w_videos w = w_videos w0 \<and> w_events w = w_events w0 \<and>
     (\<exists>v. row w0 k = Some v \<and> terminal (v_status v))"

definition stopped :: "world \<Rightarrow> string \<Rightarrow> int \<Rightarrow> world \<Rightarrow> bool" where
  "stopped w0 k a w \<longleftrightarrow> w_events w = w_events w0 \<or> interrupted w0 k a w"

lemma findById_eval:
  "findById env k w =
     (case e_outcome env Database (w_calls w) of
        Served \<Rightarrow> (case row w k of None \<Rightarrow> Inl (video_not_found k) | Some v \<Rightarrow> Inr v, ticked env w)
      | Refused m \<Rightarrow> (Inl (JsError m), ticked env w)
      | Lost m \<Rightarrow> (Inl (JsError m), ticked env w))"
  by (auto simp: findById_def db_find_video_def external_cases io_bind_def row_def
      split: outcome.split option.split)

context generation_worker
begin

text \<open>Calls of the two services leave a phase as it is.\<close>

lemmas service_triples =
  provider_triple [of "phase w0 k P evs" for w0 k P evs, OF phase_business]
  store_triple [of "phase w0 k P evs" for w0 k P evs, OF phase_business]

lemma finish_video_triple:
  assumes "1 \<le> n" and "n \<le> max_poll_attempts"
  shows "triple (phase w0 k (in_status PROCESSING) (attempt_events k a n))
    (finish_video env storage job k result) (\<lambda>_. delivered w0 k a) (\<lambda>_. interrupted w0 k a)"
proof -
  let ?P = "phase w0 k (in_status PROCESSING) (attempt_events k a n)"
  let ?C = "\<lambda>u. phase w0 k (\<lambda>v. v_status v = COMPLETED \<and> v_videoUrl v = Some u) (attempt_events k a n)"
  let ?E = "\<lambda>_. interrupted w0 k a"
  have stop: "?P w \<Longrightarrow> interrupted w0 k a w" for w
    by (erule interruptedI) (simp_all add: assms)
  have stop': "?C u w \<Longrightarrow> interrupted w0 k a w" for u w
    by (erule interruptedI) (simp_all add: assms)
  have store: "triple ?P (if g_alreadyStored result = Some True then io_return (the (g_videoUrl result))
      else st_uploadFromUrl storage (the (g_videoUrl result)) (output_key k)) (\<lambda>_. ?P) ?E"
    by (auto intro!: triple_return triple_weaken [OF service_triples(4)] stop)
  have complete: "triple ?P (transitionStatus env k PROCESSING COMPLETED
       \<lparr>x_videoUrl = Some u, x_thumbnailUrl = g_thumbnailUrl result, x_metadata = Some completed_meta\<rparr>)
     (\<lambda>_. ?C u) ?E" for u
    by (rule triple_weaken [OF complete_triple]) (auto intro: interruptedI assms)
  have progress: "triple (?C u) (job_updateProgress env job 100) (\<lambda>_. ?C u) ?E" for u
    by (rule triple_weaken [OF job_triple]) (auto intro: stop')
  have announce: "triple (?C u) (emit env (VideoCompleted k u th)) (\<lambda>_. delivered w0 k a) ?E" for u th
    by (rule triple_weaken [OF emit_triple])
      (use assms in \<open>auto simp: quiet_def delivered_def intro: stop'\<close>)
  show ?thesis
    unfolding finish_video_def
    by (rule triple_bind [OF store] triple_bind [OF complete] triple_seq [OF progress] announce)+
qed

lemma poll_loop_triple:
  assumes "n \<le> max_poll_attempts"
  shows "triple (phase w0 k (in_status PROCESSING) (attempt_events k a n))
    (poll_loop env ai storage job k jid s n) (\<lambda>_. delivered w0 k a) (\<lambda>_. interrupted w0 k a)"
  using assms
proof (induction "max_poll_attempts - n" arbitrary: n s)
  case 0
  then show ?case
    by (subst poll_loop.simps) (auto intro!: triple_raise elim: interruptedI)
next
  case (Suc d)
  let ?P = "\<lambda>n. phase w0 k (in_status PROCESSING) (attempt_events k a n)"
  let ?E = "\<lambda>_. interrupted w0 k a"
  have stop: "i \<le> max_poll_attempts \<Longrightarrow> ?P i w \<Longrightarrow> interrupted w0 k a w" for i w
    by (erule interruptedI) simp_all
  have stop_n: "?P n w \<Longrightarrow> interrupted w0 k a w" for w
    using Suc.prems by (rule stop)
  have nap: "triple (?P n) (sleep ms) (\<lambda>_. ?P n) ?E" for ms
    by (rule triple_weaken [OF sleep_triple]) (auto intro: stop_n)
  have poll: "triple (?P n) (ai_getGenerationStatus ai jid) (\<lambda>_. ?P n) ?E"
    by (rule triple_weaken [OF service_triples(2)]) (auto intro: stop_n)
  have progress: "triple (?P n) (updateProgress env k p m x) (\<lambda>_. ?P n) ?E" for p m x
    by (rule triple_weaken [OF progress_triple]) (auto intro: stop_n)
  have report: "triple (?P n) (job_updateProgress env job p) (\<lambda>_. ?P n) ?E" for p
    by (rule triple_weaken [OF job_triple]) (auto intro: stop_n)
  have announce: "triple (?P n)
      (emit env (VideoProgressUpdated k (poll_percent (n + 1)) (poll_message (n + 1))))
      (\<lambda>_. ?P (Suc n)) ?E"
    by (rule triple_weaken [OF emit_triple])
      (auto simp: quiet_def attempt_events_Suc progress_event_def intro: stop_n)
  have lt: "n < max_poll_attempts" using Suc.hyps(2) by simp
  have deliver: "triple (?P (Suc n)) (finish_video env storage job k r) (\<lambda>_. delivered w0 k a) ?E" for r
    by (rule finish_video_triple) (use lt in simp_all)
  have again: "triple (?P (Suc n)) (poll_loop env ai storage job k jid s' (n + 1))
      (\<lambda>_. delivered w0 k a) ?E" for s'
    using Suc.hyps(1) [of "Suc n" s'] Suc.hyps(2) lt by simp
  show ?case
  proof (cases "s = GenProcessing")
    case False
    then show ?thesis by (subst poll_loop.simps) (auto intro!: triple_raise stop_n)
  next
    case True
    show ?thesis
      by (subst poll_loop.simps, simp only: True lt simp_thms if_True Let_def)
        (intro triple_seq [OF nap] triple_bind [OF poll] triple_seq [OF progress]
          triple_seq [OF report] triple_seq [OF announce] triple_if deliver again)
  qed
qed

lemma generate_started_triple:
  assumes "j_videoId job = k"
  shows "triple (phase w0 k (in_status PROCESSING) []) (generate_started env ai storage job v)
    (\<lambda>_. delivered w0 k (j_attemptsMade job + 1))
    (\<lambda>_ w. phase w0 k (in_status PROCESSING) [] w \<or> interrupted w0 k (j_attemptsMade job + 1) w)"
proof -
  let ?a = "j_attemptsMade job + 1"
  let ?P = "phase w0 k (in_status PROCESSING) []"
  let ?S = "phase w0 k (in_status PROCESSING) (attempt_events k ?a 0)"
  let ?E = "\<lambda>_ w. ?P w \<or> interrupted w0 k ?a w"
  have stop: "?S w \<Longrightarrow> interrupted w0 k ?a w" for w
    by (erule interruptedI) simp_all
  have report0: "triple ?P (job_updateProgress env job p) (\<lambda>_. ?P) ?E" for p
    by (rule triple_weaken [OF job_triple]) auto
  have announce: "triple ?P (emit env (VideoProcessingStarted k ?a)) (\<lambda>_. ?S) ?E"
    by (rule triple_weaken [OF emit_triple]) (auto simp: quiet_def attempt_events_0)
  have enhance: "triple ?S (ai_enhancePrompt ai p) (\<lambda>_. ?S) ?E" for p
    by (rule triple_weaken [OF service_triples(3)]) (auto intro: stop)
  have submit: "triple ?S (ai_generateVideo ai ps k) (\<lambda>_. ?S) ?E" for ps
    by (rule triple_weaken [OF service_triples(1)]) (auto intro: stop)
  have progress: "triple ?S (updateProgress env k p m x) (\<lambda>_. ?S) ?E" for p m x
    by (rule triple_weaken [OF progress_triple]) (auto intro: stop)
  have report: "triple ?S (job_updateProgress env job p) (\<lambda>_. ?S) ?E" for p
    by (rule triple_weaken [OF job_triple]) (auto intro: stop)
  have loop: "triple ?S (poll_loop env ai storage job k jid s 0) (\<lambda>_. delivered w0 k ?a) ?E" for jid s
    by (rule triple_weaken [OF poll_loop_triple]) auto
  show ?thesis
    unfolding generate_started_def Let_def assms
    by (intro triple_seq [OF report0] triple_seq [OF announce] triple_bind [OF enhance]
        triple_seq [OF progress] triple_seq [OF report] triple_bind [OF submit] loop)
qed

lemma generate_body_ends:
  assumes wf: "wf_world w0" and run: "generate_body env ai storage job w0 = (r, w')"
  shows "case r of Inr _ \<Rightarrow> delivered w0 (j_videoId job) (j_attemptsMade job + 1) w' \<or> skipped w0 (j_videoId job) w'
    | Inl _ \<Rightarrow> stopped w0 (j_videoId job) (j_attemptsMade job + 1) w'"
proof (cases "findById env (j_videoId job) w0")
  case (Pair f w1)
  let ?k = "j_videoId job"
  have w1: "w1 = ticked env w0"
    using Pair by (auto simp: findById_eval split: outcome.splits)
  show ?thesis
  proof (cases f)
    case (Inl e)
    with Pair run w1 show ?thesis
      by (auto simp: generate_body_def io_bind_def stopped_def)
  next
    case (Inr v)
    with Pair have v: "row w0 ?k = Some v"
      by (auto simp: findById_eval split: outcome.splits option.splits)
    let ?s = "v_status v"
    let ?w2 = "after_move env ?k ?s PROCESSING start_extra w1"
    have aff: "affected v_id ?k (\<lambda>u. v_status u = ?s) (w_videos w0) = 1"
      using wf v by (simp add: affected_row)
    show ?thesis
    proof (cases "transition_allowed ?s PROCESSING")
      case False
      then have "terminal ?s" by (cases ?s) (auto simp: transition_allowed_iff terminal_def)
      with False Pair Inr run w1 v show ?thesis
        by (auto simp: generate_body_def io_bind_def transitionStatus_eval skipped_def)
    next
      case True
      have ph: "phase w0 ?k (in_status PROCESSING) [] ?w2"
        by (rule phase_update [where P = "\<lambda>u. u = v"])
          (use wf v w1 in \<open>simp_all add: phase_def\<close>)
      show ?thesis
      proof (cases "e_outcome env Database (w_calls w1)")
        case Served
        with True aff Pair Inr run w1
        have go: "generate_started env ai storage job v (moved env ?k PROCESSING start_extra ?w2) = (r, w')"
          by (simp add: generate_body_def io_bind_def transitionStatus_eval)
        have ph': "phase w0 ?k (in_status PROCESSING) [] (moved env ?k PROCESSING start_extra ?w2)"
          using ph by simp
        show ?thesis
        proof (cases r)
          case (Inl e)
          from tripleD_Inl [OF generate_started_triple [OF refl] ph' go [unfolded Inl]] Inl
          show ?thesis by (auto simp: stopped_def phase_def)
        next
          case (Inr u)
          from tripleD_Inr [OF generate_started_triple [OF refl] ph' go [unfolded Inr]] Inr
          show ?thesis by simp
        qed
      next
        case (Refused m)
        with True Pair Inr run w1 show ?thesis
          by (auto simp: generate_body_def io_bind_def transitionStatus_eval stopped_def)
      next
        case (Lost m)
        with True Pair Inr run w1 show ?thesis
          by (auto simp: generate_body_def io_bind_def transitionStatus_eval stopped_def)
      qed
    qed
  qed
qed

end

interpretation gen_worker: generation_worker "aiService env delay" "storageService env' cfg"
  for env delay env' cfg
  by unfold_locales

section \<open>The handler\<close>

lemma handler_eval:
  assumes "generate_body env ai storage job w = (r, w1)"
  shows "handleVideoGeneration env ai storage job w =
    (case r of
       Inr u \<Rightarrow> (Inr u, w1)
     | Inl e \<Rightarrow>
         if isFinalAttempt job
         then (case markFailed env (j_videoId job) (error_message e) w1 of
                 (Inl e', w2) \<Rightarrow> (Inl e', w2)
               | (Inr _, w2) \<Rightarrow>
                   (Inl e, snd (emit env (VideoFailed (j_videoId job) (error_message e) (j_attemptsMade job + 1)) w2)))
         else (Inl e, w1))"
  using assms
  by (auto simp: handleVideoGeneration_def io_simps emit_failed Let_def
      split: sum.split prod.split)

text \<open>The state after \<open>markFailed\<close> with the database up.\<close>

definition marked :: "env \<Rightarrow> string \<Rightarrow> string \<Rightarrow> world \<Rightarrow> world" where
  "marked env k m w = evicted env k (after_update env k (\<lambda>_. True) (failed_fields m) w)"

lemma marked_calls: "w_calls (marked env k m w) = w_calls w + 2"
  by (simp add: marked_def evicted_def evictCache_def redis_del_def io_try_def external_cases after_update_def
      split: outcome.split)

lemma row_advances: "advances w w' \<Longrightarrow> row w k = Some v \<Longrightarrow> \<exists>v'. row w' k = Some v'"
  by (fastforce simp: advances_def statuses_def status_of_def)

lemma process_generate: "j_name job = GENERATE \<Longrightarrow> process env ai storage job = handleVideoGeneration env ai storage job"
  by (simp add: process_def)

lemma process_other: "j_name job \<noteq> GENERATE \<Longrightarrow> process env ai storage job w = (Inr (), w)"
  by (simp add: process_def)

context generation_worker
begin

lemma body_run:
  obtains r w1 where "generate_body env ai storage job w = (r, w1)"
    and "advances w w1" and "no_new_failure w w1" and "only_row (j_videoId job) w w1"
    and "keeps_wf w w1" and "keeps w_failed_jobs w w1"
proof -
  have worker: "generation_worker ai storage" by unfold_locales
  obtain r w1 where run: "generate_body env ai storage job w = (r, w1)" by fastforce
  from that [OF run] show thesis
    using guaranteeD [OF attempt_advances.generate_body_keeps [OF worker refl] run]
      guaranteeD [OF attempt_no_failure.generate_body_keeps [OF worker refl] run]
      guaranteeD [OF attempt_only_row.generate_body_keeps [OF worker refl] run]
      guaranteeD [OF attempt_wf.generate_body_keeps [OF worker refl] run]
      guaranteeD [OF attempt_failed_jobs.generate_body_keeps [OF worker refl] run]
    by blast
qed

text \<open>A return without error: the video was delivered, or there was nothing to do.\<close>

lemma process_returns:
  assumes "wf_world w" and "j_name job = GENERATE" and "process env ai storage job w = (Inr u, w')"
  shows "delivered w (j_videoId job) (j_attemptsMade job + 1) w' \<or> skipped w (j_videoId job) w'"
proof -
  obtain r w1 where run: "generate_body env ai storage job w = (r, w1)" by fastforce
  from handler_eval [OF run] assms(2,3) have "r = Inr u" "w' = w1"
    by (auto simp: process_generate split: sum.splits if_splits prod.splits)
  with generate_body_ends [OF assms(1) run] show ?thesis by simp
qed

text \<open>An attempt that is not the last and fails leaves the retry everything it needs.\<close>

lemma process_retryable:
  assumes "wf_world w" and "j_name job = GENERATE" and "\<not> isFinalAttempt job"
    and "process env ai storage job w = (Inl e, w')"
  shows "stopped w (j_videoId job) (j_attemptsMade job + 1) w'" and "no_new_failure w w'"
    and "advances w w'" and "w_failed_jobs w' = w_failed_jobs w"
proof -
  obtain r w1 where run: "generate_body env ai storage job w = (r, w1)"
    and R: "advances w w1" "no_new_failure w w1" "keeps w_failed_jobs w w1"
    by (rule body_run)
  from handler_eval [OF run] assms(2-) have r: "r = Inl e" "w' = w1"
    by (auto simp: process_generate split: sum.splits)
  with generate_body_ends [OF assms(1) run] R
  show "stopped w (j_videoId job) (j_attemptsMade job + 1) w'" "no_new_failure w w'"
    "advances w w'" "w_failed_jobs w' = w_failed_jobs w"
    by (simp_all add: keeps_def)
qed

text \<open>The last attempt, when it fails: the row, the event and the dead-letter record.\<close>

lemma process_last_run:
  assumes "up env Database" and "wf_world w" and "j_name job = GENERATE" and "isFinalAttempt job"
    and "process env ai storage job w = (Inl e, w')"
  obtains w1 evs where "advances w w1" and "w_failed_jobs w1 = w_failed_jobs w"
    and "w_events w1 = w_events w @ evs" and "\<forall>ev \<in> set evs. quiet ev"
    and "emit env (VideoFailed (j_videoId job) (error_message e) (j_attemptsMade job + 1))
      (marked env (j_videoId job) (error_message e) w1) = (Inr (), w')"
proof -
  let ?k = "j_videoId job"
  obtain r w1 where run: "generate_body env ai storage job w = (r, w1)"
    and R: "advances w w1" "keeps w_failed_jobs w w1"
    by (rule body_run)
  have mark: "markFailed env ?k m w1 = (Inr (), marked env ?k m w1)" for m
    using assms(1) by (simp add: markFailed_eval up_def marked_def)
  from handler_eval [OF run] assms(3-5) have r: "r = Inl e"
    and w': "w' = snd (emit env (VideoFailed ?k (error_message e) (j_attemptsMade job + 1))
      (marked env ?k (error_message e) w1))"
    by (auto simp: process_generate mark split: sum.splits)
  have "stopped w ?k (j_attemptsMade job + 1) w1"
    using generate_body_ends [OF assms(2) run] r by simp
  then obtain evs where "w_events w1 = w_events w @ evs" "\<forall>ev \<in> set evs. quiet ev"
    by (fastforce simp: stopped_def interrupted_def phase_def attempt_events_def progress_event_def quiet_def)
  moreover from w' have "emit env (VideoFailed ?k (error_message e) (j_attemptsMade job + 1))
      (marked env ?k (error_message e) w1) = (Inr (), w')"
    by (simp add: emit_failed)
  ultimately show thesis using that R by (auto simp: keeps_def)
qed

lemma process_last_row:
  assumes "up env Database" and "wf_world w" and "j_name job = GENERATE" and "isFinalAttempt job"
    and "process env ai storage job w = (Inl e, w')" and "row w (j_videoId job) = Some v"
  shows "\<exists>v. row w' (j_videoId job) = Some v \<and> v_status v = FAILED \<and>
    v_errorMessage v = Some (error_message e)"
proof -
  let ?k = "j_videoId job"
  obtain w1 where adv: "advances w w1"
    and emit: "emit env (VideoFailed ?k (error_message e) (j_attemptsMade job + 1))
      (marked env ?k (error_message e) w1) = (Inr (), w')"
    by (rule process_last_run [OF assms(1-5)])
  from adv assms(6) obtain v1 where "row w1 ?k = Some v1" by (blast dest: row_advances)
  then have "row (marked env ?k (error_message e) w1) ?k =
      Some (touch (w_now (ticked env w1)) (failed_fields (error_message e)) v1)"
    by (simp add: marked_def table_simps)
  moreover have "row w' ?k = row (marked env ?k (error_message e) w1) ?k"
    using emit_failed_frame(2) [OF emit] by (simp add: row_def)
  ultimately show ?thesis by simp
qed

lemma process_last_events:
  assumes "up env Database" and "wf_world w" and "j_name job = GENERATE" and "isFinalAttempt job"
    and "process env ai storage job w = (Inl e, w')"
    and fresh: "\<And>n. find_failed_job (e_uuid env n) (w_failed_jobs w) = None"
  shows "\<exists>evs r. w_events w' = w_events w @ evs @
        [VideoFailed (j_videoId job) (error_message e) (j_attemptsMade job + 1)] \<and>
      (\<forall>ev \<in> set evs. quiet ev) \<and>
      w_failed_jobs w' = w_failed_jobs w @ [r] \<and> f_videoId r = j_videoId job \<and>
      f_errorMessage r = error_message e \<and> f_attemptsMade r = j_attemptsMade job + 1 \<and> \<not> f_retried r"
proof -
  let ?k = "j_videoId job"
  obtain w1 evs where 1: "w_failed_jobs w1 = w_failed_jobs w" "w_events w1 = w_events w @ evs"
      "\<forall>ev \<in> set evs. quiet ev"
    and emit: "emit env (VideoFailed ?k (error_message e) (j_attemptsMade job + 1))
      (marked env ?k (error_message e) w1) = (Inr (), w')"
    by (rule process_last_run [OF assms(1-5)])
  let ?w2 = "marked env ?k (error_message e) w1"
  have "w_failed_jobs w' = w_failed_jobs w @
      [stored_failure env ?k (error_message e) (j_attemptsMade job + 1) ?w2]"
    using emit_failed_up [OF assms(1), of ?w2 ?k "error_message e" "j_attemptsMade job + 1"] fresh 1 emit
    by (simp add: marked_def insert_row_def)
  moreover have "w_events w' = w_events w @ evs @ [VideoFailed ?k (error_message e) (j_attemptsMade job + 1)]"
    using emit_failed_frame(3) [OF emit] 1 by (simp add: marked_def)
  ultimately show ?thesis using 1(3) by fastforce
qed

text \<open>
  The same under any faults: what a failed last attempt leaves depends on how the database takes
  the call that marks the row, and the two calls of the listener after the eviction from the cache.
\<close>

lemma process_last_cases:
  assumes "wf_world w" and "j_name job = GENERATE" and "isFinalAttempt job"
    and "process env ai storage job w = (Inl e, w')" and "row w (j_videoId job) = Some v"
  obtains e0 w1 evs v1 where "generate_body env ai storage job w = (Inl e0, w1)"
    and "w_events w1 = w_events w @ evs" and "\<forall>ev \<in> set evs. quiet ev" and "row w1 (j_videoId job) = Some v1"
    and "w_failed_jobs w1 = w_failed_jobs w"
    and "case e_outcome env Database (w_calls w1) of
        Served \<Rightarrow> e = e0 \<and>
          emit env (VideoFailed (j_videoId job) (error_message e0) (j_attemptsMade job + 1))
            (marked env (j_videoId job) (error_message e0) w1) = (Inr (), w')
      | Refused m \<Rightarrow> e = JsError m \<and> w' = ticked env w1
      | Lost m \<Rightarrow> e = JsError m \<and> w' = after_update env (j_videoId job) (\<lambda>_. True) (failed_fields (error_message e0)) w1"
proof -
  let ?k = "j_videoId job"
  obtain r w1 where run: "generate_body env ai storage job w = (r, w1)"
    and R: "advances w w1" "keeps w_failed_jobs w w1"
    by (rule body_run)
  note handler = handler_eval [OF run] assms(4) [unfolded process_generate [OF assms(2)]]
  obtain e0 where r: "r = Inl e0" using handler by (cases r) simp_all
  have "handleVideoGeneration env ai storage job w =
      (case markFailed env ?k (error_message e0) w1 of (Inl e', w2) \<Rightarrow> (Inl e', w2)
       | (Inr _, w2) \<Rightarrow> (Inl e0, snd (emit env (VideoFailed ?k (error_message e0) (j_attemptsMade job + 1)) w2)))"
    using handler(1) assms(3) by (simp add: r)
  note e = trans [OF this [symmetric] handler(2)]
  have "stopped w ?k (j_attemptsMade job + 1) w1"
    using generate_body_ends [OF assms(1) run] r by simp
  then obtain evs where "w_events w1 = w_events w @ evs" "\<forall>ev \<in> set evs. quiet ev"
    by (fastforce simp: stopped_def interrupted_def phase_def attempt_events_def progress_event_def quiet_def)
  moreover obtain v1 where "row w1 ?k = Some v1" using row_advances [OF R(1) assms(5)] by blast
  moreover have "case e_outcome env Database (w_calls w1) of
        Served \<Rightarrow> e = e0 \<and> emit env (VideoFailed ?k (error_message e0) (j_attemptsMade job + 1))
            (marked env ?k (error_message e0) w1) = (Inr (), w')
      | Refused m \<Rightarrow> e = JsError m \<and> w' = ticked env w1
      | Lost m \<Rightarrow> e = JsError m \<and> w' = after_update env ?k (\<lambda>_. True) (failed_fields (error_message e0)) w1"
    using e by (auto simp: markFailed_eval marked_def emit_failed split: outcome.splits)
  ultimately show thesis using that run [unfolded r] R(2) by (simp add: keeps_def)
qed

lemma process_last_terminal:
  assumes "up env Database" and "wf_world w" and "j_name job = GENERATE" and "isFinalAttempt job"
    and "row w (j_videoId job) = Some v" and "process env ai storage job w = (r, w')"
  shows "\<exists>v'. row w' (j_videoId job) = Some v' \<and> terminal (v_status v')"
proof (cases r)
  case (Inr u)
  with process_returns [OF assms(2,3), of env u w'] assms(6)
  have "delivered w (j_videoId job) (j_attemptsMade job + 1) w' \<or> skipped w (j_videoId job) w'"
    by simp
  with assms(5) show ?thesis
    by (auto simp: delivered_def skipped_def phase_def terminal_def row_def)
next
  case (Inl e)
  with process_last_row [OF assms(1-4) _ assms(5)] assms(6) show ?thesis
    by (auto simp: terminal_def)
qed

text \<open>The events of any attempt: those of the body, then at most the announcement of a failure.\<close>

lemma markFailed_events: "markFailed env k m w = (r, w') \<Longrightarrow> w_events w' = w_events w"
  using guaranteeD [OF frame_status_ops(6)] by (fastforce simp: keeps_def)

lemma body_events:
  assumes "wf_world w" and "generate_body env ai storage job w = (r, w1)"
  shows "\<exists>n \<le> max_poll_attempts. \<exists>evs. w_events w1 = w_events w @ evs \<and>
    progress_percents evs = map poll_percent [1..<Suc n]"
proof -
  have ends: "delivered w (j_videoId job) (j_attemptsMade job + 1) w1 \<or> skipped w (j_videoId job) w1 \<or>
      stopped w (j_videoId job) (j_attemptsMade job + 1) w1"
    using generate_body_ends [OF assms] by (auto split: sum.splits)
  then consider "w_events w1 = w_events w"
    | n tl where "n \<le> max_poll_attempts" "progress_percents tl = []"
        "w_events w1 = w_events w @ attempt_events (j_videoId job) (j_attemptsMade job + 1) n @ tl"
    by (fastforce simp: delivered_def skipped_def stopped_def interrupted_def phase_def progress_percents_def)
  then show ?thesis
  proof cases
    case 1
    then show ?thesis by (intro exI [of _ 0]) (simp add: progress_percents_def)
  next
    case 2
    then show ?thesis by (intro exI [of _ n]) (simp add: percents_attempt)
  qed
qed

lemma process_percents:
  assumes "wf_world w" and "j_name job = GENERATE" and "process env ai storage job w = (r, w')"
  shows "\<exists>n \<le> max_poll_attempts. \<exists>evs. w_events w' = w_events w @ evs \<and>
    progress_percents evs = map poll_percent [1..<Suc n]"
proof -
  obtain r1 w1 where run: "generate_body env ai storage job w = (r1, w1)" by fastforce
  from body_events [OF assms(1) run] obtain n evs where n: "n \<le> max_poll_attempts"
    "w_events w1 = w_events w @ evs" "progress_percents evs = map poll_percent [1..<Suc n]" by blast
  have "w_events w' = w_events w1 \<or> (\<exists>ev. \<not> quiet ev \<and> w_events w' = w_events w1 @ [ev])"
  proof (cases "markFailed env (j_videoId job) (case r1 of Inl e \<Rightarrow> error_message e | Inr _ \<Rightarrow> []) w1")
    case (Pair r2 w2)
    from handler_eval [OF run] assms(2,3) Pair markFailed_events [OF Pair] emit_failed_frame(3) [of env _ _ _ w2]
    show ?thesis
      by (auto simp: process_generate quiet_def emit_failed split: sum.splits if_splits)
  qed
  moreover have "progress_percents [ev] = []" if "\<not> quiet ev" for ev
    using that by (cases ev) (simp_all add: progress_percents_def quiet_def)
  moreover have "progress_percents [] = []" by (simp add: progress_percents_def)
  ultimately obtain tl where "w_events w' = w_events w1 @ tl" "progress_percents tl = []"
    by (metis append_Nil2)
  with n show ?thesis by (intro exI [of _ n]) simp
qed

lemma process_only_row:
  assumes "j_name job = GENERATE" and "process env ai storage job w = (r, w')"
  shows "only_row (j_videoId job) w w'"
proof -
  let ?k = "j_videoId job"
  obtain r1 w1 where run: "generate_body env ai storage job w = (r1, w1)" and "only_row ?k w w1"
    by (rule body_run)
  have "only_row ?k w1 w'"
  proof (cases "markFailed env ?k (case r1 of Inl e \<Rightarrow> error_message e | Inr _ \<Rightarrow> []) w1")
    case (Pair r2 w2)
    have "only_row ?k w1 w2" using guaranteeD [OF only_row_status_ops(3) Pair] .
    moreover have "row (snd (emit env (VideoFailed ?k m a) w2)) k' = row w2 k'" for m a k'
      using emit_failed_frame(2) [of env ?k m a w2] by (cases "emit env (VideoFailed ?k m a) w2") (simp add: row_def)
    ultimately show ?thesis
      using handler_eval [OF run] assms Pair only_row.refl [of ?k w1]
      by (auto simp: process_generate only_row_def split: sum.splits if_splits)
  qed
  with \<open>only_row ?k w w1\<close> show ?thesis by (rule only_row.trans)
qed

lemma process_wf:
  assumes "wf_world w" and "process env ai storage job w = (r, w')"
  shows "wf_world w'"
proof -
  have body: "guarantee keeps_wf (generate_body env ai storage job)"
    by (rule attempt_wf.generate_body_keeps) (unfold_locales, rule refl)
  have "guarantee keeps_wf (process env ai storage job)"
    unfolding process_def handleVideoGeneration_def Let_def
    by (intro wf.world_rules body wf_status_ops wf_emit)
  with assms show ?thesis by (auto dest: guaranteeD simp: keeps_wf_def)
qed

text \<open>The messages an attempt pushes, failures included.\<close>

lemma process_pushes: "guarantee (pushed env) (process env ai storage job)"
proof -
  have body: "guarantee (pushed env) (generate_body env ai storage job)"
    by (rule attempt_pushed.generate_body_keeps) (unfold_locales, rule refl)
  have failed: "guarantee (pushed env) (markFailed env k m)" for k m
    by (intro pushed.markFailed) (auto intro: pushed_frame simp: after_update_def)
  show ?thesis
    unfolding process_def handleVideoGeneration_def Let_def
    by (intro pushed.world_rules body failed emit_pushes)
qed

end

text \<open>The last attempt marks the row failed even when it was completed.\<close>

lemma marked_after_completion:
  assumes "up env Database" and "j_name job = GENERATE" and "isFinalAttempt job"
    and "generate_body env ai storage job w = (Inl e, w1)" and "row w1 (j_videoId job) = Some v"
  shows "\<exists>v'. row (snd (process env ai storage job w)) (j_videoId job) = Some v' \<and> v_status v' = FAILED \<and>
    v_videoUrl v' = v_videoUrl v"
proof -
  let ?k = "j_videoId job"
  let ?ev = "VideoFailed ?k (error_message e) (j_attemptsMade job + 1)"
  let ?w2 = "marked env ?k (error_message e) w1"
  have "markFailed env ?k (error_message e) w1 = (Inr (), ?w2)"
    using assms(1) by (simp add: markFailed_eval up_def marked_def)
  with handler_eval [OF assms(4)] assms(2,3)
  have "snd (process env ai storage job w) = snd (emit env ?ev ?w2)"
    by (simp add: process_generate)
  moreover have "row (snd (emit env ?ev ?w2)) ?k = row ?w2 ?k"
    using emit_failed_frame(2) [of env ?k "error_message e" "j_attemptsMade job + 1" ?w2]
    by (cases "emit env ?ev ?w2") (simp add: row_def)
  moreover have "row ?w2 ?k = Some (touch (w_now (ticked env w1)) (failed_fields (error_message e)) v)"
    using assms(5) by (simp add: marked_def table_simps)
  ultimately show ?thesis by (simp add: failed_fields_def)
qed

end
