(* ===== verification/Worker_Live.thy ===== *)
theory Worker_Live
  imports Worker_Run
begin

text \<open>
  Liveness of the worker with the simulated provider: when the database and the queue serve
  their calls and the provider needs no longer than the polling window, an attempt delivers
  the video. The proof carries the age of the provider's job from poll to poll.
\<close>

section \<open>Steps that only let time pass\<close>

definition time_passes :: "string \<Rightarrow> world \<Rightarrow> world \<Rightarrow> bool" where
  "time_passes k w w' \<longleftrightarrow>
     (wf_world w \<longrightarrow> wf_world w') \<and> statuses w' k = statuses w k \<and> w_ai_jobs w' = w_ai_jobs w \<and>
     w_now w \<le> w_now w'"

definition patient :: "string \<Rightarrow> (world \<Rightarrow> bool) \<Rightarrow> bool" where
  "patient k I \<longleftrightarrow> (\<forall>w w'. time_passes k w w' \<longrightarrow> I w \<longrightarrow> I w')"

lemma now_le_ticked: "w_now w \<le> w_now (ticked env w)"
  by (simp add: now_ticked)

abbreviation never :: "exn \<Rightarrow> world \<Rightarrow> bool" where
  "never \<equiv> \<lambda>_ _. False"

lemma patient_triple:
  assumes "patient k I" and "\<And>w. \<exists>a w'. m w = (Inr a, w') \<and> time_passes k w w'"
  shows "triple I m (\<lambda>_. I) never"
proof (rule tripleI)
  fix w a w'
  assume "I w" and "m w = (Inr a, w')"
  with assms show "I w'" by (metis patient_def prod.inject)
next
  fix w e w'
  assume "m w = (Inl e, w')"
  with assms(2) show False by (metis Pair_inject sum.distinct(1))
qed

lemma patient_steps:
  assumes "patient k I"
  shows "up env Database \<Longrightarrow> triple I (updateProgress env k n m x) (\<lambda>_. I) never"
    and "up env Queue \<Longrightarrow> triple I (job_updateProgress env job n) (\<lambda>_. I) never"
    and "quiet ev \<Longrightarrow> triple I (emit env ev) (\<lambda>_. I) never"
    and "triple I (enhancePrompt env p) (\<lambda>_. I) never"
proof -
  show "triple I (updateProgress env k n m x) (\<lambda>_. I) never" if "up env Database"
    using that now_le_ticked
    by (intro patient_triple [OF assms])
      (simp add: updateProgress_eval up_def time_passes_def wf_after_update)
  show "triple I (job_updateProgress env job n) (\<lambda>_. I) never" if "up env Queue"
    using that now_le_ticked
    by (intro patient_triple [OF assms])
      (auto simp: job_updateProgress_def external_up time_passes_def wf_world_def statuses_def status_of_def
        intro: jobs.wf_upd)
  show "triple I (emit env ev) (\<lambda>_. I) never" if "quiet ev"
    using that
    by (intro patient_triple [OF assms])
      (simp add: emit_quiet time_passes_def wf_world_def)
  show "triple I (enhancePrompt env p) (\<lambda>_. I) never"
    using now_le_ticked
    by (intro patient_triple [OF assms])
      (simp add: enhancePrompt_def io_simps external_cases time_passes_def
        split: outcome.split)
qed

section \<open>A job being rendered\<close>

definition working :: "string \<Rightarrow> world \<Rightarrow> bool" where
  "working k w \<longleftrightarrow> wf_world w \<and> statuses w k = Some PROCESSING"

definition rendering :: "string \<Rightarrow> string \<Rightarrow> int \<Rightarrow> nat \<Rightarrow> world \<Rightarrow> bool" where
  "rendering k jid d n w \<longleftrightarrow> working k w \<and>
     (\<exists>st. w_ai_jobs w jid = Some st \<and> k_videoId st = k \<and> k_completionDelayMs st = d \<and>
        k_startedAt st + 10000 * int n \<le> w_now w)"

definition published_video :: "string \<Rightarrow> world \<Rightarrow> bool" where
  "published_video k w \<longleftrightarrow> (\<exists>v. row w k = Some v \<and> v_status v = COMPLETED \<and>
     v_videoUrl v = Some (buildVideoUrl k))"

lemma patient_working: "patient k (working k)"
  by (auto simp: patient_def working_def time_passes_def)

lemma patient_rendering: "patient k (rendering k jid d n)"
  by (fastforce simp: patient_def rendering_def working_def time_passes_def)

lemma sleep_rendering:
  "triple (rendering k jid d n) (sleep 10000) (\<lambda>_. rendering k jid d (Suc n)) never"
  unfolding sleep_def
  by (rule triple_modify) (auto simp: rendering_def working_def wf_world_def statuses_def status_of_def)

definition poll_answer :: "string \<Rightarrow> string \<Rightarrow> generate_result \<Rightarrow> bool" where
  "poll_answer k jid g \<longleftrightarrow>
     g = pending_result jid \<or>
     g = (pending_result jid)\<lparr>g_status := GenCompleted, g_videoUrl := Some (buildVideoUrl k),
            g_thumbnailUrl := Some (buildThumbnailUrl k), g_alreadyStored := Some True\<rparr>"

lemma poll_triple:
  "triple (rendering k jid d n) (checkStatus jid)
     (\<lambda>g w. working k w \<and> poll_answer k jid g \<and>
        (g = pending_result jid \<longrightarrow> rendering k jid d n w \<and> 10000 * int n < d)) never"
  unfolding triple_def
proof (intro allI impI)
  fix w
  assume "rendering k jid d n w"
  then obtain st where "working k w" "w_ai_jobs w jid = Some st" "k_videoId st = k"
    "k_completionDelayMs st = d" "k_startedAt st + 10000 * int n \<le> w_now w"
    by (auto simp: rendering_def)
  then show "case checkStatus jid w of (Inl e, w') \<Rightarrow> never e w'
    | (Inr g, w') \<Rightarrow> working k w' \<and> poll_answer k jid g \<and>
        (g = pending_result jid \<longrightarrow> rendering k jid d n w' \<and> 10000 * int n < d)"
    by (auto simp: checkStatus_submitted poll_answer_def rendering_def working_def wf_world_def
        statuses_def status_of_def pending_result_def)
qed

lemma finish_live:
  assumes "up env Database" and "up env Queue"
    and "g = (pending_result jid)\<lparr>g_status := GenCompleted, g_videoUrl := Some (buildVideoUrl k),
            g_thumbnailUrl := Some (buildThumbnailUrl k), g_alreadyStored := Some True\<rparr>"
  shows "triple (working k) (finish_video env storage job k g) (\<lambda>_. published_video k) never"
  unfolding triple_def
proof (intro allI impI)
  fix w
  assume w: "working k w"
  then obtain v where v: "row w k = Some v" "v_status v = PROCESSING"
    by (auto simp: working_def statuses_def status_of_def)
  let ?x = "\<lparr>x_videoUrl = Some (buildVideoUrl k), x_thumbnailUrl = Some (buildThumbnailUrl k),
    x_metadata = Some completed_meta\<rparr>"
  let ?w1 = "moved env k COMPLETED ?x (after_move env k PROCESSING COMPLETED ?x w)"
  have aff: "affected v_id k (in_status PROCESSING) (w_videos w) = 1"
    using v w by (simp add: affected_row working_def)
  have tr: "transitionStatus env k PROCESSING COMPLETED ?x w = (Inr True, ?w1)"
    using assms(1) aff by (simp add: transitionStatus_eval up_def transition_allowed_iff)
  have row: "row ?w1 k = Some (touch (w_now (ticked env w)) (apply_extra COMPLETED ?x) v)"
    using v by (simp add: table_simps)
  have "\<exists>w'. finish_video env storage job k g w = (Inr (), w') \<and> row w' k = row ?w1 k"
    using assms(2) tr
    by (simp add: finish_video_def assms(3) io_bind_def io_seq_def job_updateProgress_def external_up
        emit_quiet quiet_def row_def)
  with row show "case finish_video env storage job k g w of (Inl e, w') \<Rightarrow> never e w'
      | (Inr _, w') \<Rightarrow> published_video k w'"
    by (auto simp: published_video_def)
qed

section \<open>The loop and the attempt\<close>

lemma pending_sel [simp]:
  "g_jobId (pending_result jid) = jid" "g_status (pending_result jid) = GenProcessing"
  "g_videoUrl (pending_result jid) = None"
  by (simp_all add: pending_result_def)

lemma loop_live:
  assumes up: "up env Database" "up env Queue" and d: "d \<le> 10000 * int max_poll_attempts"
    and "n < max_poll_attempts"
  shows "triple (rendering k jid d n)
    (poll_loop env (aiService env delay) storage job k jid GenProcessing n) (\<lambda>_. published_video k) never"
  using assms(4)
proof (induction "max_poll_attempts - n" arbitrary: n)
  case 0
  then show ?case by simp
next
  case (Suc m)
  let ?p = "poll_percent (n + 1)" and ?m = "poll_message (n + 1)"
  let ?rest = "\<lambda>result.
        io_seq (updateProgress env k ?p ?m
                  [''estimatedSecondsRemaining'' \<mapsto> JNum (poll_remaining (n + 1))]) (
        io_seq (job_updateProgress env job ?p) (
        io_seq (emit env (VideoProgressUpdated k ?p ?m)) (
        if truthy (g_videoUrl result) then finish_video env storage job k result
        else poll_loop env (aiService env delay) storage job k jid (g_status result) (n + 1))))"
  have poll: "ai_getGenerationStatus (aiService env delay) jid = checkStatus jid"
    by (simp add: aiService_def getGenerationStatus_def)
  have rest: "triple (\<lambda>w. working k w \<and> poll_answer k jid g \<and>
        (g = pending_result jid \<longrightarrow> rendering k jid d (Suc n) w \<and> 10000 * int (Suc n) < d))
      (?rest g) (\<lambda>_. published_video k) never" for g
  proof (cases "g = pending_result jid")
    case True
    have "triple (\<lambda>w. rendering k jid d (Suc n) w \<and> 10000 * int (Suc n) < d) (?rest g)
        (\<lambda>_. published_video k) never"
    proof (rule triple_assume)
      assume late: "10000 * int (Suc n) < d"
      with d have "Suc n < max_poll_attempts" by simp
      then have again: "triple (rendering k jid d (Suc n))
          (poll_loop env (aiService env delay) storage job k jid GenProcessing (n + 1))
          (\<lambda>_. published_video k) never"
        using Suc.hyps by simp
      note steps = patient_steps [OF patient_rendering [of k jid d "Suc n"]]
      have "triple (rendering k jid d (Suc n)) (?rest g) (\<lambda>_. published_video k) never"
        by (intro triple_seq [OF steps(1) [OF up(1)]] triple_seq [OF steps(2) [OF up(2)]]
            triple_seq [OF steps(3)]) (use again in \<open>simp_all add: quiet_def True\<close>)
      then show "triple (\<lambda>w. rendering k jid d (Suc n) w \<and> 10000 * int (Suc n) < d) (?rest g)
          (\<lambda>_. published_video k) never"
        by (rule triple_pre) simp
    qed simp
    then show ?thesis by (rule triple_pre) (simp add: True)
  next
    case False
    note steps = patient_steps [OF patient_working [of k]]
    show ?thesis
    proof (rule triple_assume)
      assume g: "g = (pending_result jid)\<lparr>g_status := GenCompleted, g_videoUrl := Some (buildVideoUrl k),
            g_thumbnailUrl := Some (buildThumbnailUrl k), g_alreadyStored := Some True\<rparr>"
      have "triple (working k) (?rest g) (\<lambda>_. published_video k) never"
        by (intro triple_seq [OF steps(1) [OF up(1)]] triple_seq [OF steps(2) [OF up(2)]]
            triple_seq [OF steps(3)])
          (use finish_live [OF up g] in \<open>simp_all add: quiet_def g buildVideoUrl_def\<close>)
      then show "triple (\<lambda>w. working k w \<and> poll_answer k jid g \<and>
            (g = pending_result jid \<longrightarrow> rendering k jid d (Suc n) w \<and> 10000 * int (Suc n) < d))
          (?rest g) (\<lambda>_. published_video k) never"
        by (rule triple_pre) simp
    qed (use False in \<open>simp add: poll_answer_def\<close>)
  qed
  show ?case
    by (subst poll_loop.simps, simp only: Suc.prems simp_thms if_True Let_def poll)
      (rule triple_seq [OF sleep_rendering] triple_bind [OF poll_triple] rest)+
qed

lemma submit_triple:
  "triple (working k) (ai_generateVideo (aiService env delay) ps k)
     (\<lambda>g w. rendering k (g_jobId g) (defaultDelayMs delay) 0 w \<and> g_status g = GenProcessing) never"
  by (auto simp: triple_def aiService_def generateVideo_def submit_def Let_def rendering_def working_def
      wf_world_def statuses_def status_of_def)

lemma started_live:
  assumes up: "up env Database" "up env Queue"
    and d: "defaultDelayMs delay \<le> 10000 * int max_poll_attempts"
  shows "triple (working (j_videoId job)) (generate_started env (aiService env delay) storage job v)
    (\<lambda>_. published_video (j_videoId job)) never"
proof -
  let ?k = "j_videoId job" and ?ai = "aiService env delay"
  note steps = patient_steps [OF patient_working [of ?k]]
  have enhance: "triple (working ?k) (ai_enhancePrompt ?ai p) (\<lambda>_. working ?k) never" for p
    using steps(4) by (simp add: aiService_def)
  have tail: "triple (\<lambda>w. rendering ?k (g_jobId g) (defaultDelayMs delay) 0 w \<and> g_status g = GenProcessing)
      (io_seq (updateProgress env ?k 40 m x) (io_seq (job_updateProgress env job 40)
        (poll_loop env ?ai storage job ?k (g_jobId g) (g_status g) 0)))
      (\<lambda>_. published_video ?k) never" for g m x
  proof (rule triple_assume)
    assume g: "g_status g = GenProcessing"
    note wait = patient_steps [OF patient_rendering [of ?k "g_jobId g" "defaultDelayMs delay" 0]]
    have loop: "triple (rendering ?k (g_jobId g) (defaultDelayMs delay) 0)
        (poll_loop env ?ai storage job ?k (g_jobId g) (g_status g) 0) (\<lambda>_. published_video ?k) never"
      unfolding g by (rule loop_live [OF up d]) (simp add: max_poll_attempts_def)
    show "triple (\<lambda>w. rendering ?k (g_jobId g) (defaultDelayMs delay) 0 w \<and> g_status g = GenProcessing)
      (io_seq (updateProgress env ?k 40 m x) (io_seq (job_updateProgress env job 40)
        (poll_loop env ?ai storage job ?k (g_jobId g) (g_status g) 0)))
      (\<lambda>_. published_video ?k) never"
      by (rule triple_pre [OF triple_seq [OF wait(1) [OF up(1)] triple_seq [OF wait(2) [OF up(2)] loop]]]) simp
  qed simp
  show ?thesis
    unfolding generate_started_def Let_def
    by (rule triple_seq [OF steps(2) [OF up(2)]] triple_seq [OF steps(3)] triple_bind [OF enhance]
        triple_seq [OF steps(1) [OF up(1)]] triple_bind [OF submit_triple] tail | simp add: quiet_def)+
qed

lemma process_live:
  assumes up: "up env Database" "up env Queue"
    and d: "defaultDelayMs delay \<le> 10000 * int max_poll_attempts"
    and wf: "wf_world w" and job: "j_name job = GENERATE"
    and v: "row w (j_videoId job) = Some v" "\<not> terminal (v_status v)"
  shows "\<exists>w'. process env (aiService env delay) storage job w = (Inr (), w') \<and>
    published_video (j_videoId job) w'"
proof -
  let ?k = "j_videoId job" and ?ai = "aiService env delay"
  let ?w1 = "after_move env ?k (v_status v) PROCESSING start_extra (ticked env w)"
  let ?w2 = "moved env ?k PROCESSING start_extra ?w1"
  have aff: "affected v_id ?k (in_status (v_status v)) (w_videos w) = 1"
    using v wf by (simp add: affected_row)
  have ok: "transition_allowed (v_status v) PROCESSING"
    using v(2) by (auto simp: not_terminal transition_allowed_iff)
  have body: "generate_body env ?ai storage job w = generate_started env ?ai storage job v ?w2"
    using up(1) v(1) ok aff
    by (simp add: generate_body_def io_bind_def findById_eval transitionStatus_eval up_def)
  have "working ?k ?w2"
    using v wf by (simp add: working_def wf_after_update statuses_after_move) (simp add: statuses_def status_of_def)
  then obtain u w' where "generate_started env ?ai storage job v ?w2 = (Inr u, w')" "published_video ?k w'"
    by (rule triple_total [OF started_live [OF up d]])
  with body have "generate_body env ?ai storage job w = (Inr (), w')" "published_video ?k w'" by simp_all
  with job show ?thesis by (auto simp: process_generate handler_eval)
qed

end
