(* ===== verification/Videos_Facts.thy ===== *)
theory Videos_Facts
  imports Videos Job_Status Processor
begin

text \<open>
  Lemmas about the video service: ownership, creation, listing, download links and the
  round trip of object keys through public URLs.
\<close>

section \<open>Ownership\<close>

lemma findOneForUser_eval:
  assumes "up env Database"
  shows "findOneForUser env k u w =
    (case row w k of
       None \<Rightarrow> Inl (video_not_found k)
     | Some v \<Rightarrow> if v_userId v \<noteq> u then Inl ForbiddenException else Inr v, ticked env w)"
  using assms
  by (auto simp: findOneForUser_def db_find_video_def io_simps row_def split: option.split)

lemma findOneForUser_InrD:
  assumes "findOneForUser env k u w = (Inr v, w')"
  shows "row w k = Some v" and "v_userId v = u" and "w' = ticked env w"
  using assms
  by (auto simp: findOneForUser_def db_find_video_def row_def elim!: io_bind_InrE dest!: external_InrD
      split: option.splits if_splits)

lemma findOneForUser_InlD:
  assumes "findOneForUser env k u w = (Inl e, w')"
  shows "w' = ticked env w"
  using assms
  by (auto simp: findOneForUser_def db_find_video_def io_bind_def external_cases
      split: option.splits if_splits outcome.splits)

text \<open>A caller who does not own a video cannot change it: any result, any fault.\<close>

lemma stranger_blocked:
  assumes "row w k = Some v" and "v_userId v \<noteq> u" and "findOneForUser env k u w = (r, w')"
  shows "isl r" and "business_state w' = business_state w"
proof -
  show "isl r"
  proof (cases r)
    case (Inr v')
    with assms(3) have "row w k = Some v'" "v_userId v' = u"
      by (auto intro: findOneForUser_InrD)
    with assms(1,2) show ?thesis by simp
  qed simp
  have "guarantee (keeps business_state) (findOneForUser env k u)"
    unfolding findOneForUser_def
    by (auto intro!: keeps_business.world_rules keeps_business.db_find split: option.split)
  from guaranteeD [OF this assms(3)] show "business_state w' = business_state w" by (simp add: keeps_def)
qed

section \<open>Creation\<close>

text \<open>The numbers of a form that the columns take.\<close>

definition dimensions_fit :: "create_video_dto \<Rightarrow> bool" where
  "dimensions_fit dto \<longleftrightarrow>
     pred_option int4 (cv_width dto) \<and> pred_option int4 (cv_height dto) \<and> pred_option int4 (cv_fps dto)"

lemma new_video_fits: "integers_fit (new_video u dto) = dimensions_fit dto"
  by (simp add: integers_fit_def dimensions_fit_def new_video_def or_else_def int4_def split: option.split)

lemma db_insert_video_cases:
  assumes "integers_fit v" and "find_user (v_userId v) (w_users w) \<noteq> None"
    and "find_video (e_uuid env (Suc (w_calls w))) (w_videos w) = None"
  shows "db_insert_video env v w =
    (let v' = v\<lparr>v_id := e_uuid env (Suc (w_calls w)), v_createdAt := w_now (ticked env w),
                 v_updatedAt := w_now (ticked env w)\<rparr>;
         w' = (ticked env w)\<lparr>w_videos := insert_row v' (w_videos w)\<rparr>
     in case e_outcome env Database (w_calls w) of
          Served \<Rightarrow> (Inr v', w')
        | Refused m \<Rightarrow> (Inl (JsError m), ticked env w)
        | Lost m \<Rightarrow> (Inl (JsError m), w'))"
  using assms by (auto simp: db_insert_video_def external_cases Let_def split: outcome.split)

text \<open>What a served creation does, step by step.\<close>

definition created_row :: "env \<Rightarrow> string \<Rightarrow> create_video_dto \<Rightarrow> world \<Rightarrow> video" where
  "created_row env u dto w = (new_video u dto)
     \<lparr>v_id := e_uuid env (Suc (w_calls w)), v_createdAt := w_now (ticked env w),
      v_updatedAt := w_now (ticked env w)\<rparr>"

lemma created_row_sel [simp]:
  "v_id (created_row env u dto w) = e_uuid env (Suc (w_calls w))"
  "v_userId (created_row env u dto w) = u"
  "v_status (created_row env u dto w) = PENDING"
  "v_prompt (created_row env u dto w) = cv_prompt dto"
  "v_queueJobId (created_row env u dto w) = None"
  "v_videoUrl (created_row env u dto w) = None"
  by (simp_all add: created_row_def new_video_def)

definition with_row :: "env \<Rightarrow> video \<Rightarrow> world \<Rightarrow> world" where
  "with_row env v w = (ticked env w)\<lparr>w_videos := insert_row v (w_videos w)\<rparr>"

lemma with_row_sel [simp]:
  "w_calls (with_row env v w) = Suc (w_calls w)" "w_jobs (with_row env v w) = w_jobs w"
  "w_events (with_row env v w) = w_events w"
  "w_videos (with_row env v w) = insert_row v (w_videos w)"
  by (simp_all add: with_row_def)

lemma row_with_row: "find_video (v_id v) (w_videos w) = None \<Longrightarrow> row (with_row env v w) (v_id v) = Some v"
  by (simp add: row_def videos.lookup_ins)

lemma insert_served:
  assumes "up env Database" and "dimensions_fit dto" and "find_user u (w_users w) \<noteq> None"
    and "find_video (e_uuid env (Suc (w_calls w))) (w_videos w) = None"
  shows "db_insert_video env (new_video u dto) w =
    (Inr (created_row env u dto w), with_row env (created_row env u dto w) w)"
proof -
  have "v_userId (new_video u dto) = u" by (simp add: new_video_def)
  with assms db_insert_video_cases [of "new_video u dto" w env] show ?thesis
    by (simp add: up_def Let_def created_row_def with_row_def new_video_fits)
qed

lemma no_options: "merge_job_opts d no_job_opts = d"
  by (simp add: merge_job_opts_def no_job_opts_def)

lemma createAndQueue_served:
  assumes up: "up env Database" "up env Queue" and fit: "dimensions_fit dto" and "find_user u (w_users w) \<noteq> None"
    and "k = e_uuid env (Suc (w_calls w))" and "find_video k (w_videos w) = None"
    and "jid = e_job_id env (Suc (Suc (w_calls w)))" and "find_job jid (w_jobs w) = None"
  shows "\<exists>v w' v'. createAndQueue env u dto w = (Inr v, w') \<and> v_id v = k \<and>
    row w' k = Some v' \<and> v_status v' = PENDING \<and> v_userId v' = u \<and> v_queueJobId v' = Some jid \<and>
    w_jobs w' = w_jobs w @ [new_job jid GENERATE k videos_module_job_defaults] \<and>
    w_events w' = w_events w @ [VideoCreated k u (cv_prompt dto) jid]"
proof -
  let ?v = "created_row env u dto w"
  let ?w1 = "with_row env ?v w"
  let ?w2 = "(ticked env ?w1)\<lparr>w_jobs := insert_row (new_job jid GENERATE k videos_module_job_defaults) (w_jobs w)\<rparr>"
  let ?w3 = "after_update env k (\<lambda>_. True) (\<lambda>v. v\<lparr>v_queueJobId := Some jid\<rparr>) ?w2"
  have upd: "db_update_video env k p f w' = (Inr (affected v_id k p (w_videos w')), after_update env k p f w')"
    for k p f w'
    using up(1) by (simp add: db_update_video_cases up_def)
  have j: "j_id (new_job i n vd os) = i" for i n vd os by (simp add: new_job_def)
  have "\<exists>v w'. createAndQueue env u dto w = (Inr v, w') \<and> v_id v = k \<and>
      w_videos w' = w_videos ?w3 \<and> w_jobs w' = w_jobs ?w3 \<and>
      w_events w' = w_events w @ [VideoCreated k u (cv_prompt dto) jid]"
    using assms insert_served [OF up(1) fit, of u w]
    by (simp add: createAndQueue_def io_simps queue_add_def no_options
        Let_def j upd emit_def on_gateway_def VIDEO_GENERATION_JOB_def)
  moreover have "row ?w1 k = Some ?v"
    using assms(5,6) row_with_row [of ?v w env] by simp
  then have "row ?w3 k = Some (touch (w_now (ticked env ?w2)) (\<lambda>v. v\<lparr>v_queueJobId := Some jid\<rparr>) ?v)"
    by (simp add: table_simps)
  ultimately show ?thesis
    by (auto simp: row_def touch_def insert_row_def)
qed

text \<open>A queue that refuses the job leaves the row behind.\<close>

lemma createAndQueue_refused:
  assumes "up env Database" and "dimensions_fit dto" and "find_user u (w_users w) \<noteq> None" and "k = e_uuid env (Suc (w_calls w))"
    and "find_video k (w_videos w) = None" and "e_outcome env Queue (Suc (w_calls w)) = Refused m"
  shows "\<exists>w' v'. createAndQueue env u dto w = (Inl (JsError m), w') \<and>
    row w' k = Some v' \<and> v_status v' = PENDING \<and> v_queueJobId v' = None \<and>
    w_jobs w' = w_jobs w \<and> w_events w' = w_events w"
proof -
  let ?v = "created_row env u dto w"
  have "createAndQueue env u dto w = (Inl (JsError m), ticked env (with_row env ?v w))"
    using assms insert_served [OF assms(1,2), of u w]
    by (simp add: createAndQueue_def io_bind_def queue_add_def external_cases)
  moreover have "row (ticked env (with_row env ?v w)) k = Some ?v"
    using assms(4,5) row_with_row [of ?v w env] by simp
  ultimately show ?thesis by auto
qed

text \<open>A number beyond the column fails the creation before anything is stored.\<close>

lemma createAndQueue_out_of_range:
  assumes "up env Database" and "\<not> dimensions_fit dto"
  shows "createAndQueue env u dto w = (Inl out_of_range, ticked env w)"
  using assms
  by (simp add: createAndQueue_def io_bind_def db_insert_video_def external_up Let_def new_video_fits)

section \<open>Listing\<close>

lemma findAllForUser_up:
  assumes "up env Database" and "1 \<le> page" and "0 < limit"
  shows "findAllForUser env u st page limit w =
    (let rows = videos_of u st (w_videos w);
         pages = ceil_div (int (length rows)) limit
     in (Inr \<lparr>pv_items = map video_response_from
               (page_of (nat (page - 1) * nat limit) (nat limit) (newest_first v_createdAt rows)),
             pv_meta = \<lparr>pm_total = length rows, pm_page = page, pm_limit = limit, pm_totalPages = Fin pages,
                        pm_hasNextPage = (page < pages), pm_hasPreviousPage = (1 < page)\<rparr>\<rparr>,
         ticked env w))"
  using assms
  by (simp add: findAllForUser_def external_up select_page_eval Let_def js_ceil_quotient_def)

lemma videos_of_set: "v \<in> set (videos_of u st t) \<longleftrightarrow>
    v \<in> set t \<and> v_userId v = u \<and> (st = None \<or> st = Some (v_status v))"
  by (auto simp: videos_of_def split: option.split)

text \<open>The reported number of pages is the one that covers the selection.\<close>

lemma last_page:
  assumes "0 < limit"
  shows "int (length t) \<le> ceil_div (int (length t)) limit * limit"
    and "t \<noteq> [] \<Longrightarrow> (ceil_div (int (length t)) limit - 1) * limit < int (length t)"
  using ceil_div_bounds [OF assms] by auto

section \<open>Download links\<close>

lemma getVideoResult_ready:
  assumes "getVideoResult env lib storage k u ttl w = (Inr d, w')"
  obtains v where "row w k = Some v" and "v_userId v = u" and "v_status v = COMPLETED"
    and "truthy (v_videoUrl v)" and "vd_videoId d = v_id v"
    and "vd_expiresInSeconds d = min (max ttl 60) MAX_PRESIGN_TTL"
    and "vd_thumbnailUrl d = None \<longleftrightarrow> \<not> truthy (v_thumbnailUrl v)"
proof -
  from assms obtain v w1 where v: "findOneForUser env k u w = (Inr v, w1)" and
    ready: "v_status v = COMPLETED" "truthy (v_videoUrl v)" and
    d: "vd_videoId d = v_id v" "vd_expiresInSeconds d = min (max ttl 60) MAX_PRESIGN_TTL"
      "vd_thumbnailUrl d = None \<longleftrightarrow> \<not> truthy (v_thumbnailUrl v)"
    unfolding getVideoResult_def
    by (auto elim!: io_bind_InrE split: if_splits simp: Let_def)
  from that [OF findOneForUser_InrD(1,2) [OF v] ready d] show thesis .
qed

lemma getVideoResult_conflict:
  assumes "up env Database" and "row w k = Some v" and "v_userId v = u"
    and "v_status v \<noteq> COMPLETED \<or> \<not> truthy (v_videoUrl v)"
  shows "getVideoResult env lib storage k u ttl w =
    (Inl (ConflictException (''Video is not yet completed. Current status: '' @ status_string (v_status v))),
     ticked env w)"
  using assms by (auto simp: getVideoResult_def io_bind_def findOneForUser_eval)

section \<open>Object keys in public URLs\<close>

lemma plain_segment_chars: "plain_segment s \<Longrightarrow> CHR ''/'' \<notin> set s"
  by (auto simp: plain_segment_def plain_char_def code_def)

lemma strip_bucket_path:
  assumes "plain_segment b"
  shows "strip_bucket (CHR ''/'' # b @ CHR ''/'' # r) = r"
proof -
  have b: "\<forall>c \<in> set b. c \<noteq> CHR ''/''" "b \<noteq> []"
    using assms plain_segment_chars [OF assms] by (auto simp: plain_segment_def)
  then have "takeWhile (\<lambda>d. d \<noteq> CHR ''/'') (b @ CHR ''/'' # r) = b"
      "dropWhile (\<lambda>d. d \<noteq> CHR ''/'') (b @ CHR ''/'' # r) = CHR ''/'' # r"
    by (simp_all add: takeWhile_append dropWhile_append)
  with b(2) show ?thesis by (simp add: strip_bucket_def)
qed

lemma extract_plain:
  assumes "scheme = ''http'' \<or> scheme = ''https''" and "host_name host" and "u_host_ok lib host"
    and "plain_segment b" and "segs \<noteq> []" and "\<forall>s \<in> set segs. plain_segment s"
  shows "extractS3Key lib (scheme @ ''://'' @ host @ ''/'' @ b @ ''/'' @ join_slash segs) = join_slash segs"
proof -
  have join: "join_slash (b # segs) = b @ CHR ''/'' # join_slash segs"
    using assms(5) by (cases segs) simp_all
  have "url_pathname lib (scheme @ ''://'' @ host @ ''/'' @ join_slash (b # segs)) =
      Some (CHR ''/'' # join_slash (b # segs))"
    using assms by (intro url_pathname_plain) auto
  then show ?thesis
    using strip_bucket_path [OF assms(4), of "join_slash segs"] by (simp add: extractS3Key_def join)
qed

lemma output_key_segments: "output_key k = join_slash [''videos'', k, ''output.mp4'']"
  by (simp add: output_key_def)

lemma plain_names [simp]: "plain_segment ''videos''" "plain_segment ''output.mp4''"
  by (simp_all add: plain_segment_def plain_char_def code_def)

lemma key_with_endpoint:
  assumes "sc_endpoint cfg = Some (scheme @ ''://'' @ host)"
    and "scheme = ''http'' \<or> scheme = ''https''" and "host_name host" and "u_host_ok lib host"
    and "plain_segment (bucket_of cfg)" and "segs \<noteq> []" and "\<forall>s \<in> set segs. plain_segment s"
  shows "extractS3Key lib (getPublicUrl cfg (join_slash segs)) = join_slash segs"
  using assms extract_plain [OF assms(2-7)] by (simp add: getPublicUrl_def)

lemma key_without_endpoint:
  assumes "\<not> truthy (sc_endpoint cfg)"
    and host: "host = bucket_of cfg @ ''.s3.'' @ or_else (sc_region cfg) ''us-east-1'' @ ''.amazonaws.com''"
    and "host_name host" and "u_host_ok lib host" and "plain_segment k"
  shows "extractS3Key lib (getPublicUrl cfg (output_key k)) = k @ ''/output.mp4''"
proof -
  have "getPublicUrl cfg (output_key k) = ''https'' @ ''://'' @ host @ ''/'' @ ''videos'' @ ''/'' @ join_slash [k, ''output.mp4'']"
    using assms(1) by (simp add: getPublicUrl_def host output_key_def)
  moreover have "extractS3Key lib \<dots> = join_slash [k, ''output.mp4'']"
    using assms by (intro extract_plain) auto
  ultimately show ?thesis by simp
qed

end
