(* ===== verification/Status_Cache.thy ===== *)
theory Status_Cache
  imports Job_Status
begin

text \<open>
  The Redis mirror of the status of a video: what a read returns after each operation of
  \<open>JobStatusService\<close>, and when the mirror and the row of the database agree.
\<close>

section \<open>Entries written by the operations\<close>

lemma with_cache_up:
  assumes "up env Redis"
  shows "with_cache env k st pr ms w = w
    \<lparr>w_calls := Suc (w_calls w),
     w_cache := (w_cache w)(statusKey k \<mapsto>
       \<lparr>c_value = Serialized \<lparr>s_status = st, s_progress = pr, s_message = ms,
                               s_updatedAt = toISOString (w_now w)\<rparr>,
        c_expires = w_now w + int (e_latency env (w_calls w)) + CACHE_TTL_SECONDS * 1000\<rparr>)\<rparr>"
  using assms
  by (simp add: with_cache_def detached_def writeCache_def redis_set_def current_time_def io_simps ticked_def)

lemma evicted_up:
  assumes "up env Redis"
  shows "evicted env k w = (ticked env w)\<lparr>w_cache := (w_cache w)(statusKey k := None)\<rparr>"
  using assms
  by (simp add: evicted_def evictCache_def redis_del_def io_simps)

text \<open>A reply that arrives within the lifetime of a fresh entry.\<close>

definition prompt_reply :: "env \<Rightarrow> world \<Rightarrow> bool" where
  "prompt_reply env w \<longleftrightarrow> int (e_latency env (w_calls w)) < CACHE_TTL_SECONDS * 1000"

lemma read_after_write:
  assumes "up env Redis" and "prompt_reply env (with_cache env k st pr ms w)"
  shows "getCachedStatus env k (with_cache env k st pr ms w) =
    (Inr (Some \<lparr>s_status = st, s_progress = pr, s_message = ms, s_updatedAt = toISOString (w_now w)\<rparr>),
     ticked env (with_cache env k st pr ms w))"
proof (rule getCachedStatus_hit [OF assms(1)])
  show "live_entry (with_cache env k st pr ms w) k (w_now (ticked env (with_cache env k st pr ms w))) =
    Some (Serialized \<lparr>s_status = st, s_progress = pr, s_message = ms, s_updatedAt = toISOString (w_now w)\<rparr>)"
    using assms by (simp add: with_cache_up live_entry_def now_ticked prompt_reply_def)
qed

section \<open>Reads after the operations\<close>

lemma transition_then_read:
  assumes "up env Redis" and "transitionStatus env k s t x w = (Inr True, w')" and "prompt_reply env w'"
  shows "\<exists>snap w''. getCachedStatus env k w' = (Inr (Some snap), w'') \<and> s_status snap = t \<and> row w'' = row w'"
proof -
  let ?w1 = "after_move env k s t x w"
  from assms(2) have w': "w' = moved env k t x ?w1"
    by (auto simp: transitionStatus_eval split: if_splits outcome.splits)
  note w'' = w' [unfolded moved_def]
  from assms(1,3) read_after_write show ?thesis unfolding w'' by fastforce
qed

lemma markFailed_then_read:
  assumes "up env Redis" and "up env Database" and "row w k = Some v" and "markFailed env k m w = (Inr (), w')"
  shows "\<exists>snap w''. getCachedStatus env k w' = (Inr (Some snap), w'') \<and> s_status snap = FAILED"
proof -
  let ?w1 = "after_update env k (\<lambda>_. True) (failed_fields m) w"
  from assms(2,4) have w': "w' = evicted env k ?w1" by (simp add: markFailed_eval up_def)
  have "live_entry w' k t = None" for t
    using assms(1) by (simp add: w' evicted_up live_entry_def)
  with assms(1) have "getCachedStatus env k w' = loadFromDb env k (ticked env w')"
    by (intro getCachedStatus_miss) simp_all
  moreover have "row (ticked env w') k = Some (touch (w_now (ticked env w)) (failed_fields m) v)"
    using assms(3) by (simp add: w' table_simps)
  ultimately show ?thesis
    using assms(1,2) by (simp add: loadFromDb_up Let_def snapshot_of_def)
qed

text \<open>A cold read is served from the row and fills the mirror for the next one.\<close>

lemma cold_read:
  assumes "up env Redis" and "up env Database" and "row w k = Some v"
    and "live_entry w k (w_now (ticked env w)) = None"
  shows "\<exists>w'. getCachedStatus env k w = (Inr (Some (snapshot_of v (w_now (ticked env (ticked env w))))), w') \<and>
    (prompt_reply env w' \<longrightarrow> fst (getCachedStatus env k w') =
       Inr (Some (snapshot_of v (w_now (ticked env (ticked env w))))))"
proof -
  let ?t = "w_now (ticked env (ticked env w))"
  let ?w' = "stored env k (snapshot_of v ?t) (ticked env (ticked env w))"
  have 1: "getCachedStatus env k w = (Inr (Some (snapshot_of v ?t)), ?w')"
    using assms by (simp add: getCachedStatus_miss loadFromDb_up Let_def)
  have "fst (getCachedStatus env k ?w') = Inr (Some (snapshot_of v ?t))" if "prompt_reply env ?w'"
  proof -
    have "live_entry ?w' k (w_now (ticked env ?w')) = Some (Serialized (snapshot_of v ?t))"
      using that by (simp add: live_stored prompt_reply_def now_ticked [of env ?w'])
    with assms(1) show ?thesis by (simp add: getCachedStatus_hit)
  qed
  with 1 show ?thesis by auto
qed

text \<open>Progress of a row that is no longer being processed still lands in the mirror.\<close>

lemma stale_progress_read:
  assumes "up env Redis" and "up env Database" and "row w k = Some v" and "v_status v \<noteq> PROCESSING"
    and "updateProgress env k n m x w = (Inr (), w')" and "prompt_reply env w'"
  shows "row w' k = Some v \<and> (\<exists>snap. fst (getCachedStatus env k w') = Inr (Some snap) \<and>
    s_status snap = PROCESSING)"
proof -
  let ?w1 = "after_progress env k n m x w"
  from assms(2,5) have w': "w' = with_cache env k PROCESSING (JNum n) (JStr m) ?w1"
    by (simp add: updateProgress_eval up_def)
  have "row w' k = Some v" using assms(3,4) by (simp add: w' table_simps)
  moreover have "fst (getCachedStatus env k w') = Inr (Some \<lparr>s_status = PROCESSING, s_progress = JNum n,
      s_message = JStr m, s_updatedAt = toISOString (w_now ?w1)\<rparr>)"
    using read_after_write [OF assms(1)] assms(6) by (simp add: w')
  ultimately show ?thesis by simp
qed

text \<open>With Redis refusing every call the fallback reads the row and then throws it away.\<close>

lemma redis_down_read:
  assumes "\<And>n. e_outcome env Redis n = Refused m"
  shows "fst (getCachedStatus env k w) = Inr None"
proof -
  have set: "redis_set env k' v n w' = (Inl (JsError m), ticked env w')" for k' v n w'
    using assms by (simp add: redis_set_def external_cases)
  have get: "redis_get env k' w' = (Inl (JsError m), ticked env w')" for k' w'
    using assms by (simp add: redis_get_def external_cases)
  have "fst (loadFromDb env k w') = Inr None" for w'
    by (auto simp: loadFromDb_def db_find_video_def external_cases io_simps
        current_time_def set split: outcome.splits option.splits)
  then show ?thesis by (simp add: getCachedStatus_def io_simps get)
qed

end
