(* ===== verification/Queue_Api.thy ===== *)
theory Queue_Api
  imports Dlq
begin

text \<open>
  \<open>QueueService\<close> and \<open>QueueController\<close> (modules/queue): the state of one queue job and the
  endpoints of the dead-letter records.
\<close>

section \<open>Job status\<close>

record job_status_dto =
  js_jobId :: string
  js_state :: string
  js_progress :: int
  js_attemptsMade :: int
  js_maxAttempts :: int
  js_failedReason :: "string option"
  js_processedOn :: "string option"
  js_finishedOn :: "string option"

definition queue_getJob :: "env \<Rightarrow> string \<Rightarrow> queue_job option act" where
  "queue_getJob env jobId = external env Queue (io_gets (\<lambda>w. find_job jobId (w_jobs w)))"

text \<open>The state of a job that is gone by the time it is asked for is \<open>unknown\<close>.\<close>

definition job_getState :: "env \<Rightarrow> queue_job \<Rightarrow> string act" where
  "job_getState env job = external env Queue (io_gets (\<lambda>w.
     case find_job (j_id job) (w_jobs w) of None \<Rightarrow> ''unknown'' | Some j \<Rightarrow> j_state j))"

text \<open>\<open>typeof p === 'number' ? p : 0\<close>\<close>

definition numeric_progress :: "jval \<Rightarrow> int" where
  "numeric_progress p = (case p of JNum n \<Rightarrow> n | _ \<Rightarrow> 0)"

text \<open>\<open>t ? new Date(t).toISOString() : undefined\<close>: an absent or zero timestamp is falsy.\<close>

definition iso_if_set :: "instant option \<Rightarrow> string option" where
  "iso_if_set t = (case t of None \<Rightarrow> None | Some i \<Rightarrow> if i = 0 then None else Some (toISOString i))"

definition job_status_of :: "queue_job \<Rightarrow> string \<Rightarrow> job_status_dto" where
  "job_status_of job state =
     \<lparr>js_jobId = j_id job, js_state = state, js_progress = numeric_progress (j_progress job),
      js_attemptsMade = j_attemptsMade job, js_maxAttempts = or_else (o_attempts (j_opts job)) 1,
      js_failedReason = (if truthy (j_failedReason job) then j_failedReason job else None),
      js_processedOn = iso_if_set (j_processedOn job),
      js_finishedOn = iso_if_set (j_finishedOn job)\<rparr>"

definition getJobStatus :: "env \<Rightarrow> string \<Rightarrow> job_status_dto act" where
  "getJobStatus env jobId =
     io_bind (queue_getJob env jobId) (\<lambda>found.
     case found of
       None \<Rightarrow> io_raise (NotFoundException (''Queue job '' @ jobId @ '' not found''))
     | Some job \<Rightarrow>
         io_bind (job_getState env job) (\<lambda>state. io_return (job_status_of job state)))"

section \<open>Handlers of the controller\<close>

definition queue_getJobStatus :: "env \<Rightarrow> string \<Rightarrow> job_status_dto act" where
  "queue_getJobStatus env jobId = getJobStatus env jobId"

definition queue_listFailedJobs :: "env \<Rightarrow> int option \<Rightarrow> int option \<Rightarrow> paginated_failed_jobs act" where
  "queue_listFailedJobs env page limit =
     (let safeLimit = min (or_else limit 20) 100
      in listFailedJobs env (or_else page 1) safeLimit)"

definition queue_retryFailedJob :: "env \<Rightarrow> string \<Rightarrow> retry_failed_job_dto act" where
  "queue_retryFailedJob env rid = retryFailedJob env rid"

definition queue_getFailedJob :: "env \<Rightarrow> string \<Rightarrow> failed_job_dto act" where
  "queue_getFailedJob env rid = getFailedJob env rid"

section \<open>Lemmas\<close>

lemma find_job_key: "find_job k t = Some j \<Longrightarrow> j_id j = k"
  by (rule jobs.lookup_key)

lemma getJobStatus_up:
  assumes "up env Queue"
  shows "getJobStatus env jobId w =
    (case find_job jobId (w_jobs w) of
       None \<Rightarrow> (Inl (NotFoundException (''Queue job '' @ jobId @ '' not found'')), ticked env w)
     | Some job \<Rightarrow> (Inr (job_status_of job (j_state job)), ticked env (ticked env w)))"
proof (cases "find_job jobId (w_jobs w)")
  case None
  with assms show ?thesis
    by (simp add: getJobStatus_def queue_getJob_def io_simps)
next
  case (Some job)
  then have "j_id job = jobId" by (rule find_job_key)
  with Some assms show ?thesis
    by (simp add: getJobStatus_def queue_getJob_def job_getState_def io_simps)
qed

text \<open>No page of the endpoint has more than 100 records.\<close>

lemma listFailedJobs_length:
  assumes "listFailedJobs env page limit w = (Inr p, w')" and "0 < limit"
  shows "length (pf_items p) \<le> nat limit"
  using assms
  by (auto simp: listFailedJobs_def select_page_def length_page_of_le
      dest!: external_InrD split: sum.splits if_splits)

end
