(* ===== verification/Users.thy ===== *)
theory Users
  imports World
begin

text \<open>
  \<open>UsersService\<close> and \<open>UsersController\<close> (modules/users) on the table \<open>users\<close>: its unique columns
  (the id, the email and, where it is given, the username), the removal of a user together with
  the videos that reference it, and the columns that leave the service.
\<close>

section \<open>Statements\<close>

text \<open>No other row has the username.\<close>

definition username_free :: "string \<Rightarrow> string option \<Rightarrow> user list \<Rightarrow> bool" where
  "username_free k name t \<longleftrightarrow>
     name = None \<or> (\<forall>r \<in> set t. us_id r = k \<or> us_username r \<noteq> name)"

definition db_insert_user :: "env \<Rightarrow> user \<Rightarrow> user act" where
  "db_insert_user env u = external env Database (\<lambda>w.
     let u' = u\<lparr>us_id := e_uuid env (w_calls w), us_createdAt := w_now w, us_updatedAt := w_now w\<rparr>
     in if find_user (us_id u') (w_users w) = None \<and>
           find_user_by_email (us_email u') (w_users w) = None \<and>
           username_free (us_id u') (us_username u') (w_users w)
        then (Inr u', w\<lparr>w_users := insert_row u' (w_users w)\<rparr>)
        else (Inl duplicate_key, w))"

text \<open>A property that is not given is left out of the \<open>SET\<close> clause.\<close>

fun set_column :: "'a given \<Rightarrow> 'a \<Rightarrow> 'a" where
  "set_column (Value v) old = v"
| "set_column _ old = old"

fun set_nullable :: "'a given \<Rightarrow> 'a option \<Rightarrow> 'a option" where
  "set_nullable Undefined old = old"
| "set_nullable Null old = None"
| "set_nullable (Value v) old = Some v"

definition profile_update :: "update_user_dto \<Rightarrow> instant \<Rightarrow> user \<Rightarrow> user" where
  "profile_update dto t u =
     u\<lparr>us_firstName := set_column (uu_firstName dto) (us_firstName u),
       us_lastName := set_column (uu_lastName dto) (us_lastName u),
       us_username := set_nullable (uu_username dto) (us_username u), us_updatedAt := t\<rparr>"

definition db_update_user :: "env \<Rightarrow> string \<Rightarrow> update_user_dto \<Rightarrow> unit act" where
  "db_update_user env k dto = external env Database (\<lambda>w.
     case find_user k (w_users w) of
       None \<Rightarrow> (Inr (), w)
     | Some u \<Rightarrow>
         if uu_firstName dto = Null \<or> uu_lastName dto = Null then (Inl null_violation, w)
         else if \<not> username_free k (set_nullable (uu_username dto) (us_username u)) (w_users w)
         then (Inl duplicate_key, w)
         else (Inr (), w\<lparr>w_users := update_key us_id k (\<lambda>_. True) (profile_update dto (w_now w)) (w_users w)\<rparr>))"

text \<open>The foreign key of \<open>videos\<close> cascades.\<close>

definition db_delete_user :: "env \<Rightarrow> string \<Rightarrow> unit act" where
  "db_delete_user env k = external env Database (\<lambda>w.
     (Inr (), w\<lparr>w_users := delete_key us_id k (w_users w),
                w_videos := filter (\<lambda>v. v_userId v \<noteq> k) (w_videos w)\<rparr>))"

section \<open>Operations of the service\<close>

text \<open>The entity as it is inserted: absent columns take the defaults of the table.\<close>

definition new_user :: "create_user_dto \<Rightarrow> user" where
  "new_user dto =
     \<lparr>us_id = [], us_firstName = cu_firstName dto, us_lastName = cu_lastName dto,
      us_email = cu_email dto, us_username = cu_username dto, us_role = or_else (cu_role dto) USER,
      us_isActive = True, us_createdAt = 0, us_updatedAt = 0, us_password = cu_password dto\<rparr>"

definition user_create :: "env \<Rightarrow> create_user_dto \<Rightarrow> user act" where
  "user_create env dto = db_insert_user env (new_user dto)"

text \<open>The selection \<open>safeFields\<close>: the row without the password hash.\<close>

definition safeFields :: "user \<Rightarrow> safe_user" where
  "safeFields u = safe_user.truncate u"

definition user_findAll :: "env \<Rightarrow> safe_user list act" where
  "user_findAll env = external env Database (io_gets (\<lambda>w. map safeFields (w_users w)))"

definition user_not_found :: "string \<Rightarrow> exn" where
  "user_not_found k = NotFoundException (''User '' @ k @ '' not found'')"

definition user_findById :: "env \<Rightarrow> string \<Rightarrow> safe_user act" where
  "user_findById env k =
     io_bind (external env Database (io_gets (\<lambda>w. map_option safeFields (find_user k (w_users w)))))
       (\<lambda>found. case found of None \<Rightarrow> io_raise (user_not_found k) | Some u \<Rightarrow> io_return u)"

definition user_findByEmail :: "env \<Rightarrow> string \<Rightarrow> user option act" where
  "user_findByEmail env email =
     external env Database (io_gets (\<lambda>w. find_user_by_email email (w_users w)))"

definition user_update :: "env \<Rightarrow> string \<Rightarrow> update_user_dto \<Rightarrow> safe_user act" where
  "user_update env k dto = io_seq (db_update_user env k dto) (user_findById env k)"

definition user_remove :: "env \<Rightarrow> string \<Rightarrow> unit act" where
  "user_remove env k =
     io_bind (user_findById env k) (\<lambda>u. db_delete_user env (us_id u))"

section \<open>Handlers of the controller\<close>

text \<open>
  The user of a request, as \<open>CurrentUser\<close> hands it to a handler; reading a property of a user
  that is undefined is a type error.
\<close>

definition with_user :: "safe_user option \<Rightarrow> (safe_user \<Rightarrow> 'a act) \<Rightarrow> 'a act" where
  "with_user user f =
     (case user of
        None \<Rightarrow> io_raise (JsError ''Cannot read properties of undefined (reading id)'')
      | Some u \<Rightarrow> f u)"

definition users_getMe :: "env \<Rightarrow> safe_user option \<Rightarrow> safe_user act" where
  "users_getMe env user = with_user user (\<lambda>u. user_findById env (us_id u))"

definition users_updateMe :: "env \<Rightarrow> safe_user option \<Rightarrow> update_user_dto \<Rightarrow> safe_user act" where
  "users_updateMe env user dto = with_user user (\<lambda>u. user_update env (us_id u) dto)"

definition users_findAll :: "env \<Rightarrow> safe_user list act" where
  "users_findAll env = user_findAll env"

definition users_findOne :: "env \<Rightarrow> string \<Rightarrow> safe_user act" where
  "users_findOne env k = user_findById env k"

definition users_remove :: "env \<Rightarrow> string \<Rightarrow> unit act" where
  "users_remove env k = user_remove env k"

section \<open>Lemmas\<close>

lemma find_user_SomeD: "find_user k t = Some u \<Longrightarrow> u \<in> set t \<and> us_id u = k"
  unfolding find_user_def by (rule select_key_SomeD)

lemma find_by_email_SomeD: "find_user_by_email e t = Some u \<Longrightarrow> u \<in> set t \<and> us_email u = e"
  unfolding find_user_by_email_def by (rule select_key_SomeD)

lemma find_user_iff: "unique_users t \<Longrightarrow> find_user k t = Some u \<longleftrightarrow> u \<in> set t \<and> us_id u = k"
  using select_key_set [of us_id t u] find_user_SomeD
  by (auto simp: unique_users_def find_user_def)

lemma find_by_email_iff:
  "unique_users t \<Longrightarrow> find_user_by_email e t = Some u \<longleftrightarrow> u \<in> set t \<and> us_email u = e"
  using select_key_set [of us_email t u] find_by_email_SomeD
  by (auto simp: unique_users_def find_user_by_email_def)

lemma profile_update_sel [simp]:
  "us_id (profile_update dto t u) = us_id u" "us_email (profile_update dto t u) = us_email u"
  "us_role (profile_update dto t u) = us_role u" "us_isActive (profile_update dto t u) = us_isActive u"
  "us_password (profile_update dto t u) = us_password u"
  "us_createdAt (profile_update dto t u) = us_createdAt u"
  by (simp_all add: profile_update_def)

lemma safeFields_sel [simp]:
  "us_id (safeFields u) = us_id u" "us_email (safeFields u) = us_email u"
  "us_role (safeFields u) = us_role u" "us_isActive (safeFields u) = us_isActive u"
  "us_username (safeFields u) = us_username u"
  by (simp_all add: safeFields_def safe_user.truncate_def)

lemma new_user_sel [simp]:
  "us_email (new_user dto) = cu_email dto" "us_password (new_user dto) = cu_password dto"
  "us_role (new_user dto) = or_else (cu_role dto) USER" "us_isActive (new_user dto)"
  "us_username (new_user dto) = cu_username dto"
  by (simp_all add: new_user_def)

text \<open>The unique columns survive every statement.\<close>

lemma unique_insert:
  assumes "unique_users t" and "find_user (us_id u) t = None"
    and "find_user_by_email (us_email u) t = None" and "username_free (us_id u) (us_username u) t"
  shows "unique_users (insert_row u t)"
  using assms users.wf_ins users_by_email.wf_ins
  by (fastforce simp: unique_users_def username_free_def)

lemma unique_delete:
  assumes "unique_users t"
  shows "unique_users (delete_key us_id k t)"
proof -
  have "keyed us_email (filter p t)" for p
    using assms by (auto simp: unique_users_def keyed_def distinct_map intro: inj_on_subset)
  then have "keyed us_email (delete_key us_id k t)" by (simp add: delete_key_def)
  with assms show ?thesis by (auto simp: unique_users_def users.wf_del) (auto simp: delete_key_def)
qed

lemma unique_update:
  assumes unique: "unique_users t" and u: "find_user k t = Some u"
    and free: "username_free k (set_nullable (uu_username dto) (us_username u)) t"
  shows "unique_users (update_key us_id k (\<lambda>_. True) (profile_update dto n) t)"
proof -
  let ?f = "\<lambda>r. if us_id r = k then profile_update dto n r else r"
  have t': "update_key us_id k (\<lambda>_. True) (profile_update dto n) t = map ?f t"
    by (simp add: update_key_def)
  have key: "us_id (?f r) = us_id r" "us_email (?f r) = us_email r" for r by simp_all
  have keyed: "keyed us_id (map ?f t)" "keyed us_email (map ?f t)"
    using unique by (simp_all add: unique_users_def keyed_def comp_def if_distrib cong: if_cong)
  have only: "r = u" if "r \<in> set t" "us_id r = k" for r
    using that u by (metis find_user_iff [OF unique] option.inject)
  have name: "us_username (?f r) = us_username s \<Longrightarrow> us_username s \<noteq> None \<Longrightarrow> r = u \<Longrightarrow> s \<in> set t \<Longrightarrow> us_id s = k" for r s
    using free u find_user_SomeD [OF u] by (auto simp: username_free_def profile_update_def split: if_splits)
  have names: "us_id r = us_id s"
    if "r \<in> set t" "s \<in> set t" "us_username (?f r) \<noteq> None" "us_username (?f r) = us_username (?f s)" for r s
  proof (cases "us_id r = k"; cases "us_id s = k")
    assume "us_id r = k" "us_id s \<noteq> k"
    with that name [of r s] only [of r] show ?thesis by auto
  next
    assume "us_id r \<noteq> k" "us_id s = k"
    with that name [of s r] only [of s] show ?thesis by (auto simp: eq_commute)
  next
    assume "us_id r \<noteq> k" "us_id s \<noteq> k"
    with that have "us_username r \<noteq> None" "us_username r = us_username s" by simp_all
    with unique that(1,2) show ?thesis unfolding unique_users_def by blast
  qed simp
  have "us_id r = us_id s"
    if r: "r \<in> set (map ?f t)" and s: "s \<in> set (map ?f t)"
      and eq: "us_username r \<noteq> None" "us_username r = us_username s" for r s
  proof -
    from r s obtain r0 s0 where 0: "r0 \<in> set t" "r = ?f r0" "s0 \<in> set t" "s = ?f s0" by auto
    have "us_id r0 = us_id s0"
      by (rule names [OF 0(1,3)]) (use eq 0(2,4) in \<open>simp_all only: not_False_eq_True\<close>)
    then show ?thesis unfolding 0(2,4) key .
  qed
  with keyed show ?thesis unfolding t' unique_users_def by blast
qed

lemma find_user_update:
  assumes "find_user k t = Some u"
  shows "find_user k' (update_key us_id k (\<lambda>_. True) (profile_update dto n) t) =
    (if k' = k then Some (profile_update dto n u) else find_user k' t)"
  using assms by (simp add: users.lookup_upd)

lemma user_findById_eval:
  "user_findById env k w =
     (case e_outcome env Database (w_calls w) of
        Served \<Rightarrow> (case find_user k (w_users w) of
                     None \<Rightarrow> (Inl (user_not_found k), ticked env w)
                   | Some u \<Rightarrow> (Inr (safeFields u), ticked env w))
      | Refused m \<Rightarrow> (Inl (JsError m), ticked env w)
      | Lost m \<Rightarrow> (Inl (JsError m), ticked env w))"
  by (simp add: user_findById_def io_bind_def external_cases split: outcome.split option.split)

lemma user_findByEmail_eval:
  "user_findByEmail env e w =
     (case e_outcome env Database (w_calls w) of
        Served \<Rightarrow> (Inr (find_user_by_email e (w_users w)), ticked env w)
      | Refused m \<Rightarrow> (Inl (JsError m), ticked env w)
      | Lost m \<Rightarrow> (Inl (JsError m), ticked env w))"
  by (simp add: user_findByEmail_def external_cases split: outcome.split)

text \<open>The state after an insertion was executed.\<close>

definition with_account :: "env \<Rightarrow> user \<Rightarrow> world \<Rightarrow> world" where
  "with_account env u w = (ticked env w)\<lparr>w_users := insert_row u (w_users w)\<rparr>"

definition stored_user :: "env \<Rightarrow> user \<Rightarrow> world \<Rightarrow> user" where
  "stored_user env u w = u\<lparr>us_id := e_uuid env (Suc (w_calls w)), us_createdAt := w_now (ticked env w),
     us_updatedAt := w_now (ticked env w)\<rparr>"

lemma stored_user_sel [simp]:
  "us_id (stored_user env u w) = e_uuid env (Suc (w_calls w))"
  "us_email (stored_user env u w) = us_email u" "us_password (stored_user env u w) = us_password u"
  "us_role (stored_user env u w) = us_role u" "us_isActive (stored_user env u w) = us_isActive u"
  "us_username (stored_user env u w) = us_username u"
  by (simp_all add: stored_user_def)

definition account_fits :: "env \<Rightarrow> user \<Rightarrow> world \<Rightarrow> bool" where
  "account_fits env u w \<longleftrightarrow>
     find_user (e_uuid env (Suc (w_calls w))) (w_users w) = None \<and>
     find_user_by_email (us_email u) (w_users w) = None \<and>
     username_free (e_uuid env (Suc (w_calls w))) (us_username u) (w_users w)"

lemma db_insert_user_eval:
  "db_insert_user env u w =
     (case e_outcome env Database (w_calls w) of
        Served \<Rightarrow> if account_fits env u w
                  then (Inr (stored_user env u w), with_account env (stored_user env u w) w)
                  else (Inl duplicate_key, ticked env w)
      | Refused m \<Rightarrow> (Inl (JsError m), ticked env w)
      | Lost m \<Rightarrow> (Inl (JsError m), if account_fits env u w
                  then with_account env (stored_user env u w) w else ticked env w))"
  by (auto simp: db_insert_user_def external_cases account_fits_def with_account_def stored_user_def Let_def
      split: outcome.split)

text \<open>The state after a deletion: neither the user nor a video of the user is left.\<close>

definition without_account :: "env \<Rightarrow> string \<Rightarrow> world \<Rightarrow> world" where
  "without_account env k w = (ticked env w)
     \<lparr>w_users := delete_key us_id k (w_users w), w_videos := filter (\<lambda>v. v_userId v \<noteq> k) (w_videos w)\<rparr>"

lemma db_delete_user_eval:
  "db_delete_user env k w =
     (case e_outcome env Database (w_calls w) of
        Served \<Rightarrow> (Inr (), without_account env k w)
      | Refused m \<Rightarrow> (Inl (JsError m), ticked env w)
      | Lost m \<Rightarrow> (Inl (JsError m), without_account env k w))"
  by (simp add: db_delete_user_def external_cases without_account_def split: outcome.split)

end
