(* ===== verification/Auth.thy ===== *)
theory Auth
  imports Users
begin

text \<open>
  \<open>AuthService\<close>, \<open>AuthController\<close> and the two passport strategies (modules/auth), with the
  \<open>JwtAuthGuard\<close> (common/guards). The packages \<open>bcryptjs\<close> and \<open>jsonwebtoken\<close> are parameters:
  how a password is hashed and compared, how a payload is signed and verified. A token is a
  value of an opaque type.
\<close>

section \<open>Parameters\<close>

record jwt_payload =
  tk_sub :: string
  tk_email :: string
  tk_role :: user_role

text \<open>
  The functions of the two packages: the hash takes the password, the number of rounds and the
  salt that was drawn; a signature takes the payload, the secret, the lifetime as configured and
  the time; a verification takes the token, the secret and the time.
\<close>

record 'tok auth_lib =
  bcrypt_hash :: "string \<Rightarrow> nat \<Rightarrow> nat \<Rightarrow> string"
  bcrypt_compare :: "string \<Rightarrow> string \<Rightarrow> bool"
  jwt_sign :: "jwt_payload \<Rightarrow> string \<Rightarrow> string \<Rightarrow> instant \<Rightarrow> 'tok"
  jwt_verify :: "'tok \<Rightarrow> string \<Rightarrow> instant \<Rightarrow> jwt_payload option"
  jwt_lifetime :: "string \<Rightarrow> int"

record jwt_config =
  jc_secret :: string
  jc_expiresIn :: string
  jc_refreshSecret :: string
  jc_refreshExpiresIn :: string

text \<open>
  What the packages document: a password is compared by its first 72 bytes; a token verifies
  with the secret it was signed with until its lifetime, counted in whole seconds, is over, to
  the payload that was signed; it verifies with no other secret; and no other value verifies.
\<close>

definition auth_lib_ok :: "'tok auth_lib \<Rightarrow> bool" where
  "auth_lib_ok lib \<longleftrightarrow>
     (\<forall>p q rounds salt. bcrypt_compare lib p (bcrypt_hash lib q rounds salt) \<longleftrightarrow> take 72 p = take 72 q) \<and>
     (\<forall>p s e t s' t'. jwt_verify lib (jwt_sign lib p s e t) s' t' =
        (if s' = s \<and> t' div 1000 < t div 1000 + jwt_lifetime lib e then Some p else None)) \<and>
     (\<forall>tok s t' p. jwt_verify lib tok s t' = Some p \<longrightarrow> (\<exists>e t. tok = jwt_sign lib p s e t))"

section \<open>AuthService\<close>

record register_dto =
  rg_firstName :: string
  rg_lastName :: string
  rg_email :: string
  rg_password :: string
  rg_username :: "string option"

record 'tok token_pair =
  tp_accessToken :: 'tok
  tp_refreshToken :: 'tok
  tp_user :: safe_user

definition unauthorized :: "string \<Rightarrow> exn" where
  "unauthorized m = UnauthorizedException m"

definition payload_of :: "'z safe_user_scheme \<Rightarrow> jwt_payload" where
  "payload_of u = \<lparr>tk_sub = us_id u, tk_email = us_email u, tk_role = us_role u\<rparr>"

text \<open>The user without the password.\<close>

definition sanitizeUser :: "'z safe_user_scheme \<Rightarrow> safe_user" where
  "sanitizeUser u = safe_user.truncate u"

definition generateTokens ::
  "'tok auth_lib \<Rightarrow> jwt_config \<Rightarrow> 'z safe_user_scheme \<Rightarrow> 'tok token_pair act" where
  "generateTokens lib cfg user =
     io_bind current_time (\<lambda>now.
     let payload = payload_of user;
         accessToken = jwt_sign lib payload (jc_secret cfg) (jc_expiresIn cfg) now;
         refreshToken = jwt_sign lib payload (jc_refreshSecret cfg) (jc_refreshExpiresIn cfg) now
     in io_return \<lparr>tp_accessToken = accessToken, tp_refreshToken = refreshToken, tp_user = sanitizeUser user\<rparr>)"

definition hash_rounds :: nat where
  "hash_rounds = 12"

definition register ::
  "env \<Rightarrow> 'tok auth_lib \<Rightarrow> jwt_config \<Rightarrow> register_dto \<Rightarrow> 'tok token_pair act" where
  "register env lib cfg dto =
     io_bind (user_findByEmail env (rg_email dto)) (\<lambda>existing.
     if existing \<noteq> None then io_raise (ConflictException ''Email already registered'')
     else
       io_bind (io_gets (\<lambda>w. bcrypt_hash lib (rg_password dto) hash_rounds (w_calls w))) (\<lambda>hashedPassword.
       io_bind (user_create env
                  \<lparr>cu_firstName = rg_firstName dto, cu_lastName = rg_lastName dto, cu_email = rg_email dto,
                   cu_password = hashedPassword, cu_username = rg_username dto, cu_role = None\<rparr>) (\<lambda>user.
       generateTokens lib cfg user)))"

definition validateUser :: "env \<Rightarrow> 'tok auth_lib \<Rightarrow> string \<Rightarrow> string \<Rightarrow> user act" where
  "validateUser env lib email password =
     io_bind (user_findByEmail env email) (\<lambda>found.
     case found of
       None \<Rightarrow> io_raise (unauthorized ''Invalid credentials'')
     | Some user \<Rightarrow>
         if \<not> bcrypt_compare lib password (us_password user)
         then io_raise (unauthorized ''Invalid credentials'')
         else io_return user)"

definition login :: "'tok auth_lib \<Rightarrow> jwt_config \<Rightarrow> user \<Rightarrow> 'tok token_pair act" where
  "login lib cfg user = generateTokens lib cfg user"

text \<open>The check for a missing user after \<open>findById\<close> has no branch: \<open>findById\<close> throws.\<close>

definition refreshToken ::
  "env \<Rightarrow> 'tok auth_lib \<Rightarrow> jwt_config \<Rightarrow> 'tok \<Rightarrow> 'tok token_pair act" where
  "refreshToken env lib cfg tok =
     io_try
       (io_bind current_time (\<lambda>now.
        case jwt_verify lib tok (jc_refreshSecret cfg) now of
          None \<Rightarrow> io_raise (JsError ''invalid token'')
        | Some payload \<Rightarrow>
            io_bind (user_findById env (tk_sub payload)) (\<lambda>user. generateTokens lib cfg user)))
       (\<lambda>_. io_raise (unauthorized ''Invalid or expired refresh token''))"

section \<open>Strategies and guards\<close>

definition local_strategy_validate :: "env \<Rightarrow> 'tok auth_lib \<Rightarrow> string \<Rightarrow> string \<Rightarrow> user act" where
  "local_strategy_validate env lib email password = validateUser env lib email password"

definition jwt_strategy_validate :: "env \<Rightarrow> jwt_payload \<Rightarrow> safe_user act" where
  "jwt_strategy_validate env payload =
     io_bind (user_findById env (tk_sub payload)) (\<lambda>user.
     if \<not> us_isActive user then io_raise (unauthorized ''User not found or inactive'')
     else io_return user)"

text \<open>The local guard: passport fails without credentials, the guard then throws a plain 401.\<close>

definition local_guard ::
  "env \<Rightarrow> 'tok auth_lib \<Rightarrow> string option \<Rightarrow> string option \<Rightarrow> user act" where
  "local_guard env lib email password =
     (if truthy email \<and> truthy password
      then local_strategy_validate env lib (the email) (the password)
      else io_raise (unauthorized ''Unauthorized''))"

definition handleRequest :: "exn option \<Rightarrow> 'u option \<Rightarrow> 'u act" where
  "handleRequest err user =
     (case (err, user) of
        (None, Some u) \<Rightarrow> io_return u
      | (Some e, _) \<Rightarrow> io_raise e
      | (None, None) \<Rightarrow> io_raise (unauthorized ''Invalid or expired token''))"

text \<open>
  The passport guard for the strategy \<open>jwt\<close>: no bearer token or one that does not verify is a
  failure without an error; an error of the strategy is handed on.
\<close>

definition passport_jwt ::
  "env \<Rightarrow> 'tok auth_lib \<Rightarrow> jwt_config \<Rightarrow> 'tok option \<Rightarrow> safe_user act" where
  "passport_jwt env lib cfg bearer =
     (case bearer of
        None \<Rightarrow> handleRequest None None
      | Some tok \<Rightarrow>
          io_bind current_time (\<lambda>now.
          case jwt_verify lib tok (jc_secret cfg) now of
            None \<Rightarrow> handleRequest None None
          | Some payload \<Rightarrow>
              io_bind
                (io_try (io_bind (jwt_strategy_validate env payload) (\<lambda>u. io_return (Inr u)))
                        (\<lambda>e. io_return (Inl e)))
                (\<lambda>r. case r of Inl e \<Rightarrow> handleRequest (Some e) None | Inr u \<Rightarrow> handleRequest None (Some u))))"

text \<open>The guard: a public route passes without a user.\<close>

definition jwt_canActivate ::
  "env \<Rightarrow> 'tok auth_lib \<Rightarrow> jwt_config \<Rightarrow> bool \<Rightarrow> 'tok option \<Rightarrow> safe_user option act" where
  "jwt_canActivate env lib cfg isPublic bearer =
     (if isPublic then io_return None
      else io_bind (passport_jwt env lib cfg bearer) (\<lambda>u. io_return (Some u)))"

section \<open>Handlers of the controller\<close>

definition auth_register ::
  "env \<Rightarrow> 'tok auth_lib \<Rightarrow> jwt_config \<Rightarrow> register_dto \<Rightarrow> 'tok token_pair act" where
  "auth_register env lib cfg dto = register env lib cfg dto"

definition auth_login :: "'tok auth_lib \<Rightarrow> jwt_config \<Rightarrow> user \<Rightarrow> 'tok token_pair act" where
  "auth_login lib cfg user = login lib cfg user"

definition auth_refreshToken ::
  "env \<Rightarrow> 'tok auth_lib \<Rightarrow> jwt_config \<Rightarrow> 'tok \<Rightarrow> 'tok token_pair act" where
  "auth_refreshToken env lib cfg tok = refreshToken env lib cfg tok"

definition auth_getProfile :: "safe_user option \<Rightarrow> safe_user option act" where
  "auth_getProfile user = io_return user"

definition auth_logout :: "string act" where
  "auth_logout = io_return ''Logged out successfully''"

text \<open>A login request: the local guard, then the handler.\<close>

definition login_request ::
  "env \<Rightarrow> 'tok auth_lib \<Rightarrow> jwt_config \<Rightarrow> string option \<Rightarrow> string option \<Rightarrow> 'tok token_pair act" where
  "login_request env lib cfg email password =
     io_bind (local_guard env lib email password) (\<lambda>user. auth_login lib cfg user)"

section \<open>Lemmas\<close>

lemma auth_lib_okD:
  assumes "auth_lib_ok lib"
  shows "bcrypt_compare lib p (bcrypt_hash lib q r salt) \<longleftrightarrow> take 72 p = take 72 q"
    and "jwt_verify lib (jwt_sign lib pl s e t) s' t' =
      (if s' = s \<and> t' div 1000 < t div 1000 + jwt_lifetime lib e then Some pl else None)"
    and "jwt_verify lib tok s t' = Some pl \<Longrightarrow> \<exists>e t. tok = jwt_sign lib pl s e t"
  using assms by (simp_all add: auth_lib_ok_def)

lemma payload_of_sel [simp]:
  "tk_sub (payload_of u) = us_id u" "tk_email (payload_of u) = us_email u" "tk_role (payload_of u) = us_role u"
  by (simp_all add: payload_of_def)

lemma sanitizeUser_eq [simp]: "sanitizeUser u = safeFields u" "sanitizeUser (safeFields u) = safeFields u"
  by (simp_all add: sanitizeUser_def safeFields_def safe_user.truncate_def)

lemma payload_of_safe [simp]: "payload_of (safeFields u) = payload_of u"
  by (simp add: payload_of_def)

text \<open>The pair of tokens a user gets at a time.\<close>

definition tokens_at :: "'tok auth_lib \<Rightarrow> jwt_config \<Rightarrow> user \<Rightarrow> instant \<Rightarrow> 'tok token_pair" where
  "tokens_at lib cfg u t =
     \<lparr>tp_accessToken = jwt_sign lib (payload_of u) (jc_secret cfg) (jc_expiresIn cfg) t,
      tp_refreshToken = jwt_sign lib (payload_of u) (jc_refreshSecret cfg) (jc_refreshExpiresIn cfg) t,
      tp_user = safeFields u\<rparr>"

lemma generateTokens_eval:
  "generateTokens lib cfg u w = (Inr (tokens_at lib cfg u (w_now w)), w)"
  "generateTokens lib cfg (safeFields u) w = (Inr (tokens_at lib cfg u (w_now w)), w)"
  by (simp_all add: generateTokens_def tokens_at_def current_time_def io_simps Let_def)

lemma tokens_at_sel [simp]:
  "tp_accessToken (tokens_at lib cfg u t) = jwt_sign lib (payload_of u) (jc_secret cfg) (jc_expiresIn cfg) t"
  "tp_refreshToken (tokens_at lib cfg u t) =
     jwt_sign lib (payload_of u) (jc_refreshSecret cfg) (jc_refreshExpiresIn cfg) t"
  "tp_user (tokens_at lib cfg u t) = safeFields u"
  by (simp_all add: tokens_at_def)

lemma validateUser_eval:
  "validateUser env lib e p w =
     (case e_outcome env Database (w_calls w) of
        Served \<Rightarrow> (case find_user_by_email e (w_users w) of
            None \<Rightarrow> (Inl (unauthorized ''Invalid credentials''), ticked env w)
          | Some u \<Rightarrow> (if bcrypt_compare lib p (us_password u) then Inr u
                       else Inl (unauthorized ''Invalid credentials''), ticked env w))
      | Refused m \<Rightarrow> (Inl (JsError m), ticked env w)
      | Lost m \<Rightarrow> (Inl (JsError m), ticked env w))"
  by (simp add: validateUser_def io_bind_def user_findByEmail_eval split: outcome.split option.split)

lemma login_request_eval:
  assumes "e \<noteq> []" and "p \<noteq> []"
  shows "login_request env lib cfg (Some e) (Some p) w =
     (case validateUser env lib e p w of
        (Inl x, w') \<Rightarrow> (Inl x, w')
      | (Inr u, w') \<Rightarrow> (Inr (tokens_at lib cfg u (w_now w')), w'))"
  using assms
  by (simp add: login_request_def local_guard_def local_strategy_validate_def auth_login_def login_def
      io_bind_def generateTokens_eval split: prod.split sum.split)

text \<open>What a registration does with a served database.\<close>

definition account_of :: "'tok auth_lib \<Rightarrow> register_dto \<Rightarrow> nat \<Rightarrow> user" where
  "account_of lib dto salt = new_user
     \<lparr>cu_firstName = rg_firstName dto, cu_lastName = rg_lastName dto, cu_email = rg_email dto,
      cu_password = bcrypt_hash lib (rg_password dto) hash_rounds salt,
      cu_username = rg_username dto, cu_role = None\<rparr>"

lemma account_of_sel [simp]:
  "us_email (account_of lib dto salt) = rg_email dto" "us_role (account_of lib dto salt) = USER"
  "us_password (account_of lib dto salt) = bcrypt_hash lib (rg_password dto) hash_rounds salt"
  "us_isActive (account_of lib dto salt)" "us_username (account_of lib dto salt) = rg_username dto"
  by (simp_all add: account_of_def)

lemma register_eval:
  "register env lib cfg dto w =
     (case e_outcome env Database (w_calls w) of
        Served \<Rightarrow>
          if find_user_by_email (rg_email dto) (w_users w) \<noteq> None
          then (Inl (ConflictException ''Email already registered''), ticked env w)
          else (case db_insert_user env (account_of lib dto (Suc (w_calls w))) (ticked env w) of
                  (Inl x, w') \<Rightarrow> (Inl x, w')
                | (Inr u, w') \<Rightarrow> (Inr (tokens_at lib cfg u (w_now w')), w'))
      | Refused m \<Rightarrow> (Inl (JsError m), ticked env w)
      | Lost m \<Rightarrow> (Inl (JsError m), ticked env w))"
  by (simp add: register_def io_bind_def user_findByEmail_eval user_create_def account_of_def generateTokens_eval
      split: outcome.split option.split prod.split sum.split)

lemma register_InrD:
  assumes "register env lib cfg dto w = (Inr toks, w1)"
  shows "\<exists>u. w_users w1 = insert_row u (w_users w) \<and> us_email u = rg_email dto \<and> us_role u = USER \<and>
    us_isActive u \<and> find_user_by_email (rg_email dto) (w_users w) = None \<and>
    find_user (us_id u) (w_users w) = None \<and>
    (\<exists>salt. us_password u = bcrypt_hash lib (rg_password dto) hash_rounds salt) \<and>
    toks = tokens_at lib cfg u (w_now w1)"
  using assms
  by (auto simp: register_eval db_insert_user_eval with_account_def account_fits_def
      split: outcome.splits option.splits if_splits
      intro!: exI [of _ "stored_user env (account_of lib dto (Suc (w_calls w))) (ticked env w)"])

lemma register_InlD:
  assumes "register env lib cfg dto w = (Inl x, w1)" and "up env Database"
  shows "w_users w1 = w_users w"
  using assms
  by (auto simp: register_eval db_insert_user_eval up_def split: option.splits if_splits)

lemma passport_jwt_eval:
  "passport_jwt env lib cfg (Some tok) w =
     (case jwt_verify lib tok (jc_secret cfg) (w_now w) of
        None \<Rightarrow> (Inl (unauthorized ''Invalid or expired token''), w)
      | Some pl \<Rightarrow>
          (case user_findById env (tk_sub pl) w of
             (Inl e, w') \<Rightarrow> (Inl e, w')
           | (Inr u, w') \<Rightarrow>
               (if us_isActive u then Inr u else Inl (unauthorized ''User not found or inactive''), w')))"
  by (simp add: passport_jwt_def handleRequest_def jwt_strategy_validate_def current_time_def io_bind_def
      io_try_def split: option.split prod.split sum.split)

lemma refreshToken_eval:
  "refreshToken env lib cfg tok w =
     (case jwt_verify lib tok (jc_refreshSecret cfg) (w_now w) of
        None \<Rightarrow> (Inl (unauthorized ''Invalid or expired refresh token''), w)
      | Some pl \<Rightarrow>
          (case user_findById env (tk_sub pl) w of
             (Inl e, w') \<Rightarrow> (Inl (unauthorized ''Invalid or expired refresh token''), w')
           | (Inr u, w') \<Rightarrow> generateTokens lib cfg u w'))"
  by (auto simp: refreshToken_def current_time_def io_bind_def io_try_def generateTokens_def Let_def
      split: option.split prod.split sum.split)

text \<open>What the guard has checked when it admits a request.\<close>

lemma jwt_admitted:
  assumes lib: "auth_lib_ok lib"
    and run: "jwt_canActivate env lib cfg False bearer w = (Inr found, w')"
  shows "\<exists>tok pl e t u. bearer = Some tok \<and> tok = jwt_sign lib pl (jc_secret cfg) e t \<and>
    w_now w div 1000 < t div 1000 + jwt_lifetime lib e \<and>
    find_user (tk_sub pl) (w_users w) = Some u \<and> us_isActive u \<and> found = Some (safeFields u)"
proof -
  from run obtain tok su where tok: "bearer = Some tok" and found: "found = Some su"
    and pass: "passport_jwt env lib cfg (Some tok) w = (Inr su, w')"
    by (cases bearer)
      (auto simp: jwt_canActivate_def io_bind_def passport_jwt_def [of env lib cfg None] handleRequest_def
        split: prod.splits sum.splits)
  from pass obtain pl where pl: "jwt_verify lib tok (jc_secret cfg) (w_now w) = Some pl"
    by (auto simp: passport_jwt_eval split: option.splits)
  then obtain e t where tk: "tok = jwt_sign lib pl (jc_secret cfg) e t"
    using auth_lib_okD(3) [OF lib] by blast
  from pass pl obtain u where "find_user (tk_sub pl) (w_users w) = Some u" "us_isActive u" "su = safeFields u"
    by (auto simp: passport_jwt_eval user_findById_eval split: outcome.splits option.splits if_splits)
  moreover have "w_now w div 1000 < t div 1000 + jwt_lifetime lib e"
    using pl unfolding tk auth_lib_okD(2) [OF lib] by (simp split: if_splits)
  ultimately show ?thesis using tok tk found by blast
qed

end
