(* ===== verification/Samples.thy ===== *)
theory Samples
  imports Worker_Live Videos_Facts Status_Cache Queue_Api Gateway Auth
begin

text \<open>
  Concrete environments, rows, jobs and states on which the properties are instantiated.
\<close>

definition calm :: env where
  "calm = \<lparr>e_outcome = (\<lambda>_ _. Served), e_latency = (\<lambda>_. 0), e_uuid = (\<lambda>n. ''u''), e_job_id = (\<lambda>n. ''7''),
           e_chat = (\<lambda>_. None), e_http = (\<lambda>_. (None, ''data'')), e_sign = (\<lambda>c t. ''signed''),
           e_gateway = True\<rparr>"

text \<open>One service refuses all calls; the queue refuses the calls from the last one of an attempt on.\<close>

definition without :: "service \<Rightarrow> env" where
  "without svc = calm\<lparr>e_outcome := (\<lambda>s _. if s = svc then Refused ''down'' else Served)\<rparr>"

definition flaky :: env where
  "flaky = calm\<lparr>e_outcome := (\<lambda>s n. if s = Queue \<and> 16 \<le> n then Refused ''down'' else Served)\<rparr>"

definition sample_dto :: create_video_dto where
  "sample_dto = \<lparr>cv_title = ''t'', cv_prompt = ''a cat'', cv_negativePrompt = None, cv_width = None,
     cv_height = None, cv_fps = None, cv_model = None\<rparr>"

definition sample_video :: "video_status \<Rightarrow> video" where
  "sample_video s = (new_video ''alice'' sample_dto)\<lparr>v_id := ''v1'', v_status := s\<rparr>"

definition alice :: user where
  "alice = \<lparr>us_id = ''alice'', us_firstName = ''Alice'', us_lastName = ''A'', us_email = ''alice@example.com'',
     us_username = Some ''alice'', us_role = USER, us_isActive = True, us_createdAt = 0, us_updatedAt = 0,
     us_password = ''secret''\<rparr>"

definition sample_world :: "video_status \<Rightarrow> world" where
  "sample_world s = initial_world\<lparr>w_videos := [sample_video s], w_users := [alice]\<rparr>"

definition sample_job :: "int option \<Rightarrow> queue_job" where
  "sample_job attempts = (new_job ''7'' GENERATE ''v1''
     \<lparr>o_attempts = attempts, o_backoff = None, o_removeOnComplete = None, o_removeOnFail = None\<rparr>)"

definition sample_config :: storage_config where
  "sample_config = \<lparr>sc_bucket = Some ''media'', sc_endpoint = Some ''http://minio:9000'', sc_region = None\<rparr>"

definition sample_url_lib :: url_lib where
  "sample_url_lib = \<lparr>u_host_ok = (\<lambda>_. True), u_other = (\<lambda>_. None)\<rparr>"

definition sample_record :: failed_job where
  "sample_record = (failed_job_of ''v1'' ''boom'' 3 None)\<lparr>f_id := ''r1''\<rparr>"

definition dlq_world :: world where
  "dlq_world = (sample_world FAILED)\<lparr>w_failed_jobs := [sample_record]\<rparr>"

lemma calm_sel [simp]:
  "e_outcome calm s n = Served" "e_latency calm n = 0" "e_uuid calm n = ''u''" "e_job_id calm n = ''7''"
  by (simp_all add: calm_def)

lemma up_calm [simp]: "up calm s"
  by (simp add: up_def)

lemma up_without [simp]: "up (without s) t \<longleftrightarrow> s \<noteq> t"
  by (auto simp: up_def without_def)

lemma without_sel [simp]:
  "e_outcome (without s) t n = (if t = s then Refused ''down'' else Served)" "e_latency (without s) n = 0"
  "e_uuid (without s) n = ''u''" "e_job_id (without s) n = ''7''"
  by (simp_all add: without_def)

lemma sample_video_sel [simp]:
  "v_id (sample_video s) = ''v1''" "v_status (sample_video s) = s" "v_userId (sample_video s) = ''alice''"
  "v_queueJobId (sample_video s) = None" "v_videoUrl (sample_video s) = None"
  by (simp_all add: sample_video_def new_video_def)

lemma sample_world_sel [simp]:
  "w_videos (sample_world s) = [sample_video s]" "w_failed_jobs (sample_world s) = []"
  "w_jobs (sample_world s) = []" "w_cache (sample_world s) = (\<lambda>_. None)" "w_events (sample_world s) = []"
  "w_now (sample_world s) = 0" "w_calls (sample_world s) = 0"
  "w_users (sample_world s) = [alice]" "w_messages (sample_world s) = []" "w_chat (sample_world s) = []"
  by (simp_all add: sample_world_def initial_world_def)

lemma find_alice [simp]: "find_user k [alice] = (if k = ''alice'' then Some alice else None)"
  by (simp add: find_user_def select_key_def alice_def)

lemma unique_alice [simp]: "unique_users [alice]"
  by (simp add: unique_users_def keyed_def alice_def)

lemma sample_row [simp]: "row (sample_world s) k = (if k = ''v1'' then Some (sample_video s) else None)"
  by (simp add: row_def find_video_def select_key_def)

lemma sample_statuses [simp]: "statuses (sample_world s) k = (if k = ''v1'' then Some s else None)"
  by (simp add: statuses_def status_of_def)

lemma sample_wf [simp]: "wf_world (sample_world s)"
  by (simp add: wf_world_def keyed_def)

lemma sample_job_sel [simp]:
  "j_id (sample_job a) = ''7''" "j_name (sample_job a) = GENERATE" "j_videoId (sample_job a) = ''v1''"
  "j_attemptsMade (sample_job a) = 0" "o_attempts (j_opts (sample_job a)) = a"
  by (simp_all add: sample_job_def new_job_def)

lemma sample_final [simp]: "isFinalAttempt (sample_job a) \<longleftrightarrow> (case a of None \<Rightarrow> True | Some n \<Rightarrow> n \<le> 1)"
  by (auto simp: isFinalAttempt_def split: option.split)

lemma find_empty [simp]: "find_failed_job k [] = None" "find_video k [] = None" "find_job k [] = None"
  by (simp_all add: find_failed_job_def find_video_def find_job_def select_key_def)

lemma dlq_world_sel [simp]:
  "w_failed_jobs dlq_world = [sample_record]" "w_jobs dlq_world = []" "w_calls dlq_world = 0"
  "row dlq_world k = (if k = ''v1'' then Some (sample_video FAILED) else None)"
  by (simp_all add: dlq_world_def row_def find_video_def select_key_def)

lemma sample_record_sel [simp]:
  "f_id sample_record = ''r1''" "f_videoId sample_record = ''v1''" "\<not> f_retried sample_record"
  by (simp_all add: sample_record_def failed_job_of_def)

section \<open>Runs of the worker\<close>

lemma calm_run:
  "\<exists>w'. process calm (aiService calm None) st (sample_job a) (sample_world PENDING) = (Inr (), w') \<and>
     published_video ''v1'' w'"
  using process_live [of calm None "sample_world PENDING" "sample_job a" "sample_video PENDING" st]
  by (simp add: defaultDelayMs_def max_poll_attempts_def terminal_def)

lemma job_updateProgress_eval:
  "job_updateProgress env job n w =
     (let w' = (ticked env w)\<lparr>w_jobs := update_key j_id (j_id job) (\<lambda>_. True)
                 (\<lambda>j. j\<lparr>j_progress := JNum n\<rparr>) (w_jobs w)\<rparr>
      in case e_outcome env Queue (w_calls w) of
        Served \<Rightarrow> (Inr (), w')
      | Refused m \<Rightarrow> (Inl (JsError m), ticked env w)
      | Lost m \<Rightarrow> (Inl (JsError m), w'))"
  by (simp add: job_updateProgress_def external_cases split: outcome.split)

lemma with_cache_calls: "w_calls (with_cache env k st pr ms w) = Suc (w_calls w)"
  by (simp add: with_cache_def detached_def writeCache_def redis_set_def current_time_def io_bind_def
      external_cases split: outcome.split)

lemma moved_calls: "w_calls (moved env k st x w) = Suc (w_calls w)"
  by (simp add: moved_def with_cache_calls)

text \<open>The rules that run an attempt step by step on a concrete state.\<close>

lemmas run_simps =
  io_bind_def io_seq_def io_try_def Let_def sleep_def external_cases
  findById_eval transitionStatus_eval transition_allowed_iff job_updateProgress_eval emit_quiet quiet_def
  with_cache_calls moved_calls

lemma queue_down_run:
  "\<exists>w'. process (without Queue) (aiService (without Queue) d) st (sample_job a) (sample_world PENDING)
     = (Inl (JsError ''down''), w')"
proof -
  let ?body = "generate_body (without Queue) (aiService (without Queue) d) st (sample_job a)
    (sample_world PENDING)"
  have "fst ?body = Inl (JsError ''down'')"
    by (simp add: generate_body_def generate_started_def run_simps affected_def split: prod.split)
  then show ?thesis
    by (cases ?body) (auto simp: process_generate handler_eval markFailed_eval)
qed

lemma flaky_sel [simp]:
  "e_outcome flaky t n = (if t = Queue \<and> 16 \<le> n then Refused ''down'' else Served)"
  "e_latency flaky n = 0" "e_gateway flaky = True"
  by (simp_all add: flaky_def calm_def)

lemma up_flaky [simp]: "up flaky Database"
  by (simp add: up_def)

lemma flaky_progress:
  "updateProgress flaky k n m x w =
     (Inr (), with_cache flaky k PROCESSING (JNum n) (JStr m) (after_progress flaky k n m x w))"
  by (simp add: updateProgress_eval)

lemma long_run:
  "\<exists>w1 v. generate_body flaky (aiService flaky None) st (sample_job None) (sample_world PENDING)
     = (Inl (JsError ''down''), w1) \<and> row w1 ''v1'' = Some v \<and> v_status v = COMPLETED"
  apply (simp add: generate_body_def generate_started_def run_simps affected_def aiService_def
      enhancePrompt_def generateVideo_def submit_def getGenerationStatus_def flaky_progress
      poll_loop.simps [of _ _ _ _ _ _ _ 0])
  apply (simp add: checkStatus_def now_ticked defaultDelayMs_def max_poll_attempts_def
      buildVideoUrl_def finish_video_def run_simps flaky_progress moved_def)
  apply (simp add: after_update_def update_key_def affected_def row_def find_video_def select_key_def)
  done

section \<open>Accounts\<close>

text \<open>
  Stand-ins for \<open>bcryptjs\<close> and \<open>jsonwebtoken\<close> with the documented behaviour: a hash is the part
  of the password that counts, a token is the list of what was signed.
\<close>

definition sample_auth_lib :: "(jwt_payload \<times> string \<times> string \<times> instant) auth_lib" where
  "sample_auth_lib =
     \<lparr>bcrypt_hash = (\<lambda>p rounds salt. take 72 p), bcrypt_compare = (\<lambda>p h. take 72 p = take 72 h),
      jwt_sign = (\<lambda>p s e t. (p, s, e, t)),
      jwt_verify = (\<lambda>(p, s, e, t) s' t'.
        if s' = s \<and> t' div 1000 < t div 1000 + (if e = ''7d'' then 604800 else 2592000) then Some p else None),
      jwt_lifetime = (\<lambda>e. if e = ''7d'' then 604800 else 2592000)\<rparr>"

definition sample_jwt_config :: jwt_config where
  "sample_jwt_config = \<lparr>jc_secret = ''s1'', jc_expiresIn = ''7d'', jc_refreshSecret = ''s2'', jc_refreshExpiresIn = ''30d''\<rparr>"

definition bob_form :: register_dto where
  "bob_form = \<lparr>rg_firstName = ''Bob'', rg_lastName = ''B'', rg_email = ''bob@example.com'',
     rg_password = ''password'', rg_username = None\<rparr>"

lemma sample_auth_lib_ok [simp]: "auth_lib_ok sample_auth_lib"
  by (auto simp: auth_lib_ok_def sample_auth_lib_def split: if_splits)

lemma sample_auth_sel [simp]:
  "bcrypt_hash sample_auth_lib p r salt = take 72 p"
  "bcrypt_compare sample_auth_lib p h \<longleftrightarrow> take 72 p = take 72 h"
  "jwt_lifetime sample_auth_lib ''7d'' = 604800" "jwt_lifetime sample_auth_lib ''30d'' = 2592000"
  by (simp_all add: sample_auth_lib_def)

lemma sample_jwt_sel [simp]:
  "jc_secret sample_jwt_config = ''s1''" "jc_refreshSecret sample_jwt_config = ''s2''"
  "jc_expiresIn sample_jwt_config = ''7d''" "jc_refreshExpiresIn sample_jwt_config = ''30d''"
  by (simp_all add: sample_jwt_config_def)

lemma bob_form_sel [simp]:
  "rg_email bob_form = ''bob@example.com''" "rg_password bob_form = ''password''" "rg_username bob_form = None"
  by (simp_all add: bob_form_def)

lemma alice_sel [simp]:
  "us_id alice = ''alice''" "us_email alice = ''alice@example.com''" "us_password alice = ''secret''"
  "us_isActive alice" "us_role alice = USER" "us_username alice = Some ''alice''"
  by (simp_all add: alice_def)

lemma find_email_list [simp]:
  "find_user_by_email e [] = None"
  "find_user_by_email e (u # t) = (if us_email u = e then Some u else find_user_by_email e t)"
  "find_user k []  = None"
  by (simp_all add: find_user_by_email_def find_user_def select_key_def)

text \<open>A registration in the empty system.\<close>

definition after_registration :: world where
  "after_registration = snd (register calm sample_auth_lib sample_jwt_config bob_form initial_world)"

lemma bob_registers:
  "\<exists>toks. register calm sample_auth_lib sample_jwt_config bob_form initial_world = (Inr toks, after_registration)"
proof -
  have "account_fits calm (account_of sample_auth_lib bob_form (Suc 0)) (ticked calm initial_world)"
    by (simp add: account_fits_def initial_world_def username_free_def)
  then show ?thesis
    by (simp add: after_registration_def register_eval db_insert_user_eval initial_world_def)
qed

lemma after_registration_sel [simp]:
  "w_users after_registration = [stored_user calm (account_of sample_auth_lib bob_form (Suc 0)) (ticked calm initial_world)]"
  "w_calls after_registration = 2" "w_videos after_registration = []" "w_jobs after_registration = []"
  "w_now after_registration = 0"
proof -
  have "account_fits calm (account_of sample_auth_lib bob_form (Suc 0)) (ticked calm initial_world)"
    by (simp add: account_fits_def initial_world_def username_free_def)
  then show "w_users after_registration = [stored_user calm (account_of sample_auth_lib bob_form (Suc 0)) (ticked calm initial_world)]"
    "w_calls after_registration = 2" "w_videos after_registration = []" "w_jobs after_registration = []"
    "w_now after_registration = 0"
    by (simp_all add: after_registration_def register_eval db_insert_user_eval initial_world_def
        with_account_def insert_row_def now_ticked)
qed

text \<open>The same registration when tokens are texts; the state does not depend on how tokens look.\<close>

definition text_auth_lib :: "string auth_lib" where
  "text_auth_lib =
     \<lparr>bcrypt_hash = (\<lambda>p rounds salt. take 72 p), bcrypt_compare = (\<lambda>p h. take 72 p = take 72 h),
      jwt_sign = (\<lambda>p s e t. tk_sub p @ s), jwt_verify = (\<lambda>tok s t. None), jwt_lifetime = (\<lambda>e. 0)\<rparr>"

lemma registration_with_text_tokens:
  "snd (register calm text_auth_lib sample_jwt_config bob_form initial_world) = after_registration"
proof -
  have same: "account_of text_auth_lib bob_form n = account_of sample_auth_lib bob_form n" for n
    by (simp add: account_of_def text_auth_lib_def)
  show ?thesis
    by (simp add: after_registration_def register_eval same split: outcome.split option.split prod.split sum.split)
qed

end
