(* ===== verification/Status_Properties.thy ===== *)
theory Status_Properties
  imports Samples
begin

text \<open>
  Properties of \<open>JobStatusService\<close>: the status machine under concurrent callers and faults,
  and the coherence of the cached reads.
\<close>

section \<open>The status machine\<close>

text \<open>C1: Under any outcome of the external calls, \<open>transitionStatus\<close> implements a
  compare-and-set on the map from videos to statuses: a returned boolean is the one the
  compare-and-set answers, with the same effect, and a raised error leaves either all of that
  effect or none of it.\<close>

theorem transition_refines_cas:
  assumes "wf_world w" and "transitionStatus env k s t x w = (r, w')"
  shows "case r of Inr b \<Rightarrow> (b, statuses w') = cas k s t (statuses w)
    | Inl e \<Rightarrow> statuses w' = statuses w \<or> statuses w' = snd (cas k s t (statuses w))"
proof (cases r)
  case (Inl e)
  with assms(2) show ?thesis by (auto dest: job_status.move_error)
next
  case (Inr b)
  with job_status.move_cas [OF assms(1), of env k s t x b w'] assms(2) show ?thesis by simp
qed

theorem transition_refines_cas_witness:
  "\<exists>w'. transitionStatus calm ''v1'' PENDING PROCESSING no_extra (sample_world PENDING) = (Inr True, w') \<and>
     (True, statuses w') = cas ''v1'' PENDING PROCESSING (statuses (sample_world PENDING))"
proof -
  obtain w' where run: "transitionStatus calm ''v1'' PENDING PROCESSING no_extra (sample_world PENDING) = (Inr True, w')"
    by (simp add: transitionStatus_eval transition_allowed_iff affected_def)
  from transition_refines_cas [OF sample_wf run] run show ?thesis by auto
qed

text \<open>However many workers call \<open>transitionStatus\<close> on a video, in any order, with any
  arguments and any faults, at most one of the calls that expect \<open>PENDING\<close> returns true.\<close>

theorem pending_won_once:
  assumes "wf_world w" and "run_claims cs w = (rs, w')"
  shows "length (filter (won_from_pending k) rs) \<le> 1"
  using assms by (rule wins_at_most_once)

definition start_claim :: claim where
  "start_claim = \<lparr>cl_env = calm, cl_video = ''v1'', cl_from = PENDING, cl_to = PROCESSING, cl_extra = start_extra\<rparr>"

theorem pending_won_once_witness:
  "length (filter (won_from_pending ''v1'') (fst (run_claims [start_claim, start_claim] (sample_world PENDING)))) = 1"
proof -
  obtain rs w' where run: "run_claims [start_claim, start_claim] (sample_world PENDING) = (rs, w')"
    by fastforce
  have "won_from_pending ''v1'' (hd rs)" "rs \<noteq> []"
    using run by (auto simp: start_claim_def won_from_pending_def transitionStatus_eval
        transition_allowed_iff affected_def split: prod.splits)
  then have "1 \<le> length (filter (won_from_pending ''v1'') rs)" by (cases rs) auto
  with pending_won_once [OF sample_wf run, of "''v1''"] run show ?thesis by simp
qed

text \<open>A row in a terminal status is not changed by any transition or progress update, of
  any video, with any arguments and under any faults.\<close>

theorem terminal_rows_frozen:
  assumes "row w k = Some v" and "terminal (v_status v)"
  shows "row (snd (transitionStatus env k' s t x w)) k = Some v \<and>
    row (snd (updateProgress env k' n m meta w)) k = Some v"
  using assms frozen_status_ops(1) [of env k' s t x] frozen_status_ops(2) [of env k' n m meta]
  by (auto simp: guarantee_def frozen_def)

theorem terminal_rows_frozen_witness:
  "row (snd (transitionStatus calm ''v1'' COMPLETED PROCESSING no_extra (sample_world COMPLETED))) ''v1''
     = Some (sample_video COMPLETED) \<and>
   row (snd (updateProgress calm ''v1'' 50 ''half'' (\<lambda>_. None) (sample_world COMPLETED))) ''v1''
     = Some (sample_video COMPLETED)"
  using terminal_rows_frozen [of "sample_world COMPLETED" "''v1''" "sample_video COMPLETED"]
  by (simp add: terminal_def)

text \<open>Under any faults a transition moves every video along valid edges only, and no
  video becomes \<open>PENDING\<close> again.\<close>

theorem statuses_follow_paths:
  assumes "wf_world w" and "transitionStatus env k s t x w = (r, w')" and "statuses w l = Some u"
  shows "\<exists>u'. statuses w' l = Some u' \<and> status_path u u' \<and> (u' = PENDING \<longrightarrow> u = PENDING)"
proof -
  obtain u' where u': "statuses w' l = Some u'" "status_path u u'"
    using job_status.moves_along_path [OF assms] by blast
  then show ?thesis
    using job_status.never_pending_again [OF assms(1,2), of l] assms(3) by auto
qed

theorem statuses_follow_paths_witness:
  "\<exists>u'. statuses (snd (transitionStatus calm ''v1'' PROCESSING FAILED no_extra (sample_world PROCESSING))) ''v1'' = Some u' \<and>
     status_path PROCESSING u' \<and> (u' = PENDING \<longrightarrow> PROCESSING = PENDING)"
proof -
  obtain r w' where run:
    "transitionStatus calm ''v1'' PROCESSING FAILED no_extra (sample_world PROCESSING) = (r, w')"
    by fastforce
  have "statuses (sample_world PROCESSING) ''v1'' = Some PROCESSING" by simp
  from statuses_follow_paths [OF sample_wf run this] run show ?thesis by simp
qed

text \<open>Two workers that both read \<open>PROCESSING\<close> and start, one after the other, both win:
  the guard against duplicate executions does not hold between attempts at a video that is
  already being processed.\<close>

theorem processing_won_twice:
  assumes "up env Database" and "wf_world w" and "statuses w k = Some PROCESSING"
    and "transitionStatus env k PROCESSING PROCESSING x w = (r1, w1)"
    and "transitionStatus env k PROCESSING PROCESSING x' w1 = (r2, w2)"
  shows "r1 = Inr True \<and> r2 = Inr True"
proof -
  have win: "r = Inr True \<and> wf_world u' \<and> statuses u' k = Some PROCESSING"
    if u: "wf_world u" "statuses u k = Some PROCESSING"
      and run: "transitionStatus env k PROCESSING PROCESSING y u = (r, u')" for u u' r y
  proof -
    from u have "affected v_id k (in_status PROCESSING) (w_videos u) \<noteq> 0"
      by (simp add: affected_status)
    with run assms(1) have "r = Inr True"
      by (auto simp: transitionStatus_eval up_def transition_allowed_iff)
    with run u job_status.success(3) [of u env k PROCESSING PROCESSING y u'] job_status.move_wf [OF u(1) run]
    show ?thesis by simp
  qed
  from win [OF assms(2,3,4)] have "r1 = Inr True" "wf_world w1" "statuses w1 k = Some PROCESSING" by simp_all
  with win [OF _ _ assms(5)] show ?thesis by simp
qed

theorem processing_won_twice_witness:
  "\<exists>w1. transitionStatus calm ''v1'' PROCESSING PROCESSING start_extra (sample_world PROCESSING) = (Inr True, w1) \<and>
     fst (transitionStatus calm ''v1'' PROCESSING PROCESSING start_extra w1) = Inr True"
proof -
  obtain r1 w1 where 1: "transitionStatus calm ''v1'' PROCESSING PROCESSING start_extra (sample_world PROCESSING) = (r1, w1)"
    by fastforce
  obtain r2 w2 where 2: "transitionStatus calm ''v1'' PROCESSING PROCESSING start_extra w1 = (r2, w2)"
    by fastforce
  have "r1 = Inr True \<and> r2 = Inr True"
    by (rule processing_won_twice [OF up_calm sample_wf _ 1 2]) simp
  with 1 2 show ?thesis by simp
qed

section \<open>Cached reads\<close>

text \<open>After a successful transition with Redis up, a read of the status within the lifetime
  of the entry returns the new status.\<close>

theorem read_after_transition:
  assumes "up env Redis" and "transitionStatus env k s t x w = (Inr True, w')"
    and "int (e_latency env (w_calls w')) < CACHE_TTL_SECONDS * 1000"
  shows "\<exists>snap. fst (getCachedStatus env k w') = Inr (Some snap) \<and> s_status snap = t"
  using transition_then_read [OF assms(1,2)] assms(3) by (force simp: prompt_reply_def)

theorem read_after_transition_witness:
  "\<exists>snap. fst (getCachedStatus calm ''v1''
       (snd (transitionStatus calm ''v1'' PROCESSING COMPLETED no_extra (sample_world PROCESSING))))
     = Inr (Some snap) \<and> s_status snap = COMPLETED"
proof -
  obtain w' where run:
    "transitionStatus calm ''v1'' PROCESSING COMPLETED no_extra (sample_world PROCESSING) = (Inr True, w')"
    by (simp add: transitionStatus_eval transition_allowed_iff affected_def)
  have "int (e_latency calm (w_calls w')) < CACHE_TTL_SECONDS * 1000"
    by (simp add: CACHE_TTL_SECONDS_def)
  from read_after_transition [OF up_calm run this] run show ?thesis by simp
qed

text \<open>A read that misses the cache returns the status, progress and message of the row and
  fills the cache: the next read within the lifetime of the entry returns the same snapshot.\<close>

theorem cold_read_coherent:
  assumes "up env Redis" and "up env Database" and "row w k = Some v"
    and "live_entry w k (w_now (ticked env w)) = None"
    and "getCachedStatus env k w = (r, w')"
    and "int (e_latency env (w_calls w')) < CACHE_TTL_SECONDS * 1000"
  shows "\<exists>snap. r = Inr (Some snap) \<and> s_status snap = v_status v \<and>
    s_progress snap = nullish (opt_get (v_metadata v) ''progressPercent'') (JNum 0) \<and>
    s_message snap = nullish (opt_get (v_metadata v) ''progressMessage'') (JStr []) \<and>
    fst (getCachedStatus env k w') = r"
  using cold_read [OF assms(1-4)] assms(5,6) by (auto simp: prompt_reply_def snapshot_of_def)

theorem cold_read_coherent_witness:
  "\<exists>snap. fst (getCachedStatus calm ''v1'' (sample_world FAILED)) = Inr (Some snap) \<and> s_status snap = FAILED"
proof -
  obtain r w' where run: "getCachedStatus calm ''v1'' (sample_world FAILED) = (r, w')" by fastforce
  have row: "row (sample_world FAILED) ''v1'' = Some (sample_video FAILED)" by simp
  have cold: "live_entry (sample_world FAILED) ''v1'' (w_now (ticked calm (sample_world FAILED))) = None"
    by (simp add: live_entry_def)
  have "int (e_latency calm (w_calls w')) < CACHE_TTL_SECONDS * 1000" by (simp add: CACHE_TTL_SECONDS_def)
  from cold_read_coherent [OF up_calm up_calm row cold run this] run show ?thesis by auto
qed

text \<open>Once \<open>markFailed\<close> has returned with Redis and the database up, the next read reports
  \<open>FAILED\<close>, whatever the cache held before.\<close>

theorem failure_is_visible:
  assumes "up env Redis" and "up env Database" and "row w k = Some v"
    and "markFailed env k m w = (r, w')"
  shows "r = Inr () \<and> (\<exists>snap. fst (getCachedStatus env k w') = Inr (Some snap) \<and> s_status snap = FAILED)"
proof -
  have r: "r = Inr ()" using assms(2,4) by (auto simp: markFailed_eval up_def)
  from markFailed_then_read [OF assms(1-3)] assms(4) r show ?thesis by force
qed

theorem failure_is_visible_witness:
  "\<exists>snap. fst (getCachedStatus calm ''v1'' (snd (markFailed calm ''v1'' ''boom'' (sample_world PROCESSING))))
     = Inr (Some snap) \<and> s_status snap = FAILED"
proof -
  obtain r w' where run: "markFailed calm ''v1'' ''boom'' (sample_world PROCESSING) = (r, w')" by fastforce
  have row: "row (sample_world PROCESSING) ''v1'' = Some (sample_video PROCESSING)" by simp
  from failure_is_visible [OF up_calm up_calm row run] run show ?thesis by simp
qed

text \<open>A progress update of a video that is not being processed leaves its row alone but
  makes the cached reads answer \<open>PROCESSING\<close>: a stale worker hides a terminal status from the
  readers.\<close>

theorem stale_progress_poisons_cache:
  assumes "up env Redis" and "up env Database" and "row w k = Some v" and "v_status v \<noteq> PROCESSING"
    and "updateProgress env k n m meta w = (r, w')"
    and "int (e_latency env (w_calls w')) < CACHE_TTL_SECONDS * 1000"
  shows "row w' k = Some v \<and> (\<exists>snap. fst (getCachedStatus env k w') = Inr (Some snap) \<and>
    s_status snap = PROCESSING)"
proof -
  have "r = Inr ()" using assms(2,5) by (auto simp: updateProgress_eval up_def)
  with stale_progress_read [OF assms(1-4)] assms(5,6) show ?thesis by (simp add: prompt_reply_def)
qed

theorem stale_progress_poisons_cache_witness:
  "row (snd (updateProgress calm ''v1'' 40 ''m'' (\<lambda>_. None) (sample_world COMPLETED))) ''v1'' =
     Some (sample_video COMPLETED) \<and>
   (\<exists>snap. fst (getCachedStatus calm ''v1''
       (snd (updateProgress calm ''v1'' 40 ''m'' (\<lambda>_. None) (sample_world COMPLETED)))) = Inr (Some snap) \<and>
     s_status snap = PROCESSING)"
proof -
  obtain r w' where run: "updateProgress calm ''v1'' 40 ''m'' (\<lambda>_. None) (sample_world COMPLETED) = (r, w')"
    by fastforce
  have row: "row (sample_world COMPLETED) ''v1'' = Some (sample_video COMPLETED)" by simp
  have "v_status (sample_video COMPLETED) \<noteq> PROCESSING"
    "int (e_latency calm (w_calls w')) < CACHE_TTL_SECONDS * 1000"
    by (simp_all add: CACHE_TTL_SECONDS_def)
  from stale_progress_poisons_cache [OF up_calm up_calm row this(1) run this(2)] run show ?thesis by simp
qed

text \<open>While Redis refuses every call, the status read finds the row in the database and
  still answers null for it: the failed backfill of the cache discards the fallback.\<close>

theorem redis_down_hides_rows:
  assumes "\<And>n. e_outcome env Redis n = Refused m" and "row w k = Some v"
  shows "fst (getCachedStatus env k w) = Inr None"
  using assms(1) by (rule redis_down_read)

theorem redis_down_hides_rows_witness:
  "fst (getCachedStatus (without Redis) ''v1'' (sample_world COMPLETED)) = Inr None"
  by (rule redis_down_hides_rows [of _ "''down''" _ _ "sample_video COMPLETED"]) simp_all

text \<open>Under any faults the status read never raises and never changes the table of videos.\<close>

theorem cached_read_is_safe:
  "\<exists>s w'. getCachedStatus env k w = (Inr s, w') \<and> w_videos w' = w_videos w"
proof -
  obtain s w' where run: "getCachedStatus env k w = (Inr s, w')" using getCachedStatus_total by blast
  with guaranteeD [OF getCachedStatus_keeps_videos run] show ?thesis by (simp add: keeps_def)
qed

end
