(* ===== verification/Worker_Properties.thy ===== *)
theory Worker_Properties
  imports Samples
begin

text \<open>
  Properties of \<open>VideoGenerationProcessor\<close>, with the AI and storage services of the program.
\<close>

abbreviation run_job ::
  "env \<Rightarrow> int option \<Rightarrow> storage_config \<Rightarrow> queue_job \<Rightarrow> world \<Rightarrow> (exn + unit) \<times> world" where
  "run_job env delay cfg job \<equiv> process env (aiService env delay) (storageService env cfg) job"

section \<open>How an attempt ends\<close>

text \<open>C3: An attempt that returns normally, under any faults, has either completed the video
  (the row is \<open>COMPLETED\<close> with the URL announced by the last event, after at most 30 polls) or
  found it in a terminal status and changed neither rows nor events.\<close>

theorem normal_return_delivers:
  assumes "wf_world w" and "j_name job = GENERATE" and "run_job env delay cfg job w = (Inr u, w')"
  shows "(\<exists>n url th v. 1 \<le> n \<and> n \<le> max_poll_attempts \<and> row w' (j_videoId job) = Some v \<and>
      v_status v = COMPLETED \<and> v_videoUrl v = Some url \<and>
      w_events w' = w_events w @ attempt_events (j_videoId job) (j_attemptsMade job + 1) n @
        [VideoCompleted (j_videoId job) url th])
    \<or> (w_videos w' = w_videos w \<and> w_events w' = w_events w \<and>
       (\<exists>v. row w (j_videoId job) = Some v \<and> terminal (v_status v)))"
  using gen_worker.process_returns [OF assms] by (fastforce simp: delivered_def skipped_def phase_def)

theorem normal_return_delivers_witness:
  "\<exists>w' v. run_job calm None sample_config (sample_job (Some 3)) (sample_world PENDING) = (Inr (), w') \<and>
     row w' ''v1'' = Some v \<and> v_status v = COMPLETED"
proof -
  obtain w' where run: "run_job calm None sample_config (sample_job (Some 3)) (sample_world PENDING) = (Inr (), w')"
    using calm_run by blast
  from normal_return_delivers [OF sample_wf sample_job_sel(2) run] run show ?thesis
    by (auto simp: terminal_def)
qed

text \<open>C30: With the database up, the last attempt leaves the video in a terminal status whatever
  the queue, Redis, OpenAI and the object store do.\<close>

theorem last_attempt_is_terminal:
  assumes "up env Database" and "wf_world w" and "j_name job = GENERATE" and "isFinalAttempt job"
    and "row w (j_videoId job) = Some v" and "run_job env delay cfg job w = (r, w')"
  shows "\<exists>v'. row w' (j_videoId job) = Some v' \<and> terminal (v_status v')"
  using assms by (rule gen_worker.process_last_terminal)

theorem last_attempt_is_terminal_witness:
  "\<exists>v'. row (snd (run_job (without Queue) None sample_config (sample_job None) (sample_world PENDING))) ''v1''
     = Some v' \<and> terminal (v_status v')"
proof -
  obtain r w' where run: "run_job (without Queue) None sample_config (sample_job None) (sample_world PENDING) = (r, w')"
    by fastforce
  from last_attempt_is_terminal [OF _ sample_wf sample_job_sel(2) _ _ run] run show ?thesis by simp
qed

definition marked_failed :: "string \<Rightarrow> string \<Rightarrow> world \<Rightarrow> bool" where
  "marked_failed k m w \<longleftrightarrow> (\<exists>v. row w k = Some v \<and> v_status v = FAILED \<and> v_errorMessage v = Some m)"

definition recorded :: "string \<Rightarrow> string \<Rightarrow> int \<Rightarrow> world \<Rightarrow> world \<Rightarrow> bool" where
  "recorded k m a w w' \<longleftrightarrow> (\<exists>r. w_failed_jobs w' = w_failed_jobs w @ [r] \<and> f_videoId r = k \<and>
     f_errorMessage r = m \<and> f_attemptsMade r = a \<and> \<not> f_retried r)"

lemma marked_failed_update:
  "row w k = Some v \<Longrightarrow> marked_failed k m (after_update env k (\<lambda>_. True) (failed_fields m) w)"
  "row w k = Some v \<Longrightarrow> marked_failed k m (marked env k m w)"
  by (simp_all add: marked_failed_def marked_def table_simps)

lemma announced_failure:
  assumes "emit env (VideoFailed k m a) (marked env k m w) = (Inr (), w')" and "row w k = Some v"
    and "\<And>n. find_failed_job (e_uuid env n) (w_failed_jobs w) = None"
  shows "marked_failed k m w'" and "w_events w' = w_events w @ [VideoFailed k m a]"
    and "if recorder_served env (w_calls w + 2) then recorded k m a w w' else w_failed_jobs w' = w_failed_jobs w"
proof -
  have jobs: "w_failed_jobs (marked env k m w) = w_failed_jobs w" by (simp add: marked_def)
  show "marked_failed k m w'" "w_events w' = w_events w @ [VideoFailed k m a]"
    using emit_failed_frame(2,3) [OF assms(1)] marked_failed_update(2) [OF assms(2), of m env]
    by (simp_all add: marked_failed_def row_def) (simp add: marked_def)
  show "if recorder_served env (w_calls w + 2) then recorded k m a w w' else w_failed_jobs w' = w_failed_jobs w"
    using emit_failed_records [of env "marked env k m w" k m a] assms(1,3)
    by (simp add: marked_calls jobs recorded_def insert_row_def)
qed

text \<open>C7: What a last attempt that fails leaves behind, under any faults, for a video that has a row
  and identifiers that are fresh. Until the handler catches an error, no failure is announced and
  none recorded. Then it depends on how the database takes the call that marks the row. If it is
  served, the attempt rethrows the error, the row is \<open>FAILED\<close> with its message, \<open>VideoFailed\<close> is the
  last event, and there is exactly one new dead-letter record for the video, not yet retried, if
  the database also serves the lookup of the listener and does its insert, and none otherwise. If
  it is refused, nothing is marked, announced or recorded, and the error of the driver replaces
  the one that was caught; if only its reply is lost, the row is marked, but the failure neither
  announced nor recorded.\<close>

theorem last_failure_is_recorded:
  assumes "wf_world w" and "j_name job = GENERATE" and "isFinalAttempt job" and "j_videoId job = k"
    and "row w k = Some v" and "\<And>n. find_failed_job (e_uuid env n) (w_failed_jobs w) = None"
    and "run_job env delay cfg job w = (Inl e, w')" and "a = j_attemptsMade job + 1"
  shows "\<exists>e0 w1 evs. generate_body env (aiService env delay) (storageService env cfg) job w = (Inl e0, w1) \<and>
    w_events w1 = w_events w @ evs \<and> (\<forall>ev \<in> set evs. quiet ev) \<and> w_failed_jobs w1 = w_failed_jobs w \<and>
    (case e_outcome env Database (w_calls w1) of
       Served \<Rightarrow> e = e0 \<and> marked_failed k (error_message e) w' \<and>
         w_events w' = w_events w1 @ [VideoFailed k (error_message e) a] \<and>
         (if recorder_served env (w_calls w1 + 2) then recorded k (error_message e) a w w'
          else w_failed_jobs w' = w_failed_jobs w)
     | Refused m \<Rightarrow> e = JsError m \<and> w_videos w' = w_videos w1 \<and> w_events w' = w_events w1 \<and>
         w_failed_jobs w' = w_failed_jobs w
     | Lost m \<Rightarrow> e = JsError m \<and> marked_failed k (error_message e0) w' \<and> w_events w' = w_events w1 \<and>
         w_failed_jobs w' = w_failed_jobs w)"
proof (rule gen_worker.process_last_cases [OF assms(1-3) assms(7) assms(5) [folded assms(4)]])
  fix e0 w1 evs v1
  let ?m = "error_message e0"
  assume body: "generate_body env (aiService env delay) (storageService env cfg) job w = (Inl e0, w1)"
    "w_events w1 = w_events w @ evs" "\<forall>ev \<in> set evs. quiet ev" "w_failed_jobs w1 = w_failed_jobs w"
    and "row w1 (j_videoId job) = Some v1"
  then have row: "row w1 k = Some v1" by (simp add: assms(4))
  assume "case e_outcome env Database (w_calls w1) of
      Served \<Rightarrow> e = e0 \<and> emit env (VideoFailed (j_videoId job) ?m (j_attemptsMade job + 1))
        (marked env (j_videoId job) ?m w1) = (Inr (), w')
    | Refused m \<Rightarrow> e = JsError m \<and> w' = ticked env w1
    | Lost m \<Rightarrow> e = JsError m \<and> w' = after_update env (j_videoId job) (\<lambda>_. True) (failed_fields ?m) w1"
  from this [unfolded assms(4)] have ends: "case e_outcome env Database (w_calls w1) of
      Served \<Rightarrow> e = e0 \<and> emit env (VideoFailed k ?m a) (marked env k ?m w1) = (Inr (), w')
    | Refused m \<Rightarrow> e = JsError m \<and> w' = ticked env w1
    | Lost m \<Rightarrow> e = JsError m \<and> w' = after_update env k (\<lambda>_. True) (failed_fields ?m) w1"
    unfolding assms(8) .
  have same: "recorded k m a w1 w' = recorded k m a w w'" for m by (simp add: recorded_def body(4))
  show ?thesis
    by (intro exI [of _ e0] exI [of _ w1] exI [of _ evs])
      (use ends body same announced_failure [of env k ?m a w1 w' v1] row assms(6) marked_failed_update(1) [OF row, of ?m env] in \<open>auto split: outcome.splits\<close>)
qed

theorem last_failure_is_recorded_witness:
  "\<exists>w' r. run_job (without Queue) None sample_config (sample_job None) (sample_world PENDING)
       = (Inl (JsError ''down''), w') \<and>
     w_failed_jobs w' = [r] \<and> f_errorMessage r = ''down''"
proof -
  obtain w' where run: "run_job (without Queue) None sample_config (sample_job None) (sample_world PENDING)
      = (Inl (JsError ''down''), w')"
    using queue_down_run by blast
  from last_failure_is_recorded [OF sample_wf sample_job_sel(2) _ sample_job_sel(3) _ _ run refl] run show ?thesis
    by (auto simp: recorder_served_def recorded_def)
qed

text \<open>A failed attempt that is not the last keeps the video open for the next one, under
  any faults: no row becomes \<open>FAILED\<close>, no dead-letter record is written, no failure is
  announced and every status has moved along valid edges only.\<close>

theorem early_failure_keeps_retry:
  assumes "wf_world w" and "j_name job = GENERATE" and "\<not> isFinalAttempt job"
    and "run_job env delay cfg job w = (Inl e, w')"
  shows "no_new_failure w w' \<and> advances w w' \<and> w_failed_jobs w' = w_failed_jobs w \<and>
    (\<exists>evs. w_events w' = w_events w @ evs \<and> filter (\<lambda>ev. \<not> quiet ev) evs = [])"
proof -
  have "stopped w (j_videoId job) (j_attemptsMade job + 1) w'"
    by (rule gen_worker.process_retryable [OF assms])
  then have "\<exists>evs. w_events w' = w_events w @ evs \<and> filter (\<lambda>ev. \<not> quiet ev) evs = []"
    by (auto simp: stopped_def interrupted_def phase_def attempt_events_def progress_event_def quiet_def)
  with gen_worker.process_retryable(2-4) [OF assms] show ?thesis by simp
qed

theorem early_failure_keeps_retry_witness:
  "\<exists>w'. run_job (without Queue) None sample_config (sample_job (Some 3)) (sample_world PENDING)
       = (Inl (JsError ''down''), w') \<and> no_new_failure (sample_world PENDING) w' \<and> w_failed_jobs w' = []"
proof -
  obtain w' where run: "run_job (without Queue) None sample_config (sample_job (Some 3)) (sample_world PENDING)
      = (Inl (JsError ''down''), w')"
    using queue_down_run by blast
  from early_failure_keeps_retry [OF sample_wf sample_job_sel(2) _ run] run show ?thesis by simp
qed

section \<open>Progress\<close>

text \<open>C17: Under any faults the progress percentages an attempt announces are those of its first
  \<open>n\<close> polls for some \<open>n \<le> 30\<close>: they never decrease and stay between 42 and 90.\<close>

theorem progress_is_bounded_and_monotone:
  assumes "wf_world w" and "j_name job = GENERATE" and "run_job env delay cfg job w = (r, w')"
  shows "\<exists>n evs. n \<le> 30 \<and> w_events w' = w_events w @ evs \<and>
    progress_percents evs = map poll_percent [1..<Suc n] \<and> sorted (progress_percents evs) \<and>
    set (progress_percents evs) \<subseteq> {42..90}"
proof -
  obtain n evs where n: "n \<le> 30" "w_events w' = w_events w @ evs"
      "progress_percents evs = map poll_percent [1..<Suc n]"
    using gen_worker.process_percents [OF assms] by (auto simp: max_poll_attempts_def)
  have "sorted (map poll_percent [1..<Suc n])"
    by (simp add: sorted_map poll_percent_mono sorted_wrt_mono_rel [OF _ sorted_upt]
        del: upt_Suc)
  moreover have "set (map poll_percent [1..<Suc n]) \<subseteq> {42..90}"
    using poll_percent_range by auto
  ultimately show ?thesis using n by metis
qed

theorem progress_is_bounded_and_monotone_witness:
  "\<exists>evs. w_events (snd (run_job calm None sample_config (sample_job None) (sample_world PENDING))) = evs \<and>
     sorted (progress_percents evs) \<and> set (progress_percents evs) \<subseteq> {42..90}"
proof -
  obtain r w' where run: "run_job calm None sample_config (sample_job None) (sample_world PENDING) = (r, w')"
    by fastforce
  from progress_is_bounded_and_monotone [OF sample_wf sample_job_sel(2) run] run show ?thesis by auto
qed

section \<open>Delivery\<close>

text \<open>C6: With the database and the queue up, an attempt at a video that is not in a terminal
  status always completes it with the URL of the simulated provider, provided the provider's
  delay fits into the window of 30 polls every 10 seconds, whatever Redis, OpenAI and the
  object store do.\<close>

theorem simulated_provider_delivers:
  assumes "up env Database" and "up env Queue" and "defaultDelayMs delay \<le> 300000"
    and "wf_world w" and "j_name job = GENERATE"
    and "row w (j_videoId job) = Some v" and "\<not> terminal (v_status v)"
  shows "\<exists>w' v'. run_job env delay cfg job w = (Inr (), w') \<and> row w' (j_videoId job) = Some v' \<and>
    v_status v' = COMPLETED \<and> v_videoUrl v' = Some (buildVideoUrl (j_videoId job))"
  using process_live [OF assms(1,2) _ assms(4-7)] assms(3)
  by (fastforce simp: max_poll_attempts_def published_video_def)

theorem simulated_provider_delivers_witness:
  "\<exists>w' v'. run_job (without OpenAI) (Some 290000) sample_config (sample_job None) (sample_world PENDING)
       = (Inr (), w') \<and> row w' ''v1'' = Some v' \<and>
     v_videoUrl v' = Some ''https://fake-cdn.example.com/videos/v1/output.mp4''"
  using simulated_provider_delivers [of "without OpenAI" "Some 290000" "sample_world PENDING"
      "sample_job None" "sample_video PENDING" sample_config]
  by (auto simp: defaultDelayMs_def terminal_def buildVideoUrl_def)

section \<open>Isolation\<close>

text \<open>Under any faults an attempt at one video leaves the rows of all others as they were and
  keeps the key constraints of the tables.\<close>

theorem attempt_is_isolated:
  assumes "wf_world w" and "j_name job = GENERATE" and "run_job env delay cfg job w = (r, w')"
    and "k \<noteq> j_videoId job"
  shows "row w' k = row w k \<and> wf_world w'"
  using gen_worker.process_only_row [OF assms(2,3)] gen_worker.process_wf [OF assms(1,3)] assms(4)
  by (simp add: only_row_def)

theorem attempt_is_isolated_witness:
  "row (snd (run_job flaky None sample_config (sample_job None) (sample_world PENDING))) ''v2'' = None \<and>
   wf_world (snd (run_job flaky None sample_config (sample_job None) (sample_world PENDING)))"
proof -
  obtain r w' where run: "run_job flaky None sample_config (sample_job None) (sample_world PENDING) = (r, w')"
    by fastforce
  from attempt_is_isolated [OF sample_wf sample_job_sel(2) run, of "''v2''"] run show ?thesis by simp
qed

section \<open>A completed video that is marked failed\<close>

text \<open>C37: When the last attempt raises after the transition to \<open>COMPLETED\<close> (the final report to
  the queue fails), the video that was delivered is marked \<open>FAILED\<close>: the unconditional write
  leaves a terminal status that no transition may leave.\<close>

theorem completed_is_overwritten:
  assumes "up env Database" and "j_name job = GENERATE" and "isFinalAttempt job"
    and "generate_body env (aiService env delay) (storageService env cfg) job w = (Inl e, w1)"
    and "row w1 (j_videoId job) = Some v" and "v_status v = COMPLETED"
  shows "\<exists>v'. row (snd (run_job env delay cfg job w)) (j_videoId job) = Some v' \<and> v_status v' = FAILED \<and>
    v_videoUrl v' = v_videoUrl v"
  using marked_after_completion [OF assms(1-5)] by blast

theorem completed_is_overwritten_witness:
  "\<exists>v'. row (snd (run_job flaky None sample_config (sample_job None) (sample_world PENDING))) ''v1'' = Some v' \<and>
     v_status v' = FAILED"
proof -
  obtain w1 v where "generate_body flaky (aiService flaky None) (storageService flaky sample_config)
      (sample_job None) (sample_world PENDING) = (Inl (JsError ''down''), w1)"
    "row w1 ''v1'' = Some v" "v_status v = COMPLETED"
    using long_run by blast
  from completed_is_overwritten [OF up_flaky sample_job_sel(2) _ this(1)] this(2,3) show ?thesis by auto
qed

end
