(* ===== verification/Attempt_Cost.thy ===== *)
theory Attempt_Cost
  imports Worker_Properties
begin

text \<open>
  The cost of a computation: a bound on its external calls, and one on the time it takes besides
  their latency. Costs add up along a computation; with the bounds of the two loops (30 polls,
  three tries of an upload) they give the bounds of a whole attempt.
\<close>

section \<open>Costs\<close>

definition latencies :: "env \<Rightarrow> nat \<Rightarrow> nat \<Rightarrow> nat" where
  "latencies env a b = (\<Sum>n = a..<b. e_latency env n)"

lemma latencies_simps [simp]: "latencies env a a = 0" "latencies env a (Suc a) = e_latency env a"
  by (simp_all add: latencies_def)

text \<open>At most \<open>c\<close> calls, and at most \<open>d\<close> milliseconds besides the latency of the calls made.\<close>

definition spends :: "env \<Rightarrow> nat \<Rightarrow> nat \<Rightarrow> 'a act \<Rightarrow> bool" where
  "spends env c d m \<longleftrightarrow> (\<forall>w. let w' = snd (m w) in
     w_calls w \<le> w_calls w' \<and> w_calls w' \<le> w_calls w + c \<and>
     w_now w' \<le> w_now w + int (d + latencies env (w_calls w) (w_calls w')))"

lemma spendsD:
  assumes "spends env c d m" and "m w = (r, w')"
  shows "w_calls w \<le> w_calls w'" and "w_calls w' \<le> w_calls w + c"
    and "w_now w' \<le> w_now w + int (d + latencies env (w_calls w) (w_calls w'))"
  using assms by (auto simp: spends_def Let_def dest: spec [of _ w])

lemma spendsI:
  assumes "\<And>w r w'. m w = (r, w') \<Longrightarrow> w_calls w \<le> w_calls w' \<and> w_calls w' \<le> w_calls w + c \<and>
    w_now w' \<le> w_now w + int (d + latencies env (w_calls w) (w_calls w'))"
  shows "spends env c d m"
  using assms by (simp add: spends_def Let_def) (metis prod.collapse)

lemma spends_weaken:
  assumes "spends env c d m" and "c \<le> c'" and "d \<le> d'"
  shows "spends env c' d' m"
proof (rule spendsI)
  fix w r w'
  assume "m w = (r, w')"
  from spendsD [OF assms(1) this] assms(2,3)
  show "w_calls w \<le> w_calls w' \<and> w_calls w' \<le> w_calls w + c' \<and>
    w_now w' \<le> w_now w + int (d' + latencies env (w_calls w) (w_calls w'))" by linarith
qed

text \<open>Two steps in a row.\<close>

lemma costs_add:
  fixes t1 :: int
  assumes "a \<le> b" "b \<le> a + c1" "t2 \<le> t1 + int (d1 + latencies env a b)"
    and "b \<le> e" "e \<le> b + c2" "t3 \<le> t2 + int (d2 + latencies env b e)"
  shows "a \<le> e \<and> e \<le> a + (c1 + c2) \<and> t3 \<le> t1 + int (d1 + d2 + latencies env a e)"
proof -
  have "latencies env a e = latencies env a b + latencies env b e"
    unfolding latencies_def by (rule sum.atLeastLessThan_concat [symmetric]) (use assms in simp_all)
  with assms show ?thesis by linarith
qed

lemma spends_return: "spends env 0 0 (io_return a)" "spends env 0 0 (io_raise e)" "spends env 0 0 (io_gets f)"
  by (simp_all add: spends_def)

lemma spends_modify:
  "(\<And>w. w_calls (f w) = w_calls w) \<Longrightarrow> (\<And>w. w_now (f w) = w_now w) \<Longrightarrow> spends env 0 0 (io_modify f)"
  by (simp add: spends_def)

lemma spends_nothing:
  assumes "\<And>w. w_calls (snd (m w)) = w_calls w" and "\<And>w. w_now (snd (m w)) = w_now w"
  shows "spends env 0 0 m"
  using assms by (simp add: spends_def)

lemma spends_bind:
  assumes m: "spends env c1 d1 m" and f: "\<And>a. spends env c2 d2 (f a)"
  shows "spends env (c1 + c2) (d1 + d2) (io_bind m f)"
proof (rule spendsI)
  fix w r w'
  assume run: "io_bind m f w = (r, w')"
  show "w_calls w \<le> w_calls w' \<and> w_calls w' \<le> w_calls w + (c1 + c2) \<and>
    w_now w' \<le> w_now w + int (d1 + d2 + latencies env (w_calls w) (w_calls w'))"
  proof (cases "m w")
    case (Pair x w1)
    note 1 = spendsD [OF m Pair]
    show ?thesis
    proof (cases x)
      case (Inl e)
      with run Pair have "w' = w1" by (simp add: io_bind_eval)
      with 1 show ?thesis by simp
    next
      case (Inr a)
      with run Pair have "f a w1 = (r, w')" by (simp add: io_bind_eval)
      from costs_add [OF 1 spendsD [OF f this]] show ?thesis .
    qed
  qed
qed

lemma spends_seq: "spends env c1 d1 m \<Longrightarrow> spends env c2 d2 n \<Longrightarrow> spends env (c1 + c2) (d1 + d2) (io_seq m n)"
  unfolding io_seq_def by (rule spends_bind)

lemma spends_try:
  assumes m: "spends env c1 d1 m" and h: "\<And>e. spends env c2 d2 (h e)"
  shows "spends env (c1 + c2) (d1 + d2) (io_try m h)"
proof (rule spendsI)
  fix w r w'
  assume run: "io_try m h w = (r, w')"
  show "w_calls w \<le> w_calls w' \<and> w_calls w' \<le> w_calls w + (c1 + c2) \<and>
    w_now w' \<le> w_now w + int (d1 + d2 + latencies env (w_calls w) (w_calls w'))"
  proof (cases "m w")
    case (Pair x w1)
    note 1 = spendsD [OF m Pair]
    show ?thesis
    proof (cases x)
      case (Inr a)
      with run Pair have "w' = w1" by (simp add: io_try_eval)
      with 1 show ?thesis by simp
    next
      case (Inl e)
      with run Pair have "h e w1 = (r, w')" by (simp add: io_try_eval)
      from costs_add [OF 1 spendsD [OF h this]] show ?thesis .
    qed
  qed
qed

lemma spends_sleep: "spends env 0 (nat ms) (sleep ms)"
  by (simp add: spends_def sleep_def)

text \<open>A call whose operation does not touch the clock.\<close>

lemma spends_external:
  assumes "\<And>w. w_calls (snd (op w)) = w_calls w" and "\<And>w. w_now (snd (op w)) = w_now w"
  shows "spends env 1 0 (external env svc op)"
  using assms by (auto simp: spends_def external_cases now_ticked Let_def split: outcome.split)

lemma spends_detached:
  assumes "spends env c d m"
  shows "spends env c 0 (detached m)"
proof (rule spendsI)
  fix w r w'
  assume run: "detached m w = (r, w')"
  obtain x w1 where m: "m w = (x, w1)" by (cases "m w")
  from run have "w' = w1\<lparr>w_now := w_now w\<rparr>" by (simp add: detached_def m)
  with spendsD [OF assms m]
  show "w_calls w \<le> w_calls w' \<and> w_calls w' \<le> w_calls w + c \<and>
    w_now w' \<le> w_now w + int (0 + latencies env (w_calls w) (w_calls w'))" by simp
qed

lemma spends_cond:
  assumes "b \<Longrightarrow> spends env c d m" and "\<not> b \<Longrightarrow> spends env c' d' n"
  shows "spends env (max c c') (max d d') (if b then m else n)"
  by (cases b) (simp_all add: spends_weaken [OF assms(1)] spends_weaken [OF assms(2)])

lemmas spends_rules = spends_return spends_bind spends_seq spends_try spends_sleep spends_cond spends_detached

section \<open>The primitive calls\<close>

lemma call_costs:
  "spends env 1 0 (db_find_video env k)" "spends env 1 0 (db_update_video env k p f)"
  "spends env 1 0 (redis_get env key)" "spends env 1 0 (redis_set env key x n)" "spends env 1 0 (redis_del env key)"
  "spends env 1 0 (job_updateProgress env job i)" "spends env 1 0 (db_insert_failed_job env r)"
  "spends env 1 0 (s3_put env key buffer ct)" "spends env 1 0 (external env svc (io_return a))"
  unfolding db_find_video_def db_update_video_def redis_get_def redis_set_def redis_del_def
    job_updateProgress_def db_insert_failed_job_def s3_put_def
  by (rule spends_external; simp add: Let_def)+

section \<open>The services\<close>

lemma writeCache_cost: "spends env 1 0 (writeCache env k st p m)"
  unfolding writeCache_def current_time_def
  by (rule spends_weaken, rule spends_rules, rule spends_rules, rule call_costs) simp_all

lemma transitionStatus_cost: "spends env 2 0 (transitionStatus env k s t x)"
  unfolding transitionStatus_def
  by (rule spends_weaken, (rule spends_rules call_costs writeCache_cost)+) simp_all

lemma updateProgress_cost: "spends env 2 0 (updateProgress env k n m x)"
  unfolding updateProgress_def
  by (rule spends_weaken, (rule spends_rules call_costs writeCache_cost)+) simp_all

lemma markFailed_cost: "spends env 2 0 (markFailed env k m)"
  unfolding markFailed_def evictCache_def
  by (rule spends_weaken, (rule spends_rules call_costs)+) simp_all

lemma emit_cost:
  "spends env (if quiet ev then 0 else 2) 0 (emit env ev)"
proof -
  have publish: "spends env 0 0 (io_modify (\<lambda>w. w\<lparr>w_events := w_events w @ [ev]\<rparr>))"
    by (rule spends_modify) simp_all
  have forward: "spends env 0 0 (if e_gateway env then on_gateway ev else io_return ())"
    by (rule spends_nothing) (simp_all add: on_gateway_def)
  have listener: "spends env 2 0 (detached (onVideoFailed env k m a))" for k m a
    unfolding onVideoFailed_def
    by (rule spends_weaken, (rule spends_rules call_costs)+) simp_all
  have "spends env (if quiet ev then 0 else 2) 0
      (case ev of VideoFailed vid message attempts \<Rightarrow> detached (onVideoFailed env vid message attempts)
                | _ \<Rightarrow> io_return ())"
    by (cases ev) (simp_all add: quiet_def spends_return listener)
  from spends_seq [OF publish spends_seq [OF forward this]] show ?thesis
    by (simp add: emit_def)
qed

lemma emit_quiet_cost: "quiet ev \<Longrightarrow> spends env 0 0 (emit env ev)"
  using emit_cost [of env ev] by simp

lemma emit_failure_cost: "spends env 2 0 (emit env (VideoFailed k m a))"
  using emit_cost [of env "VideoFailed k m a"] by (simp add: quiet_def)

text \<open>An upload tries three times and waits 200 and 400 milliseconds between the tries.\<close>

lemma withRetry_unfold:
  "withRetry operation MAX_RETRY_ATTEMPTS =
     io_try operation (\<lambda>_. io_seq (sleep 200)
       (io_try operation (\<lambda>_. io_seq (sleep 400) (io_try operation io_raise))))"
  by (simp add: withRetry_def MAX_RETRY_ATTEMPTS_def BASE_RETRY_DELAY_MS_def retry_from.simps)

lemma retry_cost:
  assumes "spends env c 0 operation"
  shows "spends env (3 * c) 600 (withRetry operation MAX_RETRY_ATTEMPTS)"
  unfolding withRetry_unfold
  by (rule spends_weaken, (rule spends_rules assms)+) simp_all

lemma uploadFromUrl_cost:
  shows "spends env 4 600 (uploadFromUrl env cfg url key)"
proof -
  have fetch: "spends env 1 0 (downloadToBuffer env url)"
    unfolding downloadToBuffer_def
    by (rule spends_weaken, rule spends_bind, rule call_costs(9))
      (auto simp: spends_return split: option.split)
  show ?thesis
    unfolding uploadFromUrl_def uploadBuffer_def
    by (rule spends_weaken, (rule spends_rules retry_cost fetch call_costs(8))+) simp_all
qed

section \<open>An attempt\<close>

text \<open>Bounds for the calls of a provider and of a store, as the worker uses them.\<close>

locale bounded_services =
  fixes env :: env and ai :: ai_service and storage :: storage_service and cu du :: nat
  assumes generate_cost: "spends env 0 0 (ai_generateVideo ai params videoId)"
    and poll_cost: "spends env 0 0 (ai_getGenerationStatus ai jobId)"
    and enhance_cost: "spends env 1 0 (ai_enhancePrompt ai prmpt)"
    and upload_cost: "spends env cu du (st_uploadFromUrl storage url key)"
begin

lemma finish_video_cost:
  shows "spends env (cu + 3) du (finish_video env storage job k result)"
  unfolding finish_video_def
  by (rule spends_weaken,
    (rule spends_rules upload_cost transitionStatus_cost call_costs emit_quiet_cost | simp add: quiet_def)+)

text \<open>Every poll sleeps ten seconds and makes three calls; one of them delivers.\<close>

lemma poll_loop_cost:
  shows "spends env (3 * (30 - n) + (cu + 3)) (10000 * (30 - n) + du) (poll_loop env ai storage job k aid st n)"
proof (induction "30 - n" arbitrary: n st)
  case 0
  then have "\<not> n < max_poll_attempts" by (simp add: max_poll_attempts_def)
  then show ?case by (subst poll_loop.simps) (simp add: spends_weaken [OF spends_return(2)])
next
  case (Suc m)
  then have m: "m = 30 - (n + 1)" "30 - n = Suc m" by simp_all
  have tail: "spends env (3 * m + (cu + 3)) (10000 * m + du)
      (if truthy (g_videoUrl r) then finish_video env storage job k r
       else poll_loop env ai storage job k aid (g_status r) (n + 1))" for r
    using Suc.hyps(1) [OF m(1)] m(1) spends_weaken [OF finish_video_cost] by simp
  show ?case
    unfolding m(2) poll_loop.simps [of env ai storage job k aid st n] Let_def
    by (rule spends_weaken,
      (rule tail spends_rules poll_cost updateProgress_cost call_costs(6) emit_quiet_cost | simp add: quiet_def)+)
qed

lemma generate_body_cost:
  shows "spends env (cu + 104) (300000 + du) (generate_body env ai storage job)"
proof -
  have load: "spends env 1 0 (findById env k)" for k
    unfolding findById_def
    by (rule spends_weaken, rule spends_bind, rule call_costs(1))
      (auto simp: spends_return split: option.split)
  show ?thesis
    unfolding generate_body_def generate_started_def Let_def
    by (rule spends_weaken,
      (rule spends_rules load transitionStatus_cost updateProgress_cost call_costs(6) emit_quiet_cost
        enhance_cost generate_cost poll_loop_cost | simp add: quiet_def)+)
qed

lemma process_cost:
  shows "spends env (cu + 108) (300000 + du) (process env ai storage job)"
  unfolding process_def handleVideoGeneration_def Let_def
  by (rule spends_weaken,
    (rule spends_rules generate_body_cost markFailed_cost emit_failure_cost | simp)+)

end

interpretation served: bounded_services env "aiService env delay" "storageService env cfg" 4 600
  for env delay cfg
proof
  show "spends env 0 0 (ai_generateVideo (aiService env delay) params videoId)" for params videoId
    by (simp add: aiService_def generateVideo_def submit_def spends_nothing Let_def)
  show "spends env 0 0 (ai_getGenerationStatus (aiService env delay) jobId)" for jobId
    by (simp add: aiService_def getGenerationStatus_def checkStatus_def spends_nothing Let_def split: option.split)
  show "spends env 1 0 (ai_enhancePrompt (aiService env delay) prmpt)" for prmpt
    unfolding aiService_def ai_service.simps enhancePrompt_def
    by (rule spends_weaken, (rule spends_rules call_costs(9))+) simp_all
  show "spends env 4 600 (st_uploadFromUrl (storageService env cfg) url key)" for url key
    by (simp add: storageService_def uploadFromUrl_cost)
qed

section \<open>The property\<close>

text \<open>C10: An attempt always ends, under any faults and whatever the provider answers: it makes at
  most 112 external calls and, besides their latency, takes at most the thirty waits of ten
  seconds between polls and the 600 milliseconds between three tries of the upload.\<close>

theorem attempt_is_bounded:
  "\<exists>r w'. process env (aiService env delay) (storageService env cfg) job w = (r, w') \<and>
    w_calls w' \<le> w_calls w + 112 \<and>
    w_now w' \<le> w_now w + 300600 + int (\<Sum>n = w_calls w..<w_calls w'. e_latency env n)"
proof -
  obtain r w' where run: "run_job env delay cfg job w = (r, w')" by fastforce
  from spendsD [OF served.process_cost run] show ?thesis
    using run by (simp add: latencies_def)
qed

end
