(* ===== verification/Service_Properties.thy ===== *)
theory Service_Properties
  imports Samples
begin

text \<open>
  Properties of the video service, the storage service, the simulated AI provider, the
  dead-letter queue, the queue endpoints and the gateway.
\<close>

section \<open>Storage\<close>

text \<open>C34: An upload succeeds exactly if one of three consecutive calls to the object store is
  served, and then the object is stored; it takes the latency of the calls made plus the
  exponential backoff of 200 ms between them.\<close>

theorem upload_retries:
  assumes "uploadBuffer env cfg buffer key ct w = (r, w')"
    and "n = tries (e_outcome env S3) (w_calls w) 3"
  shows "(r = Inr (getPublicUrl cfg key) \<longleftrightarrow> (\<exists>i < 3. e_outcome env S3 (w_calls w + i) = Served)) \<and>
    (isl r \<or> w_objects w' key = Some (buffer, ct)) \<and>
    w_calls w' = w_calls w + n \<and>
    w_now w' = w_now w + latency env (w_calls w) n + BASE_RETRY_DELAY_MS * (2 ^ (n - 1) - 1)"
proof -
  let ?put = "s3_put env key buffer ct"
  obtain r1 w1 where run: "withRetry ?put 3 w = (r1, w1)" by fastforce
  with assms(1) have r: "w1 = w'" "isl r \<longleftrightarrow> isl r1" "\<not> isl r1 \<Longrightarrow> r = Inr (getPublicUrl cfg key)"
    by (cases r1; auto simp: uploadBuffer_def MAX_RETRY_ATTEMPTS_def io_try_def io_seq_def io_bind_def)+
  have "(isl r1 \<longleftrightarrow> (\<forall>i < 3. e_outcome env S3 (w_calls w + i) \<noteq> Served)) \<and>
    w_calls w1 = w_calls w + n \<and> w_now w1 = w_now w + latency env (w_calls w) n + backoff 1 n"
    using run unfolding assms(2) withRetry_def s3_put_def
    by (intro retry_run) simp_all
  moreover have "isl r1 \<or> w_objects w1 key = Some (buffer, ct)"
  proof (cases r1)
    case (Inr u)
    have "triple (\<lambda>_. True) ?put (\<lambda>_ w. w_objects w key = Some (buffer, ct)) (\<lambda>_ _. True)"
      by (rule tripleI) (auto simp: s3_put_def dest!: external_InrD)
    from tripleD_Inr [OF triple_retry [OF this]] run Inr show ?thesis
      by (auto simp: withRetry_def)
  qed simp
  ultimately show ?thesis using r backoff_closed [of n] by (cases r) auto
qed

definition second_try :: env where
  "second_try = calm\<lparr>e_outcome := (\<lambda>s n. if n = 0 then Refused ''slow down'' else Served)\<rparr>"

theorem upload_retries_witness:
  "\<exists>w'. uploadBuffer second_try sample_config ''data'' ''k'' ''video/mp4'' (sample_world PENDING) =
      (Inr ''http://minio:9000/media/k'', w') \<and>
    w_objects w' ''k'' = Some (''data'', ''video/mp4'') \<and> w_now w' = 200"
proof -
  obtain r w' where run: "uploadBuffer second_try sample_config ''data'' ''k'' ''video/mp4'' (sample_world PENDING) = (r, w')"
    by fastforce
  have n: "(2::nat) = tries (e_outcome second_try S3) (w_calls (sample_world PENDING)) 3"
    by (simp add: second_try_def numeral_3_eq_3)
  have "\<exists>i < 3::nat. e_outcome second_try S3 (w_calls (sample_world PENDING) + i) = Served"
    by (rule exI [of _ 1]) (simp add: second_try_def)
  with upload_retries [OF run n] run show ?thesis
    by (auto simp: latency_def second_try_def BASE_RETRY_DELAY_MS_def getPublicUrl_def sample_config_def
        bucket_of_def)
qed

text \<open>With an endpoint configured, the key extracted from the public URL of an uploaded
  object is the key it was uploaded under, for every key of plain path segments.\<close>

theorem key_survives_public_url:
  assumes "sc_endpoint cfg = Some (scheme @ ''://'' @ host)"
    and "scheme = ''http'' \<or> scheme = ''https''" and "host_name host" and "u_host_ok lib host"
    and "plain_segment (bucket_of cfg)" and "segs \<noteq> []" and "\<forall>s \<in> set segs. plain_segment s"
  shows "extractS3Key lib (getPublicUrl cfg (join_slash segs)) = join_slash segs"
  using assms by (rule key_with_endpoint)

theorem key_survives_public_url_witness:
  "extractS3Key sample_url_lib (getPublicUrl sample_config ''videos/v1/output.mp4'') = ''videos/v1/output.mp4''"
  using key_survives_public_url [of sample_config "''http''" "''minio:9000''" sample_url_lib
      "[''videos'', ''v1'', ''output.mp4'']"]
  by (simp add: sample_config_def sample_url_lib_def host_name_def plain_segment_def plain_char_def code_def
      bucket_of_def)

text \<open>Without an endpoint (a bucket addressed by its host name) the key extracted from the
  public URL of a video is not the key it was uploaded under: its first segment is lost.\<close>

theorem key_lost_without_endpoint:
  assumes "\<not> truthy (sc_endpoint cfg)"
    and "host = bucket_of cfg @ ''.s3.'' @ or_else (sc_region cfg) ''us-east-1'' @ ''.amazonaws.com''"
    and "host_name host" and "u_host_ok lib host" and "plain_segment k"
  shows "extractS3Key lib (getPublicUrl cfg (output_key k)) = k @ ''/output.mp4'' \<and>
    extractS3Key lib (getPublicUrl cfg (output_key k)) \<noteq> output_key k"
proof -
  have "extractS3Key lib (getPublicUrl cfg (output_key k)) = k @ ''/output.mp4''"
    by (rule key_without_endpoint [OF assms])
  moreover have "length (k @ ''/output.mp4'') \<noteq> length (output_key k)" by (simp add: output_key_def)
  ultimately show ?thesis by metis
qed

theorem key_lost_without_endpoint_witness:
  "extractS3Key sample_url_lib (getPublicUrl (sample_config\<lparr>sc_endpoint := None\<rparr>) (output_key ''v1'')) = ''v1/output.mp4''"
  using key_lost_without_endpoint [of "sample_config\<lparr>sc_endpoint := None\<rparr>" _ sample_url_lib "''v1''"]
  by (simp add: sample_config_def sample_url_lib_def host_name_def plain_segment_def plain_char_def code_def
      bucket_of_def)

text \<open>A download link is signed for the requested key with a lifetime between a minute and
  a day, equal to the requested one when that lies in the range; it fails only if the signing
  call fails.\<close>

theorem download_link_lifetime:
  "clamp_expiry ttl \<in> {60..86400} \<and> (ttl \<in> {60..86400} \<longrightarrow> clamp_expiry ttl = ttl) \<and>
   (case fst (getPresignedDownloadUrl env cfg key ttl w) of
      Inr url \<Rightarrow> url = e_sign env (GetObject (bucket_of cfg) key) (clamp_expiry ttl)
    | Inl e \<Rightarrow> e_outcome env S3 (w_calls w) \<noteq> Served)"
  by (auto simp: clamp_expiry_def getPresignedDownloadUrl_def external_cases io_try_def Let_def
      split: outcome.split)

theorem download_link_lifetime_witness:
  "clamp_expiry 3600 = 3600 \<and> clamp_expiry 5 = 60"
  using download_link_lifetime [where ttl = 3600] download_link_lifetime [where ttl = 5]
  by (auto simp: clamp_expiry_def)

section \<open>The simulated provider\<close>

text \<open>A job submitted to the simulated provider is answered as processing until its delay has
  passed, then once with the URLs of the video, and is unknown afterwards.\<close>

theorem simulated_job_life_cycle:
  assumes "submit delay k ps w = (Inr g, w1)" and "w_ai_jobs w2 = w_ai_jobs w1"
  shows "(w_now w2 - w_now w < defaultDelayMs delay \<longrightarrow>
      checkStatus (g_jobId g) w2 = (Inr (pending_result (g_jobId g)), w2)) \<and>
    (defaultDelayMs delay \<le> w_now w2 - w_now w \<longrightarrow>
      (\<exists>g' w3 g''. checkStatus (g_jobId g) w2 = (Inr g', w3) \<and> g_status g' = GenCompleted \<and>
         g_videoUrl g' = Some (buildVideoUrl k) \<and>
         checkStatus (g_jobId g) w3 = (Inr g'', w3) \<and> g_status g'' = GenFailed))"
proof -
  from assms have "w_ai_jobs w2 (g_jobId g) = Some \<lparr>k_videoId = k, k_params = ps, k_startedAt = w_now w,
      k_completionDelayMs = defaultDelayMs delay\<rparr>"
    by (auto simp: submit_def Let_def)
  then show ?thesis
    by (auto simp: checkStatus_submitted checkStatus_unknown)
qed

theorem simulated_job_life_cycle_witness:
  "\<exists>g w1. submit None ''v1'' (params_of (sample_video PENDING) ''p'') (sample_world PENDING) = (Inr g, w1) \<and>
     checkStatus (g_jobId g) w1 = (Inr (pending_result (g_jobId g)), w1)"
proof -
  obtain g w1 where run: "submit None ''v1'' (params_of (sample_video PENDING) ''p'') (sample_world PENDING) = (Inr g, w1)"
    by (simp add: submit_def Let_def)
  then have "w_now w1 = 0" by (auto simp: submit_def Let_def)
  with simulated_job_life_cycle [OF run refl] run show ?thesis by (auto simp: defaultDelayMs_def)
qed

section \<open>The video service\<close>

text \<open>C32: For an existing user, a served creation stores a \<open>PENDING\<close> row of the caller that carries the id of its queue
  job, adds exactly that job to the queue and announces the video, if its numbers are in the
  range of their columns; otherwise it fails and leaves nothing behind.\<close>

theorem creation_queues_video:
  assumes "up env Database" and "up env Queue" and "find_user u (w_users w) \<noteq> None"
    and "k = e_uuid env (Suc (w_calls w))" and "find_video k (w_videos w) = None"
    and "jid = e_job_id env (Suc (Suc (w_calls w)))" and "find_job jid (w_jobs w) = None"
  shows "if dimensions_fit dto
    then \<exists>v w' v'. createAndQueue env u dto w = (Inr v, w') \<and> v_id v = k \<and>
      row w' k = Some v' \<and> v_status v' = PENDING \<and> v_userId v' = u \<and> v_queueJobId v' = Some jid \<and>
      w_jobs w' = w_jobs w @ [new_job jid GENERATE k videos_module_job_defaults] \<and>
      w_events w' = w_events w @ [VideoCreated k u (cv_prompt dto) jid]
    else createAndQueue env u dto w = (Inl out_of_range, ticked env w)"
  using createAndQueue_served [OF assms(1,2) _ assms(3-)] createAndQueue_out_of_range [OF assms(1)] by simp

theorem creation_queues_video_witness:
  "\<exists>v w'. createAndQueue calm ''alice'' sample_dto (sample_world FAILED) = (Inr v, w') \<and> v_id v = ''u'' \<and>
     statuses w' ''u'' = Some PENDING"
  using creation_queues_video [of calm "''alice''" "sample_world FAILED" "''u''" "''7''" sample_dto]
  by (auto simp: dimensions_fit_def sample_dto_def find_video_def select_key_def statuses_def status_of_def)

text \<open>When the queue refuses the job, the creation fails but its row stays behind: \<open>PENDING\<close>,
  without a job, without an event.\<close>

theorem creation_leaves_orphan:
  assumes "up env Database" and "dimensions_fit dto" and "find_user u (w_users w) \<noteq> None"
    and "k = e_uuid env (Suc (w_calls w))" and "find_video k (w_videos w) = None" and "e_outcome env Queue (Suc (w_calls w)) = Refused m"
  shows "\<exists>w' v'. createAndQueue env u dto w = (Inl (JsError m), w') \<and>
    row w' k = Some v' \<and> v_status v' = PENDING \<and> v_queueJobId v' = None \<and>
    w_jobs w' = w_jobs w \<and> w_events w' = w_events w"
  using assms by (rule createAndQueue_refused)

theorem creation_leaves_orphan_witness:
  "\<exists>w'. createAndQueue (without Queue) ''alice'' sample_dto (sample_world FAILED) = (Inl (JsError ''down''), w') \<and>
     statuses w' ''u'' = Some PENDING \<and> w_jobs w' = []"
  using creation_leaves_orphan [of "without Queue" sample_dto "''alice''" "sample_world FAILED" "''u''" "''down''"]
  by (auto simp: dimensions_fit_def sample_dto_def find_video_def select_key_def statuses_def status_of_def)

text \<open>A job added by the creation of a video carries no attempt limit, so its first attempt is
  already its final one; a job added by the dead-letter retry is final on its third attempt.\<close>

theorem attempts_of_queued_jobs:
  "isFinalAttempt (new_job jid GENERATE k videos_module_job_defaults) \<and>
   (isFinalAttempt ((new_job jid GENERATE k queue_module_job_defaults)\<lparr>j_attemptsMade := n\<rparr>) \<longleftrightarrow> 2 \<le> n)"
  by (auto simp: isFinalAttempt_def new_job_def videos_module_job_defaults_def queue_module_job_defaults_def)

text \<open>C19: Whatever calls fail, a caller who does not own a video gets an error from every endpoint
  of that video, and nothing of the tables, the queue, the cache, the events and the sockets changes.\<close>

theorem strangers_are_rejected:
  assumes "row w k = Some v" and "v_userId v \<noteq> u"
  shows "(\<forall>r w'. videos_getStatus env u k w = (r, w') \<longrightarrow> isl r \<and> business_state w' = business_state w) \<and>
    (\<forall>r w'. videos_getResult env lib storage u k ttl w = (r, w') \<longrightarrow> isl r \<and> business_state w' = business_state w) \<and>
    (\<forall>r w'. videos_update env u k dto w = (r, w') \<longrightarrow> isl r \<and> business_state w' = business_state w) \<and>
    (\<forall>r w'. videos_remove env u k w = (r, w') \<longrightarrow> isl r \<and> business_state w' = business_state w)"
proof -
  obtain r1 w1 where f: "findOneForUser env k u w = (r1, w1)" by fastforce
  from stranger_blocked [OF assms f] obtain e where "r1 = Inl e" "business_state w1 = business_state w"
    by (cases r1) auto
  with f show ?thesis
    by (auto simp: videos_getStatus_def videos_getResult_def getVideoResult_def videos_update_def
        update_def videos_remove_def remove_def io_bind_def)
qed

theorem strangers_are_rejected_witness:
  "isl (fst (videos_remove calm ''mallory'' ''v1'' (sample_world COMPLETED))) \<and>
   w_videos (snd (videos_remove calm ''mallory'' ''v1'' (sample_world COMPLETED))) = [sample_video COMPLETED]"
proof -
  obtain r w' where run: "videos_remove calm ''mallory'' ''v1'' (sample_world COMPLETED) = (r, w')" by fastforce
  from strangers_are_rejected [of "sample_world COMPLETED" "''v1''" "sample_video COMPLETED" "''mallory''" calm]
    run show ?thesis by (simp add: business_state_def)
qed

text \<open>C33: The pages of a listing, laid end to end, are exactly the videos of the user with the
  asked status, newest first, each once.\<close>

theorem listing_pages_partition:
  assumes "up env Database" and "0 < n" and "length (videos_of u st (w_videos w)) \<le> m * n"
  shows "concat (map (\<lambda>i. case fst (findAllForUser env u st (int i + 1) (int n) w) of
        Inr p \<Rightarrow> pv_items p | Inl _ \<Rightarrow> []) [0..<m])
      = map video_response_from (newest_first v_createdAt (videos_of u st (w_videos w))) \<and>
    sorted_wrt (\<lambda>x y. v_createdAt y \<le> v_createdAt x) (newest_first v_createdAt (videos_of u st (w_videos w)))"
proof
  show "concat (map (\<lambda>i. case fst (findAllForUser env u st (int i + 1) (int n) w) of
        Inr p \<Rightarrow> pv_items p | Inl _ \<Rightarrow> []) [0..<m])
      = map video_response_from (newest_first v_createdAt (videos_of u st (w_videos w)))"
    by (rule select_page_concat [OF assms(2,3)])
      (use assms in \<open>simp add: findAllForUser_up Let_def\<close>)
qed (rule sorted_newest_first)

theorem listing_pages_partition_witness:
  "concat (map (\<lambda>i. case fst (findAllForUser calm ''alice'' None (int i + 1) (int 1) (sample_world PENDING)) of
      Inr p \<Rightarrow> pv_items p | Inl _ \<Rightarrow> []) [0..<2]) = [video_response_from (sample_video PENDING)]"
  using listing_pages_partition [of calm 1 "''alice''" None "sample_world PENDING" 2]
  by (simp add: videos_of_def newest_first_def)

text \<open>The pagination data of a listing count the selection, the last page is the last one
  with a row on it, and the flags for the neighbouring pages are right.\<close>

theorem listing_meta_is_right:
  assumes "up env Database" and "1 \<le> page" and "0 < limit"
    and "findAllForUser env u st page limit w = (Inr p, w')"
    and "pm_totalPages (pv_meta p) = Fin pages" and "rows = videos_of u st (w_videos w)"
  shows "pm_total (pv_meta p) = length rows \<and> int (length rows) \<le> pages * limit \<and>
    (rows \<noteq> [] \<longrightarrow> (pages - 1) * limit < int (length rows)) \<and>
    (pm_hasNextPage (pv_meta p) \<longleftrightarrow> page * limit < int (length rows)) \<and>
    (pm_hasPreviousPage (pv_meta p) \<longleftrightarrow> page \<noteq> 1)"
proof -
  have p: "pv_meta p = \<lparr>pm_total = length rows, pm_page = page, pm_limit = limit, pm_totalPages = Fin pages,
      pm_hasNextPage = (page < pages), pm_hasPreviousPage = (1 < page)\<rparr>"
    and pages: "pages = ceil_div (int (length rows)) limit"
    using assms by (auto simp: findAllForUser_up Let_def)
  have upper: "int (length rows) \<le> pages * limit"
    and lower: "(pages - 1) * limit < int (length rows)"
    using ceil_div_bounds [OF assms(3), of "int (length rows)"] pages by simp_all
  have "page < pages \<longleftrightarrow> page * limit < int (length rows)"
  proof
    assume "page < pages"
    then have "page * limit \<le> (pages - 1) * limit" using assms(3) by simp
    with lower show "page * limit < int (length rows)" by simp
  next
    assume "page * limit < int (length rows)"
    with upper have "page * limit < pages * limit" by simp
    then show "page < pages" using assms(3) by simp
  qed
  with upper lower assms(2) show ?thesis by (auto simp: p)
qed

theorem listing_meta_is_right_witness:
  "\<exists>p w'. findAllForUser calm ''alice'' None 1 20 (sample_world PENDING) = (Inr p, w') \<and>
     pm_total (pv_meta p) = 1 \<and> \<not> pm_hasNextPage (pv_meta p)"
proof -
  obtain p w' pages where run: "findAllForUser calm ''alice'' None 1 20 (sample_world PENDING) = (Inr p, w')"
    "pm_totalPages (pv_meta p) = Fin pages"
    by (simp add: findAllForUser_up Let_def)
  from listing_meta_is_right [OF up_calm _ _ run refl] run show ?thesis by (auto simp: videos_of_def)
qed

text \<open>A download result is given out only for the caller's own video that is \<open>COMPLETED\<close> with
  a URL, with a lifetime in range and a thumbnail link exactly if there is a thumbnail; any
  other video of the caller is answered with a conflict and no change.\<close>

theorem result_only_when_completed:
  assumes "up env Database" and "row w k = Some v" and "v_userId v = u"
    and "getVideoResult env lib storage k u ttl w = (r, w')"
  shows "(\<forall>d. r = Inr d \<longrightarrow> v_status v = COMPLETED \<and> vd_videoId d = v_id v \<and>
      vd_expiresInSeconds d \<in> {60..86400} \<and> (vd_thumbnailUrl d = None \<longleftrightarrow> \<not> truthy (v_thumbnailUrl v))) \<and>
    (v_status v \<noteq> COMPLETED \<longrightarrow> r = Inl (ConflictException
        (''Video is not yet completed. Current status: '' @ status_string (v_status v))) \<and>
      w_videos w' = w_videos w)"
proof (intro conjI allI impI)
  fix d
  assume "r = Inr d"
  with assms(4) have "getVideoResult env lib storage k u ttl w = (Inr d, w')" by simp
  then show "v_status v = COMPLETED" "vd_videoId d = v_id v" "vd_expiresInSeconds d \<in> {60..86400}"
    "vd_thumbnailUrl d = None \<longleftrightarrow> \<not> truthy (v_thumbnailUrl v)"
    by (rule getVideoResult_ready; use assms(2) in \<open>simp add: MAX_PRESIGN_TTL_def\<close>)+
next
  assume "v_status v \<noteq> COMPLETED"
  with getVideoResult_conflict [OF assms(1-3), of lib storage ttl] assms(4)
  show "r = Inl (ConflictException (''Video is not yet completed. Current status: '' @ status_string (v_status v)))"
    "w_videos w' = w_videos w" by simp_all
qed

theorem result_only_when_completed_witness:
  "fst (getVideoResult calm sample_url_lib (storageService calm sample_config) ''v1'' ''alice'' 3600
      (sample_world PENDING)) = Inl (ConflictException ''Video is not yet completed. Current status: pending'')"
proof -
  obtain r w' where run: "getVideoResult calm sample_url_lib (storageService calm sample_config) ''v1'' ''alice'' 3600
      (sample_world PENDING) = (r, w')" by fastforce
  from result_only_when_completed [OF up_calm _ _ run, of "sample_video PENDING"] run show ?thesis by simp
qed

section \<open>The dead-letter queue\<close>


text \<open>A served retry of an unretried record resets the video to \<open>PENDING\<close> without its error,
  enqueues one job with the queue's limits of attempts, links it from the row, and marks the
  record.\<close>

theorem retry_requeues_video:
  assumes "up env Database" and "up env Queue" and "find_failed_job rid (w_failed_jobs w) = Some f"
    and "\<not> f_retried f" and "row w (f_videoId f) = Some v"
    and "jid = e_job_id env (Suc (Suc (Suc (w_calls w))))" and "find_job jid (w_jobs w) = None"
  shows "\<exists>w' v' f'. retryFailedJob env rid w =
      (Inr \<lparr>rf_id = f_id f, rf_retryJobId = jid, rf_videoId = f_videoId f\<rparr>, w') \<and>
    w_jobs w' = w_jobs w @ [new_job jid GENERATE (f_videoId f) queue_module_job_defaults] \<and>
    row w' (f_videoId f) = Some v' \<and> v_status v' = PENDING \<and> v_errorMessage v' = None \<and>
    v_queueJobId v' = Some jid \<and>
    find_failed_job rid (w_failed_jobs w') = Some f' \<and> f_retried f' \<and> f_retryJobId f' = Some jid"
proof -
  have "retryFailedJob env rid w = retry_record env rid f (ticked env w)"
    using assms(1,3,4) by (simp add: retryFailedJob_def io_simps db_find_failed_job_def)
  moreover obtain w' v' where 1: "retry_record env rid f (ticked env w) =
      (Inr \<lparr>rf_id = f_id f, rf_retryJobId = jid, rf_videoId = f_videoId f\<rparr>, w')"
    "w_jobs w' = insert_row (new_job jid GENERATE (f_videoId f) queue_module_job_defaults) (w_jobs w)"
    "row w' (f_videoId f) = Some v'" "v_status v' = PENDING" "v_errorMessage v' = None"
    "v_queueJobId v' = Some jid"
    using retry_record_up [OF assms(1,2), of jid "ticked env w" f v rid] assms(5-7) by auto
  moreover have "\<exists>now. find_failed_job rid (w_failed_jobs w') =
      Some (f\<lparr>f_retried := True, f_retriedAt := Some now, f_retryJobId := Some jid\<rparr>)"
    using retry_record_marks [OF 1(1)] assms(3) by simp
  ultimately show ?thesis by (auto simp: insert_row_def)
qed

theorem retry_requeues_video_witness:
  "\<exists>w'. retryFailedJob calm ''r1'' dlq_world =
      (Inr \<lparr>rf_id = ''r1'', rf_retryJobId = ''7'', rf_videoId = ''v1''\<rparr>, w') \<and>
    statuses w' ''v1'' = Some PENDING"
  using retry_requeues_video [of calm "''r1''" dlq_world sample_record "sample_video FAILED" "''7''"]
  by (auto simp: find_failed_job_def select_key_def find_job_def statuses_def status_of_def)


text \<open>The pages of the dead-letter listing, laid end to end, are all records, newest first,
  each once.\<close>

theorem dead_letter_pages_partition:
  assumes "up env Database" and "0 < n" and "length (w_failed_jobs w) \<le> m * n"
  shows "concat (map (\<lambda>i. case fst (listFailedJobs env (int i + 1) (int n) w) of
        Inr p \<Rightarrow> pf_items p | Inl _ \<Rightarrow> []) [0..<m])
      = map toDto (newest_first f_failedAt (w_failed_jobs w)) \<and>
    sorted_wrt (\<lambda>x y. f_failedAt y \<le> f_failedAt x) (newest_first f_failedAt (w_failed_jobs w))"
proof
  show "concat (map (\<lambda>i. case fst (listFailedJobs env (int i + 1) (int n) w) of
        Inr p \<Rightarrow> pf_items p | Inl _ \<Rightarrow> []) [0..<m])
      = map toDto (newest_first f_failedAt (w_failed_jobs w))"
    by (rule select_page_concat [OF assms(2,3)]) (use assms in \<open>simp add: listFailedJobs_up\<close>)
qed (rule sorted_newest_first)

theorem dead_letter_pages_partition_witness:
  "concat (map (\<lambda>i. case fst (listFailedJobs calm (int i + 1) (int 1) dlq_world) of
      Inr p \<Rightarrow> pf_items p | Inl _ \<Rightarrow> []) [0..<1]) = [toDto sample_record]"
  using dead_letter_pages_partition [of calm 1 dlq_world 1] by (simp add: newest_first_def)

section \<open>The queue endpoints\<close>

text \<open>The listing endpoint never returns more than 100 records, whatever limit is asked for
  and whatever calls fail.\<close>

theorem endpoint_page_is_bounded:
  assumes "queue_listFailedJobs env page limit w = (Inr p, w')" and "0 < or_else limit 20"
  shows "length (pf_items p) \<le> 100"
proof -
  have "length (pf_items p) \<le> nat (min (or_else limit 20) 100)"
    using assms listFailedJobs_length [of env "or_else page 1" "min (or_else limit 20) 100" w p w']
    by (simp add: queue_listFailedJobs_def Let_def)
  then show ?thesis by simp
qed

theorem endpoint_page_is_bounded_witness:
  "\<exists>p w'. queue_listFailedJobs calm None (Some 1000000) dlq_world = (Inr p, w') \<and> length (pf_items p) \<le> 100"
proof -
  obtain p w' where run: "queue_listFailedJobs calm None (Some 1000000) dlq_world = (Inr p, w')"
    by (simp add: queue_listFailedJobs_def listFailedJobs_up)
  from endpoint_page_is_bounded [OF run] run show ?thesis by simp
qed

text \<open>The state of a queue job is reported from the queue: an unknown id is not found, a known
  job is reported with its state, a numeric progress and an attempt limit that defaults to 1.\<close>

theorem job_status_reports_queue:
  assumes "up env Queue"
  shows "(find_job jobId (w_jobs w) = None \<longrightarrow>
      fst (queue_getJobStatus env jobId w) = Inl (NotFoundException (''Queue job '' @ jobId @ '' not found''))) \<and>
    (\<forall>job. find_job jobId (w_jobs w) = Some job \<longrightarrow> (\<exists>d. fst (queue_getJobStatus env jobId w) = Inr d \<and>
      js_jobId d = jobId \<and> js_state d = j_state job \<and> js_attemptsMade d = j_attemptsMade job \<and>
      js_maxAttempts d = or_else (o_attempts (j_opts job)) 1 \<and>
      (\<forall>n. j_progress job = JNum n \<longrightarrow> js_progress d = n)))"
  using getJobStatus_up [OF assms, of jobId w]
  by (auto simp: queue_getJobStatus_def job_status_of_def numeric_progress_def dest: find_job_key)

theorem job_status_reports_queue_witness:
  "fst (queue_getJobStatus calm ''9'' dlq_world) = Inl (NotFoundException ''Queue job 9 not found'')"
  using job_status_reports_queue [OF up_calm, of "''9''" dlq_world] by simp

section \<open>The gateway\<close>

text \<open>A socket that made any sequence of subscriptions and withdrawals receives of an emitted
  event one message, with the name and payload of the event and the id of its video, if its
  last request about that video was a subscription, and nothing otherwise.\<close>

theorem rooms_isolate_videos:
  assumes "e_gateway env" and "quiet ev" and "c = handle_requests rs \<lparr>sk_id = sid, sk_rooms = []\<rparr>"
    and "emit env ev w = (r, w')"
  shows "received c (drop (length (w_sent w)) (w_sent w')) =
    (if subscribed (ev_videoId ev) rs False then [gateway_message ev] else []) \<and>
    event_payload ev ''videoId'' = Some (JStr (ev_videoId ev))"
proof -
  have "w_sent w' = w_sent w @ [gateway_message ev]"
    using assms(1,2,4) by (auto simp: emit_quiet)
  moreover have "roomName (ev_videoId ev) \<in> set (sk_rooms c) \<longleftrightarrow> subscribed (ev_videoId ev) rs False"
    using room_after_requests [of "ev_videoId ev" rs "\<lparr>sk_id = sid, sk_rooms = []\<rparr>"] assms(3) by simp
  ultimately show ?thesis by (simp add: received_def)
qed

theorem rooms_isolate_videos_witness:
  "received (handle_requests [Subscribe ''v1'', Subscribe ''v2'', Unsubscribe ''v1''] \<lparr>sk_id = ''s'', sk_rooms = []\<rparr>)
     (drop (length (w_sent initial_world)) (w_sent (snd (emit calm (VideoProcessingStarted ''v2'' 1) initial_world)))) =
   [gateway_message (VideoProcessingStarted ''v2'' 1)]"
proof -
  obtain r w' where run: "emit calm (VideoProcessingStarted ''v2'' 1) initial_world = (r, w')" by fastforce
  have "e_gateway calm" "quiet (VideoProcessingStarted ''v2'' 1)" by (simp_all add: calm_def quiet_def)
  from rooms_isolate_videos [OF this refl run, of "[Subscribe ''v1'', Subscribe ''v2'', Unsubscribe ''v1'']" "''s''"] run
  show ?thesis by simp
qed

end
