(* ===== verification/Chat.thy ===== *)
theory Chat
  imports Auth Gateway
begin

text \<open>
  \<open>ChatGateway\<close> and \<open>ChatService\<close> (modules/chat): the handshake of a socket, its rooms, the
  history of a room and the sending of a message. A session is the sequence of requests of one
  socket; an error of a handler is reported to the client and the session goes on.
\<close>

section \<open>ChatService\<close>

definition new_message :: "string \<Rightarrow> string \<Rightarrow> string \<Rightarrow> string \<Rightarrow> message" where
  "new_message senderId senderEmail room content =
     \<lparr>mg_id = [], mg_content = content, mg_senderId = senderId, mg_senderEmail = senderEmail,
      mg_room = room, mg_createdAt = 0\<rparr>"

definition find_message :: "string \<Rightarrow> message list \<Rightarrow> message option" where
  "find_message = select_key mg_id"

interpretation messages: keyed_table mg_id find_message "update_key mg_id" "affected mg_id"
    insert_row "delete_key mg_id" "keyed mg_id"
  unfolding find_message_def by (rule keyed_table_list)

definition db_insert_message :: "env \<Rightarrow> message \<Rightarrow> message act" where
  "db_insert_message env m = external env Database (\<lambda>w.
     let m' = m\<lparr>mg_id := e_uuid env (w_calls w), mg_createdAt := w_now w\<rparr>
     in if find_message (mg_id m') (w_messages w) = None
        then (Inr m', w\<lparr>w_messages := insert_row m' (w_messages w)\<rparr>)
        else (Inl duplicate_key, w))"

definition saveMessage :: "env \<Rightarrow> string \<Rightarrow> string \<Rightarrow> string \<Rightarrow> string \<Rightarrow> message act" where
  "saveMessage env senderId senderEmail room content =
     db_insert_message env (new_message senderId senderEmail room content)"

definition messages_of :: "string \<Rightarrow> message list \<Rightarrow> message list" where
  "messages_of room t = filter (\<lambda>m. mg_room m = room) t"

definition getRoomHistory :: "env \<Rightarrow> string \<Rightarrow> nat \<Rightarrow> message list act" where
  "getRoomHistory env room limit =
     external env Database (io_gets (\<lambda>w. take limit (newest_first mg_createdAt (messages_of room (w_messages w)))))"

section \<open>ChatGateway\<close>

text \<open>A socket of the namespace with the verified payload in \<open>data.user\<close>.\<close>

record chat_socket = socket +
  ck_user :: jwt_payload

text \<open>
  The middleware of the namespace. A socket that passes it is in the room of its own id, where
  socket.io puts every socket.
\<close>

definition chat_connect ::
  "'tok auth_lib \<Rightarrow> jwt_config \<Rightarrow> string \<Rightarrow> 'tok option \<Rightarrow> instant \<Rightarrow> string + chat_socket" where
  "chat_connect lib cfg sid token now =
     (case token of
        None \<Rightarrow> Inl ''Unauthorized''
      | Some tok \<Rightarrow>
          (case jwt_verify lib tok (jc_secret cfg) now of
             None \<Rightarrow> Inl ''Unauthorized''
           | Some payload \<Rightarrow> Inr \<lparr>sk_id = sid, sk_rooms = [sid], ck_user = payload\<rparr>))"

definition history_limit :: nat where
  "history_limit = 50"

datatype chat_reply =
    Joined (jn_room: string) (jn_history: "message list")
  | Left_room string
  | Message_sent string

text \<open>
  The socket has joined before the history is read. The history that is emitted to the client
  is part of the reply.
\<close>

definition handleJoinRoom :: "env \<Rightarrow> string \<Rightarrow> chat_socket \<Rightarrow> chat_socket \<times> chat_reply act" where
  "handleJoinRoom env room client =
     (socket_join room client,
      io_bind (getRoomHistory env room history_limit) (\<lambda>history. io_return (Joined room (rev history))))"

definition handleLeaveRoom :: "string \<Rightarrow> chat_socket \<Rightarrow> chat_socket \<times> chat_reply act" where
  "handleLeaveRoom room client = (socket_leave room client, io_return (Left_room room))"

definition message_payload :: "message \<Rightarrow> meta" where
  "message_payload m =
     [''id'' \<mapsto> JStr (mg_id m), ''room'' \<mapsto> JStr (mg_room m), ''content'' \<mapsto> JStr (mg_content m),
      ''senderId'' \<mapsto> JStr (mg_senderId m), ''senderEmail'' \<mapsto> JStr (mg_senderEmail m),
      ''createdAt'' \<mapsto> JStr (toISOString (mg_createdAt m))]"

definition chat_broadcast :: "string \<Rightarrow> message \<Rightarrow> ws_message" where
  "chat_broadcast room m = \<lparr>m_room = room, m_event = ''message'', m_payload = message_payload m\<rparr>"

definition handleSendMessage :: "env \<Rightarrow> string \<Rightarrow> string \<Rightarrow> chat_socket \<Rightarrow> chat_reply act" where
  "handleSendMessage env room content client =
     (let user = ck_user client in
      if room \<notin> set (sk_rooms client)
      then io_raise (WsException ''You must join the room before sending messages'')
      else
        io_bind (saveMessage env (tk_sub user) (tk_email user) room content) (\<lambda>m.
        io_seq (io_modify (\<lambda>w. w\<lparr>w_chat := w_chat w @ [chat_broadcast room m]\<rparr>))
               (io_return (Message_sent (mg_id m)))))"

section \<open>Sessions\<close>

datatype chat_request = Join string | Leave string | Send (rq_room: string) (rq_content: string)

fun chat_handle :: "env \<Rightarrow> chat_request \<Rightarrow> chat_socket \<Rightarrow> chat_socket \<times> chat_reply act" where
  "chat_handle env (Join room) client = handleJoinRoom env room client"
| "chat_handle env (Leave room) client = handleLeaveRoom room client"
| "chat_handle env (Send room content) client = (client, handleSendMessage env room content client)"

fun chat_session :: "env \<Rightarrow> chat_request list \<Rightarrow> chat_socket \<Rightarrow> world \<Rightarrow> chat_socket \<times> world" where
  "chat_session env [] client w = (client, w)"
| "chat_session env (rq # rqs) client w =
     (let (client', handler) = chat_handle env rq client
      in chat_session env rqs client' (snd (handler w)))"

text \<open>
  The rooms a socket is in, by its requests alone: the last join or leave of the room decides,
  and without one the socket is in the room of its id.
\<close>

fun member_after :: "string \<Rightarrow> chat_request list \<Rightarrow> string \<Rightarrow> bool" where
  "member_after sid [] room = (room = sid)"
| "member_after sid (rq # rqs) room =
     (case rq of
        Join r \<Rightarrow> if r = room then True else member_after sid rqs room
      | Leave r \<Rightarrow> if r = room then False else member_after sid rqs room
      | Send r c \<Rightarrow> member_after sid rqs room)"

definition is_member :: "string \<Rightarrow> chat_request list \<Rightarrow> string \<Rightarrow> bool" where
  "is_member sid rqs room = member_after sid (rev rqs) room"

section \<open>Lemmas\<close>

lemma chat_rooms [simp]:
  "set (sk_rooms (socket_join r c)) = insert r (set (sk_rooms c))"
  "set (sk_rooms (socket_leave r c)) = set (sk_rooms c) - {r}"
  "ck_user (socket_join r cc) = ck_user cc" "ck_user (socket_leave r cc) = ck_user cc"
  by (simp_all add: socket_join_def socket_leave_def)

lemma is_member_simps [simp]:
  "is_member sid [] room \<longleftrightarrow> room = sid"
  "is_member sid (rqs @ [Join r]) room \<longleftrightarrow> r = room \<or> is_member sid rqs room"
  "is_member sid (rqs @ [Leave r]) room \<longleftrightarrow> r \<noteq> room \<and> is_member sid rqs room"
  "is_member sid (rqs @ [Send r c]) room \<longleftrightarrow> is_member sid rqs room"
  by (simp_all add: is_member_def)

lemma chat_handle_user [simp]: "ck_user (fst (chat_handle env rq c)) = ck_user c"
  by (cases rq) (simp_all add: handleJoinRoom_def handleLeaveRoom_def)

lemma chat_session_append:
  "chat_session env (xs @ ys) c w =
     (let (c', w') = chat_session env xs c w in chat_session env ys c' w')"
  by (induction xs arbitrary: c w) (auto simp: split_def Let_def)

lemma chat_session_snoc:
  assumes "chat_session env xs c w = (c1, w1)"
  shows "chat_session env (xs @ [rq]) c w =
    (fst (chat_handle env rq c1), snd (snd (chat_handle env rq c1) w1))"
  using assms by (simp add: chat_session_append split_def Let_def)

text \<open>The state of a socket is determined by its requests.\<close>

lemma chat_session_client:
  assumes "sk_rooms c = [sid]" and "chat_session env rqs c w = (c', w')"
  shows "ck_user c' = ck_user c" and "r \<in> set (sk_rooms c') \<longleftrightarrow> is_member sid rqs r"
proof -
  have "ck_user (fst (chat_session env rqs c w)) = ck_user c \<and>
      (\<forall>r. r \<in> set (sk_rooms (fst (chat_session env rqs c w))) \<longleftrightarrow> is_member sid rqs r)"
  proof (induction rqs rule: rev_induct)
    case Nil
    then show ?case using assms(1) by simp
  next
    case (snoc rq rqs)
    obtain c1 w1 where run: "chat_session env rqs c w = (c1, w1)" by fastforce
    from snoc show ?case
      by (cases rq) (auto simp: chat_session_snoc [OF run] run handleJoinRoom_def handleLeaveRoom_def)
  qed
  with assms(2) show "ck_user c' = ck_user c" "r \<in> set (sk_rooms c') \<longleftrightarrow> is_member sid rqs r" by auto
qed

lemma db_insert_message_effect:
  assumes "db_insert_message env m w = (r, w')"
  shows "w_chat w' = w_chat w \<and>
    (\<exists>i t. let m' = m\<lparr>mg_id := i, mg_createdAt := t\<rparr> in
      (w_messages w' = w_messages w \<and> isl r) \<or>
      (w_messages w' = w_messages w @ [m'] \<and> (isl r \<or> r = Inr m')))"
  using assms
  by (fastforce simp: db_insert_message_def external_cases Let_def insert_row_def split: outcome.splits if_splits)

text \<open>What one request adds to the messages and to what is sent.\<close>

definition sent_by :: "jwt_payload \<Rightarrow> string \<Rightarrow> string \<Rightarrow> message \<Rightarrow> bool" where
  "sent_by pl room content m \<longleftrightarrow>
     mg_senderId m = tk_sub pl \<and> mg_senderEmail m = tk_email pl \<and> mg_room m = room \<and> mg_content m = content"

lemma send_effect:
  assumes "handleSendMessage env room content c w = (r, w')"
  shows "\<exists>ms bs. w_messages w' = w_messages w @ ms \<and> w_chat w' = w_chat w @ bs \<and>
    (\<forall>m \<in> set ms. sent_by (ck_user c) room content m \<and> room \<in> set (sk_rooms c)) \<and>
    (\<forall>b \<in> set bs. \<exists>m \<in> set ms. b = chat_broadcast room m)"
proof (cases "room \<in> set (sk_rooms c)")
  case False
  with assms show ?thesis by (auto simp: handleSendMessage_def Let_def)
next
  case True
  let ?m = "new_message (tk_sub (ck_user c)) (tk_email (ck_user c)) room content"
  obtain r1 w1 where ins: "db_insert_message env ?m w = (r1, w1)" by fastforce
  from db_insert_message_effect [OF ins] obtain i t where chat: "w_chat w1 = w_chat w"
    and or: "(w_messages w1 = w_messages w \<and> isl r1) \<or>
      (w_messages w1 = w_messages w @ [?m\<lparr>mg_id := i, mg_createdAt := t\<rparr>] \<and>
       (isl r1 \<or> r1 = Inr (?m\<lparr>mg_id := i, mg_createdAt := t\<rparr>)))"
    by (auto simp: Let_def)
  have sent: "sent_by (ck_user c) room content (?m\<lparr>mg_id := i, mg_createdAt := t\<rparr>)"
    by (simp add: sent_by_def new_message_def)
  show ?thesis
  proof (cases r1)
    case (Inl e)
    with assms True ins chat or sent show ?thesis
      by (auto simp: handleSendMessage_def Let_def io_bind_def saveMessage_def)
  next
    case (Inr m)
    with or have m: "m = ?m\<lparr>mg_id := i, mg_createdAt := t\<rparr>" "w_messages w1 = w_messages w @ [m]" by auto
    with assms True ins chat Inr sent show ?thesis
      by (auto simp: handleSendMessage_def Let_def io_simps saveMessage_def)
  qed
qed

lemma other_requests_add_nothing:
  assumes "\<And>r c. rq \<noteq> Send r c"
  shows "w_messages (snd (snd (chat_handle env rq c) w)) = w_messages w"
    and "w_chat (snd (snd (chat_handle env rq c) w)) = w_chat w"
  using assms
  by (cases rq; auto simp: handleJoinRoom_def handleLeaveRoom_def getRoomHistory_def io_bind_def external_cases
      split: outcome.split)+

text \<open>
  All a session adds are messages of its user, each asked for while the socket was in the room,
  and broadcasts of these messages.
\<close>

lemma session_messages:
  assumes "sk_rooms c = [sid]" and "chat_session env rqs c w = (c', w')"
  shows "\<exists>ms bs. w_messages w' = w_messages w @ ms \<and> w_chat w' = w_chat w @ bs \<and>
    (\<forall>m \<in> set ms. mg_senderId m = tk_sub (ck_user c) \<and> mg_senderEmail m = tk_email (ck_user c) \<and>
       (\<exists>pre post. rqs = pre @ Send (mg_room m) (mg_content m) # post \<and> is_member sid pre (mg_room m))) \<and>
    (\<forall>b \<in> set bs. \<exists>m \<in> set ms. b = chat_broadcast (mg_room m) m)"
proof -
  let ?asked = "\<lambda>rqs m. sent_by (ck_user c) (mg_room m) (mg_content m) m \<and>
      (\<exists>pre post. rqs = pre @ Send (mg_room m) (mg_content m) # post \<and> is_member sid pre (mg_room m))"
  have more: "?asked (rqs @ [rq]) m" if "?asked rqs m" for rqs rq m
    using that by (metis append_Cons append_assoc)
  have "\<exists>ms bs. w_messages w' = w_messages w @ ms \<and> w_chat w' = w_chat w @ bs \<and>
    (\<forall>m \<in> set ms. ?asked rqs m) \<and> (\<forall>b \<in> set bs. \<exists>m \<in> set ms. b = chat_broadcast (mg_room m) m)"
    using assms(2)
  proof (induction rqs arbitrary: c' w' rule: rev_induct)
    case Nil
    then show ?case by auto
  next
    case (snoc rq rqs)
    obtain c1 w1 where run1: "chat_session env rqs c w = (c1, w1)" by fastforce
    obtain ms bs where IH: "w_messages w1 = w_messages w @ ms" "w_chat w1 = w_chat w @ bs"
      "\<forall>m \<in> set ms. ?asked rqs m" "\<forall>b \<in> set bs. \<exists>m \<in> set ms. b = chat_broadcast (mg_room m) m"
      using snoc.IH [OF run1] by blast
    have w': "w' = snd (snd (chat_handle env rq c1) w1)"
      using snoc.prems chat_session_snoc [OF run1, of rq] by auto
    have asked: "\<forall>m \<in> set ms. ?asked (rqs @ [rq]) m" using IH(3) more by blast
    show ?case
    proof (cases "\<exists>room content. rq = Send room content")
      case False
      with w' IH asked show ?thesis using other_requests_add_nothing [of rq env c1 w1] by auto
    next
      case True
      then obtain room content where rq: "rq = Send room content" by blast
      obtain r where "handleSendMessage env room content c1 w1 = (r, w')"
        using w' rq by (metis chat_handle.simps(3) prod.collapse snd_conv)
      from send_effect [OF this] obtain ms' bs' where
        new: "w_messages w' = w_messages w1 @ ms'" "w_chat w' = w_chat w1 @ bs'"
        "\<forall>m \<in> set ms'. sent_by (ck_user c1) room content m \<and> room \<in> set (sk_rooms c1)"
        "\<forall>b \<in> set bs'. \<exists>m \<in> set ms'. b = chat_broadcast room m"
        by blast
      have c1: "ck_user c1 = ck_user c" "room \<in> set (sk_rooms c1) \<longleftrightarrow> is_member sid rqs room"
        using chat_session_client [OF assms(1) run1] by simp_all
      have "?asked (rqs @ [rq]) m" if "m \<in> set ms'" for m
        using that new(3) c1 rq by (auto simp: sent_by_def)
      moreover have "\<exists>m \<in> set ms'. b = chat_broadcast (mg_room m) m" if "b \<in> set bs'" for b
        using that new(3,4) by (force simp: sent_by_def)
      ultimately show ?thesis
        using IH(1,2,4) new(1,2) asked
        by (intro exI [of _ "ms @ ms'"] exI [of _ "bs @ bs'"]) auto
    qed
  qed
  then show ?thesis by (simp only: sent_by_def simp_thms conj_assoc)
qed

end
