(* ===== verification/Pipeline.thy ===== *)
theory Pipeline
  imports Samples Chat
begin

text \<open>
  The program as a whole: the invariant of the shared state and the statements that keep it, and
  the way of a video from its creation to the download.
\<close>

section \<open>The invariant\<close>

text \<open>
  The keys of the tables are unique, a completed video has a URL, a dead-letter record is marked
  as retried exactly if it names the job of the retry, the owner of every video exists, and no
  account has a role other than \<open>USER\<close>.
\<close>

definition row_ok :: "video \<Rightarrow> bool" where
  "row_ok v \<longleftrightarrow> (v_status v = COMPLETED \<longrightarrow> v_videoUrl v \<noteq> None) \<and> integers_fit v"

definition record_ok :: "failed_job \<Rightarrow> bool" where
  "record_ok r \<longleftrightarrow> (f_retried r \<longleftrightarrow> f_retryJobId r \<noteq> None)"

definition system_ok :: "world \<Rightarrow> bool" where
  "system_ok w \<longleftrightarrow> wf_world w \<and> (\<forall>v \<in> set (w_videos w). row_ok v) \<and>
     (\<forall>r \<in> set (w_failed_jobs w). record_ok r) \<and>
     (\<forall>v \<in> set (w_videos w). find_user (v_userId v) (w_users w) \<noteq> None) \<and>
     (\<forall>u \<in> set (w_users w). us_role u = USER)"

definition keeps_ok :: "world \<Rightarrow> world \<Rightarrow> bool" where
  "keeps_ok w w' \<longleftrightarrow> (system_ok w \<longrightarrow> system_ok w')"

lemma system_ok_frame [simp]:
  "system_ok (w\<lparr>w_calls := c\<rparr>) = system_ok w"
  "system_ok (w\<lparr>w_calls := c, w_now := t\<rparr>) = system_ok w"
  "system_ok (w\<lparr>w_events := es, w_sent := ss\<rparr>) = system_ok w"
  "system_ok (w\<lparr>w_events := es\<rparr>) = system_ok w"
  "system_ok (w\<lparr>w_sent := ss\<rparr>) = system_ok w"
  "system_ok (w\<lparr>w_cache := ca\<rparr>) = system_ok w"
  "system_ok (w\<lparr>w_chat := ss\<rparr>) = system_ok w"
  "system_ok (w\<lparr>w_now := t\<rparr>) = system_ok w"
  "system_ok (ticked env w) = system_ok w"
  "system_ok (with_cache env k st pr ms w) = system_ok w"
  "system_ok (evicted env k w) = system_ok w"
  by (simp_all add: system_ok_def wf_world_def)

interpretation ok: world_preorder keeps_ok
  by unfold_locales (simp_all add: keeps_ok_def)

lemma ok_business: "keeps business_state w w' \<Longrightarrow> keeps_ok w w'"
  by (simp add: keeps_ok_def system_ok_def wf_world_def keeps_businessD)

lemma ok_jobs: "keyed j_id js \<Longrightarrow> system_ok w \<Longrightarrow> system_ok (w\<lparr>w_jobs := js\<rparr>)"
  by (simp add: system_ok_def wf_world_def)

lemma owner_touch [simp]: "v_userId (touch t f v) = v_userId (f v)"
  by (simp add: touch_def)

lemma owner_progressed [simp]: "v_userId (progressed n m x v) = v_userId v"
  by (simp add: progressed_def)

text \<open>No change of a row touches its numbers.\<close>

lemma fits_changes [simp]:
  "integers_fit (touch t f v) = integers_fit (f v)" "integers_fit (apply_extra s x v) = integers_fit v"
  "integers_fit (failed_fields m v) = integers_fit v" "integers_fit (progressed n m' x' v) = integers_fit v"
  "integers_fit (reset_fields v) = integers_fit v" "integers_fit (assign_title ti v) = integers_fit v"
  by (simp_all add: touch_def apply_extra_def failed_fields_def progressed_def reset_fields_def assign_title_def
      Let_def integers_fit_def split: given.split option.split)

lemma ok_update:
  assumes "\<And>r. v_id (f r) = v_id r" and "\<And>r. v_userId (f r) = v_userId r"
    and "\<And>v t. row_ok v \<Longrightarrow> p v \<Longrightarrow> row_ok (touch t f v)"
  shows "keeps_ok w (after_update env k p f w)"
  using assms
  by (auto simp: keeps_ok_def system_ok_def wf_after_update, auto simp: after_update_def update_key_def owner_touch)

lemma ok_job_progress:
  "keeps_ok w (w\<lparr>w_jobs := update_key j_id jid (\<lambda>_. True) (\<lambda>j. j\<lparr>j_progress := p\<rparr>) (w_jobs w)\<rparr>)"
  by (auto simp: keeps_ok_def intro!: ok_jobs jobs.wf_upd) (simp add: system_ok_def wf_world_def)

section \<open>Preservation\<close>

lemma ok_update_video:
  assumes "\<And>r. v_id (f r) = v_id r" and "\<And>r. v_userId (f r) = v_userId r"
    and "\<And>v t. row_ok v \<Longrightarrow> p v \<Longrightarrow> row_ok (touch t f v)"
  shows "guarantee keeps_ok (db_update_video env k p f)"
  by (rule guarantee_db_update_video) (simp add: keeps_ok_def, rule ok_update [OF assms])

lemma ok_insert_video: "v_status v \<noteq> COMPLETED \<Longrightarrow> guarantee keeps_ok (db_insert_video env v)"
  unfolding db_insert_video_def
  by (intro ok.ext_call)
    (auto simp: guarantee_def keeps_ok_def system_ok_def wf_world_def Let_def row_ok_def
      intro: videos.wf_ins)

lemma ok_insert_failed_job: "record_ok r \<Longrightarrow> guarantee keeps_ok (db_insert_failed_job env r)"
  unfolding db_insert_failed_job_def
  by (intro ok.ext_call)
    (auto simp: guarantee_def keeps_ok_def system_ok_def wf_world_def Let_def record_ok_def
      intro: failed_jobs.wf_ins)

lemma ok_update_failed_job:
  assumes "\<And>r. f_id (f r) = f_id r" and "\<And>r. record_ok (f r)"
  shows "guarantee keeps_ok (db_update_failed_job env k f)"
  unfolding db_update_failed_job_def
  by (intro ok.ext_call)
    (use assms in \<open>auto simp: guarantee_def keeps_ok_def system_ok_def wf_world_def intro: failed_jobs.wf_upd\<close>,
     use assms in \<open>auto simp: update_key_def\<close>)

lemma ok_queue_add: "guarantee keeps_ok (queue_add env d n v opts)"
  by (rule ok.add_job) (auto simp: keeps_ok_def system_ok_def wf_world_def intro: jobs.wf_ins)

lemma ok_find_failed_job: "guarantee keeps_ok (db_find_failed_job env k)"
  unfolding db_find_failed_job_def by (intro ok.ext_call ok.gets)

lemma ok_emit: "guarantee keeps_ok (emit env ev)"
proof -
  have "record_ok (failed_job_of k m a j)" for k m a j
    by (simp add: record_ok_def failed_job_of_def)
  then have "guarantee keeps_ok (onVideoFailed env k m a)" for k m a
    unfolding onVideoFailed_def by (intro ok.world_rules ok.db_find ok_insert_failed_job)
  moreover have "guarantee keeps_ok (io_modify (\<lambda>w. w\<lparr>w_events := w_events w @ [ev]\<rparr>))"
    "guarantee keeps_ok (on_gateway ev)"
    unfolding on_gateway_def by (intro ok.modify; simp add: keeps_ok_def)+
  ultimately show ?thesis
    unfolding emit_def by (auto intro!: ok.world_rules split: video_event.split)
qed

lemma ok_find_one: "guarantee keeps_ok (findOneForUser env k u)"
  unfolding findOneForUser_def by (auto intro!: ok.world_rules ok.db_find split: option.split)

lemma find_one_row:
  assumes "findOneForUser env k u w = (Inr v, w')"
  shows "w' = ticked env w" and "find_video k (w_videos w) = Some v" and "v_userId v = u"
  using assms
  by (auto simp: findOneForUser_def io_bind_def db_find_video_def external_cases
      split: outcome.splits option.splits if_splits)

lemma assign_title_sel [simp]:
  "v_id (assign_title t v) = v_id v" "v_userId (assign_title t v) = v_userId v"
  "v_status (assign_title t v) = v_status v" "v_videoUrl (assign_title t v) = v_videoUrl v"
  "v_updatedAt (assign_title t v) = v_updatedAt v"
  by (simp_all add: assign_title_def split: given.split)

text \<open>What a save can do to the table.\<close>

definition overwritten :: "video \<Rightarrow> world \<Rightarrow> world" where
  "overwritten v w = w\<lparr>w_videos := update_key v_id (v_id v) (\<lambda>_. True)
     (\<lambda>x. v\<lparr>v_id := v_id x, v_updatedAt := w_now w\<rparr>) (w_videos w)\<rparr>"

lemma save_row_cases:
  "snd (save_row v w) = w \<or>
   find_user (v_userId v) (w_users w) \<noteq> None \<and> find_video (v_id v) (w_videos w) = None \<and>
     snd (save_row v w) = w\<lparr>w_videos := insert_row v (w_videos w)\<rparr> \<or>
   (\<exists>r. find_video (v_id v) (w_videos w) = Some r \<and>
     (v_userId v = v_userId r \<or> find_user (v_userId v) (w_users w) \<noteq> None) \<and>
     snd (save_row v w) = overwritten v w)"
  unfolding save_row_def overwritten_def Let_def
  by (auto split: if_splits option.split)

lemma ok_insert_row:
  assumes "system_ok w" and "row_ok v" and "find_user (v_userId v) (w_users w) \<noteq> None"
    and "find_video (v_id v) (w_videos w) = None"
  shows "system_ok (w\<lparr>w_videos := insert_row v (w_videos w)\<rparr>)"
  using assms videos.wf_ins [of v "w_videos w"] by (simp add: system_ok_def wf_world_def find_video_def)

lemma ok_overwritten:
  assumes ok: "system_ok w" and "row_ok v" and "find_user (v_userId v) (w_users w) \<noteq> None"
  shows "system_ok (overwritten v w)"
proof -
  have "keyed v_id (w_videos (overwritten v w))"
    unfolding overwritten_def using ok by (simp, intro videos.wf_upd) (simp_all add: system_ok_def wf_world_def)
  moreover have "row_ok x \<and> find_user (v_userId x) (w_users w) \<noteq> None" if "x \<in> set (w_videos (overwritten v w))" for x
    using that assms by (auto simp: overwritten_def update_key_def system_ok_def row_ok_def)
  ultimately show ?thesis
    using ok by (simp add: system_ok_def wf_world_def) (simp add: overwritten_def)
qed

lemma ok_save_row: "row_ok v \<Longrightarrow> guarantee keeps_ok (save_row v)"
  unfolding guarantee_def keeps_ok_def
proof (intro allI impI)
  fix w
  assume v: "row_ok v" and ok: "system_ok w"
  then have "v_userId v = v_userId r \<Longrightarrow> find_user (v_userId v) (w_users w) \<noteq> None"
    if "find_video (v_id v) (w_videos w) = Some r" for r
    using that by (auto simp: system_ok_def find_video_def dest: select_key_SomeD)
  then show "system_ok (snd (save_row v w))"
    using save_row_cases [of v w] v ok ok_insert_row [OF ok v] ok_overwritten [OF ok v] by auto
qed

lemma ok_save: "row_ok v \<Longrightarrow> guarantee keeps_ok (db_save_video env v t)"
proof -
  assume "row_ok v"
  then have "guarantee keeps_ok (save_row (assign_title t v))"
    by (intro ok_save_row) (simp add: row_ok_def)
  then show ?thesis
    unfolding db_save_video_def by (intro ok.ext_call) (simp add: guarantee_def keeps_ok_def)
qed

lemma ok_delete_video: "guarantee keeps_ok (db_delete_video env k)"
  unfolding db_delete_video_def
  by (intro ok.ext_call)
    (auto simp: guarantee_def keeps_ok_def system_ok_def wf_world_def videos.wf_del, auto simp: delete_key_def)

lemma ok_status_write: "guarantee keeps_ok (redis_set env x c n)"
  by (rule ok.cache_set) (simp add: keeps_ok_def)

lemma ok_result: "guarantee keeps_ok (videos_getResult env lib (storageService env cfg) u k ttl)"
proof -
  have "guarantee keeps_ok (st_getPresignedDownloadUrl (storageService env cfg) key n)" for key n
    by (rule ok.business [OF ok_business s3_store.presign_frame])
  then show ?thesis
    unfolding videos_getResult_def getVideoResult_def Let_def
    by (intro ok.world_rules ok_find_one)
qed

text \<open>Accounts and chat.\<close>

lemma ok_insert_user:
  assumes "us_role u = USER"
  shows "guarantee keeps_ok (db_insert_user env u)"
proof -
  have "system_ok (with_account env (stored_user env u w) w)"
    if "system_ok w" and "account_fits env u w" for w
    using that assms unique_insert [of "w_users w" "stored_user env u w"]
    by (auto simp: system_ok_def wf_world_def with_account_def account_fits_def users.lookup_ins)
  then show ?thesis
    by (auto simp: guarantee_def keeps_ok_def db_insert_user_eval split: outcome.split)
qed

lemma ok_lookup:
  "guarantee keeps_ok (user_findByEmail env e)" "guarantee keeps_ok (user_findById env k)"
  unfolding user_findByEmail_def user_findById_def by (auto intro!: ok.world_rules split: option.split)

lemma ok_tokens: "guarantee keeps_ok (generateTokens lib jwt u)"
  unfolding generateTokens_def Let_def by (intro ok.world_rules)

lemma ok_login: "guarantee keeps_ok (login_request env lib jwt email password)"
  unfolding login_request_def local_guard_def local_strategy_validate_def validateUser_def auth_login_def login_def
  by (auto intro!: ok.world_rules ok_lookup ok_tokens split: option.split)

lemma ok_refresh: "guarantee keeps_ok (auth_refreshToken env lib jwt tok)"
  unfolding auth_refreshToken_def refreshToken_def
  by (auto intro!: ok.world_rules ok_lookup ok_tokens split: option.split)

lemma ok_guard: "guarantee keeps_ok (jwt_canActivate env lib jwt public bearer)"
proof -
  have handle: "guarantee keeps_ok (handleRequest e u)" for e u
    unfolding handleRequest_def by (auto intro!: ok.world_rules split: option.split)
  show ?thesis
    unfolding jwt_canActivate_def passport_jwt_def jwt_strategy_validate_def
    by (auto intro!: ok.world_rules ok_lookup handle split: option.split sum.split)
qed

lemma ok_update_user: "guarantee keeps_ok (db_update_user env k edits)"
proof -
  have upd: "system_ok (w\<lparr>w_users := update_key us_id k (\<lambda>_. True) (profile_update edits n) (w_users w)\<rparr>)"
    if ok: "system_ok w" and u: "find_user k (w_users w) = Some u"
      and free: "username_free k (set_nullable (uu_username edits) (us_username u)) (w_users w)" for w k u n
  proof -
    from ok have "unique_users (w_users w)" by (simp add: system_ok_def wf_world_def)
    from unique_update [OF this u free] ok u show ?thesis
      by (auto simp: system_ok_def wf_world_def users.lookup_upd) (auto simp: update_key_def)
  qed
  then show ?thesis
    unfolding db_update_user_def
    by (intro ok.ext_call) (auto simp: guarantee_def keeps_ok_def split: option.split)
qed

lemma ok_delete_user: "guarantee keeps_ok (db_delete_user env k)"
proof -
  have "system_ok (w\<lparr>w_users := delete_key us_id k (w_users w), w_videos := filter (\<lambda>v. v_userId v \<noteq> k) (w_videos w)\<rparr>)"
    if "system_ok w" for w k
  proof -
    have "keyed v_id (w_videos w) \<Longrightarrow> keyed v_id (filter p (w_videos w))" for p
      by (auto simp: keyed_def distinct_map intro: inj_on_subset)
    with that show ?thesis
      by (auto simp: system_ok_def wf_world_def unique_delete users.lookup_del) (auto simp: delete_key_def)
  qed
  then show ?thesis
    unfolding db_delete_user_def by (intro ok.ext_call) (simp add: guarantee_def keeps_ok_def)
qed

lemma ok_chat_handle: "guarantee keeps_ok (snd (chat_handle env rq c))"
proof -
  have "guarantee keeps_ok (db_insert_message env m)" for m
    unfolding db_insert_message_def
    by (intro ok.ext_call)
      (auto simp: guarantee_def keeps_ok_def system_ok_def wf_world_def Let_def intro: messages.wf_ins)
  then show ?thesis
    by (cases rq)
      (auto simp: handleJoinRoom_def handleLeaveRoom_def handleSendMessage_def getRoomHistory_def saveMessage_def
        Let_def keeps_ok_def intro!: ok.world_rules ok.modify)
qed

lemma initial_ok: "system_ok initial_world"
  by (simp add: system_ok_def wf_world_def initial_world_def keyed_def)

section \<open>From creation to download\<close>

text \<open>The owner of a video never changes.\<close>

definition keeps_owner :: "world \<Rightarrow> world \<Rightarrow> bool" where
  "keeps_owner w w' \<longleftrightarrow>
     (\<forall>k v. row w k = Some v \<longrightarrow> (\<exists>v'. row w' k = Some v' \<and> v_userId v' = v_userId v))"


interpretation attempt_owner: attempt_relation keeps_owner env k for env k
  by unfold_locales
    (auto simp: keeps_owner_def table_simps keeps_businessD, auto simp: row_def, fastforce)

lemma clamp_idem [simp]: "clamp_expiry (min (max ttl 60) MAX_PRESIGN_TTL) = clamp_expiry ttl"
  by (simp add: clamp_expiry_def MAX_PRESIGN_TTL_def)

lemma result_served:
  assumes "up env Database" and "up env S3" and "row w k = Some v" and "v_status v = COMPLETED"
    and "truthy (v_videoUrl v)"
  shows "\<exists>d w'. getVideoResult env lib (storageService env cfg) k (v_userId v) ttl w = (Inr d, w') \<and>
    vd_downloadUrl d = e_sign env (GetObject (bucket_of cfg) (extractS3Key lib (the (v_videoUrl v)))) (clamp_expiry ttl)"
proof -
  have presign: "st_getPresignedDownloadUrl (storageService env cfg) key n u =
      (Inr (e_sign env (GetObject (bucket_of cfg) key) (clamp_expiry n)), ticked env u)" for key n u
    using assms(2) by (simp add: storageService_def getPresignedDownloadUrl_def io_simps Let_def)
  show ?thesis
    using assms by (simp add: getVideoResult_def io_bind_def findOneForUser_eval presign Let_def current_time_def)
qed

lemma simulated_key:
  assumes "u_host_ok lib ''fake-cdn.example.com''" and "plain_segment k"
  shows "extractS3Key lib (buildVideoUrl k) = k @ ''/output.mp4''"
proof -
  have "extractS3Key lib (''https'' @ ''://'' @ ''fake-cdn.example.com'' @ ''/'' @ ''videos'' @ ''/'' @
      join_slash [k, ''output.mp4'']) = join_slash [k, ''output.mp4'']"
    using assms by (intro extract_plain) (simp_all add: host_name_def plain_char_def code_def)
  then show ?thesis by (simp add: buildVideoUrl_def)
qed

lemma attempt_then_result:
  assumes up: "up env Database" "up env Queue" "up env S3" and d: "defaultDelayMs delay \<le> 300000"
    and wf: "wf_world w" and job: "j_name job = GENERATE" "j_videoId job = k"
    and v: "row w k = Some v" "\<not> terminal (v_status v)" "v_userId v = u"
    and lib: "u_host_ok lib ''fake-cdn.example.com''" "plain_segment k"
  shows "\<exists>w1 d w2. process env (aiService env delay) (storageService env cfg) job w = (Inr (), w1) \<and>
    videos_getResult env lib (storageService env cfg) u k ttl w1 = (Inr d, w2) \<and>
    vd_downloadUrl d = e_sign env (GetObject (bucket_of cfg) (k @ ''/output.mp4'')) (clamp_expiry (or_else ttl 3600))"
proof -
  obtain w1 where run: "process env (aiService env delay) (storageService env cfg) job w = (Inr (), w1)"
    and "published_video k w1"
    using process_live [OF up(1,2) _ wf job(1), of delay v "storageService env cfg"] d v(1,2) job(2)
    by (auto simp: max_poll_attempts_def)
  then obtain v1 where v1: "row w1 k = Some v1" "v_status v1 = COMPLETED" "v_videoUrl v1 = Some (buildVideoUrl k)"
    by (auto simp: published_video_def)
  obtain r w1' where body: "generate_body env (aiService env delay) (storageService env cfg) job w = (r, w1')"
    by fastforce
  have worker: "generation_worker (aiService env delay) (storageService env cfg)" by unfold_locales
  from handler_eval [OF body] run job(1) have "w1' = w1"
    by (auto simp: process_generate split: sum.splits if_splits prod.splits)
  with guaranteeD [OF attempt_owner.generate_body_keeps [OF worker refl] body] v v1 have "v_userId v1 = u"
    by (fastforce simp: keeps_owner_def)
  with result_served [OF up(1,3) v1(1,2), of lib cfg "or_else ttl 3600"] v1(3) simulated_key [OF lib] run
  show ?thesis by (auto simp: videos_getResult_def buildVideoUrl_def)
qed

end
