(* ===== verification/Account_Properties.thy ===== *)
theory Account_Properties
  imports Pipeline
begin

text \<open>
  Properties of the accounts: registration, login, tokens, the profile and the removal of a
  user, each with an instance.
\<close>

section \<open>Registration and login\<close>

text \<open>C13: After a registration that returned, a login with the registered email is accepted for
  exactly the passwords that agree with the registered one in their first 72 bytes, and gives
  the same user; every other password gets the answer for invalid credentials.\<close>

theorem registered_user_logs_in:
  assumes "auth_lib_ok lib" and "up env Database"
    and "register env lib cfg dto w = (Inr toks, w1)" and "w_users w2 = w_users w1"
    and "rg_email dto \<noteq> []" and "p \<noteq> []"
  shows "if take 72 p = take 72 (rg_password dto)
    then \<exists>toks' w3. login_request env lib cfg (Some (rg_email dto)) (Some p) w2 = (Inr toks', w3) \<and>
           tp_user toks' = tp_user toks
    else \<exists>w3. login_request env lib cfg (Some (rg_email dto)) (Some p) w2 =
           (Inl (unauthorized ''Invalid credentials''), w3)"
proof -
  obtain u salt where u: "w_users w1 = insert_row u (w_users w)" "us_email u = rg_email dto"
      "find_user_by_email (rg_email dto) (w_users w) = None"
    and pw: "us_password u = bcrypt_hash lib (rg_password dto) hash_rounds salt"
    and toks: "toks = tokens_at lib cfg u (w_now w1)"
    using register_InrD [OF assms(3)] by blast
  from u have "find_user_by_email (rg_email dto) (w_users w2) = Some u"
    using users_by_email.lookup_ins [of u "w_users w" "rg_email dto"] assms(4) by simp
  with assms(2,5,6) pw toks auth_lib_okD(1) [OF assms(1)] show ?thesis
    by (simp add: login_request_eval validateUser_eval up_def)
qed

theorem registered_user_logs_in_witness:
  "\<exists>toks w3. login_request calm sample_auth_lib sample_jwt_config (Some ''bob@example.com'') (Some ''password'')
     after_registration = (Inr toks, w3)"
proof -
  obtain toks where "register calm sample_auth_lib sample_jwt_config bob_form initial_world = (Inr toks, after_registration)"
    using bob_registers by blast
  from registered_user_logs_in [OF sample_auth_lib_ok up_calm this refl, of "''password''"]
  show ?thesis by auto
qed

text \<open>A registration with a taken email is answered as a conflict, without effect, whenever the
  lookup is served.\<close>

theorem registration_conflicts:
  assumes "find_user_by_email (rg_email dto) (w_users w) \<noteq> None"
    and "e_outcome env Database (w_calls w) = Served"
  shows "register env lib cfg dto w = (Inl (ConflictException ''Email already registered''), ticked env w)"
  using assms by (simp add: register_eval)

theorem registration_conflicts_witness:
  "\<exists>w'. register calm sample_auth_lib sample_jwt_config (bob_form\<lparr>rg_email := ''alice@example.com''\<rparr>)
     (sample_world PENDING) = (Inl (ConflictException ''Email already registered''), w') \<and> w_users w' = [alice]"
  using registration_conflicts [of "bob_form\<lparr>rg_email := ''alice@example.com''\<rparr>" "sample_world PENDING" calm
      sample_auth_lib sample_jwt_config] by simp

text \<open>Under any faults, a login with an unknown email and one with a wrong password give the
  same answer and the same state: who has an account is not revealed.\<close>

theorem login_failures_look_alike:
  assumes "find_user_by_email e1 (w_users w) = None"
    and "find_user_by_email e2 (w_users w) = Some u" and "\<not> bcrypt_compare lib p2 (us_password u)"
    and "e1 \<noteq> []" and "e2 \<noteq> []" and "p1 \<noteq> []" and "p2 \<noteq> []"
  shows "login_request env lib cfg (Some e1) (Some p1) w = login_request env lib cfg (Some e2) (Some p2) w"
  using assms by (simp add: login_request_eval validateUser_eval split: outcome.split)

theorem login_failures_look_alike_witness:
  "login_request calm sample_auth_lib sample_jwt_config (Some ''nobody'') (Some ''x'') (sample_world PENDING) =
   login_request calm sample_auth_lib sample_jwt_config (Some ''alice@example.com'') (Some ''x'') (sample_world PENDING)"
  by (rule login_failures_look_alike [where u = alice]) simp_all

section \<open>Tokens\<close>

text \<open>C12: While its tokens are valid, a login opens exactly what it should: the access token
  authenticates the user in the guard if the account is active, and is refused by the refresh
  endpoint; the refresh token is refused by the guard and gives a new pair at the refresh
  endpoint, for an inactive account too.\<close>

theorem tokens_are_not_interchangeable:
  assumes lib: "auth_lib_ok lib" and up: "up env Database" and secrets: "jc_secret cfg \<noteq> jc_refreshSecret cfg"
    and unique: "unique_users (w_users w)"
    and login: "login_request env lib cfg (Some e) (Some p) w = (Inr toks, w1)" and given: "e \<noteq> []" "p \<noteq> []"
    and same: "w_users w2 = w_users w1"
    and fresh: "w_now w2 div 1000 < w_now w1 div 1000 + jwt_lifetime lib (jc_expiresIn cfg)"
      "w_now w2 div 1000 < w_now w1 div 1000 + jwt_lifetime lib (jc_refreshExpiresIn cfg)"
  shows "\<exists>u. find_user_by_email e (w_users w) = Some u \<and>
    fst (passport_jwt env lib cfg (Some (tp_accessToken toks)) w2) =
      (if us_isActive u then Inr (safeFields u) else Inl (unauthorized ''User not found or inactive'')) \<and>
    fst (refreshToken env lib cfg (tp_accessToken toks) w2) = Inl (unauthorized ''Invalid or expired refresh token'') \<and>
    fst (passport_jwt env lib cfg (Some (tp_refreshToken toks)) w2) = Inl (unauthorized ''Invalid or expired token'') \<and>
    (\<exists>toks'. fst (refreshToken env lib cfg (tp_refreshToken toks) w2) = Inr toks' \<and> tp_user toks' = safeFields u)"
proof -
  from login given up obtain u where u: "find_user_by_email e (w_users w) = Some u"
    and toks: "toks = tokens_at lib cfg u (w_now w1)" and users: "w_users w1 = w_users w"
    by (auto simp: login_request_eval validateUser_eval up_def split: option.splits if_splits)
  from u have "find_user (us_id u) (w_users w) = Some u"
    by (simp add: find_user_iff [OF unique] find_by_email_iff [OF unique])
  with same users have found: "find_user (us_id u) (w_users w2) = Some u" by simp
  have verify: "jwt_verify lib (tp_accessToken toks) (jc_secret cfg) (w_now w2) = Some (payload_of u)"
    "jwt_verify lib (tp_refreshToken toks) (jc_refreshSecret cfg) (w_now w2) = Some (payload_of u)"
    "jwt_verify lib (tp_accessToken toks) (jc_refreshSecret cfg) (w_now w2) = None"
    "jwt_verify lib (tp_refreshToken toks) (jc_secret cfg) (w_now w2) = None"
    using fresh secrets by (simp_all add: toks auth_lib_okD(2) [OF lib])
  show ?thesis
    using u found up
    by (simp add: passport_jwt_eval refreshToken_eval verify user_findById_eval up_def generateTokens_eval)
qed

theorem tokens_are_not_interchangeable_witness:
  "\<exists>toks w1. login_request calm sample_auth_lib sample_jwt_config (Some ''alice@example.com'') (Some ''secret'')
       (sample_world PENDING) = (Inr toks, w1) \<and>
     fst (passport_jwt calm sample_auth_lib sample_jwt_config (Some (tp_accessToken toks)) w1) = Inr (safeFields alice)"
proof -
  have "fst (login_request calm sample_auth_lib sample_jwt_config (Some ''alice@example.com'') (Some ''secret'')
      (sample_world PENDING)) = Inr (tokens_at sample_auth_lib sample_jwt_config alice 0)"
    by (simp add: login_request_eval validateUser_eval now_ticked)
  then obtain toks w1 where login: "login_request calm sample_auth_lib sample_jwt_config
      (Some ''alice@example.com'') (Some ''secret'') (sample_world PENDING) = (Inr toks, w1)"
    by (metis prod.collapse)
  from tokens_are_not_interchangeable [OF sample_auth_lib_ok up_calm _ _ login _ _ refl]
  have "fst (passport_jwt calm sample_auth_lib sample_jwt_config (Some (tp_accessToken toks)) w1) = Inr (safeFields alice)"
    by simp
  with login show ?thesis by blast
qed

text \<open>Under any faults, the guard admits a request only with a token that was signed with the
  access secret, has not outlived its lifetime and names an active user of the table; the role
  that counts is the one in the table, not the one in the token.\<close>

theorem admitted_token_was_issued:
  assumes lib: "auth_lib_ok lib"
    and run: "jwt_canActivate env lib cfg False bearer w = (Inr found, w')"
  shows "\<exists>tok pl e t u. bearer = Some tok \<and> tok = jwt_sign lib pl (jc_secret cfg) e t \<and>
    w_now w div 1000 < t div 1000 + jwt_lifetime lib e \<and>
    find_user (tk_sub pl) (w_users w) = Some u \<and> us_isActive u \<and> found = Some (safeFields u)"
  using assms by (rule jwt_admitted)

theorem admitted_token_was_issued_witness:
  "\<exists>w'. jwt_canActivate calm sample_auth_lib sample_jwt_config False
     (Some (jwt_sign sample_auth_lib (payload_of alice) ''s1'' ''7d'' 0)) (sample_world PENDING) =
       (Inr (Some (safeFields alice)), w') \<and>
     jwt_sign sample_auth_lib (payload_of alice) ''s1'' ''7d'' 0 = (payload_of alice, ''s1'', ''7d'', 0)"
proof -
  let ?tok = "jwt_sign sample_auth_lib (payload_of alice) ''s1'' ''7d'' 0"
  obtain w' where run: "jwt_canActivate calm sample_auth_lib sample_jwt_config False (Some ?tok) (sample_world PENDING) =
      (Inr (Some (safeFields alice)), w')"
    by (simp add: jwt_canActivate_def io_bind_def passport_jwt_eval user_findById_eval
        auth_lib_okD(2) [OF sample_auth_lib_ok])
  from admitted_token_was_issued [OF sample_auth_lib_ok run] run show ?thesis
    by (auto simp: sample_auth_lib_def)
qed

section \<open>Profiles and removal\<close>

text \<open>C25: Whatever calls fail, a profile update never touches the email, the password hash, the
  role or the activity of an account, never touches another account, and never makes two
  accounts share a username.\<close>

theorem profile_update_is_confined:
  assumes "unique_users (w_users w)" and "users_updateMe env (Some me) dto w = (r, w')"
  shows "unique_users (w_users w') \<and>
    (\<forall>k u'. find_user k (w_users w') = Some u' \<longrightarrow>
      (\<exists>u. find_user k (w_users w) = Some u \<and> (k \<noteq> us_id me \<longrightarrow> u' = u) \<and>
         us_email u' = us_email u \<and> us_password u' = us_password u \<and> us_role u' = us_role u \<and>
         us_isActive u' = us_isActive u))"
proof -
  from assms(2) have "w_users w' = w_users (snd (db_update_user env (us_id me) dto w))"
    by (auto simp: users_updateMe_def with_user_def user_update_def io_seq_def io_bind_def user_findById_eval
        split: prod.splits sum.splits outcome.splits option.splits)
  then show ?thesis
  proof (cases "w_users w' = w_users w")
    case False
    with \<open>w_users w' = _\<close> obtain u n where u: "find_user (us_id me) (w_users w) = Some u"
      and free: "username_free (us_id me) (set_nullable (uu_username dto) (us_username u)) (w_users w)"
      and w': "w_users w' = update_key us_id (us_id me) (\<lambda>_. True) (profile_update dto n) (w_users w)"
      by (auto simp: db_update_user_def external_cases split: outcome.splits option.splits if_splits)
    from unique_update [OF assms(1) u free] u show ?thesis
      unfolding w' find_user_update [OF u] by (auto split: if_splits)
  qed (use assms(1) in auto)
qed

theorem profile_update_is_confined_witness:
  "\<exists>u'. find_user ''alice'' (w_users (snd (users_updateMe calm (Some (safeFields alice))
     \<lparr>uu_firstName = Value ''Al'', uu_lastName = Undefined, uu_username = Null\<rparr> (sample_world PENDING)))) = Some u' \<and>
   us_firstName u' = ''Al'' \<and> us_username u' = None \<and> us_password u' = ''secret''"
proof -
  let ?dto = "\<lparr>uu_firstName = Value ''Al'', uu_lastName = Undefined, uu_username = Null\<rparr>"
  obtain r w' where run: "users_updateMe calm (Some (safeFields alice)) ?dto (sample_world PENDING) = (r, w')"
    by fastforce
  then have u': "w_users w' = [profile_update ?dto 0 alice]"
    by (auto simp: users_updateMe_def with_user_def user_update_def io_seq_def io_bind_def user_findById_eval
        db_update_user_def username_free_def external_cases update_key_def now_ticked split: prod.splits option.splits)
  then have found: "find_user ''alice'' (w_users w') = Some (profile_update ?dto 0 alice)"
    by (simp add: find_user_def select_key_def)
  have "unique_users (w_users (sample_world PENDING))" by simp
  from profile_update_is_confined [OF this run] found have "us_password (profile_update ?dto 0 alice) = ''secret''"
    by fastforce
  with run found show ?thesis by (auto simp: profile_update_def)
qed

text \<open>C24: A removal that returned leaves neither the user nor any video of the user, and leaves
  every other user and video as it was.\<close>

theorem removal_takes_the_videos:
  assumes "wf_world w" and "users_remove env k w = (Inr (), w')"
  shows "find_user k (w_users w') = None \<and>
    (\<forall>k'. k' \<noteq> k \<longrightarrow> find_user k' (w_users w') = find_user k' (w_users w)) \<and>
    (\<forall>j v. row w' j = Some v \<longleftrightarrow> row w j = Some v \<and> v_userId v \<noteq> k)"
proof -
  from assms(2) obtain u where "find_user k (w_users w) = Some u"
    and w': "w' = without_account env (us_id u) (ticked env w)"
    by (auto simp: users_remove_def user_remove_def io_bind_def user_findById_eval db_delete_user_eval
        split: outcome.splits option.splits)
  then have "us_id u = k" using find_user_SomeD by blast
  with w' assms(1) show ?thesis
    by (auto simp: without_account_def users.lookup_del row_def find_video_def wf_world_def select_key_filter
        split: option.splits if_splits)
qed

theorem removal_takes_the_videos_witness:
  "\<exists>w'. users_remove calm ''alice'' (sample_world PENDING) = (Inr (), w') \<and> row w' ''v1'' = None \<and> w_users w' = []"
proof -
  have "fst (users_remove calm ''alice'' (sample_world PENDING)) = Inr ()"
    by (simp add: users_remove_def user_remove_def io_bind_def user_findById_eval db_delete_user_eval)
  then obtain w' where run: "users_remove calm ''alice'' (sample_world PENDING) = (Inr (), w')"
    by (metis prod.collapse)
  then have "w_users w' = []"
    by (auto simp: users_remove_def user_remove_def io_bind_def user_findById_eval db_delete_user_eval
        without_account_def delete_key_def)
  moreover have "row w' ''v1'' = None"
    using removal_takes_the_videos [OF sample_wf run] by (cases "row w' ''v1''") auto
  ultimately show ?thesis using run by blast
qed

text \<open>A valid token of a user who was removed is answered by the guard as a video or a page
  would be that does not exist, 404, and not as a failed authentication.\<close>

theorem removed_user_is_not_found:
  assumes "auth_lib_ok lib" and "up env Database" and "find_user (us_id u) (w_users w) = None"
    and "w_now w div 1000 < t div 1000 + jwt_lifetime lib (jc_expiresIn cfg)"
  shows "\<exists>w'. jwt_canActivate env lib cfg False (Some (tp_accessToken (tokens_at lib cfg u t))) w =
    (Inl (NotFoundException (''User '' @ us_id u @ '' not found'')), w')"
  using assms
  by (simp add: jwt_canActivate_def io_bind_def passport_jwt_eval auth_lib_okD(2) user_findById_eval up_def
      user_not_found_def)

theorem removed_user_is_not_found_witness:
  "\<exists>w'. jwt_canActivate calm sample_auth_lib sample_jwt_config False
     (Some (tp_accessToken (tokens_at sample_auth_lib sample_jwt_config alice 0))) initial_world =
     (Inl (NotFoundException (''User alice not found'')), w')"
  using removed_user_is_not_found [OF sample_auth_lib_ok up_calm, of alice initial_world 0 sample_jwt_config]
  by (auto simp: initial_world_def)

end
