(* ===== verification/Chat_Properties.thy ===== *)
theory Chat_Properties
  imports Chat Samples
begin

text \<open>
  Properties of the chat: who a message is from, who may send it where, and what a joining
  socket is shown, each with an instance.
\<close>

text \<open>Whatever calls fail, all a session adds to the chat are messages in the name of the user
  its token was issued to, each asked for by a request at a time when the socket was in the
  room, and nothing is broadcast that was not stored.\<close>

theorem chat_messages_are_authentic:
  assumes lib: "auth_lib_ok lib" and connect: "chat_connect lib cfg sid token now = Inr c"
    and run: "chat_session env rqs c w = (c', w')"
  shows "\<exists>pl e t ms bs. token = Some (jwt_sign lib pl (jc_secret cfg) e t) \<and>
    now div 1000 < t div 1000 + jwt_lifetime lib e \<and>
    w_messages w' = w_messages w @ ms \<and> w_chat w' = w_chat w @ bs \<and>
    (\<forall>m \<in> set ms. mg_senderId m = tk_sub pl \<and> mg_senderEmail m = tk_email pl \<and>
       (\<exists>pre post. rqs = pre @ Send (mg_room m) (mg_content m) # post \<and> is_member sid pre (mg_room m))) \<and>
    (\<forall>b \<in> set bs. \<exists>m \<in> set ms. b = chat_broadcast (mg_room m) m)"
proof -
  from connect obtain tok pl where tok: "token = Some tok" "jwt_verify lib tok (jc_secret cfg) now = Some pl"
    and c: "sk_rooms c = [sid]" "ck_user c = pl"
    by (auto simp: chat_connect_def split: option.splits)
  from tok(2) obtain e t where e: "tok = jwt_sign lib pl (jc_secret cfg) e t"
    using auth_lib_okD(3) [OF lib] by blast
  from tok(2) have fresh: "now div 1000 < t div 1000 + jwt_lifetime lib e"
    unfolding e auth_lib_okD(2) [OF lib] by (simp split: if_splits)
  from session_messages [OF c(1) run] tok(1) e fresh c(2) show ?thesis by metis
qed

definition alice_socket :: chat_socket where
  "alice_socket = \<lparr>sk_id = ''s'', sk_rooms = [''s''], ck_user = payload_of alice\<rparr>"

theorem chat_messages_are_authentic_witness:
  "\<exists>ms. w_messages (snd (chat_session calm [Join ''general'', Send ''general'' ''hi'', Send ''secret'' ''hi''] alice_socket
      (sample_world PENDING))) = ms \<and> length ms = 1 \<and> (\<forall>m \<in> set ms. mg_senderEmail m = ''alice@example.com'')"
proof -
  let ?rqs = "[Join ''general'', Send ''general'' ''hi'', Send ''secret'' ''hi'']"
  let ?tok = "jwt_sign sample_auth_lib (payload_of alice) ''s1'' ''7d'' 0"
  have connect: "chat_connect sample_auth_lib sample_jwt_config ''s'' (Some ?tok) 0 = Inr alice_socket"
    by (simp add: chat_connect_def auth_lib_okD(2) [OF sample_auth_lib_ok] alice_socket_def)
  obtain c' w' where run: "chat_session calm ?rqs alice_socket (sample_world PENDING) = (c', w')" by fastforce
  from chat_messages_are_authentic [OF sample_auth_lib_ok connect run]
  have "\<forall>m \<in> set (w_messages w'). mg_senderEmail m = ''alice@example.com''"
    by (auto simp: sample_auth_lib_def)
  moreover have "length (w_messages w') = 1"
    using run
    by (auto simp: alice_socket_def handleJoinRoom_def socket_join_def getRoomHistory_def handleSendMessage_def
        io_simps saveMessage_def db_insert_message_def Let_def insert_row_def find_message_def select_key_def)
  ultimately show ?thesis using run by auto
qed

text \<open>C26: A socket that joins a room is shown exactly the last 50 messages of the room in the order
  they were written: taking the newest 50 and reversing them is the end of the chronological
  list.\<close>

theorem history_is_the_last_fifty:
  assumes "up env Database"
  shows "snd (handleJoinRoom env room c) w =
    (let chronological = sort_key mg_createdAt (messages_of room (w_messages w))
     in (Inr (Joined room (drop (length chronological - 50) chronological)), ticked env w))"
  using assms
  by (simp add: handleJoinRoom_def getRoomHistory_def io_bind_def external_up history_limit_def newest_first_def
      take_rev Let_def)

theorem history_is_the_last_fifty_witness:
  "\<exists>m n. snd (handleJoinRoom calm ''general'' alice_socket) ((sample_world PENDING)\<lparr>w_messages := [n, m]\<rparr>) =
     (Inr (Joined ''general'' [m, n]), ticked calm ((sample_world PENDING)\<lparr>w_messages := [n, m]\<rparr>)) \<and>
     mg_content m = ''first'' \<and> mg_content n = ''second''"
proof -
  let ?m = "\<lparr>mg_id = ''m'', mg_content = ''first'', mg_senderId = ''alice'', mg_senderEmail = ''alice@example.com'',
    mg_room = ''general'', mg_createdAt = 3\<rparr>"
  let ?n = "?m\<lparr>mg_id := ''n'', mg_content := ''second'', mg_createdAt := 7\<rparr>"
  show ?thesis
    by (intro exI [of _ ?m] exI [of _ ?n])
      (simp add: history_is_the_last_fifty [OF up_calm] messages_of_def)
qed

text \<open>The handshake does not consult the table of users: with a token that has not expired, a
  user who was removed still connects, joins a room and sends a message to it.\<close>

theorem removed_user_still_chats:
  assumes "auth_lib_ok lib" and "up env Database" and "find_user (us_id u) (w_users w) = None"
    and "w_now w div 1000 < t div 1000 + jwt_lifetime lib (jc_expiresIn cfg)"
    and "find_message (e_uuid env (Suc (w_calls w))) (w_messages w) = None"
  shows "\<exists>c m w'. chat_connect lib cfg sid (Some (tp_accessToken (tokens_at lib cfg u t))) (w_now w) = Inr c \<and>
    handleSendMessage env room content (fst (handleJoinRoom env room c)) w = (Inr (Message_sent (mg_id m)), w') \<and>
    w_messages w' = w_messages w @ [m] \<and> mg_senderId m = us_id u \<and> mg_content m = content"
proof -
  let ?c = "\<lparr>sk_id = sid, sk_rooms = [sid], ck_user = payload_of u\<rparr>"
  have "chat_connect lib cfg sid (Some (tp_accessToken (tokens_at lib cfg u t))) (w_now w) = Inr ?c"
    using assms(4) by (simp add: chat_connect_def auth_lib_okD(2) [OF assms(1)])
  moreover have "\<exists>m w'. handleSendMessage env room content (fst (handleJoinRoom env room ?c)) w =
      (Inr (Message_sent (mg_id m)), w') \<and>
    w_messages w' = w_messages w @ [m] \<and> mg_senderId m = us_id u \<and> mg_content m = content"
    using assms(2,5)
    by (simp add: handleJoinRoom_def handleSendMessage_def io_simps saveMessage_def db_insert_message_def
        new_message_def Let_def insert_row_def)
  ultimately show ?thesis by blast
qed

theorem removed_user_still_chats_witness:
  "\<exists>c m w'. chat_connect sample_auth_lib sample_jwt_config ''s''
      (Some (tp_accessToken (tokens_at sample_auth_lib sample_jwt_config alice 0))) 0 = Inr c \<and>
    handleSendMessage calm ''general'' ''hi'' (fst (handleJoinRoom calm ''general'' c)) initial_world =
      (Inr (Message_sent (mg_id m)), w') \<and> w_messages w' = w_messages initial_world @ [m] \<and> mg_senderId m = ''alice''"
proof -
  have "find_user (us_id alice) (w_users initial_world) = None"
    "w_now initial_world div 1000 < 0 div 1000 + jwt_lifetime sample_auth_lib (jc_expiresIn sample_jwt_config)"
    "find_message (e_uuid calm (Suc (w_calls initial_world))) (w_messages initial_world) = None"
    and now: "w_now initial_world = 0"
    by (simp_all add: initial_world_def find_message_def select_key_def)
  from removed_user_still_chats [OF sample_auth_lib_ok up_calm this(1-3), of "''s''" "''general''" "''hi''"]
  show ?thesis unfolding now alice_sel by blast
qed

end
