(* ===== verification/Validation.thy ===== *)
theory Validation
  imports Auth Videos
begin

text \<open>
  The request bodies: the rules that the decorators of the DTO classes state for each property,
  and the global \<open>ValidationPipe\<close> (main.ts, common/pipes/validation.pipe.ts) that applies them to
  a JSON object: implicit conversion to the declared type, rejection of properties that are not
  declared, and the checks. What the packages \<open>class-validator\<close> and \<open>class-transformer\<close> decide
  about a single text is a parameter.
\<close>

section \<open>Rules\<close>

datatype check =
    IsString | IsNotEmpty | IsEmail | IsNumber | IsPositive
  | MinLength nat | MaxLength nat | Min int | Max int

datatype declared = DeclaredString | DeclaredNumber | Undeclared

record field_rule =
  fr_name :: string
  fr_type :: declared
  fr_optional :: bool
  fr_checks :: "check list"

text \<open>
  What the packages decide: the length of a text in characters, whether it is an email, the
  number it reads as (none for \<open>NaN\<close>), and the messages.
\<close>

record validator =
  vl_length :: "string \<Rightarrow> nat"
  vl_is_email :: "string \<Rightarrow> bool"
  vl_number :: "string \<Rightarrow> int option"
  vl_message :: "string \<Rightarrow> check \<Rightarrow> string"
  vl_forbidden :: "string \<Rightarrow> string"

abbreviation required :: "string \<Rightarrow> declared \<Rightarrow> check list \<Rightarrow> field_rule" where
  "required n t cs \<equiv> \<lparr>fr_name = n, fr_type = t, fr_optional = False, fr_checks = cs\<rparr>"

abbreviation optional :: "string \<Rightarrow> declared \<Rightarrow> check list \<Rightarrow> field_rule" where
  "optional n t cs \<equiv> \<lparr>fr_name = n, fr_type = t, fr_optional = True, fr_checks = cs\<rparr>"

definition create_video_rules :: "field_rule list" where
  "create_video_rules =
     [required ''title'' DeclaredString [IsString, IsNotEmpty, MaxLength 255],
      required ''prompt'' DeclaredString [IsString, IsNotEmpty, MaxLength 2000],
      optional ''negativePrompt'' DeclaredString [IsString, MaxLength 1000],
      optional ''width'' DeclaredNumber [IsNumber, IsPositive],
      optional ''height'' DeclaredNumber [IsNumber, IsPositive],
      optional ''fps'' DeclaredNumber [IsNumber, Min 8, Max 60],
      optional ''model'' DeclaredString [IsString]]"

definition update_video_rules :: "field_rule list" where
  "update_video_rules = [optional ''title'' DeclaredString [IsString, MaxLength 255]]"

definition register_rules :: "field_rule list" where
  "register_rules =
     [required ''firstName'' DeclaredString [IsString, MaxLength 50],
      required ''lastName'' DeclaredString [IsString, MaxLength 50],
      required ''email'' DeclaredString [IsEmail],
      required ''password'' DeclaredString [IsString, MinLength 8, MaxLength 100],
      optional ''username'' DeclaredString [IsString, MaxLength 30]]"

text \<open>
  The partial type of the creation DTO without email, password and role: all properties are
  optional, and the mapped class declares no types to convert to.
\<close>

definition update_user_rules :: "field_rule list" where
  "update_user_rules =
     [optional ''firstName'' Undeclared [IsString],
      optional ''lastName'' Undeclared [IsString],
      optional ''username'' Undeclared [IsString]]"

definition join_room_rules :: "field_rule list" where
  "join_room_rules = [required ''room'' Undeclared [IsString, IsNotEmpty, MaxLength 100]]"

definition send_message_rules :: "field_rule list" where
  "send_message_rules =
     [required ''room'' Undeclared [IsString, IsNotEmpty, MaxLength 100],
      required ''content'' Undeclared [IsString, IsNotEmpty, MaxLength 1000]]"

section \<open>The pipe\<close>

type_synonym body = "(string \<times> jval) list"

text \<open>A property after conversion; a text that is no number becomes \<open>NaN\<close>.\<close>

datatype converted = Plain jval | NaN

fun convert :: "validator \<Rightarrow> declared \<Rightarrow> jval \<Rightarrow> converted" where
  "convert vl Undeclared v = Plain v"
| "convert vl _ JNull = Plain JNull"
| "convert vl DeclaredString (JStr s) = Plain (JStr s)"
| "convert vl DeclaredString (JNum n) = Plain (JStr (show_int n))"
| "convert vl DeclaredString (JBool b) = Plain (JStr (if b then ''true'' else ''false''))"
| "convert vl DeclaredNumber (JNum n) = Plain (JNum n)"
| "convert vl DeclaredNumber (JBool b) = Plain (JNum (if b then 1 else 0))"
| "convert vl DeclaredNumber (JStr s) = (case vl_number vl s of None \<Rightarrow> NaN | Some n \<Rightarrow> Plain (JNum n))"

fun check_holds :: "validator \<Rightarrow> check \<Rightarrow> converted option \<Rightarrow> bool" where
  "check_holds vl IsString v = (case v of Some (Plain (JStr s)) \<Rightarrow> True | _ \<Rightarrow> False)"
| "check_holds vl IsNotEmpty v = (v \<noteq> None \<and> v \<noteq> Some (Plain JNull) \<and> v \<noteq> Some (Plain (JStr [])))"
| "check_holds vl IsEmail v = (case v of Some (Plain (JStr s)) \<Rightarrow> vl_is_email vl s | _ \<Rightarrow> False)"
| "check_holds vl (MinLength n) v = (case v of Some (Plain (JStr s)) \<Rightarrow> n \<le> vl_length vl s | _ \<Rightarrow> False)"
| "check_holds vl (MaxLength n) v = (case v of Some (Plain (JStr s)) \<Rightarrow> vl_length vl s \<le> n | _ \<Rightarrow> False)"
| "check_holds vl IsNumber v = (case v of Some (Plain (JNum n)) \<Rightarrow> True | _ \<Rightarrow> False)"
| "check_holds vl IsPositive v = (case v of Some (Plain (JNum n)) \<Rightarrow> 0 < n | _ \<Rightarrow> False)"
| "check_holds vl (Min m) v = (case v of Some (Plain (JNum n)) \<Rightarrow> m \<le> n | _ \<Rightarrow> False)"
| "check_holds vl (Max m) v = (case v of Some (Plain (JNum n)) \<Rightarrow> n \<le> m | _ \<Rightarrow> False)"

definition field_value :: "validator \<Rightarrow> field_rule \<Rightarrow> body \<Rightarrow> converted option" where
  "field_value vl r b = map_option (convert vl (fr_type r)) (map_of b (fr_name r))"

definition field_errors :: "validator \<Rightarrow> field_rule \<Rightarrow> body \<Rightarrow> string list" where
  "field_errors vl r b =
     (let v = field_value vl r b in
      if fr_optional r \<and> (v = None \<or> v = Some (Plain JNull)) then []
      else map (vl_message vl (fr_name r)) (filter (\<lambda>c. \<not> check_holds vl c v) (fr_checks r)))"

definition forbidden_properties :: "field_rule list \<Rightarrow> body \<Rightarrow> string list" where
  "forbidden_properties rules b = filter (\<lambda>k. k \<notin> fr_name ` set rules) (map fst b)"

text \<open>The properties of the instance the pipe hands on.\<close>

definition instance_of :: "validator \<Rightarrow> field_rule list \<Rightarrow> body \<Rightarrow> meta" where
  "instance_of vl rules b = (\<lambda>k.
     case List.find (\<lambda>r. fr_name r = k) rules of
       None \<Rightarrow> None
     | Some r \<Rightarrow> (case field_value vl r b of Some (Plain v) \<Rightarrow> Some v | _ \<Rightarrow> None))"

definition validation_errors :: "validator \<Rightarrow> field_rule list \<Rightarrow> body \<Rightarrow> string list" where
  "validation_errors vl rules b =
     map (vl_forbidden vl) (forbidden_properties rules b) @ concat (map (\<lambda>r. field_errors vl r b) rules)"

definition validation_pipe :: "validator \<Rightarrow> field_rule list \<Rightarrow> body \<Rightarrow> exn + meta" where
  "validation_pipe vl rules b =
     (if validation_errors vl rules b = [] then Inr (instance_of vl rules b)
      else Inl (BadRequestException (validation_errors vl rules b)))"

section \<open>Typed bodies\<close>

definition str_at :: "meta \<Rightarrow> string \<Rightarrow> string option" where
  "str_at m k = (case m k of Some (JStr s) \<Rightarrow> Some s | _ \<Rightarrow> None)"

definition num_at :: "meta \<Rightarrow> string \<Rightarrow> int option" where
  "num_at m k = (case m k of Some (JNum n) \<Rightarrow> Some n | _ \<Rightarrow> None)"

definition given_at :: "meta \<Rightarrow> string \<Rightarrow> string given" where
  "given_at m k = (case m k of None \<Rightarrow> Undefined | Some (JStr s) \<Rightarrow> Value s | Some _ \<Rightarrow> Null)"

definition create_video_of :: "meta \<Rightarrow> create_video_dto" where
  "create_video_of m =
     \<lparr>cv_title = or_else (str_at m ''title'') [], cv_prompt = or_else (str_at m ''prompt'') [],
      cv_negativePrompt = str_at m ''negativePrompt'', cv_width = num_at m ''width'',
      cv_height = num_at m ''height'', cv_fps = num_at m ''fps'', cv_model = str_at m ''model''\<rparr>"

definition update_video_of :: "meta \<Rightarrow> update_video_dto" where
  "update_video_of m = \<lparr>uv_title = given_at m ''title''\<rparr>"

definition register_of :: "meta \<Rightarrow> register_dto" where
  "register_of m =
     \<lparr>rg_firstName = or_else (str_at m ''firstName'') [], rg_lastName = or_else (str_at m ''lastName'') [],
      rg_email = or_else (str_at m ''email'') [], rg_password = or_else (str_at m ''password'') [],
      rg_username = str_at m ''username''\<rparr>"

definition update_user_of :: "meta \<Rightarrow> update_user_dto" where
  "update_user_of m =
     \<lparr>uu_firstName = given_at m ''firstName'', uu_lastName = given_at m ''lastName'',
      uu_username = given_at m ''username''\<rparr>"

section \<open>Lemmas\<close>

lemma pipe_Inr_iff:
  "validation_pipe vl rules b = Inr m \<longleftrightarrow>
     m = instance_of vl rules b \<and> (\<forall>k \<in> fst ` set b. k \<in> fr_name ` set rules) \<and>
     (\<forall>r \<in> set rules. field_errors vl r b = [])"
  by (auto simp: validation_pipe_def validation_errors_def forbidden_properties_def filter_empty_conv)

lemma undeclared_refused:
  assumes "k \<in> fst ` set b" and "k \<notin> fr_name ` set rules"
  shows "\<exists>ms. validation_pipe vl rules b = Inl (BadRequestException ms)"
proof -
  have "forbidden_properties rules b \<noteq> []"
    using assms by (auto simp: forbidden_properties_def filter_empty_conv)
  then show ?thesis by (simp add: validation_pipe_def validation_errors_def)
qed

lemma check_IsString [simp]: "check_holds vl IsString v \<longleftrightarrow> (\<exists>s. v = Some (Plain (JStr s)))"
  by (auto split: option.split converted.split jval.split)

lemma check_IsNumber [simp]: "check_holds vl IsNumber v \<longleftrightarrow> (\<exists>n. v = Some (Plain (JNum n)))"
  by (auto split: option.split converted.split jval.split)

declare check_holds.simps(1,6) [simp del]

text \<open>What a field without errors holds.\<close>

lemma required_field:
  "field_errors vl (required n t cs) b = [] \<longleftrightarrow>
     (\<forall>c \<in> set cs. check_holds vl c (field_value vl (required n t cs) b))"
  by (simp add: field_errors_def Let_def filter_empty_conv)

lemma optional_field:
  "field_errors vl (optional n t cs) b = [] \<longleftrightarrow>
     field_value vl (optional n t cs) b = None \<or> field_value vl (optional n t cs) b = Some (Plain JNull) \<or>
     (\<forall>c \<in> set cs. check_holds vl c (field_value vl (optional n t cs) b))"
  by (auto simp: field_errors_def Let_def filter_empty_conv)

lemma instance_at:
  "r \<in> set rules \<Longrightarrow> distinct (map fr_name rules) \<Longrightarrow>
   instance_of vl rules b (fr_name r) = (case field_value vl r b of Some (Plain v) \<Rightarrow> Some v | _ \<Rightarrow> None)"
  using select_key_set [of fr_name rules r] by (simp add: instance_of_def select_key_def keyed_def)

text \<open>The values of a property, by its rule.\<close>

lemma required_string:
  assumes "r \<in> set rules" and "distinct (map fr_name rules)" and "r = required n t (IsString # cs)"
    and "field_errors vl r b = []"
  obtains s where "str_at (instance_of vl rules b) n = Some s"
    and "\<forall>c \<in> set cs. check_holds vl c (Some (Plain (JStr s)))"
proof -
  from assms(3,4) obtain s where s: "field_value vl r b = Some (Plain (JStr s))"
    and "\<forall>c \<in> set cs. check_holds vl c (Some (Plain (JStr s)))"
    by (auto simp: required_field)
  moreover from s have "str_at (instance_of vl rules b) n = Some s"
    using instance_at [OF assms(1,2), of vl b] assms(3) by (simp add: str_at_def)
  ultimately show ?thesis using that by blast
qed

lemma optional_string:
  assumes "r \<in> set rules" and "distinct (map fr_name rules)" and "r = optional n t (IsString # cs)"
    and "field_errors vl r b = []" and "str_at (instance_of vl rules b) n = Some s"
  shows "\<forall>c \<in> set cs. check_holds vl c (Some (Plain (JStr s)))"
proof -
  from assms(5) have "field_value vl r b = Some (Plain (JStr s))"
    using instance_at [OF assms(1,2), of vl b] assms(3)
    by (auto simp: str_at_def split: option.splits converted.splits jval.splits)
  with assms(3,4) show ?thesis by (auto simp: optional_field)
qed

lemma optional_number:
  assumes "r \<in> set rules" and "distinct (map fr_name rules)" and "r = optional n t (IsNumber # cs)"
    and "field_errors vl r b = []" and "num_at (instance_of vl rules b) n = Some i"
  shows "\<forall>c \<in> set cs. check_holds vl c (Some (Plain (JNum i)))"
proof -
  from assms(5) have "field_value vl r b = Some (Plain (JNum i))"
    using instance_at [OF assms(1,2), of vl b] assms(3)
    by (auto simp: num_at_def split: option.splits converted.splits jval.splits)
  with assms(3,4) show ?thesis by (auto simp: optional_field)
qed

section \<open>The accepted bodies\<close>

definition within :: "validator \<Rightarrow> nat \<Rightarrow> string option \<Rightarrow> bool" where
  "within vl n s = (case s of None \<Rightarrow> True | Some t \<Rightarrow> vl_length vl t \<le> n)"

definition creation_ok :: "validator \<Rightarrow> create_video_dto \<Rightarrow> bool" where
  "creation_ok vl d \<longleftrightarrow>
     cv_title d \<noteq> [] \<and> vl_length vl (cv_title d) \<le> 255 \<and>
     cv_prompt d \<noteq> [] \<and> vl_length vl (cv_prompt d) \<le> 2000 \<and>
     within vl 1000 (cv_negativePrompt d) \<and>
     (case cv_width d of None \<Rightarrow> True | Some n \<Rightarrow> 0 < n) \<and>
     (case cv_height d of None \<Rightarrow> True | Some n \<Rightarrow> 0 < n) \<and>
     (case cv_fps d of None \<Rightarrow> True | Some n \<Rightarrow> 8 \<le> n \<and> n \<le> 60)"

definition registration_ok :: "validator \<Rightarrow> register_dto \<Rightarrow> bool" where
  "registration_ok vl d \<longleftrightarrow>
     vl_length vl (rg_firstName d) \<le> 50 \<and> vl_length vl (rg_lastName d) \<le> 50 \<and>
     vl_is_email vl (rg_email d) \<and>
     8 \<le> vl_length vl (rg_password d) \<and> vl_length vl (rg_password d) \<le> 100 \<and>
     within vl 30 (rg_username d)"

lemma distinct_rules: "distinct (map fr_name create_video_rules)" "distinct (map fr_name register_rules)"
  by (simp_all add: create_video_rules_def register_rules_def)

lemma creation_sound:
  assumes "validation_pipe vl create_video_rules b = Inr m"
  shows "creation_ok vl (create_video_of m)"
proof -
  let ?R = create_video_rules
  from assms have m: "m = instance_of vl ?R b" and ok: "\<And>r. r \<in> set ?R \<Longrightarrow> field_errors vl r b = []"
    by (simp_all add: pipe_Inr_iff)
  have mem: "required ''title'' DeclaredString [IsString, IsNotEmpty, MaxLength 255] \<in> set ?R"
    "required ''prompt'' DeclaredString [IsString, IsNotEmpty, MaxLength 2000] \<in> set ?R"
    "optional ''negativePrompt'' DeclaredString [IsString, MaxLength 1000] \<in> set ?R"
    "optional ''width'' DeclaredNumber [IsNumber, IsPositive] \<in> set ?R"
    "optional ''height'' DeclaredNumber [IsNumber, IsPositive] \<in> set ?R"
    "optional ''fps'' DeclaredNumber [IsNumber, Min 8, Max 60] \<in> set ?R"
    by (simp_all add: create_video_rules_def)
  obtain t where "str_at m ''title'' = Some t" "t \<noteq> []" "vl_length vl t \<le> 255"
    using required_string [OF mem(1) distinct_rules(1) refl ok [OF mem(1)]] m by auto
  moreover obtain p where "str_at m ''prompt'' = Some p" "p \<noteq> []" "vl_length vl p \<le> 2000"
    using required_string [OF mem(2) distinct_rules(1) refl ok [OF mem(2)]] m by auto
  moreover have "str_at m ''negativePrompt'' = Some s \<Longrightarrow> vl_length vl s \<le> 1000" for s
    using optional_string [OF mem(3) distinct_rules(1) refl ok [OF mem(3)]] m by auto
  moreover have "num_at m ''width'' = Some n \<Longrightarrow> 0 < n" for n
    using optional_number [OF mem(4) distinct_rules(1) refl ok [OF mem(4)]] m by auto
  moreover have "num_at m ''height'' = Some n \<Longrightarrow> 0 < n" for n
    using optional_number [OF mem(5) distinct_rules(1) refl ok [OF mem(5)]] m by auto
  moreover have "num_at m ''fps'' = Some n \<Longrightarrow> 8 \<le> n \<and> n \<le> 60" for n
    using optional_number [OF mem(6) distinct_rules(1) refl ok [OF mem(6)]] m by auto
  ultimately show ?thesis
    by (simp add: creation_ok_def create_video_of_def within_def split: option.split)
qed

lemma registration_sound:
  assumes "validation_pipe vl register_rules b = Inr m"
  shows "registration_ok vl (register_of m)"
proof -
  let ?R = register_rules
  from assms have m: "m = instance_of vl ?R b" and ok: "\<And>r. r \<in> set ?R \<Longrightarrow> field_errors vl r b = []"
    by (simp_all add: pipe_Inr_iff)
  have mem: "required ''firstName'' DeclaredString [IsString, MaxLength 50] \<in> set ?R"
    "required ''lastName'' DeclaredString [IsString, MaxLength 50] \<in> set ?R"
    "required ''password'' DeclaredString [IsString, MinLength 8, MaxLength 100] \<in> set ?R"
    "optional ''username'' DeclaredString [IsString, MaxLength 30] \<in> set ?R"
    and email: "required ''email'' DeclaredString [IsEmail] \<in> set ?R"
    by (simp_all add: register_rules_def)
  obtain f where "str_at m ''firstName'' = Some f" "vl_length vl f \<le> 50"
    using required_string [OF mem(1) distinct_rules(2) refl ok [OF mem(1)]] m by auto
  moreover obtain l where "str_at m ''lastName'' = Some l" "vl_length vl l \<le> 50"
    using required_string [OF mem(2) distinct_rules(2) refl ok [OF mem(2)]] m by auto
  moreover obtain p where "str_at m ''password'' = Some p" "8 \<le> vl_length vl p" "vl_length vl p \<le> 100"
    using required_string [OF mem(3) distinct_rules(2) refl ok [OF mem(3)]] m by auto
  moreover have "str_at m ''username'' = Some s \<Longrightarrow> vl_length vl s \<le> 30" for s
    using optional_string [OF mem(4) distinct_rules(2) refl ok [OF mem(4)]] m by auto
  moreover obtain e where "field_value vl (required ''email'' DeclaredString [IsEmail]) b = Some (Plain (JStr e))"
    "vl_is_email vl e"
    using ok [OF email] by (auto simp: required_field split: option.splits converted.splits jval.splits)
  then have "str_at m ''email'' = Some e" "vl_is_email vl e"
    using instance_at [OF email distinct_rules(2), of vl b] m by (simp_all add: str_at_def)
  ultimately show ?thesis
    by (simp add: registration_ok_def register_of_def within_def split: option.split)
qed

text \<open>Every DTO within the bounds is the reading of a body.\<close>

definition opt_property :: "string \<Rightarrow> ('a \<Rightarrow> jval) \<Rightarrow> 'a option \<Rightarrow> body" where
  "opt_property k f v = (case v of None \<Rightarrow> [] | Some x \<Rightarrow> [(k, f x)])"

lemma opt_property_keys [simp]:
  "map_of (opt_property k f v) k' = (if k' = k then map_option f v else None)"
  "fst ` set (opt_property k f v) \<subseteq> S \<longleftrightarrow> v = None \<or> k \<in> S"
  by (cases v; simp add: opt_property_def)+

definition creation_body :: "create_video_dto \<Rightarrow> body" where
  "creation_body d =
     [(''title'', JStr (cv_title d)), (''prompt'', JStr (cv_prompt d))] @
     opt_property ''negativePrompt'' JStr (cv_negativePrompt d) @ opt_property ''width'' JNum (cv_width d) @
     opt_property ''height'' JNum (cv_height d) @ opt_property ''fps'' JNum (cv_fps d) @
     opt_property ''model'' JStr (cv_model d)"

definition registration_body :: "register_dto \<Rightarrow> body" where
  "registration_body d =
     [(''firstName'', JStr (rg_firstName d)), (''lastName'', JStr (rg_lastName d)),
      (''email'', JStr (rg_email d)), (''password'', JStr (rg_password d))] @
     opt_property ''username'' JStr (rg_username d)"

lemma field_value_simps [simp]:
  "field_value vl \<lparr>fr_name = n, fr_type = t, fr_optional = o', fr_checks = cs\<rparr> b = map_option (convert vl t) (map_of b n)"
  by (simp add: field_value_def)

lemma creation_body_at [simp]:
  "map_of (creation_body d) ''title'' = Some (JStr (cv_title d))"
  "map_of (creation_body d) ''prompt'' = Some (JStr (cv_prompt d))"
  "map_of (creation_body d) ''negativePrompt'' = map_option JStr (cv_negativePrompt d)"
  "map_of (creation_body d) ''width'' = map_option JNum (cv_width d)"
  "map_of (creation_body d) ''height'' = map_option JNum (cv_height d)"
  "map_of (creation_body d) ''fps'' = map_option JNum (cv_fps d)"
  "map_of (creation_body d) ''model'' = map_option JStr (cv_model d)"
  by (simp_all add: creation_body_def map_add_def split: option.split)

lemma registration_body_at [simp]:
  "map_of (registration_body d) ''firstName'' = Some (JStr (rg_firstName d))"
  "map_of (registration_body d) ''lastName'' = Some (JStr (rg_lastName d))"
  "map_of (registration_body d) ''email'' = Some (JStr (rg_email d))"
  "map_of (registration_body d) ''password'' = Some (JStr (rg_password d))"
  "map_of (registration_body d) ''username'' = map_option JStr (rg_username d)"
  by (simp_all add: registration_body_def)

lemma body_keys:
  "fst ` set (creation_body d) \<subseteq> fr_name ` set create_video_rules"
  "fst ` set (registration_body e) \<subseteq> fr_name ` set register_rules"
  by (simp_all add: creation_body_def create_video_rules_def registration_body_def register_rules_def image_Un)

lemma creation_complete:
  assumes "creation_ok vl d"
  shows "\<exists>m. validation_pipe vl create_video_rules (creation_body d) = Inr m \<and> create_video_of m = d"
proof -
  let ?b = "creation_body d"
  have "\<forall>r \<in> set create_video_rules. field_errors vl r ?b = []"
    using assms unfolding create_video_rules_def list.set ball_simps required_field optional_field creation_ok_def within_def
    by (cases "cv_model d") (intro conjI TrueI; simp split: option.splits)+
  then have "validation_pipe vl create_video_rules ?b = Inr (instance_of vl create_video_rules ?b)"
    using body_keys(1) by (simp only: pipe_Inr_iff) blast
  moreover have "create_video_of (instance_of vl create_video_rules ?b) = d"
    by (cases d) (simp add: create_video_of_def str_at_def num_at_def instance_of_def create_video_rules_def
        split: option.split)
  ultimately show ?thesis by blast
qed

lemma registration_complete:
  assumes "registration_ok vl d"
  shows "\<exists>m. validation_pipe vl register_rules (registration_body d) = Inr m \<and> register_of m = d"
proof -
  let ?b = "registration_body d"
  have "\<forall>r \<in> set register_rules. field_errors vl r ?b = []"
    using assms unfolding register_rules_def list.set ball_simps required_field optional_field registration_ok_def within_def
    by (intro conjI TrueI; simp split: option.splits)
  then have "validation_pipe vl register_rules ?b = Inr (instance_of vl register_rules ?b)"
    using body_keys(2) by (simp only: pipe_Inr_iff) blast
  moreover have "register_of (instance_of vl register_rules ?b) = d"
    by (cases d) (simp add: register_of_def str_at_def instance_of_def register_rules_def split: option.split)
  ultimately show ?thesis by blast
qed

end
