(* ===== verification/Http.thy ===== *)
theory Http
  imports Validation Queue_Api
begin

text \<open>
  The HTTP surface: the requests of the five controllers with what their decorators declare, the
  guards that run before a handler, the validation of its input, the envelope of
  \<open>TransformInterceptor\<close> and the answers of \<open>HttpExceptionFilter\<close> (common, main.ts, app.module.ts).
  A server is the environment with the packages, the configuration and the list of guards that
  are registered for the whole application.
\<close>

section \<open>Requests\<close>

datatype 'tok auth_request =
    Register body
  | Login "string option" "string option"
  | Refresh "'tok option"
  | Profile
  | Logout

datatype users_request =
    GetMe
  | UpdateMe body
  | ListUsers
  | GetUser string
  | RemoveUser string

datatype videos_request =
    CreateVideo body
  | ListVideos "video_status option" "int option" "int option"
  | VideoStatus string
  | VideoResult string "int option"
  | UpdateVideo string body
  | RemoveVideo string

datatype queue_request =
    JobStatus string
  | ListFailed "int option" "int option"
  | RetryFailed string
  | GetFailed string

datatype 'tok request =
    AuthRq "'tok auth_request"
  | UsersRq users_request
  | VideosRq videos_request
  | QueueRq queue_request
  | HealthRq

record 'tok call =
  cl_url :: string
  cl_bearer :: "'tok option"
  cl_request :: "'tok request"

section \<open>Declarations of the controllers\<close>

text \<open>
  Method and path, the status of a success, whether the route is public, the roles it requires,
  whether it runs the local guard, and the throttling tiers it overrides (name, window in
  milliseconds, limit).
\<close>

record route =
  rt_method :: string
  rt_path :: string
  rt_status :: int
  rt_public :: bool
  rt_roles :: "user_role list option"
  rt_local :: bool
  rt_throttle :: "(string \<times> int \<times> int) list"

definition route_at :: "string \<Rightarrow> string \<Rightarrow> int \<Rightarrow> route" where
  "route_at m p s =
     \<lparr>rt_method = m, rt_path = p, rt_status = s, rt_public = False, rt_roles = None,
      rt_local = False, rt_throttle = []\<rparr>"

fun auth_route :: "'tok auth_request \<Rightarrow> route" where
  "auth_route (Register _) = (route_at ''POST'' ''auth/register'' 201)
     \<lparr>rt_public := True, rt_throttle := [(''burst'', 10000, 2), (''standard'', 3600000, 5)]\<rparr>"
| "auth_route (Login _ _) = (route_at ''POST'' ''auth/login'' 200)
     \<lparr>rt_public := True, rt_local := True,
      rt_throttle := [(''burst'', 60000, 5), (''standard'', 900000, 10)]\<rparr>"
| "auth_route (Refresh _) = (route_at ''POST'' ''auth/refresh'' 200)
     \<lparr>rt_public := True, rt_throttle := [(''standard'', 900000, 20)]\<rparr>"
| "auth_route Profile = route_at ''GET'' ''auth/profile'' 200"
| "auth_route Logout = route_at ''POST'' ''auth/logout'' 200"

fun users_route :: "users_request \<Rightarrow> route" where
  "users_route GetMe = route_at ''GET'' ''users/me'' 200"
| "users_route (UpdateMe _) = route_at ''PATCH'' ''users/me'' 200"
| "users_route ListUsers = (route_at ''GET'' ''users'' 200)\<lparr>rt_roles := Some [ADMIN]\<rparr>"
| "users_route (GetUser _) = (route_at ''GET'' ''users/:id'' 200)\<lparr>rt_roles := Some [ADMIN]\<rparr>"
| "users_route (RemoveUser _) = (route_at ''DELETE'' ''users/:id'' 204)\<lparr>rt_roles := Some [ADMIN]\<rparr>"

fun videos_route :: "videos_request \<Rightarrow> route" where
  "videos_route (CreateVideo _) = (route_at ''POST'' ''videos'' 201)
     \<lparr>rt_throttle := [(''burst'', 10000, 3), (''sustained'', 3600000, 10)]\<rparr>"
| "videos_route (ListVideos _ _ _) = route_at ''GET'' ''videos'' 200"
| "videos_route (VideoStatus _) = route_at ''GET'' ''videos/:id'' 200"
| "videos_route (VideoResult _ _) = route_at ''GET'' ''videos/:id/result'' 200"
| "videos_route (UpdateVideo _ _) = route_at ''PATCH'' ''videos/:id'' 200"
| "videos_route (RemoveVideo _) = route_at ''DELETE'' ''videos/:id'' 204"

fun queue_route :: "queue_request \<Rightarrow> route" where
  "queue_route (JobStatus _) = route_at ''GET'' ''queue/jobs/:jobId'' 200"
| "queue_route (ListFailed _ _) = route_at ''GET'' ''queue/failed-jobs'' 200"
| "queue_route (RetryFailed _) = route_at ''POST'' ''queue/failed-jobs/:id/retry'' 201"
| "queue_route (GetFailed _) = route_at ''GET'' ''queue/failed-jobs/:id'' 200"

definition health_route :: route where
  "health_route = (route_at ''GET'' ''health'' 200)\<lparr>rt_public := True\<rparr>"

fun route_of :: "'tok request \<Rightarrow> route" where
  "route_of (AuthRq r) = auth_route r"
| "route_of (UsersRq r) = users_route r"
| "route_of (VideosRq r) = videos_route r"
| "route_of (QueueRq r) = queue_route r"
| "route_of HealthRq = health_route"

section \<open>Server\<close>

datatype guard = ThrottlerGuard | JwtAuthGuard | RolesGuard | LocalAuthGuard

text \<open>
  The packages decide whether a text is a UUID and, per route and time, whether the throttler
  lets a request through; the health check and its indicators are those of the package
  \<open>terminus\<close>, a text stands for the report.
\<close>

record 'tok server =
  sv_env :: env
  sv_auth :: "'tok auth_lib"
  sv_jwt :: jwt_config
  sv_storage :: storage_config
  sv_url :: url_lib
  sv_validator :: validator
  sv_is_uuid :: "string \<Rightarrow> bool"
  sv_admits :: "route \<Rightarrow> instant \<Rightarrow> bool"
  sv_healthCheck :: "unit act list \<Rightarrow> string act"
  sv_pingCheck :: "string \<Rightarrow> unit act"
  sv_guards :: "guard list"

text \<open>The guards that \<open>AppModule\<close> registers for every route.\<close>

definition app_guards :: "guard list" where
  "app_guards = [ThrottlerGuard]"

text \<open>The guards of a single route, from \<open>UseGuards\<close>.\<close>

definition route_guards :: "route \<Rightarrow> guard list" where
  "route_guards rt = (if rt_local rt then [LocalAuthGuard] else []) @
     (if rt_roles rt = None then [] else [RolesGuard])"

text \<open>The \<open>user\<close> property of a request: none, the user a token names, or the row a login found.\<close>

datatype principal = Anonymous | Verified safe_user | Credentialed user

fun current_user :: "principal \<Rightarrow> safe_user option" where
  "current_user Anonymous = None"
| "current_user (Verified u) = Some u"
| "current_user (Credentialed u) = Some (safeFields u)"

definition roles_canActivate :: "user_role list option \<Rightarrow> safe_user option \<Rightarrow> bool" where
  "roles_canActivate requiredRoles user =
     (case requiredRoles of
        None \<Rightarrow> True
      | Some roles \<Rightarrow> list_ex (\<lambda>role. map_option us_role user = Some role) roles)"

fun run_guard :: "'tok server \<Rightarrow> 'tok call \<Rightarrow> principal \<Rightarrow> guard \<Rightarrow> principal act" where
  "run_guard srv cl p ThrottlerGuard =
     io_bind current_time (\<lambda>now.
     if sv_admits srv (route_of (cl_request cl)) now then io_return p
     else io_raise (HttpException 429 ''ThrottlerException: Too Many Requests''))"
| "run_guard srv cl p JwtAuthGuard =
     io_bind (jwt_canActivate (sv_env srv) (sv_auth srv) (sv_jwt srv) (rt_public (route_of (cl_request cl))) (cl_bearer cl))
       (\<lambda>found. io_return (case found of None \<Rightarrow> p | Some u \<Rightarrow> Verified u))"
| "run_guard srv cl p RolesGuard =
     (if roles_canActivate (rt_roles (route_of (cl_request cl))) (current_user p) then io_return p
      else io_raise (HttpException 403 ''Forbidden resource''))"
| "run_guard srv cl p LocalAuthGuard =
     (case cl_request cl of
        AuthRq (Login email password) \<Rightarrow>
          io_bind (local_guard (sv_env srv) (sv_auth srv) email password) (\<lambda>u. io_return (Credentialed u))
      | _ \<Rightarrow> io_return p)"

fun run_guards :: "'tok server \<Rightarrow> 'tok call \<Rightarrow> guard list \<Rightarrow> principal \<Rightarrow> principal act" where
  "run_guards srv cl [] p = io_return p"
| "run_guards srv cl (g # gs) p = io_bind (run_guard srv cl p g) (run_guards srv cl gs)"

section \<open>Handlers\<close>

datatype 'tok answer =
    Tokens "'tok token_pair"
  | Text string
  | Current "safe_user option"
  | One_user safe_user
  | All_users "safe_user list"
  | Video_answer video_response_dto
  | Page_answer paginated_videos_dto
  | Status_answer video_status_response_dto
  | Result_answer video_result_dto
  | Job_answer job_status_dto
  | Records_answer paginated_failed_jobs
  | Record_answer failed_job_dto
  | Retry_answer retry_failed_job_dto
  | Health_answer string
  | Nothing

definition from_pipe :: "exn + 'a \<Rightarrow> 'a act" where
  "from_pipe r = (case r of Inl e \<Rightarrow> io_raise e | Inr a \<Rightarrow> io_return a)"

definition parse_uuid :: "'tok server \<Rightarrow> string \<Rightarrow> string act" where
  "parse_uuid srv k =
     (if sv_is_uuid srv k then io_return k
      else io_raise (HttpException 400 ''Validation failed (uuid is expected)''))"

abbreviation answers :: "'a act \<Rightarrow> ('a \<Rightarrow> 'tok answer) \<Rightarrow> 'tok answer act" where
  "answers m f \<equiv> io_bind m (\<lambda>a. io_return (f a))"

fun auth_handler :: "'tok server \<Rightarrow> principal \<Rightarrow> 'tok auth_request \<Rightarrow> 'tok answer act" where
  "auth_handler srv p (Register b) =
     io_bind (from_pipe (validation_pipe (sv_validator srv) register_rules b)) (\<lambda>m.
     answers (auth_register (sv_env srv) (sv_auth srv) (sv_jwt srv) (register_of m)) Tokens)"
| "auth_handler srv p (Login _ _) =
     (case p of
        Credentialed u \<Rightarrow> answers (auth_login (sv_auth srv) (sv_jwt srv) u) Tokens
      | _ \<Rightarrow> io_raise (JsError ''Cannot read properties of undefined (reading id)''))"
| "auth_handler srv p (Refresh tok) =
     (case tok of
        None \<Rightarrow> io_raise (unauthorized ''Invalid or expired refresh token'')
      | Some t \<Rightarrow> answers (auth_refreshToken (sv_env srv) (sv_auth srv) (sv_jwt srv) t) Tokens)"
| "auth_handler srv p Profile = answers (auth_getProfile (current_user p)) Current"
| "auth_handler srv p Logout = answers auth_logout Text"

fun users_handler :: "'tok server \<Rightarrow> principal \<Rightarrow> users_request \<Rightarrow> 'tok answer act" where
  "users_handler srv p GetMe = answers (users_getMe (sv_env srv) (current_user p)) One_user"
| "users_handler srv p (UpdateMe b) =
     io_bind (from_pipe (validation_pipe (sv_validator srv) update_user_rules b)) (\<lambda>m.
     answers (users_updateMe (sv_env srv) (current_user p) (update_user_of m)) One_user)"
| "users_handler srv p ListUsers = answers (users_findAll (sv_env srv)) All_users"
| "users_handler srv p (GetUser k) =
     io_bind (parse_uuid srv k) (\<lambda>k. answers (users_findOne (sv_env srv) k) One_user)"
| "users_handler srv p (RemoveUser k) =
     io_bind (parse_uuid srv k) (\<lambda>k. answers (users_remove (sv_env srv) k) (\<lambda>_. Nothing))"

fun videos_handler :: "'tok server \<Rightarrow> principal \<Rightarrow> videos_request \<Rightarrow> 'tok answer act" where
  "videos_handler srv p (CreateVideo b) =
     io_bind (from_pipe (validation_pipe (sv_validator srv) create_video_rules b)) (\<lambda>m.
     with_user (current_user p) (\<lambda>u.
     answers (videos_create (sv_env srv) (us_id u) (create_video_of m)) Video_answer))"
| "videos_handler srv p (ListVideos st page limit) =
     with_user (current_user p) (\<lambda>u.
     answers (videos_findAll (sv_env srv) (us_id u) st page limit) Page_answer)"
| "videos_handler srv p (VideoStatus k) =
     io_bind (parse_uuid srv k) (\<lambda>k. with_user (current_user p) (\<lambda>u.
     answers (videos_getStatus (sv_env srv) (us_id u) k) Status_answer))"
| "videos_handler srv p (VideoResult k ttl) =
     io_bind (parse_uuid srv k) (\<lambda>k. with_user (current_user p) (\<lambda>u.
     answers (videos_getResult (sv_env srv) (sv_url srv) (storageService (sv_env srv) (sv_storage srv)) (us_id u) k ttl)
       Result_answer))"
| "videos_handler srv p (UpdateVideo k b) =
     io_bind (parse_uuid srv k) (\<lambda>k.
     io_bind (from_pipe (validation_pipe (sv_validator srv) update_video_rules b)) (\<lambda>m.
     with_user (current_user p) (\<lambda>u.
     answers (videos_update (sv_env srv) (us_id u) k (update_video_of m)) Video_answer)))"
| "videos_handler srv p (RemoveVideo k) =
     io_bind (parse_uuid srv k) (\<lambda>k. with_user (current_user p) (\<lambda>u.
     answers (videos_remove (sv_env srv) (us_id u) k) (\<lambda>_. Nothing)))"

fun queue_handler :: "'tok server \<Rightarrow> queue_request \<Rightarrow> 'tok answer act" where
  "queue_handler srv (JobStatus jid) = answers (queue_getJobStatus (sv_env srv) jid) Job_answer"
| "queue_handler srv (ListFailed page limit) =
     answers (queue_listFailedJobs (sv_env srv) page limit) Records_answer"
| "queue_handler srv (RetryFailed k) = answers (queue_retryFailedJob (sv_env srv) k) Retry_answer"
| "queue_handler srv (GetFailed k) = answers (queue_getFailedJob (sv_env srv) k) Record_answer"

text \<open>The health check is given the indicators, here one that pings the database.\<close>

definition check :: "(unit act list \<Rightarrow> 'a act) \<Rightarrow> (string \<Rightarrow> unit act) \<Rightarrow> 'a act" where
  "check healthCheck pingCheck = healthCheck [pingCheck ''database'']"

fun handler_of :: "'tok server \<Rightarrow> principal \<Rightarrow> 'tok request \<Rightarrow> 'tok answer act" where
  "handler_of srv p (AuthRq r) = auth_handler srv p r"
| "handler_of srv p (UsersRq r) = users_handler srv p r"
| "handler_of srv p (VideosRq r) = videos_handler srv p r"
| "handler_of srv p (QueueRq r) = queue_handler srv r"
| "handler_of srv p HealthRq = answers (check (sv_healthCheck srv) (sv_pingCheck srv)) Health_answer"

section \<open>Responses\<close>

datatype error_text = Message string | Messages "string list"

record error_response =
  er_statusCode :: int
  er_timestamp :: string
  er_path :: string
  er_method :: string
  er_message :: error_text

record 'b api_response =
  ar_success :: bool
  ar_data :: 'b
  ar_timestamp :: string

datatype 'b http_response = Reply int "'b api_response" | Failure error_response

text \<open>Status and text of an exception: what is no \<open>HttpException\<close> is an internal error.\<close>

fun exception_status :: "exn \<Rightarrow> int" where
  "exception_status (NotFoundException _) = 404"
| "exception_status ForbiddenException = 403"
| "exception_status (ConflictException _) = 409"
| "exception_status (UnauthorizedException _) = 401"
| "exception_status (InternalServerErrorException _) = 500"
| "exception_status (BadRequestException _) = 400"
| "exception_status (HttpException s _) = s"
| "exception_status _ = 500"

fun exception_text :: "exn \<Rightarrow> error_text" where
  "exception_text (JsError _) = Message ''Internal server error''"
| "exception_text (WsException _) = Message ''Internal server error''"
| "exception_text (BadRequestException ms) = Messages ms"
| "exception_text e = Message (error_message e)"

definition exception_filter :: "string \<Rightarrow> string \<Rightarrow> instant \<Rightarrow> exn \<Rightarrow> error_response" where
  "exception_filter url httpMethod now e =
     \<lparr>er_statusCode = exception_status e, er_timestamp = toISOString now, er_path = url,
      er_method = httpMethod, er_message = exception_text e\<rparr>"

definition intercept :: "instant \<Rightarrow> 'b \<Rightarrow> 'b api_response" where
  "intercept now d = \<lparr>ar_success = True, ar_data = d, ar_timestamp = toISOString now\<rparr>"

text \<open>A request from the guards to the response.\<close>

definition serve :: "'tok server \<Rightarrow> 'tok call \<Rightarrow> 'tok answer act" where
  "serve srv cl =
     io_bind (run_guards srv cl (sv_guards srv @ route_guards (route_of (cl_request cl))) Anonymous)
       (\<lambda>p. handler_of srv p (cl_request cl))"

definition handle :: "'tok server \<Rightarrow> 'tok call \<Rightarrow> world \<Rightarrow> 'tok answer http_response \<times> world" where
  "handle srv cl w =
     (let rt = route_of (cl_request cl) in
      case serve srv cl w of
        (Inl e, w') \<Rightarrow> (Failure (exception_filter (cl_url cl) (rt_method rt) (w_now w') e), w')
      | (Inr a, w') \<Rightarrow> (Reply (rt_status rt) (intercept (w_now w') a), w'))"

fun response_status :: "'b http_response \<Rightarrow> int" where
  "response_status (Reply s _) = s"
| "response_status (Failure r) = er_statusCode r"

end
