(* ===== verification/Tasks.thy ===== *)
theory Tasks
  imports Effects
begin

text \<open>
  Interleaving. An \<open>async\<close> method gives up control at every \<open>await\<close>, and other handlers and
  other workers act on the shared state before it goes on. A task is such a method as a
  resumption: it has ended, or its next step maps the state to the rest of the task and a new
  state. A step is one call to an external service or one synchronous piece of code. Tasks are
  composed like computations, \<open>run_task\<close> runs one of them alone, and \<open>interleave\<close> runs a pool of
  them under a schedule. A locale says what a pool of tasks guarantees when each step of each
  task does.
\<close>

section \<open>Tasks\<close>

datatype ('w, 'a) task =
    Return "exn + 'a"
  | Call "'w \<Rightarrow> ('w, 'a) task \<times> 'w"

lemma task_induct [case_names Return Call]:
  assumes "\<And>r. P (Return r)" and "\<And>f. (\<And>w. P (fst (f w))) \<Longrightarrow> P (Call f)"
  shows "P t"
proof (induction t)
  case (Call f)
  have "P (fst (f w))" for w
    by (rule Call [of "f w"]) (simp_all add: prod_set_defs)
  then show ?case by (rule assms(2))
qed (rule assms(1))

text \<open>Going on after the end of a task, whichever it is.\<close>

primrec t_then :: "('w, 'a) task \<Rightarrow> (exn + 'a \<Rightarrow> ('w, 'b) task) \<Rightarrow> ('w, 'b) task" where
  "t_then (Return r) k = k r"
| "t_then (Call f) k = Call (map_prod (\<lambda>t. t_then t k) id \<circ> f)"

definition t_return :: "'a \<Rightarrow> ('w, 'a) task" where
  "t_return a = Return (Inr a)"

definition t_raise :: "exn \<Rightarrow> ('w, 'a) task" where
  "t_raise e = Return (Inl e)"

definition t_bind :: "('w, 'a) task \<Rightarrow> ('a \<Rightarrow> ('w, 'b) task) \<Rightarrow> ('w, 'b) task" where
  "t_bind m f = t_then m (\<lambda>r. case r of Inl e \<Rightarrow> t_raise e | Inr a \<Rightarrow> f a)"

definition t_seq :: "('w, 'a) task \<Rightarrow> ('w, 'b) task \<Rightarrow> ('w, 'b) task" where
  "t_seq m n = t_bind m (\<lambda>_. n)"

definition t_try :: "('w, 'a) task \<Rightarrow> (exn \<Rightarrow> ('w, 'a) task) \<Rightarrow> ('w, 'a) task" where
  "t_try m h = t_then m (\<lambda>r. case r of Inl e \<Rightarrow> h e | Inr a \<Rightarrow> t_return a)"

text \<open>A computation that nothing interrupts.\<close>

definition atomic :: "('w, 'a) io \<Rightarrow> ('w, 'a) task" where
  "atomic m = Call (\<lambda>w. map_prod Return id (m w))"

text \<open>The first step of a composed task.\<close>

lemma then_assoc [simp]: "t_then (t_then m k) l = t_then m (\<lambda>r. t_then (k r) l)"
  by (induction m rule: task_induct) (simp_all add: fun_eq_iff map_prod_def split_def)

lemma then_atomic: "t_then (atomic m) k = Call (\<lambda>w. (k (fst (m w)), snd (m w)))"
  by (simp add: atomic_def fun_eq_iff map_prod_def split_def)

text \<open>A task whose result nobody waits for.\<close>

definition t_spawn :: "('w, 'a) task \<Rightarrow> ('w, unit) task" where
  "t_spawn m = t_bind m (\<lambda>_. t_return ())"

section \<open>Running alone\<close>

primrec run_task :: "('w, 'a) task \<Rightarrow> ('w, 'a) io" where
  "run_task (Return r) = (\<lambda>w. (r, w))"
| "run_task (Call f) = (\<lambda>w. case (map_prod run_task id \<circ> f) w of (g, w') \<Rightarrow> g w')"

named_theorems task_simps \<open>running a composed task alone\<close>

lemma run_then: "run_task (t_then m k) w = (case run_task m w of (r, w') \<Rightarrow> run_task (k r) w')"
by (induction m arbitrary: w rule: task_induct) (simp_all add: split_def)

lemma run_basic [task_simps]:
  "run_task (t_return a) = io_return a"
  "run_task (t_raise e) = io_raise e"
  "run_task (atomic m) = m"
  by (simp_all add: t_return_def t_raise_def atomic_def fun_eq_iff split_def)

lemma run_bind [task_simps]: "run_task (t_bind m f) = io_bind (run_task m) (\<lambda>a. run_task (f a))"
  by (auto simp: fun_eq_iff t_bind_def run_then io_bind_def run_basic split: prod.splits sum.splits)

lemma run_seq [task_simps]: "run_task (t_seq m n) = io_seq (run_task m) (run_task n)"
  by (simp add: t_seq_def io_seq_def task_simps)

lemma run_try [task_simps]: "run_task (t_try m h) = io_try (run_task m) (\<lambda>e. run_task (h e))"
  by (auto simp: fun_eq_iff t_try_def run_then io_try_def run_basic split: prod.splits sum.splits)

lemma run_cond [task_simps]:
  "run_task (if b then m else n) = (if b then run_task m else run_task n)"
  "run_task (case x of None \<Rightarrow> m | Some a \<Rightarrow> f a) =
     (case x of None \<Rightarrow> run_task m | Some a \<Rightarrow> run_task (f a))"
  by (simp_all split: option.split)

lemma run_spawn: "snd (run_task (t_spawn m) w) = snd (run_task m w)"
  by (simp add: t_spawn_def task_simps io_bind_def split_def split: sum.split)

lemma run_spawn_returns: "run_task m w = (Inr a, w') \<Longrightarrow> run_task (t_spawn m) w = (Inr (), w')"
  by (simp add: t_spawn_def task_simps io_bind_def)

lemma spawn_first:
  "t_spawn (t_bind (atomic m) f) =
     Call (\<lambda>w. (case fst (m w) of Inl e \<Rightarrow> t_raise e | Inr a \<Rightarrow> t_spawn (f a), snd (m w)))"
proof -
  have "t_then (case r of Inl e \<Rightarrow> t_raise e | Inr a \<Rightarrow> f a)
      (\<lambda>r. case r of Inl e \<Rightarrow> t_raise e | Inr a \<Rightarrow> t_return ()) =
    (case r of Inl e \<Rightarrow> t_raise e | Inr a \<Rightarrow> t_spawn (f a))" for r
    by (cases r) (simp_all add: t_spawn_def t_bind_def t_raise_def)
  then show ?thesis by (simp add: t_spawn_def t_bind_def then_atomic comp_def)
qed

lemma spawn_last:
  "t_spawn (atomic m) =
     Call (\<lambda>w. (case fst (m w) of Inl e \<Rightarrow> t_raise e | Inr a \<Rightarrow> t_return (), snd (m w)))"
  by (simp add: t_spawn_def t_bind_def then_atomic)

section \<open>Running in a pool\<close>

type_synonym 'w pool = "('w, unit) task list"

fun resume :: "nat \<Rightarrow> 'w pool \<times> 'w \<Rightarrow> 'w pool \<times> 'w" where
  "resume i (ts, w) =
     (if i < length ts
      then case ts ! i of Return r \<Rightarrow> (ts, w) | Call f \<Rightarrow> (ts[i := fst (f w)], snd (f w))
      else (ts, w))"

text \<open>A schedule names the task that makes the next step.\<close>

primrec interleave :: "nat list \<Rightarrow> 'w pool \<times> 'w \<Rightarrow> 'w pool \<times> 'w" where
  "interleave [] s = s"
| "interleave (i # is) s = interleave is (resume i s)"

lemma interleave_append: "interleave (is @ js) s = interleave js (interleave is s)"
  by (induction "is" arbitrary: s) simp_all

lemma resume_length: "length (fst (resume i s)) = length (fst s)"
  by (cases s) (simp split: task.split)

lemma interleave_length: "length (fst (interleave is s)) = length (fst s)"
  by (induction "is" arbitrary: s) (simp_all add: resume_length del: resume.simps)

text \<open>A task that is not scheduled stays where it is.\<close>

lemma resume_other: "j \<noteq> i \<Longrightarrow> fst (resume j s) ! i = fst s ! i"
  by (cases s) (simp split: task.split)

lemma interleave_other: "i \<notin> set js \<Longrightarrow> fst (interleave js s) ! i = fst s ! i"
  by (induction js arbitrary: s) (simp_all add: resume_other del: resume.simps)

lemma resume_call: "i < length ts \<Longrightarrow> ts ! i = Call f \<Longrightarrow> resume i (ts, w) = (ts[i := fst (f w)], snd (f w))"
  by simp

text \<open>More tasks in the pool do not change what the scheduled ones do.\<close>

lemma interleave_extend:
  "length ts = n \<Longrightarrow> interleave (filter (\<lambda>i. i < n) is) (ts @ us, w) =
     (case interleave is (ts, w) of (ts', w') \<Rightarrow> (ts' @ us, w'))"
  by (induction "is" arbitrary: ts w)
    (auto simp: nth_append list_update_append split: task.split)

text \<open>The number of steps a task makes when it runs alone, and the schedule that runs it.\<close>

primrec steps_alone :: "('w, 'a) task \<Rightarrow> 'w \<Rightarrow> nat" where
  "steps_alone (Return r) = (\<lambda>w. 0)"
| "steps_alone (Call f) = (\<lambda>w. case (map_prod steps_alone id \<circ> f) w of (g, w') \<Rightarrow> Suc (g w'))"

lemma interleave_alone:
  assumes "i < length ts"
  shows "interleave (replicate (steps_alone (ts ! i) w) i) (ts, w) =
    (ts[i := Return (fst (run_task (ts ! i) w))], snd (run_task (ts ! i) w))"
proof -
  have "interleave (replicate (steps_alone t w) i) (ts, w) = (ts[i := Return (fst (run_task t w))], snd (run_task t w))"
    if "ts ! i = t" "i < length ts" for t ts
    using that
  proof (induction t arbitrary: w ts rule: task_induct)
    case (Return r)
    then show ?case using list_update_id [of ts i] by simp
  next
    case (Call f)
    from Call.IH Call.prems show ?case by (simp add: split_def)
  qed
  from this [OF refl assms] show ?thesis .
qed

section \<open>What the steps of a task guarantee\<close>

text \<open>
  Every step made in a state of \<open>I\<close> is in \<open>R\<close>, whatever happened between the steps, and the
  result satisfies \<open>Q\<close>.
\<close>

primrec follows :: "('w \<Rightarrow> bool) \<Rightarrow> ('w \<Rightarrow> 'w \<Rightarrow> bool) \<Rightarrow> (exn + 'a \<Rightarrow> bool) \<Rightarrow> ('w, 'a) task \<Rightarrow> bool" where
  "follows I R Q (Return r) = Q r"
| "follows I R Q (Call f) =
     (\<forall>w. I w \<longrightarrow> R w (snd (f w)) \<and> fst ((map_prod (follows I R Q) id \<circ> f) w))"

lemma follows_then:
  assumes "follows I R P m" and "\<And>r. P r \<Longrightarrow> follows I R Q (k r)"
  shows "follows I R Q (t_then m k)"
  using assms by (induction m rule: task_induct) simp_all

lemma follows_mono:
  "follows I R Q t \<Longrightarrow> (\<And>w w'. R w w' \<Longrightarrow> R' w w') \<Longrightarrow> follows I R' Q t"
  by (induction t rule: task_induct) auto

lemma follows_basic:
  "Q (Inr a) \<Longrightarrow> follows I R Q (t_return a)"
  "Q (Inl e) \<Longrightarrow> follows I R Q (t_raise e)"
  "(\<And>w. I w \<Longrightarrow> R w (snd (m w)) \<and> Q (fst (m w))) \<Longrightarrow> follows I R Q (atomic m)"
  by (simp_all add: t_return_def t_raise_def atomic_def)

text \<open>The end of a task: any exception, and a value with a property.\<close>

definition ends :: "('a \<Rightarrow> bool) \<Rightarrow> exn + 'a \<Rightarrow> bool" where
  "ends P r \<longleftrightarrow> (\<forall>a. r = Inr a \<longrightarrow> P a)"

lemma ends_simps [simp]: "ends P (Inl e)" "ends P (Inr a) \<longleftrightarrow> P a"
  by (simp_all add: ends_def)

lemma follows_bind:
  assumes "follows I R (ends P) m" and "\<And>a. P a \<Longrightarrow> follows I R Q (f a)" and "\<And>e. Q (Inl e)"
  shows "follows I R Q (t_bind m f)"
  unfolding t_bind_def
  using assms by (intro follows_then [OF assms(1)]) (auto simp: ends_def intro!: follows_basic split: sum.split)

abbreviation always :: "('w \<Rightarrow> bool) \<Rightarrow> ('w \<Rightarrow> 'w \<Rightarrow> bool) \<Rightarrow> ('w, 'a) task \<Rightarrow> bool" where
  "always I R \<equiv> follows I R (\<lambda>_. True)"

lemma always_then: "always I R m \<Longrightarrow> (\<And>r. always I R (k r)) \<Longrightarrow> always I R (t_then m k)"
  by (rule follows_then)

lemma always_try: "always I R m \<Longrightarrow> (\<And>e. always I R (h e)) \<Longrightarrow> always I R (t_try m h)"
  unfolding t_try_def by (intro always_then) (auto intro: follows_basic split: sum.split)

lemma always_atomic: "guarantee R m \<Longrightarrow> always I R (atomic m)"
  by (rule follows_basic) (simp add: guarantee_def)

lemma always_return: "always I R (t_return a)" "always I R (t_raise e)"
  by (rule follows_basic, simp)+

lemma always_bind: "always I R m \<Longrightarrow> (\<And>a. always I R (f a)) \<Longrightarrow> always I R (t_bind m f)"
  unfolding t_bind_def by (intro always_then) (auto intro: follows_basic split: sum.split)

lemma always_seq: "always I R m \<Longrightarrow> always I R n \<Longrightarrow> always I R (t_seq m n)"
  unfolding t_seq_def by (rule always_bind)

lemma always_cond: "(b \<Longrightarrow> always I R m) \<Longrightarrow> (\<not> b \<Longrightarrow> always I R n) \<Longrightarrow> always I R (if b then m else n)"
  by simp

lemma always_option:
  "always I R m \<Longrightarrow> (\<And>a. always I R (f a)) \<Longrightarrow> always I R (case x of None \<Rightarrow> m | Some a \<Rightarrow> f a)"
  by (simp split: option.split)

lemmas always_rules = always_return always_bind always_seq always_try always_cond always_option

text \<open>A pool of tasks that follow one protocol follows it as a whole.\<close>

locale protocol =
  fixes I :: "'w \<Rightarrow> bool" and R :: "'w \<Rightarrow> 'w \<Rightarrow> bool"
  assumes stable: "I w \<Longrightarrow> R w w' \<Longrightarrow> I w'"
begin

definition obey :: "'w pool \<Rightarrow> bool" where
  "obey ts \<longleftrightarrow> (\<forall>t \<in> set ts. always I R t)"

lemma obey_resume:
  assumes "obey ts" and "I w" and "resume i (ts, w) = (ts', w')"
  shows "obey ts' \<and> I w' \<and> R\<^sup>=\<^sup>= w w'"
proof (cases "i < length ts")
  case True
  then have t: "always I R (ts ! i)" using assms(1) by (simp add: obey_def)
  show ?thesis
  proof (cases "ts ! i")
    case (Return r)
    with assms show ?thesis by (simp split: if_splits)
  next
    case (Call f)
    with t assms(2) have "R w (snd (f w))" and "always I R (fst (f w))" by auto
    moreover have "ts' = ts[i := fst (f w)]" and "w' = snd (f w)"
      using assms(3) True Call by auto
    ultimately show ?thesis
      using assms(1,2) stable set_update_subset_insert [of ts i "fst (f w)"] by (auto simp: obey_def)
  qed
qed (use assms in auto)

lemma obey_interleave:
  assumes "obey ts" and "I w" and "interleave is (ts, w) = (ts', w')"
  shows "obey ts' \<and> I w' \<and> R\<^sup>*\<^sup>* w w'"
  using assms
proof (induction "is" arbitrary: ts w)
  case (Cons i js)
  obtain ts1 w1 where s: "resume i (ts, w) = (ts1, w1)" by fastforce
  from obey_resume [OF Cons.prems(1,2) s] have 1: "obey ts1" "I w1" "R\<^sup>=\<^sup>= w w1" by auto
  have "interleave js (ts1, w1) = (ts', w')" using Cons.prems(3) s by (simp del: resume.simps)
  from Cons.IH [OF 1(1,2) this] 1(3) show ?case by (auto intro: converse_rtranclp_into_rtranclp)
qed simp

end

context effect_preorder
begin

text \<open>A preorder that every step of every task keeps relates the states before and after a run.\<close>

lemma interleaved:
  assumes "\<forall>t \<in> set ts. always (\<lambda>_. True) R t" and "interleave is (ts, w) = (ts', w')"
  shows "R w w'"
proof -
  have "protocol (\<lambda>_. True) R" by unfold_locales simp
  then have "R\<^sup>*\<^sup>* w w'"
    using assms protocol.obey_interleave [of "\<lambda>_. True" R ts w "is" ts' w'] protocol.obey_def by blast
  then show ?thesis
    by (induction rule: rtranclp_induct) (auto intro: refl trans)
qed

end

end
