(* ===== verification/Task_Programs.thy ===== *)
theory Task_Programs
  imports Tasks Processor Videos Auth
begin

text \<open>
  The handlers that write the tables, as tasks: each \<open>await\<close> of the source ends a step. A task is
  the handler of the earlier theories step for step: run alone it is that computation. The
  services behind an interface (the AI provider and the object store) are called in one step;
  so is a listener that nobody waits for. A read of the clock or of a random salt is a step of its
  own where the source does it between two awaits, which only adds interleavings.
\<close>

section \<open>The status of a video\<close>

definition transitionStatus_task ::
  "env \<Rightarrow> string \<Rightarrow> video_status \<Rightarrow> video_status \<Rightarrow> status_extra \<Rightarrow> (world, bool) task" where
  "transitionStatus_task env videoId expectedStatus newStatus extra =
     (if \<not> transition_allowed expectedStatus newStatus then t_return False
      else
        t_bind (atomic (db_update_video env videoId (\<lambda>v. v_status v = expectedStatus)
                   (apply_extra newStatus extra)))
          (\<lambda>hits.
             if hits = 0 then t_return False
             else
               t_seq
                 (atomic (detached (writeCache env videoId newStatus
                    (nullish (opt_get (x_metadata extra) ''progressPercent'') (JNum 0))
                    (nullish (opt_get (x_metadata extra) ''progressMessage'') (JStr [])))))
                 (t_return True)))"

definition updateProgress_task ::
  "env \<Rightarrow> string \<Rightarrow> int \<Rightarrow> string \<Rightarrow> meta \<Rightarrow> (world, unit) task" where
  "updateProgress_task env videoId percent message additionalMeta =
     t_seq
       (atomic (db_update_video env videoId (\<lambda>v. v_status v = PROCESSING)
          (\<lambda>v. v\<lparr>v_metadata := Some (spread (progress_meta percent message) additionalMeta)\<rparr>)))
       (atomic (detached (writeCache env videoId PROCESSING (JNum percent) (JStr message))))"

definition markFailed_task :: "env \<Rightarrow> string \<Rightarrow> string \<Rightarrow> (world, unit) task" where
  "markFailed_task env videoId errorMessage =
     t_seq (atomic (db_update_video env videoId (\<lambda>_. True) (failed_fields errorMessage)))
           (atomic (evictCache env videoId))"

definition loadFromDb_task :: "env \<Rightarrow> string \<Rightarrow> (world, status_snapshot option) task" where
  "loadFromDb_task env videoId =
     t_try
       (t_bind (atomic (db_find_video env videoId)) (\<lambda>video.
          case video of
            None \<Rightarrow> t_return None
          | Some v \<Rightarrow>
              t_bind (atomic current_time) (\<lambda>t.
              t_seq (atomic (redis_set env (statusKey videoId) (Serialized (snapshot_of v t)) CACHE_TTL_SECONDS))
                    (t_return (Some (snapshot_of v t))))))
       (\<lambda>err. t_return None)"

definition getCachedStatus_task :: "env \<Rightarrow> string \<Rightarrow> (world, status_snapshot option) task" where
  "getCachedStatus_task env videoId =
     t_bind
       (atomic (io_try
          (io_bind (redis_get env (statusKey videoId)) (\<lambda>raw.
             case raw of
               None \<Rightarrow> io_return None
             | Some c \<Rightarrow> if c = NotJson [] then io_return None else parse_cached c))
          (\<lambda>err. io_return None)))
       (\<lambda>cached. case cached of Some s \<Rightarrow> t_return (Some s) | None \<Rightarrow> loadFromDb_task env videoId)"

section \<open>An attempt of a worker\<close>

definition finish_video_task ::
  "env \<Rightarrow> storage_service \<Rightarrow> queue_job \<Rightarrow> string \<Rightarrow> generate_result \<Rightarrow> (world, unit) task" where
  "finish_video_task env storage job videoId result =
     t_bind
       (if g_alreadyStored result = Some True then t_return (the (g_videoUrl result))
        else atomic (st_uploadFromUrl storage (the (g_videoUrl result)) (output_key videoId)))
       (\<lambda>storedUrl.
        t_bind (transitionStatus_task env videoId PROCESSING COMPLETED
                   \<lparr>x_videoUrl = Some storedUrl, x_thumbnailUrl = g_thumbnailUrl result,
                    x_metadata = Some completed_meta\<rparr>) (\<lambda>_.
        t_seq (atomic (job_updateProgress env job 100))
              (atomic (emit env (VideoCompleted videoId storedUrl (g_thumbnailUrl result))))))"

function poll_loop_task ::
  "env \<Rightarrow> ai_service \<Rightarrow> storage_service \<Rightarrow> queue_job \<Rightarrow> string \<Rightarrow> string \<Rightarrow> gen_status \<Rightarrow> nat \<Rightarrow>
   (world, unit) task"
where
  "poll_loop_task env ai storage job videoId aiJobId status pollAttempts =
     (if status = GenProcessing \<and> pollAttempts < max_poll_attempts
      then
        t_seq (atomic (sleep 10000)) (
        t_bind (atomic (ai_getGenerationStatus ai aiJobId)) (\<lambda>result.
        let n = pollAttempts + 1 in
        t_seq (updateProgress_task env videoId (poll_percent n) (poll_message n)
                  [''estimatedSecondsRemaining'' \<mapsto> JNum (poll_remaining n)]) (
        t_seq (atomic (job_updateProgress env job (poll_percent n))) (
        t_seq (atomic (emit env (VideoProgressUpdated videoId (poll_percent n) (poll_message n)))) (
        if truthy (g_videoUrl result) then finish_video_task env storage job videoId result
        else poll_loop_task env ai storage job videoId aiJobId (g_status result) n)))))
      else t_raise (JsError (''AI provider did not return a video after '' @
             show_nat pollAttempts @ '' polling attempts'')))"
  by pat_completeness auto
termination
  by (relation "measure (\<lambda>(_, _, _, _, _, _, _, n). max_poll_attempts - n)") auto

declare poll_loop_task.simps [simp del]

text \<open>What follows the announcement that the attempt has started.\<close>

definition generate_announced_task ::
  "env \<Rightarrow> ai_service \<Rightarrow> storage_service \<Rightarrow> queue_job \<Rightarrow> video \<Rightarrow> (world, unit) task" where
  "generate_announced_task env ai storage job video =
     (let videoId = j_videoId job in
      t_bind (atomic (ai_enhancePrompt ai (v_prompt video))) (\<lambda>enhancedPrompt.
      t_seq (updateProgress_task env videoId 20 ''Prompt enhanced, submitting to AI provider...'' (\<lambda>_. None)) (
      t_seq (atomic (job_updateProgress env job 20)) (
      t_bind (atomic (ai_generateVideo ai (params_of video enhancedPrompt) videoId)) (\<lambda>generationResult.
      t_seq (updateProgress_task env videoId 40 ''Job submitted, waiting for AI provider...''
                (submitted_meta generationResult)) (
      t_seq (atomic (job_updateProgress env job 40)) (
      poll_loop_task env ai storage job videoId (g_jobId generationResult) (g_status generationResult) 0)))))))"

definition generate_started_task ::
  "env \<Rightarrow> ai_service \<Rightarrow> storage_service \<Rightarrow> queue_job \<Rightarrow> video \<Rightarrow> (world, unit) task" where
  "generate_started_task env ai storage job video =
     t_seq (atomic (job_updateProgress env job 10)) (
     t_seq (atomic (emit env (VideoProcessingStarted (j_videoId job) (j_attemptsMade job + 1))))
       (generate_announced_task env ai storage job video))"

text \<open>What follows the read of the row.\<close>

definition generate_read_task ::
  "env \<Rightarrow> ai_service \<Rightarrow> storage_service \<Rightarrow> queue_job \<Rightarrow> video \<Rightarrow> (world, unit) task" where
  "generate_read_task env ai storage job video =
     t_bind (transitionStatus_task env (j_videoId job) (v_status video) PROCESSING start_extra) (\<lambda>started.
     if \<not> started then t_return () else generate_started_task env ai storage job video)"

definition fail_task :: "env \<Rightarrow> queue_job \<Rightarrow> exn \<Rightarrow> (world, unit) task" where
  "fail_task env job error =
     (let errorMessage = error_message error in
      t_seq
        (if isFinalAttempt job
         then t_seq (markFailed_task env (j_videoId job) errorMessage)
                (atomic (emit env (VideoFailed (j_videoId job) errorMessage (j_attemptsMade job + 1))))
         else t_return ())
        (t_raise error))"

definition process_task ::
  "env \<Rightarrow> ai_service \<Rightarrow> storage_service \<Rightarrow> queue_job \<Rightarrow> (world, unit) task" where
  "process_task env ai storage job =
     (if j_name job = GENERATE
      then t_try (t_bind (atomic (findById env (j_videoId job))) (generate_read_task env ai storage job))
             (fail_task env job)
      else t_return ())"

section \<open>The endpoints\<close>

definition createAndQueue_task :: "env \<Rightarrow> string \<Rightarrow> create_video_dto \<Rightarrow> (world, video) task" where
  "createAndQueue_task env userId dto =
     t_bind (atomic (db_insert_video env (new_video userId dto))) (\<lambda>saved.
     t_bind (atomic (queue_add env videos_module_job_defaults VIDEO_GENERATION_JOB (v_id saved)
                no_job_opts)) (\<lambda>job.
     t_bind (atomic (db_update_video env (v_id saved) (\<lambda>_. True)
                (\<lambda>v. v\<lparr>v_queueJobId := Some (j_id job)\<rparr>))) (\<lambda>_.
     t_seq (atomic (emit env (VideoCreated (v_id saved) userId (v_prompt saved) (j_id job))))
           (t_return (saved\<lparr>v_queueJobId := Some (j_id job)\<rparr>)))))"

definition update_task :: "env \<Rightarrow> string \<Rightarrow> string \<Rightarrow> update_video_dto \<Rightarrow> (world, video) task" where
  "update_task env k userId dto =
     t_bind (atomic (findOneForUser env k userId)) (\<lambda>v. atomic (db_save_video env v (uv_title dto)))"

definition remove_task :: "env \<Rightarrow> string \<Rightarrow> string \<Rightarrow> (world, unit) task" where
  "remove_task env k userId =
     t_bind (atomic (findOneForUser env k userId)) (\<lambda>v. atomic (db_delete_video env (v_id v)))"

definition retry_record_task ::
  "env \<Rightarrow> string \<Rightarrow> failed_job \<Rightarrow> (world, retry_failed_job_dto) task" where
  "retry_record_task env rid r =
     t_bind (atomic (db_update_video env (f_videoId r) (\<lambda>_. True) reset_fields)) (\<lambda>_.
     t_bind (atomic (queue_add env queue_module_job_defaults GENERATE (f_videoId r)
                \<lparr>o_attempts = Some 3, o_backoff = Some (''exponential'', 5000),
                 o_removeOnComplete = Some 100, o_removeOnFail = Some 500\<rparr>)) (\<lambda>job.
     t_bind (atomic current_time) (\<lambda>now.
     t_bind (atomic (db_update_video env (f_videoId r) (\<lambda>_. True)
                (\<lambda>v. v\<lparr>v_queueJobId := Some (j_id job)\<rparr>))) (\<lambda>_.
     t_bind (atomic (db_update_failed_job env rid
                (\<lambda>x. x\<lparr>f_retried := True, f_retriedAt := Some now,
                       f_retryJobId := Some (j_id job)\<rparr>))) (\<lambda>_.
     t_return \<lparr>rf_id = f_id r, rf_retryJobId = j_id job, rf_videoId = f_videoId r\<rparr>)))))"

definition retryFailedJob_task :: "env \<Rightarrow> string \<Rightarrow> (world, retry_failed_job_dto) task" where
  "retryFailedJob_task env rid =
     t_bind (atomic (db_find_failed_job env rid)) (\<lambda>found.
     case found of
       None \<Rightarrow> t_raise (NotFoundException (''DLQ record '' @ rid @ '' not found''))
     | Some r \<Rightarrow>
         if f_retried r
         then t_raise (ConflictException (''DLQ record '' @ rid @ '' was already retried at '' @
                (case f_retriedAt r of None \<Rightarrow> ''undefined'' | Some t \<Rightarrow> toISOString t)))
         else retry_record_task env rid r)"

definition register_task ::
  "env \<Rightarrow> 'tok auth_lib \<Rightarrow> jwt_config \<Rightarrow> register_dto \<Rightarrow> (world, 'tok token_pair) task" where
  "register_task env lib cfg dto =
     t_bind (atomic (user_findByEmail env (rg_email dto))) (\<lambda>existing.
     if existing \<noteq> None then t_raise (ConflictException ''Email already registered'')
     else
       t_bind (atomic (io_gets (\<lambda>w. bcrypt_hash lib (rg_password dto) hash_rounds (w_calls w)))) (\<lambda>hashedPassword.
       t_bind (atomic (user_create env
                  \<lparr>cu_firstName = rg_firstName dto, cu_lastName = rg_lastName dto, cu_email = rg_email dto,
                   cu_password = hashedPassword, cu_username = rg_username dto, cu_role = None\<rparr>)) (\<lambda>user.
       atomic (generateTokens lib cfg user))))"

definition user_update_task :: "env \<Rightarrow> string \<Rightarrow> update_user_dto \<Rightarrow> (world, safe_user) task" where
  "user_update_task env k dto = t_seq (atomic (db_update_user env k dto)) (atomic (user_findById env k))"

definition user_remove_task :: "env \<Rightarrow> string \<Rightarrow> (world, unit) task" where
  "user_remove_task env k = t_bind (atomic (user_findById env k)) (\<lambda>u. atomic (db_delete_user env (us_id u)))"

section \<open>Run alone, a task is the handler\<close>

lemma status_tasks [task_simps]:
  "run_task (transitionStatus_task env k from to x) = transitionStatus env k from to x"
  "run_task (updateProgress_task env k n m meta) = updateProgress env k n m meta"
  "run_task (markFailed_task env k e) = markFailed env k e"
  by (simp_all add: transitionStatus_task_def transitionStatus_def updateProgress_task_def updateProgress_def
      markFailed_task_def markFailed_def task_simps cong: if_cong option.case_cong)

lemma cache_tasks [task_simps]:
  "run_task (loadFromDb_task env k) = loadFromDb env k"
  "run_task (getCachedStatus_task env k) = getCachedStatus env k"
proof -
  show "run_task (loadFromDb_task env k) = loadFromDb env k" for k
    by (simp add: loadFromDb_task_def loadFromDb_def task_simps cong: if_cong option.case_cong)
  then show "run_task (getCachedStatus_task env k) = getCachedStatus env k"
    by (simp add: getCachedStatus_task_def getCachedStatus_def task_simps cong: if_cong option.case_cong)
qed

lemma finish_runs [task_simps]:
  "run_task (finish_video_task env storage job k result) = finish_video env storage job k result"
  by (simp add: finish_video_task_def finish_video_def task_simps cong: if_cong option.case_cong)

lemma poll_runs [task_simps]:
  "run_task (poll_loop_task env ai storage job k jid s n) = poll_loop env ai storage job k jid s n"
proof (induction env ai storage job k jid s n rule: poll_loop.induct)
  case (1 env ai storage job k jid s n)
  then show ?case
    by (simp add: poll_loop_task.simps [of env ai storage job k jid s n]
        poll_loop.simps [of env ai storage job k jid s n] task_simps Let_def cong: if_cong option.case_cong)
qed

lemma attempt_task: "run_task (process_task env ai storage job) = process env ai storage job"
  by (simp add: process_task_def generate_read_task_def fail_task_def generate_started_task_def
      generate_announced_task_def process_def handleVideoGeneration_def generate_body_def
      generate_started_def task_simps Let_def cong: if_cong option.case_cong)

lemma retry_task: "run_task (retry_record_task env rid r) = retry_record env rid r"
  by (simp add: retry_record_task_def retry_record_def task_simps)

lemma endpoint_tasks:
  "run_task (createAndQueue_task env u dto) = createAndQueue env u dto"
  "run_task (update_task env k u edits) = update env k u edits"
  "run_task (remove_task env k u) = remove env k u"
  "run_task (retryFailedJob_task env rid) = retryFailedJob env rid"
  by (simp_all add: createAndQueue_task_def createAndQueue_def update_task_def update_def remove_task_def
      remove_def retryFailedJob_task_def retryFailedJob_def retry_task task_simps cong: if_cong option.case_cong)

lemma account_tasks:
  "run_task (register_task env lib cfg form) = register env lib cfg form"
  "run_task (user_update_task env k edits') = user_update env k edits'"
  "run_task (user_remove_task env k) = user_remove env k"
  by (simp_all add: register_task_def register_def user_update_task_def user_update_def user_remove_task_def
      user_remove_def task_simps cong: if_cong option.case_cong)

end
