(* ===== verification/Interleaving.thy ===== *)
theory Interleaving
  imports Task_Programs Pipeline
begin

text \<open>
  What the steps of the tasks guarantee: the conditions under which a relation is kept by every
  step of an attempt, whatever happens between the steps (the locale \<open>worker_protocol\<close>), and the
  relations that meet them; and the tasks of the program, each of whose steps keeps the invariant
  of the state.
\<close>

section \<open>Steps of an attempt\<close>

definition is_start :: "video_event \<Rightarrow> bool" where
  "is_start ev = (case ev of VideoProcessingStarted _ _ \<Rightarrow> True | _ \<Rightarrow> False)"

lemma is_start_simps [simp]:
  "is_start (VideoProcessingStarted k a)" "\<not> is_start (VideoCreated k u p q)"
  "\<not> is_start (VideoProgressUpdated k n m)" "\<not> is_start (VideoCompleted k url th)"
  "\<not> is_start (VideoFailed k m a)"
  by (simp_all add: is_start_def)

locale worker_protocol = world_preorder R for R :: "world \<Rightarrow> world \<Rightarrow> bool" +
  fixes k :: string
  assumes on_business: "keeps business_state w w' \<Longrightarrow> R w w'"
    and on_event: "\<not> is_start ev \<Longrightarrow> R w (w\<lparr>w_events := w_events w @ [ev], w_sent := ss\<rparr>)"
    and on_jobs: "R w (w\<lparr>w_jobs := update_key j_id jid (\<lambda>_. True)
                     (\<lambda>j. j\<lparr>j_progress := JNum p\<rparr>) (w_jobs w)\<rparr>)"
    and on_cache: "R w (w\<lparr>w_cache := ca\<rparr>)"
    and on_progress: "R w (after_progress env k n m additionalMeta w)"
    and on_start: "transition_allowed s PROCESSING \<Longrightarrow> R w (after_move env k s PROCESSING x w)"
    and on_complete: "x_videoUrl x \<noteq> None \<Longrightarrow> R w (after_move env k PROCESSING COMPLETED x w)"
    and on_fail: "R w (after_update env k (\<lambda>_. True) (failed_fields m) w)"
    and on_record: "find_failed_job (f_id r) (w_failed_jobs w) = None \<Longrightarrow> \<not> f_retried r \<Longrightarrow>
      f_retryJobId r = None \<Longrightarrow> R w (w\<lparr>w_failed_jobs := insert_row r (w_failed_jobs w)\<rparr>)"
begin

lemma ticked_step: "R w (ticked env w)"
  unfolding ticked_def by (rule tick)

lemma cache_write: "guarantee R (writeCache env k' s p m)"
  unfolding writeCache_def by (intro world_rules cache_set on_cache)

lemma progress_task: "always I R (updateProgress_task env k n m x)"
proof -
  have "guarantee R (db_update_video env k (\<lambda>v. v_status v = PROCESSING)
      (\<lambda>v. v\<lparr>v_metadata := Some (spread (progress_meta n m) x)\<rparr>))"
    using on_progress [unfolded progressed_def]
    by (intro guarantee_db_update_video ticked_step) simp
  then show ?thesis
    unfolding updateProgress_task_def by (intro always_seq always_atomic detach cache_write)
qed

lemma move_task:
  assumes "\<And>w. transition_allowed s t \<Longrightarrow> R w (after_move env k s t x w)"
  shows "always I R (transitionStatus_task env k s t x)"
  unfolding transitionStatus_task_def
  by (intro always_rules always_atomic detach cache_write guarantee_db_update_video ticked_step)
    (use assms in simp)

lemma job_task: "always I R (atomic (job_updateProgress env job n))"
  by (intro always_atomic job_progress on_jobs)

lemma quiet_emit: "quiet ev \<Longrightarrow> \<not> is_start ev \<Longrightarrow> guarantee R (emit env ev)"
  by (simp add: guarantee_def emit_quiet on_event)

lemma fail_emit: "guarantee R (emit env (VideoFailed k' m a))"
proof -
  have "guarantee R (db_insert_failed_job env (failed_job_of k' m a j))" for j
    unfolding db_insert_failed_job_def
    by (intro ext_call) (auto simp: guarantee_def Let_def refl failed_job_of_def intro: on_record)
  then have listener: "guarantee R (onVideoFailed env k' m a)"
    unfolding onVideoFailed_def by (intro world_rules db_find)
  have "R w (published env (VideoFailed k' m a) w)" for w
    unfolding published_def by (rule on_event) simp
  then have "R w (snd (onVideoFailed env k' m a (published env (VideoFailed k' m a) w)))" for w
    using listener trans unfolding guarantee_def by blast
  then show ?thesis
    using trans tick_now by (simp add: guarantee_def emit_failed) blast
qed

lemmas task_steps = always_rules always_atomic wait progress_task job_task quiet_emit

lemma mark_task: "always I R (markFailed_task env k m)"
  unfolding markFailed_task_def evictCache_def
  by (intro task_steps world_rules guarantee_db_update_video ticked_step on_fail cache_del on_cache)

lemma fail_steps: "j_videoId job = k \<Longrightarrow> always I R (fail_task env job e)"
  unfolding fail_task_def Let_def
  using mark_task fail_emit by (auto intro!: always_rules always_atomic)

lemma finish_task:
  assumes "generation_worker ai storage"
  shows "always I R (finish_video_task env storage job k result)"
proof -
  have up: "guarantee R (st_uploadFromUrl storage url key)" for url key
    using assms by (auto simp: generation_worker_def object_store_def intro: business on_business)
  show ?thesis
    unfolding finish_video_task_def
    by (intro task_steps up move_task on_complete) (simp_all add: quiet_def)
qed

lemma poll_task:
  assumes "generation_worker ai storage"
  shows "always I R (poll_loop_task env ai storage job k jid s n)"
proof (induction "max_poll_attempts - n" arbitrary: n s)
  case 0
  then show ?case by (subst poll_loop_task.simps) (simp add: always_return)
next
  case (Suc d)
  have poll: "guarantee R (ai_getGenerationStatus ai jid)"
    using assms by (auto simp: generation_worker_def ai_provider_def intro: business on_business)
  have again: "always I R (poll_loop_task env ai storage job k jid s' (Suc n))" for s'
    by (rule Suc.hyps(1)) (use Suc.hyps(2) in simp)
  have quiet: "quiet (VideoProgressUpdated k p m)" for p m by (simp add: quiet_def)
  show ?case
    by (subst poll_loop_task.simps)
      (auto simp: Let_def intro!: task_steps poll quiet again finish_task [OF assms])
qed

lemma announced_task:
  assumes "generation_worker ai storage" and "j_videoId job = k"
  shows "always I R (generate_announced_task env ai storage job v)"
proof -
  have ai: "guarantee R (ai_enhancePrompt ai p)" "guarantee R (ai_generateVideo ai ps k)" for p ps
    using assms(1) by (auto simp: generation_worker_def ai_provider_def intro: business on_business)
  show ?thesis
    unfolding generate_announced_task_def Let_def assms(2)
    by (intro task_steps ai poll_task [OF assms(1)])
qed

end

text \<open>A relation that the announcement of the start keeps as well.\<close>

locale attempt_protocol = worker_protocol +
  assumes on_started: "R w (w\<lparr>w_events := w_events w @ [VideoProcessingStarted k a], w_sent := ss\<rparr>)"
begin

lemma started_emit: "guarantee R (emit env (VideoProcessingStarted k a))"
  by (simp add: guarantee_def emit_quiet quiet_def on_started)

lemma process_steps:
  assumes "generation_worker ai storage" and "j_videoId job = k"
  shows "always I R (process_task env ai storage job)"
  unfolding process_task_def generate_read_task_def generate_started_task_def assms(2)
  by (intro task_steps find_by_id move_task on_start started_emit announced_task assms fail_steps)

end

section \<open>Relations kept by the steps of an attempt\<close>

text \<open>No row but the one of the video is touched.\<close>

interpretation steps_only_row: attempt_protocol "only_row k" k for k
  by unfold_locales (auto simp: only_row_def table_simps keeps_businessD)

interpretation keeps_row: effect_preorder "keeps (\<lambda>w. row w k)" for k
  by unfold_locales (simp_all add: keeps_def)

text \<open>
  The status of a video moves along the edges, and to \<open>FAILED\<close> from everywhere: the statement
  that marks a failure does not look at the status.
\<close>

definition moves :: "video_status \<Rightarrow> video_status \<Rightarrow> bool" where
  "moves s t \<longleftrightarrow> status_edge s t \<or> t = FAILED"

definition onward :: "world \<Rightarrow> world \<Rightarrow> bool" where
  "onward w w' \<longleftrightarrow>
     (\<forall>k s. statuses w k = Some s \<longrightarrow> (\<exists>t. statuses w' k = Some t \<and> moves\<^sup>*\<^sup>* s t))"

lemma onward_trans: "onward u v \<Longrightarrow> onward v w \<Longrightarrow> onward u w"
  unfolding onward_def by (meson rtranclp_trans)

lemma onward_eq: "statuses w' = statuses w \<Longrightarrow> onward w w'"
  by (auto simp: onward_def)

lemma onward_move:
  assumes "\<And>r. v_id (f r) = v_id r" and "\<And>r. p r \<Longrightarrow> moves (v_status r) (v_status (f r))"
  shows "onward w (after_update env k p f w)"
  unfolding onward_def
proof (intro allI impI)
  fix k' s
  assume "statuses w k' = Some s"
  then obtain v where v: "row w k' = Some v" "s = v_status v" by (auto simp: statuses_def status_of_def)
  let ?v = "if k' = k \<and> p v then touch (w_now (ticked env w)) f v else v"
  have "statuses (after_update env k p f w) k' = Some (v_status ?v)"
    using v by (cases "k' = k") (simp_all add: statuses_def status_of_def row_after_update [OF assms(1)])
  moreover have "moves\<^sup>*\<^sup>* s (v_status ?v)"
    using v assms(2) by (auto simp: touch_def)
  ultimately show "\<exists>t. statuses (after_update env k p f w) k' = Some t \<and> moves\<^sup>*\<^sup>* s t" by blast
qed

interpretation steps_onward: attempt_protocol onward k for k
proof
  show "onward u w" if "onward u v" "onward v w" for u v w
    using that by (rule onward_trans)
  show "onward w (after_move env k s PROCESSING x w)" if "transition_allowed s PROCESSING" for env k s x w
    using that by (intro onward_move) (auto simp: moves_def transition_allowed_iff)
  show "onward w (after_move env k PROCESSING COMPLETED x w)" for env k x w
    by (intro onward_move) (auto simp: moves_def)
  show "onward w (after_update env k (\<lambda>_. True) (failed_fields m) w)" for env k m w
    by (intro onward_move) (auto simp: moves_def)
  show "onward w (after_progress env k n m x w)" for env k n m x w
    by (rule onward_eq) (rule statuses_after_progress)
qed (auto intro!: onward_eq statuses_eq_row simp: keeps_businessD row_def fun_eq_iff)

interpretation steps_ok: attempt_protocol keeps_ok k for k
proof
  fix w jid p
  show "keeps_ok w (w\<lparr>w_jobs := update_key j_id jid (\<lambda>_. True) (\<lambda>j. j\<lparr>j_progress := JNum p\<rparr>) (w_jobs w)\<rparr>)"
    by (rule ok_job_progress)
next
  fix r :: failed_job and w :: world
  assume "find_failed_job (f_id r) (w_failed_jobs w) = None" "\<not> f_retried r" "f_retryJobId r = None"
  then show "keeps_ok w (w\<lparr>w_failed_jobs := insert_row r (w_failed_jobs w)\<rparr>)"
    by (auto simp: keeps_ok_def system_ok_def wf_world_def record_ok_def intro: failed_jobs.wf_ins)
qed (auto simp: row_ok_def ok_business intro!: ok_update, auto simp: keeps_ok_def)

section \<open>The tasks of the program\<close>

text \<open>
  The handlers of the API process and the attempts of the workers. A handler of one call, or one
  whose other calls do not touch the state, is one step.
\<close>

inductive program_task :: "(world, unit) task \<Rightarrow> bool" where
  create: "program_task (t_spawn (createAndQueue_task env u dto))"
| attempt: "program_task (process_task env (aiService env delay) (storageService env cfg) job)"
| retry: "program_task (t_spawn (retryFailedJob_task env rid))"
| rename: "program_task (t_spawn (update_task env k u changes))"
| delete: "program_task (remove_task env k u)"
| status: "program_task (t_spawn (getCachedStatus_task env k))"
| result: "program_task (t_spawn (atomic (videos_getResult env lib (storageService env cfg) u k ttl)))"
| account: "program_task (t_spawn (register_task env (auth :: string auth_lib) jwt form))"
| sign_in: "program_task (t_spawn (atomic (login_request env (auth :: string auth_lib) jwt email password)))"
| renew: "program_task (t_spawn (atomic (auth_refreshToken env (auth :: string auth_lib) jwt tok)))"
| admit: "program_task (t_spawn (atomic (jwt_canActivate env (auth :: string auth_lib) jwt public bearer)))"
| profile: "program_task (t_spawn (user_update_task env k edits))"
| leave: "program_task (user_remove_task env k)"
| chat: "program_task (t_spawn (atomic (snd (chat_handle env rq client))))"
| elapse: "program_task (atomic (io_modify (\<lambda>w. w\<lparr>w_now := w_now w + int ms\<rparr>)))"

inductive_cases program_taskE: "program_task t"

interpretation consistent: protocol system_ok keeps_ok
  by unfold_locales (simp add: keeps_ok_def)

lemma always_spawn: "always I R m \<Longrightarrow> always I R (t_spawn m)"
  unfolding t_spawn_def by (intro always_bind always_return)

lemma ok_create_task: "always I keeps_ok (createAndQueue_task env u dto)"
  unfolding createAndQueue_task_def
  by (intro always_rules always_atomic ok_insert_video ok_queue_add ok_update_video ok_emit)
    (auto simp: row_ok_def new_video_def touch_def)

lemma ok_retry_task: "always I keeps_ok (retryFailedJob_task env rid)"
  unfolding retryFailedJob_task_def retry_record_task_def
  by (intro always_rules always_atomic ok_find_failed_job ok_update_video ok_queue_add ok_update_failed_job ok.clock)
    (auto simp: row_ok_def touch_def record_ok_def)

text \<open>The row that is saved was loaded from a consistent state.\<close>

lemma ok_rename_task: "always system_ok keeps_ok (update_task env k u changes)"
  unfolding update_task_def
proof (rule follows_bind)
  have "guarantee keeps_ok (findOneForUser env k u)" by (rule ok_find_one)
  moreover have "ends row_ok (fst (findOneForUser env k u w))" if "system_ok w" for w
  proof (cases "findOneForUser env k u w")
    case (Pair r w')
    then show ?thesis
      using that find_one_row(2) [of env k u w _ w']
      by (cases r) (auto simp: system_ok_def find_video_def dest: select_key_SomeD)
  qed
  ultimately show "follows system_ok keeps_ok (ends row_ok) (atomic (findOneForUser env k u))"
    by (intro follows_basic) (simp add: guarantee_def)
  show "always system_ok keeps_ok (atomic (db_save_video env v t))" if "row_ok v" for v t
    using that by (intro always_atomic ok_save)
qed simp

lemma ok_delete_task: "always I keeps_ok (remove_task env k u)"
  unfolding remove_task_def by (intro always_bind always_atomic ok_find_one ok_delete_video)

lemma ok_status_task: "always I keeps_ok (getCachedStatus_task env k)"
proof -
  have parse: "guarantee keeps_ok (parse_cached c)" for c
    unfolding parse_cached_def by (cases c) (simp_all add: ok.return ok.raise)
  show ?thesis
    unfolding getCachedStatus_task_def loadFromDb_task_def
    by (auto intro!: always_rules always_atomic ok.world_rules ok.db_find ok.cache_get ok_status_write parse
        split: option.split)
qed

lemma ok_register_task: "always I keeps_ok (register_task env lib jwt form)"
  unfolding register_task_def user_create_def
  by (intro always_rules always_atomic ok_lookup ok_insert_user ok_tokens ok.gets) simp

lemma ok_user_tasks:
  "always I keeps_ok (user_update_task env k edits)" "always I keeps_ok (user_remove_task env k)"
  unfolding user_update_task_def user_remove_task_def
  by (intro always_bind always_seq always_atomic ok_lookup ok_update_user ok_delete_user)+

lemma ok_process_task: "always I keeps_ok (process_task env (aiService env delay) (storageService env cfg) job)"
  by (rule steps_ok.process_steps) (unfold_locales, rule refl)

lemma program_task_ok: "program_task t \<Longrightarrow> always system_ok keeps_ok t"
  by (elim program_taskE)
    (auto intro!: always_spawn always_atomic ok_create_task ok_process_task ok_retry_task ok_rename_task
      ok_delete_task ok_status_task ok_result ok_register_task ok_login ok_refresh ok_guard ok_user_tasks
      ok_chat_handle ok.modify, simp_all add: keeps_ok_def)

section \<open>Reachable states\<close>

text \<open>The states that some tasks of the program reach under some schedule.\<close>

definition reachable :: "world \<Rightarrow> bool" where
  "reachable w \<longleftrightarrow>
     (\<exists>ts is. (\<forall>t \<in> set ts. program_task t) \<and> w = snd (interleave is (ts, initial_world)))"

lemma reachable_initial: "reachable initial_world"
  unfolding reachable_def by (rule exI [of _ "[]"], rule exI [of _ "[]"]) simp

lemma reachable_ok:
  assumes "reachable w"
  shows "system_ok w"
proof -
  obtain ts js where pool: "\<forall>t \<in> set ts. program_task t" and w: "w = snd (interleave js (ts, initial_world))"
    using assms by (auto simp: reachable_def)
  have "consistent.obey ts"
    using pool by (auto simp: consistent.obey_def program_task_ok)
  from consistent.obey_interleave [OF this initial_ok, of js] w show ?thesis
    by (metis prod.collapse)
qed

text \<open>A handler that runs without interruption leads from a reachable state to another one.\<close>

lemma reachable_run:
  assumes "reachable w" and "program_task t"
  shows "reachable (snd (run_task t w))"
proof -
  obtain ts js where pool: "\<forall>t \<in> set ts. program_task t" and w: "w = snd (interleave js (ts, initial_world))"
    using assms by (auto simp: reachable_def)
  obtain ts1 where s: "interleave js (ts, initial_world) = (ts1, w)" using w by (metis prod.collapse)
  let ?js = "filter (\<lambda>i. i < length ts) js @ replicate (steps_alone t w) (length ts)"
  have "length ts1 = length ts" using interleave_length [of js "(ts, initial_world)"] s by simp
  then have "snd (run_task t w) = snd (interleave ?js (ts @ [t], initial_world))"
    using interleave_alone [of "length ts" "ts1 @ [t]" w] interleave_extend [of ts "length ts" js "[t]" initial_world] s
    by (simp add: interleave_append nth_append)
  with pool assms(2) show ?thesis
    unfolding reachable_def by (intro exI [of _ "ts @ [t]"] exI [of _ ?js]) auto
qed

end
