(* ===== verification/Http_Facts.thy ===== *)
theory Http_Facts
  imports Http Interleaving
begin

text \<open>
  Lemmas on requests: which exceptions the handlers can throw, who gets past the guards, and
  which states a request can lead to.
\<close>

section \<open>Exceptions of the handlers\<close>

text \<open>
  The statuses the API answers with, but for the health check; an internal error has one of two fixed texts, none of which
  comes from a driver.
\<close>

definition api_exn :: "exn \<Rightarrow> bool" where
  "api_exn e \<longleftrightarrow> exception_status e \<in> {400, 401, 403, 404, 409, 429, 500} \<and>
     (exception_status e = 500 \<longrightarrow>
        exception_text e \<in> {Message ''Internal server error'', Message ''Failed to generate download URL''})"

context error_class
begin

lemma jwt_guard:
  assumes "\<And>m. E (unauthorized m)" and "\<And>k. E (user_not_found k)"
  shows "throws E (jwt_canActivate env lib jwt public bearer)"
proof -
  have "throws E (user_findById env k)" for k
    unfolding user_findById_def by (auto intro!: rules assms split: option.split)
  then have strategy: "throws E (jwt_strategy_validate env pl)" for pl
    unfolding jwt_strategy_validate_def by (auto intro!: rules assms)
  have caught: "io_bind (io_try (io_bind m (\<lambda>u. io_return (Inr u))) (\<lambda>e. io_return (Inl e)))
      (\<lambda>r. case r of Inl e \<Rightarrow> handleRequest (Some e) None | Inr u \<Rightarrow> handleRequest None (Some u)) = m"
    for m :: "safe_user act"
    by (auto simp: fun_eq_iff io_bind_def io_try_def handleRequest_def split: prod.split sum.split)
  show ?thesis
    unfolding jwt_canActivate_def passport_jwt_def caught
    by (auto intro!: rules strategy assms simp: handleRequest_def split: option.split)
qed

end

interpretation api: error_class api_exn
  by unfold_locales (simp add: api_exn_def)

lemma api_exn_simps [simp]:
  "api_exn (JsError m)" "api_exn (NotFoundException m)" "api_exn ForbiddenException" "api_exn (ConflictException m)"
  "api_exn (UnauthorizedException m)" "api_exn (BadRequestException ms)" "api_exn (video_not_found k)"
  "api_exn (user_not_found k)" "api_exn (unauthorized m)" "api_exn duplicate_key" "api_exn null_violation"
  by (simp_all add: api_exn_def video_not_found_def user_not_found_def unauthorized_def duplicate_key_def
      null_violation_def)

lemma throws_users:
  "throws api_exn (user_findById env k)" "throws api_exn (user_findByEmail env e)" "throws api_exn (user_findAll env)"
  "throws api_exn (user_create env dto)" "throws api_exn (user_update env k edits)" "throws api_exn (user_remove env k)"
proof -
  have stmts: "throws api_exn (db_insert_user env u)" "throws api_exn (db_update_user env k edits)"
    "throws api_exn (db_delete_user env k)" for u k
    unfolding db_insert_user_def db_update_user_def db_delete_user_def
    by (intro api.call; auto simp: throws_def Let_def split: option.splits if_splits)+
  show find: "throws api_exn (user_findById env k)" for k
    unfolding user_findById_def by (auto intro!: api.rules split: option.split)
  show "throws api_exn (user_findByEmail env e)" "throws api_exn (user_findAll env)"
    "throws api_exn (user_create env dto)" "throws api_exn (user_update env k edits)"
    "throws api_exn (user_remove env k)"
    unfolding user_findByEmail_def user_findAll_def user_create_def user_update_def user_remove_def
    by (intro api.rules stmts find)+
qed

lemma throws_tokens: "throws api_exn (generateTokens lib jwt u)"
  unfolding generateTokens_def Let_def by (intro api.rules)

lemma throws_auth:
  "throws api_exn (auth_register env lib jwt form)" "throws api_exn (local_guard env lib email password)"
  "throws api_exn (auth_login lib jwt u)" "throws api_exn (auth_refreshToken env lib jwt tok)"
  "throws api_exn (jwt_canActivate env lib jwt public bearer)"
proof -
  show "throws api_exn (auth_register env lib jwt form)"
    unfolding auth_register_def register_def by (intro api.rules throws_users throws_tokens) simp
  show "throws api_exn (local_guard env lib email password)"
    unfolding local_guard_def local_strategy_validate_def validateUser_def
    by (auto intro!: api.rules throws_users split: option.split)
  show "throws api_exn (auth_login lib jwt u)"
    unfolding auth_login_def login_def by (rule throws_tokens)
  show "throws api_exn (auth_refreshToken env lib jwt tok)"
    unfolding auth_refreshToken_def refreshToken_def by (intro api.rules) simp
  show "throws api_exn (jwt_canActivate env lib jwt public bearer)"
    by (rule api.jwt_guard) simp_all
qed

lemma throws_find_one: "throws api_exn (findOneForUser env k u)"
  unfolding findOneForUser_def by (auto intro!: api.rules split: option.split)

lemma throws_emit: "throws api_exn (emit env ev)"
  unfolding emit_def by (auto intro!: api.rules simp: on_gateway_def split: video_event.split)

lemma throws_videos:
  "throws api_exn (videos_create env u dto)" "throws api_exn (videos_findAll env u st page limit)"
  "throws api_exn (videos_getStatus env u k)"
  "throws api_exn (videos_getResult env lib (storageService env cfg) u k ttl)"
  "throws api_exn (videos_update env u k edits)" "throws api_exn (videos_remove env u k)"
proof -
  show "throws api_exn (videos_create env u dto)"
    unfolding videos_create_def createAndQueue_def by (intro api.rules throws_emit)
  show "throws api_exn (videos_findAll env u st page limit)"
    unfolding videos_findAll_def findAllForUser_def
    by (intro api.call) (auto simp: throws_def Let_def select_page_def split: sum.splits if_splits)
  show "throws api_exn (videos_getStatus env u k)"
    unfolding videos_getStatus_def by (intro api.rules throws_find_one)
  have presign: "throws api_exn (st_getPresignedDownloadUrl (storageService env cfg) key n)" for key n
    unfolding storageService_def getPresignedDownloadUrl_def Let_def
    by (simp, intro api.rules) (simp add: api_exn_def)
  show "throws api_exn (videos_getResult env lib (storageService env cfg) u k ttl)"
    unfolding videos_getResult_def getVideoResult_def Let_def
    by (intro api.rules throws_find_one presign) simp
  have "throws api_exn (db_save_video env v t)" for v t
    unfolding db_save_video_def save_row_def foreign_key_violation_def null_violation_def
    by (intro api.call) (auto simp: throws_def Let_def api_exn_def split: option.splits if_splits)
  then show "throws api_exn (videos_update env u k edits)"
    unfolding videos_update_def update_def by (intro api.rules throws_find_one)
  show "throws api_exn (videos_remove env u k)"
    unfolding videos_remove_def remove_def by (intro api.rules throws_find_one)
qed

lemma throws_queue:
  "throws api_exn (queue_getJobStatus env jid)" "throws api_exn (queue_listFailedJobs env page limit)"
  "throws api_exn (queue_retryFailedJob env rid)" "throws api_exn (queue_getFailedJob env rid)"
proof -
  have find: "throws api_exn (db_find_failed_job env rid)"
    and upd: "throws api_exn (db_update_failed_job env rid f)" for f
    unfolding db_find_failed_job_def db_update_failed_job_def by (intro api.rules; simp add: throws_def)+
  show "throws api_exn (queue_getJobStatus env jid)"
    unfolding queue_getJobStatus_def getJobStatus_def queue_getJob_def job_getState_def
    by (auto intro!: api.rules split: option.split)
  show "throws api_exn (queue_listFailedJobs env page limit)"
    unfolding queue_listFailedJobs_def listFailedJobs_def Let_def
    by (intro api.call) (auto simp: throws_def select_page_def split: sum.splits if_splits)
  show "throws api_exn (queue_retryFailedJob env rid)"
    unfolding queue_retryFailedJob_def retryFailedJob_def retry_record_def
    by (auto intro!: api.rules find upd split: option.split)
  show "throws api_exn (queue_getFailedJob env rid)"
    unfolding queue_getFailedJob_def getFailedJob_def by (auto intro!: api.rules find split: option.split)
qed

text \<open>Every exception of a request is of the class.\<close>

lemma throws_pipe: "throws api_exn (from_pipe (validation_pipe vl rules b))"
  unfolding from_pipe_def validation_pipe_def by (auto intro: api.rules)

lemma throws_uuid: "throws api_exn (parse_uuid srv k)"
  unfolding parse_uuid_def by (intro api.rules) (simp add: api_exn_def)

lemma throws_with_user: "(\<And>u. throws api_exn (f u)) \<Longrightarrow> throws api_exn (with_user me f)"
  unfolding with_user_def by (auto intro: api.rules split: option.split)

lemma throws_guard: "throws api_exn (run_guard srv cl p g)"
proof (cases g)
  case ThrottlerGuard
  then show ?thesis by (auto intro!: api.rules simp: api_exn_def)
next
  case JwtAuthGuard
  then show ?thesis by (auto intro!: api.rules throws_auth)
next
  case RolesGuard
  then show ?thesis by (auto intro!: api.rules simp: api_exn_def)
next
  case LocalAuthGuard
  then show ?thesis
    by (cases "cl_request cl" rule: request.exhaust; cases "case cl_request cl of AuthRq r \<Rightarrow> r")
      (auto intro!: api.rules throws_auth split: auth_request.split)
qed

text \<open>
  The health check, as \<open>terminus\<close> documents it: it answers if every indicator does, and is a 503
  otherwise; a ping is a query.
\<close>

definition terminus_ok :: "env \<Rightarrow> (unit act list \<Rightarrow> 'a act) \<Rightarrow> (string \<Rightarrow> unit act) \<Rightarrow> bool" where
  "terminus_ok env healthCheck pingCheck \<longleftrightarrow>
     (\<forall>f w. case f w of
        (Inr _, w') \<Rightarrow> \<exists>a. healthCheck [f] w = (Inr a, w')
      | (Inl _, w') \<Rightarrow> \<exists>m. healthCheck [f] w = (Inl (HttpException 503 m), w')) \<and>
     (\<forall>name. pingCheck name = external env Database (io_return ()))"

lemma check_cases:
  assumes "terminus_ok env healthCheck pingCheck"
  shows "if e_outcome env Database (w_calls w) = Served then \<exists>a. check healthCheck pingCheck w = (Inr a, ticked env w)
    else \<exists>m. check healthCheck pingCheck w = (Inl (HttpException 503 m), ticked env w)"
proof -
  let ?ping = "external env Database (io_return ())"
  from assms have ping: "pingCheck ''database'' = ?ping" and "case ?ping w of
      (Inr _, w') \<Rightarrow> \<exists>a. healthCheck [?ping] w = (Inr a, w')
    | (Inl _, w') \<Rightarrow> \<exists>m. healthCheck [?ping] w = (Inl (HttpException 503 m), w')"
    by (simp_all add: terminus_ok_def)
  then show ?thesis
    by (auto simp: check_def ping external_cases io_return_def split: outcome.splits)
qed

text \<open>An instance.\<close>

definition sample_check :: "unit act list \<Rightarrow> string act" where
  "sample_check fs = io_try (io_seq (hd fs) (io_return ''ok'')) (\<lambda>e. io_raise (HttpException 503 ''Service Unavailable''))"

definition sample_ping :: "env \<Rightarrow> string \<Rightarrow> unit act" where
  "sample_ping env name = external env Database (io_return ())"

lemma sample_check_ok [simp]: "terminus_ok env sample_check (sample_ping env)"
  by (auto simp: terminus_ok_def sample_check_def sample_ping_def io_simps io_try_def io_seq_def io_bind_def
      split: prod.split sum.split)

lemma throws_handler:
  assumes "rq \<noteq> HealthRq"
  shows "throws api_exn (handler_of srv p rq)"
proof (cases rq)
  case (AuthRq r)
  then show ?thesis
    by (cases r) (auto intro!: api.rules throws_pipe throws_auth
        simp: auth_getProfile_def auth_logout_def throws_def [of _ "Pair _"] split: principal.split option.split)
next
  case (UsersRq r)
  then show ?thesis
    by (cases r) (auto intro!: api.rules throws_pipe throws_uuid throws_with_user throws_users
        simp: users_getMe_def users_updateMe_def users_findAll_def users_findOne_def users_remove_def)
next
  case (VideosRq r)
  then show ?thesis
    by (cases r) (auto intro!: api.rules throws_pipe throws_uuid throws_with_user throws_videos)
next
  case (QueueRq r)
  then show ?thesis by (cases r) (auto intro!: api.rules throws_queue)
qed (use assms in simp)

lemma throws_guards: "throws api_exn (run_guards srv cl gs p)"
  by (induction gs arbitrary: p) (auto intro!: api.rules throws_guard)

lemma serve_throws:
  assumes "terminus_ok (sv_env srv) (sv_healthCheck srv) (sv_pingCheck srv)" and "serve srv cl w = (Inl e, w')"
  shows "api_exn e \<or>
    (cl_request cl = HealthRq \<and> e_outcome (sv_env srv) Database (w_calls w' - 1) \<noteq> Served \<and> (\<exists>m. e = HttpException 503 m))"
proof (cases "cl_request cl = HealthRq")
  case False
  then have "throws api_exn (serve srv cl)"
    unfolding serve_def by (intro api.rules throws_guards throws_handler)
  with assms(2) show ?thesis by (simp add: throwsD)
next
  case True
  let ?gs = "sv_guards srv @ route_guards (route_of (cl_request cl))"
  obtain r w1 where guards: "run_guards srv cl ?gs Anonymous w = (r, w1)" by fastforce
  show ?thesis
  proof (cases r)
    case (Inl e')
    with guards assms(2) have "e = e'" by (simp add: serve_def io_bind_def)
    with throwsD [OF throws_guards guards [unfolded Inl]] show ?thesis by simp
  next
    case (Inr p)
    with guards assms(2) True have "check (sv_healthCheck srv) (sv_pingCheck srv) w1 = (Inl e, w')"
      by (auto simp: serve_def io_bind_def split: prod.splits sum.splits)
    with check_cases [OF assms(1), of w1] True show ?thesis by (auto split: if_splits)
  qed
qed

section \<open>Guards\<close>

text \<open>The server as \<open>AppModule\<close> wires it, and with the authentication guard registered as well.\<close>

lemma serve_as_wired:
  assumes "sv_guards srv = app_guards"
  shows "serve srv cl w =
    (if sv_admits srv (route_of (cl_request cl)) (w_now w)
     then io_bind (run_guards srv cl (route_guards (route_of (cl_request cl))) Anonymous)
            (\<lambda>p. handler_of srv p (cl_request cl)) w
     else (Inl (HttpException 429 ''ThrottlerException: Too Many Requests''), w))"
  using assms by (simp add: serve_def app_guards_def current_time_def io_bind_def)

definition documented_guards :: "guard list" where
  "documented_guards = [ThrottlerGuard, JwtAuthGuard]"

lemma serve_guarded_InrD:
  assumes lib: "auth_lib_ok (sv_auth srv)" and guards: "sv_guards srv = documented_guards"
    and restricted: "\<not> rt_public (route_of (cl_request cl))" "\<not> rt_local (route_of (cl_request cl))"
    and run: "serve srv cl w = (Inr a, w')"
  shows "\<exists>tok pl e t u. cl_bearer cl = Some tok \<and> tok = jwt_sign (sv_auth srv) pl (jc_secret (sv_jwt srv)) e t \<and>
    w_now w div 1000 < t div 1000 + jwt_lifetime (sv_auth srv) e \<and>
    find_user (tk_sub pl) (w_users w) = Some u \<and> us_isActive u \<and>
    roles_canActivate (rt_roles (route_of (cl_request cl))) (Some (safeFields u)) \<and>
    (\<exists>w1. handler_of srv (Verified (safeFields u)) (cl_request cl) w1 = (Inr a, w'))"
proof -
  let ?admit = "jwt_canActivate (sv_env srv) (sv_auth srv) (sv_jwt srv) False (cl_bearer cl)"
  obtain found w1 where found: "?admit w = (Inr found, w1)"
    and rest: "io_bind (run_guards srv cl (route_guards (route_of (cl_request cl)))
        (case found of None \<Rightarrow> Anonymous | Some u \<Rightarrow> Verified u))
      (\<lambda>p. handler_of srv p (cl_request cl)) w1 = (Inr a, w')"
    using run guards restricted
    by (auto simp: serve_def documented_guards_def current_time_def io_bind_def split: prod.splits sum.splits if_splits)
  obtain tok pl e t u where u: "cl_bearer cl = Some tok" "tok = jwt_sign (sv_auth srv) pl (jc_secret (sv_jwt srv)) e t"
    "w_now w div 1000 < t div 1000 + jwt_lifetime (sv_auth srv) e"
    "find_user (tk_sub pl) (w_users w) = Some u" "us_isActive u" "found = Some (safeFields u)"
    using jwt_admitted [OF lib found] by blast
  have "roles_canActivate (rt_roles (route_of (cl_request cl))) (Some (safeFields u)) \<and>
      handler_of srv (Verified (safeFields u)) (cl_request cl) w1 = (Inr a, w')"
    using rest restricted(2) u(6)
    by (auto simp: route_guards_def io_bind_def roles_canActivate_def [of None] split: if_splits prod.splits sum.splits)
  with u show ?thesis by blast
qed

text \<open>
  A route with required roles, with the guards as wired or as documented: while no user of the
  table has the role, the guards refuse every request, and have only read.
\<close>

definition refusal :: "exn \<Rightarrow> bool" where
  "refusal e \<longleftrightarrow> exception_status e \<in> {401, 403, 404, 429, 500}"

interpretation refusals: error_class refusal
  by unfold_locales (simp add: refusal_def)

context world_preorder
begin

lemma jwt_guard: "guarantee R (jwt_canActivate env lib jwt public bearer)"
  unfolding jwt_canActivate_def passport_jwt_def jwt_strategy_validate_def user_findById_def handleRequest_def
  by (auto intro!: world_rules split: option.split sum.split)

lemma access_guards: "g \<noteq> LocalAuthGuard \<Longrightarrow> guarantee R (run_guard srv cl p g)"
  by (cases g) (auto intro!: world_rules jwt_guard)

lemma access_chain: "LocalAuthGuard \<notin> set gs \<Longrightarrow> guarantee R (run_guards srv cl gs p)"
  by (induction gs arbitrary: p) (auto intro!: rules access_guards)

end

lemma access_refuses: "LocalAuthGuard \<notin> set gs \<Longrightarrow> throws refusal (run_guards srv cl gs p)"
proof (induction gs arbitrary: p)
  case (Cons g gs)
  have "throws refusal (run_guard srv cl q g)" for q
    using Cons.prems
    by (cases g) (auto intro!: refusals.rules refusals.jwt_guard simp: refusal_def unauthorized_def user_not_found_def)
  with Cons show ?case by (auto intro!: refusals.rules)
qed (auto intro: refusals.rules)

lemma roles_refused:
  assumes "auth_lib_ok (sv_auth srv)" and "sv_guards srv \<in> {app_guards, documented_guards}"
    and "rt_roles (route_of (cl_request cl)) = Some rs" and "\<not> rt_public (route_of (cl_request cl))"
    and "\<not> rt_local (route_of (cl_request cl))" and "\<And>u. u \<in> set (w_users w) \<Longrightarrow> us_role u \<notin> set rs"
  shows "\<exists>e w'. serve srv cl w = (Inl e, w') \<and> refusal e \<and> business_state w' = business_state w"
proof -
  let ?gs = "sv_guards srv @ route_guards (route_of (cl_request cl))"
  have gs: "LocalAuthGuard \<notin> set ?gs"
    using assms(2,5) by (auto simp: route_guards_def app_guards_def documented_guards_def)
  obtain r w' where run: "run_guards srv cl ?gs Anonymous w = (r, w')" by fastforce
  have "\<exists>e. r = Inl e"
  proof (cases r)
    case (Inr p)
    have roles: "run_guard srv cl q RolesGuard u =
        (if \<exists>su. current_user q = Some su \<and> us_role su \<in> set rs then (Inr q, u)
         else (Inl (HttpException 403 ''Forbidden resource''), u))" for q u
      by (cases "current_user q") (auto simp: assms(3) roles_canActivate_def list_ex_iff)
    show ?thesis
    proof (cases "sv_guards srv = app_guards")
      case True
      with run assms(3,5) Inr roles [of Anonymous] show ?thesis
        by (auto simp: app_guards_def route_guards_def io_bind_def current_time_def split: if_splits)
    next
      case False
      with assms(2) have "sv_guards srv = documented_guards" by simp
      with run assms(3,4,5) Inr obtain found w1 where
        found: "jwt_canActivate (sv_env srv) (sv_auth srv) (sv_jwt srv) False (cl_bearer cl) w = (Inr found, w1)"
        and "fst (run_guard srv cl (case found of None \<Rightarrow> Anonymous | Some u \<Rightarrow> Verified u) RolesGuard w1) = Inr p"
        by (auto simp: documented_guards_def route_guards_def io_bind_def current_time_def
            split: prod.splits sum.splits if_splits)
      with jwt_admitted [OF assms(1) found] assms(6) show ?thesis
        by (auto simp: assms(3) roles_canActivate_def list_ex_iff dest!: find_user_SomeD split: if_splits)
    qed
  qed simp
  then obtain e where e: "r = Inl e" by blast
  with run have "serve srv cl w = (Inl e, w')" by (simp add: serve_def io_bind_def)
  moreover have "refusal e" using throwsD [OF access_refuses [OF gs] run [unfolded e]] .
  moreover have "business_state w' = business_state w"
    using guaranteeD [OF keeps_business.access_chain [OF gs] run] by (simp add: keeps_def)
  ultimately show ?thesis by blast
qed

lemma handle_Reply: "handle srv cl w = (Reply s a, w') \<Longrightarrow> \<exists>b. serve srv cl w = (Inr b, w') \<and>
    s = rt_status (route_of (cl_request cl)) \<and> ar_data a = b"
  by (auto simp: handle_def intercept_def Let_def split: prod.splits sum.splits)

lemma required_roles:
  "rt_roles (route_of rq) = None \<or> rt_roles (route_of rq) = Some [ADMIN]"
  "rt_roles (route_of rq) = Some rs \<Longrightarrow> \<not> rt_public (route_of rq) \<and> \<not> rt_local (route_of rq)"
proof -
  have "(rt_roles (route_of rq) = None \<or> rt_roles (route_of rq) = Some [ADMIN]) \<and>
    (rt_roles (route_of rq) \<noteq> None \<longrightarrow> \<not> rt_public (route_of rq) \<and> \<not> rt_local (route_of rq))"
  proof (cases rq)
    case (AuthRq r) then show ?thesis by (cases r) (simp_all add: route_at_def)
  next
    case (UsersRq r) then show ?thesis by (cases r) (simp_all add: route_at_def)
  next
    case (VideosRq r) then show ?thesis by (cases r) (simp_all add: route_at_def)
  next
    case (QueueRq r) then show ?thesis by (cases r) (simp_all add: route_at_def)
  next
    case HealthRq then show ?thesis by (simp add: health_route_def route_at_def)
  qed
  then show "rt_roles (route_of rq) = None \<or> rt_roles (route_of rq) = Some [ADMIN]"
    "rt_roles (route_of rq) = Some rs \<Longrightarrow> \<not> rt_public (route_of rq) \<and> \<not> rt_local (route_of rq)" by auto
qed

text \<open>A handler that needs a user and has none throws before it does anything.\<close>

lemma without_user [simp]:
  "with_user None f w = (Inl (JsError ''Cannot read properties of undefined (reading id)''), w)"
  by (simp add: with_user_def)

lemma from_pipe_state: "snd (from_pipe r w) = w"
  by (cases r) (simp_all add: from_pipe_def)

lemma from_pipe_bind:
  "io_bind (from_pipe r) f w = (case r of Inl e \<Rightarrow> (Inl e, w) | Inr a \<Rightarrow> f a w)"
  by (simp add: from_pipe_def io_bind_def split: sum.split)

lemma validation_pipe_Inl: "validation_pipe vl rules b = Inl e \<Longrightarrow> \<exists>ms. e = BadRequestException ms"
  by (auto simp: validation_pipe_def split: if_splits)

lemma parse_uuid_bind:
  "io_bind (parse_uuid srv k) f w =
     (if sv_is_uuid srv k then f k w
      else (Inl (HttpException 400 ''Validation failed (uuid is expected)''), w))"
  by (simp add: parse_uuid_def io_bind_def)

lemma anonymous_videos:
  "\<exists>e. videos_handler srv Anonymous r w = (Inl e, w) \<and> exception_status e \<in> {400, 500}"
  by (cases r)
    (auto simp: from_pipe_bind parse_uuid_bind io_bind_def [of "with_user None f" for f] split: sum.split
      dest: validation_pipe_Inl)

lemma anonymous_users:
  assumes "rt_roles (users_route r) = None"
  shows "\<exists>e. users_handler srv Anonymous r w = (Inl e, w) \<and> exception_status e \<in> {400, 500}"
  using assms
  by (cases r)
    (auto simp: from_pipe_bind users_getMe_def users_updateMe_def io_bind_def [of "with_user None f" for f]
      route_at_def split: sum.split dest: validation_pipe_Inl)

end
