(* ===== verification/Chat_Api.thy ===== *)
theory Chat_Api
  imports Chat Validation Samples
begin

text \<open>
  The messages a client of the chat sends, before they reach a handler: an event name with a JSON
  object, validated by the pipe of the gateway (modules/chat/chat.gateway.ts,
  \<open>ValidationPipe({ whitelist: true })\<close>). A rejected message is reported to the client and the
  session goes on; an event without a handler is ignored.
\<close>

section \<open>The pipe of the gateway\<close>

text \<open>Undeclared properties are dropped, not refused, and nothing is converted.\<close>

definition whitelist_pipe :: "validator \<Rightarrow> field_rule list \<Rightarrow> body \<Rightarrow> exn + meta" where
  "whitelist_pipe vl rules b =
     (let errors = concat (map (\<lambda>r. field_errors vl r b) rules) in
      if errors = [] then Inr (instance_of vl rules b) else Inl (BadRequestException errors))"

definition join_request :: "(string \<Rightarrow> chat_request) \<Rightarrow> validator \<Rightarrow> body \<Rightarrow> exn + chat_request" where
  "join_request f vl b =
     (case whitelist_pipe vl join_room_rules b of
        Inl e \<Rightarrow> Inl e
      | Inr m \<Rightarrow> Inr (f (or_else (str_at m ''room'') [])))"

definition send_request :: "validator \<Rightarrow> body \<Rightarrow> exn + chat_request" where
  "send_request vl b =
     (case whitelist_pipe vl send_message_rules b of
        Inl e \<Rightarrow> Inl e
      | Inr m \<Rightarrow> Inr (Send (or_else (str_at m ''room'') []) (or_else (str_at m ''content'') [])))"

text \<open>The request of an event; none for an event no handler subscribes to.\<close>

definition chat_event :: "validator \<Rightarrow> string \<times> body \<Rightarrow> (exn + chat_request) option" where
  "chat_event vl ev =
     (if fst ev = ''join_room'' then Some (join_request Join vl (snd ev))
      else if fst ev = ''leave_room'' then Some (join_request Leave vl (snd ev))
      else if fst ev = ''send_message'' then Some (send_request vl (snd ev))
      else None)"

definition chat_receive ::
  "env \<Rightarrow> validator \<Rightarrow> string \<times> body \<Rightarrow> chat_socket \<Rightarrow> chat_socket \<times> chat_reply option act" where
  "chat_receive env vl ev client =
     (case chat_event vl ev of
        None \<Rightarrow> (client, io_return None)
      | Some (Inl e) \<Rightarrow> (client, io_raise e)
      | Some (Inr rq) \<Rightarrow>
          (fst (chat_handle env rq client),
           io_bind (snd (chat_handle env rq client)) (\<lambda>reply. io_return (Some reply))))"

fun chat_stream ::
  "env \<Rightarrow> validator \<Rightarrow> (string \<times> body) list \<Rightarrow> chat_socket \<Rightarrow> world \<Rightarrow> chat_socket \<times> world" where
  "chat_stream env vl [] client w = (client, w)"
| "chat_stream env vl (ev # evs) client w =
     (let (client', handler) = chat_receive env vl ev client
      in chat_stream env vl evs client' (snd (handler w)))"

section \<open>The stream is the session of its accepted requests\<close>

definition accepted :: "validator \<Rightarrow> (string \<times> body) list \<Rightarrow> chat_request list" where
  "accepted vl evs = List.map_filter (\<lambda>ev. case chat_event vl ev of Some (Inr rq) \<Rightarrow> Some rq | _ \<Rightarrow> None) evs"

lemma snd_bind_return: "snd (io_bind m (\<lambda>a. io_return (f a)) w) = snd (m w)"
  by (auto simp: io_bind_def split: prod.split sum.split)

lemma chat_stream_session: "chat_stream env vl evs c w = chat_session env (accepted vl evs) c w"
proof (induction evs arbitrary: c w)
  case Nil
  then show ?case by (simp add: accepted_def List.map_filter_simps)
next
  case (Cons ev evs)
  then show ?case
    by (auto simp: chat_receive_def accepted_def List.map_filter_simps snd_bind_return Let_def split_def
        split: option.split sum.split)
qed

lemma accepted_iff: "rq \<in> set (accepted vl evs) \<longleftrightarrow> (\<exists>ev \<in> set evs. chat_event vl ev = Some (Inr rq))"
  by (force simp: accepted_def List.map_filter_def split: option.splits sum.splits)

text \<open>What the rules let through.\<close>

definition room_ok :: "validator \<Rightarrow> string \<Rightarrow> bool" where
  "room_ok vl room \<longleftrightarrow> room \<noteq> [] \<and> vl_length vl room \<le> 100"

definition content_ok :: "validator \<Rightarrow> string \<Rightarrow> bool" where
  "content_ok vl content \<longleftrightarrow> content \<noteq> [] \<and> vl_length vl content \<le> 1000"

lemma whitelist_pipe_cases:
  "whitelist_pipe vl rules b =
     (if \<forall>r \<in> set rules. field_errors vl r b = [] then Inr (instance_of vl rules b)
      else Inl (BadRequestException (concat (map (\<lambda>r. field_errors vl r b) rules))))"
  by (auto simp: whitelist_pipe_def Let_def)

text \<open>A message is accepted exactly if its declared properties are texts within the bounds.\<close>

lemma join_request_iff:
  "join_request f vl b = Inr rq \<longleftrightarrow>
     (\<exists>room. map_of b ''room'' = Some (JStr room) \<and> room_ok vl room \<and> rq = f room)"
  by (auto simp: join_request_def whitelist_pipe_cases join_room_rules_def required_field instance_of_def str_at_def
      room_ok_def split: if_splits)

lemma send_request_iff:
  "send_request vl b = Inr rq \<longleftrightarrow>
     (\<exists>room content. map_of b ''room'' = Some (JStr room) \<and> map_of b ''content'' = Some (JStr content) \<and>
        room_ok vl room \<and> content_ok vl content \<and> rq = Send room content)"
  by (auto simp: send_request_def whitelist_pipe_cases send_message_rules_def required_field instance_of_def str_at_def
      room_ok_def content_ok_def split: if_splits)

lemma accepted_send:
  assumes "Send room content \<in> set (accepted vl evs)"
  shows "room_ok vl room \<and> content_ok vl content \<and>
    (\<exists>b. (''send_message'', b) \<in> set evs \<and> map_of b ''room'' = Some (JStr room) \<and>
         map_of b ''content'' = Some (JStr content))"
proof -
  from assms obtain ev where "ev \<in> set evs" "chat_event vl ev = Some (Inr (Send room content))"
    by (auto simp: accepted_iff)
  then have "fst ev = ''send_message''" "room_ok vl room" "content_ok vl content"
    "map_of (snd ev) ''room'' = Some (JStr room)" "map_of (snd ev) ''content'' = Some (JStr content)"
    by (auto simp: chat_event_def join_request_iff send_request_iff split: if_splits)
  with \<open>ev \<in> set evs\<close> show ?thesis by (metis prod.collapse)
qed

section \<open>What a client can store\<close>

text \<open>C28: Whatever a client of the chat sends, and whatever calls fail, every message that its
  connection stores was asked for by an event \<open>send_message\<close> with that room and content; the room
  has 1 to 100 characters and the content 1 to 1000, as the columns of the table require. A
  message that the pipe accepts is handled, everything else leaves rooms and tables alone.\<close>

theorem chat_stores_checked_messages:
  assumes "chat_connect lib cfg sid token now = Inr c" and "chat_stream env vl evs c w = (c', w')"
  shows "(\<exists>ms. w_messages w' = w_messages w @ ms \<and>
      (\<forall>m \<in> set ms. room_ok vl (mg_room m) \<and> content_ok vl (mg_content m) \<and>
         (\<exists>b. (''send_message'', b) \<in> set evs \<and> map_of b ''room'' = Some (JStr (mg_room m)) \<and>
              map_of b ''content'' = Some (JStr (mg_content m))))) \<and>
    (\<forall>r. r \<in> set (sk_rooms c') \<longleftrightarrow> is_member sid (accepted vl evs) r)"
proof
  have c: "sk_rooms c = [sid]"
    using assms(1) by (auto simp: chat_connect_def split: option.splits)
  from assms(2) have run: "chat_session env (accepted vl evs) c w = (c', w')" by (simp add: chat_stream_session)
  obtain ms bs where ms: "w_messages w' = w_messages w @ ms"
    and asked: "\<forall>m \<in> set ms. \<exists>pre post. accepted vl evs = pre @ Send (mg_room m) (mg_content m) # post"
    using session_messages [OF c run] by blast
  from asked have "\<forall>m \<in> set ms. Send (mg_room m) (mg_content m) \<in> set (accepted vl evs)" by force
  with ms show "\<exists>ms. w_messages w' = w_messages w @ ms \<and>
      (\<forall>m \<in> set ms. room_ok vl (mg_room m) \<and> content_ok vl (mg_content m) \<and>
         (\<exists>b. (''send_message'', b) \<in> set evs \<and> map_of b ''room'' = Some (JStr (mg_room m)) \<and>
              map_of b ''content'' = Some (JStr (mg_content m))))"
    using accepted_send [of _ _ vl evs] by blast
  show "\<forall>r. r \<in> set (sk_rooms c') \<longleftrightarrow> is_member sid (accepted vl evs) r"
    using chat_session_client(2) [OF c run] by blast
qed

definition sample_validator :: validator where
  "sample_validator = \<lparr>vl_length = length, vl_is_email = (\<lambda>s. CHR ''@'' \<in> set s), vl_number = (\<lambda>s. None),
     vl_message = (\<lambda>f c. f), vl_forbidden = (\<lambda>f. f)\<rparr>"

theorem chat_stores_checked_messages_witness:
  "\<exists>c' w' ms. chat_stream calm sample_validator
      [(''join_room'', [(''room'', JStr ''general''), (''extra'', JNum 1)]),
       (''send_message'', [(''room'', JStr ''general''), (''content'', JStr [])]),
       (''send_message'', [(''room'', JStr ''general''), (''content'', JStr ''hi'')]), (''shout'', [])]
      \<lparr>sk_id = ''s'', sk_rooms = [''s''], ck_user = payload_of alice\<rparr> (sample_world PENDING) = (c', w') \<and>
    w_messages w' = ms \<and> length ms = 1 \<and> (\<forall>m \<in> set ms. mg_content m = ''hi'')"
proof -
  let ?c = "\<lparr>sk_id = ''s'', sk_rooms = [''s''], ck_user = payload_of alice\<rparr>"
  let ?evs = "[(''join_room'', [(''room'', JStr ''general''), (''extra'', JNum 1)]),
       (''send_message'', [(''room'', JStr ''general''), (''content'', JStr [])]),
       (''send_message'', [(''room'', JStr ''general''), (''content'', JStr ''hi'')]), (''shout'', [])]"
  let ?tok = "jwt_sign sample_auth_lib (payload_of alice) ''s1'' ''7d'' 0"
  have connect: "chat_connect sample_auth_lib sample_jwt_config ''s'' (Some ?tok) 0 = Inr ?c"
    by (simp add: chat_connect_def auth_lib_okD(2) [OF sample_auth_lib_ok])
  have requests: "accepted sample_validator ?evs = [Join ''general'', Send ''general'' ''hi'']"
  proof -
    have "join_request Join sample_validator [(''room'', JStr ''general''), (''extra'', JNum 1)] = Inr (Join ''general'')"
      "send_request sample_validator [(''room'', JStr ''general''), (''content'', JStr ''hi'')] = Inr (Send ''general'' ''hi'')"
      by (simp_all add: join_request_iff send_request_iff room_ok_def content_ok_def sample_validator_def)
    moreover have "isl (send_request sample_validator [(''room'', JStr ''general''), (''content'', JStr [])])"
      by (simp add: send_request_def whitelist_pipe_cases send_message_rules_def required_field)
    ultimately show ?thesis
      by (auto simp: accepted_def List.map_filter_simps chat_event_def split: sum.split)
  qed
  obtain c' w' where run: "chat_stream calm sample_validator ?evs ?c (sample_world PENDING) = (c', w')" by fastforce
  from chat_stores_checked_messages [OF connect run]
  have "\<forall>m \<in> set (w_messages w'). mg_content m \<noteq> []" by (auto simp: content_ok_def)
  moreover have "length (w_messages w') = 1 \<and> (\<forall>m \<in> set (w_messages w'). mg_content m = ''hi'')"
    using run unfolding chat_stream_session requests
    by (auto simp: handleJoinRoom_def socket_join_def getRoomHistory_def handleSendMessage_def
        io_simps saveMessage_def db_insert_message_def Let_def insert_row_def find_message_def select_key_def new_message_def)
  ultimately show ?thesis using run by blast
qed

end
