(* ===== verification/Http_Properties.thy ===== *)
theory Http_Properties
  imports Http_Facts Chat_Api
begin

text \<open>
  Properties of the HTTP surface: what the guards let through, how errors are answered, and
  which bodies reach a handler, each with an instance.
\<close>

section \<open>A sample server\<close>

definition sample_server :: "guard list \<Rightarrow> (jwt_payload \<times> string \<times> string \<times> instant) server" where
  "sample_server guards =
     \<lparr>sv_env = calm, sv_auth = sample_auth_lib, sv_jwt = sample_jwt_config, sv_storage = sample_config,
      sv_url = sample_url_lib, sv_validator = sample_validator, sv_is_uuid = (\<lambda>_. True),
      sv_admits = (\<lambda>_ _. True), sv_healthCheck = sample_check, sv_pingCheck = sample_ping calm,
      sv_guards = guards\<rparr>"

lemma sample_server_sel [simp]:
  "sv_env (sample_server g) = calm" "sv_auth (sample_server g) = sample_auth_lib"
  "sv_jwt (sample_server g) = sample_jwt_config" "sv_guards (sample_server g) = g"
  "sv_healthCheck (sample_server g) = sample_check" "sv_pingCheck (sample_server g) = sample_ping calm"
  "sv_admits (sample_server g) rt t" "sv_is_uuid (sample_server g) k"
  by (simp_all add: sample_server_def)

definition alice_token :: "jwt_payload \<times> string \<times> string \<times> instant" where
  "alice_token = jwt_sign sample_auth_lib (payload_of alice) ''s1'' ''7d'' 0"

lemma alice_is_admitted:
  "jwt_canActivate calm sample_auth_lib sample_jwt_config False (Some alice_token) (sample_world s) =
     (Inr (Some (safeFields alice)), ticked calm (sample_world s))"
  by (simp add: jwt_canActivate_def io_bind_def passport_jwt_eval user_findById_eval alice_token_def
      auth_lib_okD(2) [OF sample_auth_lib_ok])

section \<open>Authentication of requests\<close>

text \<open>C21: With the guards as \<open>AppModule\<close> registers them, no token identifies a caller: every
  request to a video endpoint or to a user endpoint fails, with 400, 403, 429 or 500, and
  changes nothing.\<close>

theorem wired_guards_identify_nobody:
  assumes "sv_guards srv = app_guards" and "handle srv cl w = (resp, w')"
    and "cl_request cl = VideosRq v \<or> cl_request cl = UsersRq u"
  shows "w' = w \<and> response_status resp \<in> {400, 403, 429, 500}"
proof -
  have "\<exists>e. serve srv cl w = (Inl e, w) \<and> exception_status e \<in> {400, 403, 429, 500}"
  proof (cases "sv_admits srv (route_of (cl_request cl)) (w_now w)")
    case False
    then show ?thesis by (simp add: serve_as_wired [OF assms(1)])
  next
    case True
    show ?thesis
    proof (cases "\<exists>v. cl_request cl = VideosRq v")
      case v: True
      then obtain v where "cl_request cl = VideosRq v" by blast
      moreover have "route_guards (videos_route v) = []"
        by (cases v) (simp_all add: route_guards_def route_at_def)
      ultimately show ?thesis
        using True anonymous_videos [of srv v w] by (auto simp: serve_as_wired [OF assms(1)])
    next
      case False
      with assms(3) have u: "cl_request cl = UsersRq u" by blast
      show ?thesis
      proof (cases "rt_roles (users_route u)")
        case None
        moreover have "\<not> rt_local (users_route u)" by (cases u) (simp_all add: route_at_def)
        ultimately show ?thesis
          using True u anonymous_users [of u srv w] by (auto simp: serve_as_wired [OF assms(1)] route_guards_def)
      next
        case (Some rs)
        moreover have "\<not> rt_local (users_route u)" by (cases u) (simp_all add: route_at_def)
        ultimately show ?thesis
          using True u
          by (simp add: serve_as_wired [OF assms(1)] route_guards_def roles_canActivate_def io_bind_def list_ex_iff)
      qed
    qed
  qed
  with assms(2) show ?thesis by (auto simp: handle_def Let_def exception_filter_def)
qed

theorem wired_guards_identify_nobody_witness:
  "\<exists>resp. handle (sample_server app_guards) \<lparr>cl_url = ''/users/me'', cl_bearer = Some alice_token, cl_request = UsersRq GetMe\<rparr>
      (sample_world PENDING) = (resp, sample_world PENDING) \<and> response_status resp = 500"
proof -
  let ?cl = "\<lparr>cl_url = ''/users/me'', cl_bearer = Some alice_token, cl_request = UsersRq GetMe\<rparr>"
  obtain resp w' where run: "handle (sample_server app_guards) ?cl (sample_world PENDING) = (resp, w')" by fastforce
  have "w' = sample_world PENDING"
    using wired_guards_identify_nobody [OF _ run, of undefined GetMe] by simp
  moreover have "response_status resp = 500"
    using run by (auto simp: handle_def serve_def app_guards_def route_guards_def route_at_def current_time_def
        io_bind_def users_getMe_def exception_filter_def)
  ultimately show ?thesis using run by blast
qed

text \<open>C5: With \<open>JwtAuthGuard\<close> registered as the documentation has it, a request to a route that is
  not public succeeds only for an active user of the table whose token was signed with the access
  secret and has not expired, and only if the user has a role the route requires; the handler
  runs as that user. This holds under any faults.\<close>

theorem guarded_success_is_authenticated:
  assumes "auth_lib_ok (sv_auth srv)" and "sv_guards srv = documented_guards"
    and "\<not> rt_public (route_of (cl_request cl))" and "\<not> rt_local (route_of (cl_request cl))"
    and "handle srv cl w = (Reply s a, w')"
  shows "\<exists>tok pl e t u. cl_bearer cl = Some tok \<and>
    tok = jwt_sign (sv_auth srv) pl (jc_secret (sv_jwt srv)) e t \<and>
    w_now w div 1000 < t div 1000 + jwt_lifetime (sv_auth srv) e \<and>
    find_user (tk_sub pl) (w_users w) = Some u \<and> us_isActive u \<and>
    roles_canActivate (rt_roles (route_of (cl_request cl))) (Some (safeFields u)) \<and>
    (\<exists>w1. handler_of srv (Verified (safeFields u)) (cl_request cl) w1 = (Inr (ar_data a), w'))"
proof -
  from handle_Reply [OF assms(5)] obtain b where "serve srv cl w = (Inr b, w')" "ar_data a = b" by blast
  with serve_guarded_InrD [OF assms(1-4)] show ?thesis by auto
qed

theorem guarded_success_is_authenticated_witness:
  "\<exists>s a w'. handle (sample_server documented_guards) \<lparr>cl_url = ''/users/me'', cl_bearer = Some alice_token, cl_request = UsersRq GetMe\<rparr>
      (sample_world PENDING) = (Reply s a, w') \<and> (\<exists>t. fst alice_token = payload_of alice \<and> snd (snd (snd alice_token)) = t)"
proof -
  let ?cl = "\<lparr>cl_url = ''/users/me'', cl_bearer = Some alice_token, cl_request = UsersRq GetMe\<rparr>"
  obtain s a w' where run: "handle (sample_server documented_guards) ?cl (sample_world PENDING) = (Reply s a, w')"
    by (simp add: handle_def serve_def documented_guards_def route_guards_def route_at_def current_time_def
        io_bind_def alice_is_admitted users_getMe_def with_user_def user_findById_eval)
  have "auth_lib_ok (sv_auth (sample_server documented_guards))" by simp
  from guarded_success_is_authenticated [OF this _ _ _ run] have "fst alice_token = payload_of alice"
    by (auto simp: alice_token_def sample_auth_lib_def route_at_def)
  with run show ?thesis by auto
qed

lemma reachable_after_registration: "reachable after_registration"
  using reachable_run [OF reachable_initial program_task.account [of calm text_auth_lib sample_jwt_config bob_form]]
  by (simp add: run_spawn account_tasks registration_with_text_tokens)

text \<open>C29: In a reachable state every account has the role \<open>USER\<close>. So every request to a route with
  required roles is refused, with 401, 403, 404, 429 or 500, and changes nothing of the tables, the
  queue, the cache and the sockets: with the guards as \<open>AppModule\<close> registers them, and as well
  with the JWT guard that the documentation has, whatever token the caller presents.\<close>

theorem administration_is_unreachable:
  assumes "auth_lib_ok (sv_auth srv)" and "sv_guards srv \<in> {app_guards, documented_guards}" and "reachable w"
    and "rt_roles (route_of (cl_request cl)) \<noteq> None"
  shows "(\<forall>u \<in> set (w_users w). us_role u = USER) \<and>
    (\<exists>f w'. handle srv cl w = (Failure f, w') \<and> er_statusCode f \<in> {401, 403, 404, 429, 500} \<and>
       business_state w' = business_state w)"
proof -
  have users: "us_role u = USER" if "u \<in> set (w_users w)" for u
    using reachable_ok [OF assms(3)] that by (simp add: system_ok_def)
  obtain rs where rs: "rt_roles (route_of (cl_request cl)) = Some rs" using assms(4) by auto
  with required_roles(1) [of "cl_request cl"] have "rs = [ADMIN]" by auto
  with roles_refused [OF assms(1,2) rs, of w] required_roles(2) [OF rs] users obtain e w' where
    "serve srv cl w = (Inl e, w')" "refusal e" "business_state w' = business_state w" by auto
  with users show ?thesis by (simp add: handle_def Let_def exception_filter_def refusal_def)
qed

text \<open>Bob, registered a moment ago, presents his token.\<close>

definition bob :: user where
  "bob = stored_user calm (account_of sample_auth_lib bob_form (Suc 0)) (ticked calm initial_world)"

definition bob_token :: "jwt_payload \<times> string \<times> string \<times> instant" where
  "bob_token = jwt_sign sample_auth_lib (payload_of bob) ''s1'' ''7d'' 0"

lemma bob_is_admitted:
  "jwt_canActivate calm sample_auth_lib sample_jwt_config False (Some bob_token) after_registration =
     (Inr (Some (safeFields bob)), ticked calm after_registration)"
proof -
  have "tk_sub (payload_of bob) = us_id bob" by (simp add: payload_of_def)
  moreover have "find_user (us_id bob) (w_users after_registration) = Some bob"
    by (simp add: bob_def find_user_def select_key_def)
  moreover have "us_isActive bob" by (simp add: bob_def account_of_def stored_user_def new_user_def)
  ultimately show ?thesis
    by (simp add: jwt_canActivate_def io_bind_def passport_jwt_eval user_findById_eval bob_token_def
        auth_lib_okD(2) [OF sample_auth_lib_ok])
qed

theorem administration_is_unreachable_witness:
  "\<exists>f w'. handle (sample_server documented_guards) \<lparr>cl_url = ''/users'', cl_bearer = Some bob_token, cl_request = UsersRq ListUsers\<rparr>
     after_registration = (Failure f, w') \<and> er_message f = Message ''Forbidden resource'' \<and>
     w_users w' = [bob] \<and> us_role bob = USER"
proof -
  let ?cl = "\<lparr>cl_url = ''/users'', cl_bearer = Some bob_token, cl_request = UsersRq ListUsers\<rparr>"
  have hyps: "auth_lib_ok (sv_auth (sample_server documented_guards))"
    "sv_guards (sample_server documented_guards) \<in> {app_guards, documented_guards}"
    "rt_roles (route_of (cl_request ?cl)) \<noteq> None"
    by (simp_all add: route_at_def)
  have users: "w_users after_registration = [bob]" by (simp add: bob_def)
  note refused = administration_is_unreachable [OF hyps(1,2) reachable_after_registration hyps(3)]
  have role: "us_role bob = USER" using conjunct1 [OF refused, unfolded users] by simp
  obtain f w' where run: "handle (sample_server documented_guards) ?cl after_registration = (Failure f, w')"
    and same: "business_state w' = business_state after_registration"
    using conjunct2 [OF refused] by blast
  have "er_message f = Message ''Forbidden resource''"
    using run role
    by (auto simp: handle_def serve_def documented_guards_def route_guards_def route_at_def current_time_def
        io_bind_def bob_is_admitted roles_canActivate_def exception_filter_def)
  moreover have "w_users w' = [bob]" using same users by (simp only: business_state_def prod.inject)
  ultimately show ?thesis using run role by blast
qed

text \<open>The dead-letter endpoints ask for no user: as wired, a caller without any token gets the
  record of any user's failed video re-queued.\<close>

theorem anyone_retries_failed_jobs:
  assumes "sv_guards srv = app_guards" and "sv_admits srv (queue_route (RetryFailed rid)) (w_now w)"
    and "up (sv_env srv) Database" and "up (sv_env srv) Queue"
    and "find_failed_job rid (w_failed_jobs w) = Some f" and "\<not> f_retried f" and "row w (f_videoId f) = Some v"
    and "jid = e_job_id (sv_env srv) (Suc (Suc (Suc (w_calls w))))" and "find_job jid (w_jobs w) = None"
  shows "\<exists>a w' v'. handle srv \<lparr>cl_url = url, cl_bearer = None, cl_request = QueueRq (RetryFailed rid)\<rparr> w =
      (Reply 201 a, w') \<and> row w' (f_videoId f) = Some v' \<and> v_status v' = PENDING \<and> v_queueJobId v' = Some jid"
proof -
  let ?env = "sv_env srv"
  have start: "retryFailedJob ?env rid w = retry_record ?env rid f (ticked ?env w)"
    using assms(3,5,6) by (simp add: retryFailedJob_def io_simps db_find_failed_job_def)
  obtain w' v' d where run: "retry_record ?env rid f (ticked ?env w) = (Inr d, w')"
    and v': "row w' (f_videoId f) = Some v'" "v_status v' = PENDING" "v_queueJobId v' = Some jid"
    using retry_record_up [OF assms(3,4), of jid "ticked ?env w" f v rid] assms(7-9) by auto
  have "serve srv \<lparr>cl_url = url, cl_bearer = None, cl_request = QueueRq (RetryFailed rid)\<rparr> w = (Inr (Retry_answer d), w')"
    using assms(2) start run
    by (simp add: serve_as_wired [OF assms(1)] route_guards_def route_at_def queue_retryFailedJob_def io_bind_def)
  with v' show ?thesis by (simp add: handle_def Let_def route_at_def)
qed

theorem anyone_retries_failed_jobs_witness:
  "\<exists>a w'. handle (sample_server app_guards) \<lparr>cl_url = ''/'', cl_bearer = None, cl_request = QueueRq (RetryFailed ''r1'')\<rparr> dlq_world =
      (Reply 201 a, w') \<and> statuses w' ''v1'' = Some PENDING"
  using anyone_retries_failed_jobs [of "sample_server app_guards" "''r1''" dlq_world sample_record "sample_video FAILED" "''7''" "''/''"]
  by (auto simp: find_failed_job_def select_key_def find_job_def statuses_def status_of_def)

section \<open>Errors\<close>

text \<open>C20: Whatever fails, a request to any of the controllers that fails is answered with one of the
  statuses 400, 401, 403, 404, 409, 429, 500 and 503, with its own path and method. A 503 comes only
  from the health endpoint, when the database has not served the ping; a 500 carries one of two
  fixed texts: no message of a driver reaches the client as an internal error.\<close>

theorem errors_are_answered:
  assumes "terminus_ok (sv_env srv) (sv_healthCheck srv) (sv_pingCheck srv)" and "handle srv cl w = (Failure f, w')"
  shows "er_statusCode f \<in> {400, 401, 403, 404, 409, 429, 500, 503} \<and>
    (er_statusCode f = 503 \<longrightarrow>
       cl_request cl = HealthRq \<and> e_outcome (sv_env srv) Database (w_calls w' - 1) \<noteq> Served) \<and>
    (er_statusCode f = 500 \<longrightarrow>
       er_message f \<in> {Message ''Internal server error'', Message ''Failed to generate download URL''}) \<and>
    er_path f = cl_url cl \<and> er_method f = rt_method (route_of (cl_request cl))"
proof -
  from assms(2) obtain e where e: "serve srv cl w = (Inl e, w')"
    and f: "f = exception_filter (cl_url cl) (rt_method (route_of (cl_request cl))) (w_now w') e"
    by (auto simp: handle_def Let_def split: prod.splits sum.splits)
  from serve_throws [OF assms(1) e] show ?thesis by (auto simp: f exception_filter_def api_exn_def)
qed

theorem errors_are_answered_witness:
  "(\<exists>f w'. handle ((sample_server documented_guards)\<lparr>sv_env := without Database, sv_pingCheck := sample_ping (without Database)\<rparr>)
      \<lparr>cl_url = ''/users/me'', cl_bearer = Some alice_token, cl_request = UsersRq GetMe\<rparr> (sample_world PENDING) = (Failure f, w') \<and>
      er_statusCode f = 500 \<and> er_message f = Message ''Internal server error'') \<and>
   (\<exists>f w'. handle ((sample_server app_guards)\<lparr>sv_env := without Database, sv_pingCheck := sample_ping (without Database)\<rparr>)
      \<lparr>cl_url = ''/health'', cl_bearer = None, cl_request = HealthRq\<rparr> (sample_world PENDING) = (Failure f, w') \<and>
      er_statusCode f = 503 \<and> er_path f = ''/health'' \<and> er_method f = ''GET'')"
proof
  let ?srv = "\<lambda>gs. (sample_server gs)\<lparr>sv_env := without Database, sv_pingCheck := sample_ping (without Database)\<rparr>"
  let ?cl = "\<lparr>cl_url = ''/users/me'', cl_bearer = Some alice_token, cl_request = UsersRq GetMe\<rparr>"
  let ?health = "\<lparr>cl_url = ''/health'', cl_bearer = None, cl_request = HealthRq\<rparr>"
  have terminus: "terminus_ok (sv_env (?srv gs)) (sv_healthCheck (?srv gs)) (sv_pingCheck (?srv gs))" for gs by simp
  have "\<exists>f w'. handle (?srv documented_guards) ?cl (sample_world PENDING) = (Failure f, w') \<and> er_statusCode f = 500 \<and>
      er_message f \<noteq> Message ''Failed to generate download URL''"
    by (simp add: handle_def serve_def documented_guards_def route_guards_def route_at_def current_time_def
        io_bind_def jwt_canActivate_def passport_jwt_eval user_findById_eval alice_token_def exception_filter_def
        auth_lib_okD(2) [OF sample_auth_lib_ok])
  then obtain f w' where run: "handle (?srv documented_guards) ?cl (sample_world PENDING) = (Failure f, w')"
    "er_statusCode f = 500" "er_message f \<noteq> Message ''Failed to generate download URL''" by blast
  with errors_are_answered [OF terminus run(1)]
  show "\<exists>f w'. handle (?srv documented_guards) ?cl (sample_world PENDING) = (Failure f, w') \<and>
      er_statusCode f = 500 \<and> er_message f = Message ''Internal server error''" by auto
  have "\<exists>f w'. handle (?srv app_guards) ?health (sample_world PENDING) = (Failure f, w') \<and> er_statusCode f = 503"
    by (simp add: handle_def serve_as_wired route_guards_def health_route_def route_at_def io_bind_def check_def
        sample_check_def sample_ping_def io_try_def io_seq_def external_cases exception_filter_def)
  then obtain f w' where health: "handle (?srv app_guards) ?health (sample_world PENDING) = (Failure f, w')"
    "er_statusCode f = 503" by blast
  with errors_are_answered [OF terminus health(1)]
  show "\<exists>f w'. handle (?srv app_guards) ?health (sample_world PENDING) = (Failure f, w') \<and>
      er_statusCode f = 503 \<and> er_path f = ''/health'' \<and> er_method f = ''GET''"
    by (auto simp: health_route_def route_at_def)
qed

section \<open>Bodies\<close>

text \<open>C22: The creation requests that reach the handler are exactly those within the declared bounds:
  the pipe lets no other form through, and every form within the bounds is the reading of a
  body it accepts.\<close>

theorem creation_forms_are_checked:
  "(\<exists>b m. validation_pipe vl create_video_rules b = Inr m \<and> create_video_of m = d) \<longleftrightarrow>
     cv_title d \<noteq> [] \<and> vl_length vl (cv_title d) \<le> 255 \<and> cv_prompt d \<noteq> [] \<and> vl_length vl (cv_prompt d) \<le> 2000 \<and>
     within vl 1000 (cv_negativePrompt d) \<and> (\<forall>n \<in> set_option (cv_width d). 0 < n) \<and>
     (\<forall>n \<in> set_option (cv_height d). 0 < n) \<and> (\<forall>n \<in> set_option (cv_fps d). 8 \<le> n \<and> n \<le> 60)"
proof -
  have "(\<exists>b m. validation_pipe vl create_video_rules b = Inr m \<and> create_video_of m = d) \<longleftrightarrow> creation_ok vl d"
    using creation_sound creation_complete by blast
  then show ?thesis by (auto simp: creation_ok_def split: option.splits)
qed

theorem creation_forms_are_checked_witness:
  "\<exists>b m. validation_pipe sample_validator create_video_rules b = Inr m \<and> create_video_of m = sample_dto"
  unfolding creation_forms_are_checked by (simp add: sample_dto_def sample_validator_def within_def)

text \<open>The rules put no upper bound on the size of a video: a form within the bounds whose numbers
  exceed the columns is refused by the database, as an internal error.\<close>

theorem oversized_forms_fail_inside:
  assumes "up (sv_env srv) Database" and "creation_ok (sv_validator srv) d" and "\<not> dimensions_fit d"
  shows "videos_handler srv (Verified u) (CreateVideo (creation_body d)) w = (Inl out_of_range, ticked (sv_env srv) w) \<and>
    exception_status out_of_range = 500"
proof -
  obtain m where "validation_pipe (sv_validator srv) create_video_rules (creation_body d) = Inr m"
      "create_video_of m = d"
    using creation_complete [OF assms(2)] by blast
  with createAndQueue_out_of_range [OF assms(1,3), of "us_id u" w] show ?thesis
    by (simp add: from_pipe_def with_user_def io_bind_def io_return_def videos_create_def out_of_range_def)
qed

theorem oversized_forms_fail_inside_witness:
  "fst (videos_handler (sample_server []) (Verified (safeFields alice))
     (CreateVideo (creation_body (sample_dto\<lparr>cv_width := Some (2 ^ 31)\<rparr>))) (sample_world PENDING)) = Inl out_of_range"
  using oversized_forms_fail_inside [of "sample_server []" "sample_dto\<lparr>cv_width := Some (2 ^ 31)\<rparr>"]
  by (simp add: dimensions_fit_def sample_dto_def int4_def creation_ok_def sample_server_def sample_validator_def within_def)

text \<open>C23: The registrations that reach the handler are exactly the forms within the declared
  bounds, and a body that has any property but the five declared ones, in whatever place, is refused
  as a bad request: in particular one that names a role.\<close>

theorem registration_forms_are_checked:
  "((\<exists>b m. validation_pipe vl register_rules b = Inr m \<and> register_of m = d) \<longleftrightarrow>
     vl_length vl (rg_firstName d) \<le> 50 \<and> vl_length vl (rg_lastName d) \<le> 50 \<and> vl_is_email vl (rg_email d) \<and>
     8 \<le> vl_length vl (rg_password d) \<and> vl_length vl (rg_password d) \<le> 100 \<and> within vl 30 (rg_username d)) \<and>
   (\<forall>b. (\<exists>k \<in> fst ` set b. k \<notin> {''firstName'', ''lastName'', ''email'', ''password'', ''username''}) \<longrightarrow>
      (\<exists>ms. validation_pipe vl register_rules b = Inl (BadRequestException ms))) \<and>
   (\<exists>ms. validation_pipe vl register_rules (pre @ (''role'', v) # post) = Inl (BadRequestException ms))"
proof -
  have "(\<exists>b m. validation_pipe vl register_rules b = Inr m \<and> register_of m = d) \<longleftrightarrow> registration_ok vl d"
    using registration_sound registration_complete by blast
  moreover have refused: "\<exists>ms. validation_pipe vl register_rules b = Inl (BadRequestException ms)"
    if "k \<in> fst ` set b" "k \<notin> {''firstName'', ''lastName'', ''email'', ''password'', ''username''}" for k b
    using that by (intro undeclared_refused [of k b]) (simp_all add: register_rules_def)
  moreover have "\<exists>ms. validation_pipe vl register_rules (pre @ (''role'', v) # post) = Inl (BadRequestException ms)"
    by (rule refused [of "''role''"]) simp_all
  ultimately show ?thesis unfolding registration_ok_def by blast
qed

theorem registration_forms_are_checked_witness:
  "\<exists>ms. validation_pipe sample_validator register_rules [(''email'', JStr ''bob@example.com''), (''role'', JStr ''admin'')] =
     Inl (BadRequestException ms)"
proof -
  let ?b = "[(''email'', JStr ''bob@example.com''), (''role'', JStr ''admin'')]"
  have "\<exists>k \<in> fst ` set ?b. k \<notin> {''firstName'', ''lastName'', ''email'', ''password'', ''username''}" by simp
  with registration_forms_are_checked show ?thesis by blast
qed

end
