(* ===== verification/Racing.thy ===== *)
theory Racing
  imports Interleaving
begin

text \<open>
  Attempts at one video that race for its start: how many of them can announce that the video is
  being processed. A task that cannot announce it, one that can announce it once, and one that
  waits for the move from \<open>PENDING\<close>; and the invariant of a pool of such tasks.
\<close>

section \<open>Starts of a video\<close>

definition starts :: "string \<Rightarrow> world \<Rightarrow> nat" where
  "starts k w = length (filter (\<lambda>ev. case ev of VideoProcessingStarted k' _ \<Rightarrow> k' = k | _ \<Rightarrow> False) (w_events w))"

text \<open>Some row of the video is \<open>PENDING\<close>.\<close>

definition pending :: "string \<Rightarrow> world \<Rightarrow> bool" where
  "pending k w \<longleftrightarrow> (\<exists>v \<in> set (w_videos w). v_id v = k \<and> v_status v = PENDING)"

definition idle_step :: "string \<Rightarrow> world \<Rightarrow> world \<Rightarrow> bool" where
  "idle_step k w w' \<longleftrightarrow> starts k w' = starts k w \<and> (pending k w' \<longrightarrow> pending k w)"

lemma starts_add:
  "starts k (w\<lparr>w_events := w_events w @ [ev], w_sent := ss\<rparr>) =
     starts k w + (case ev of VideoProcessingStarted k' _ \<Rightarrow> if k' = k then 1 else 0 | _ \<Rightarrow> 0)"
  by (simp add: starts_def split: video_event.split)

lemma pending_ticked [simp]: "pending k (ticked env w) = pending k w"
  by (simp add: pending_def)

lemma starts_ticked [simp]: "starts k (ticked env w) = starts k w"
  by (simp add: starts_def)

lemma status_pending: "status_of w k = Some PENDING \<Longrightarrow> pending k w"
  by (auto simp: status_of_def row_def pending_def find_video_def dest: select_key_SomeD)

lemma pending_update:
  "pending K (after_update env k p f w) \<longleftrightarrow>
     (\<exists>r \<in> set (w_videos w). if v_id r = k \<and> p r then v_id (f r) = K \<and> v_status (f r) = PENDING
        else v_id r = K \<and> v_status r = PENDING)"
proof -
  have "w_videos (after_update env k p f w) =
      map (\<lambda>r. if v_id r = k \<and> p r then touch (w_now (ticked env w)) f r else r) (w_videos w)"
    by (simp add: after_update_def update_key_def)
  then show ?thesis
    unfolding pending_def by (simp only: set_map bex_simps) (rule bex_cong, rule refl, simp add: touch_def)
qed

lemma idle_update:
  assumes "\<And>r. v_id (f r) = v_id r" and "\<And>r. p r \<Longrightarrow> v_status (f r) = PENDING \<Longrightarrow> v_status r = PENDING"
  shows "idle_step K w (after_update env k p f w)"
proof -
  have "pending K w" if pend: "pending K (after_update env k p f w)"
  proof -
    from pend obtain r where r: "r \<in> set (w_videos w)"
      and new: "if v_id r = k \<and> p r then v_id (f r) = K \<and> v_status (f r) = PENDING
        else v_id r = K \<and> v_status r = PENDING"
      unfolding pending_update by (elim bexE)
    have "v_id r = K \<and> v_status r = PENDING"
    proof (cases "v_id r = k \<and> p r")
      case True
      with new assms(1) [of r] assms(2) [of r] show ?thesis by (simp only: if_True simp_thms)
    next
      case False
      with new show ?thesis by (simp only: if_False)
    qed
    with r show ?thesis unfolding pending_def by blast
  qed
  then show ?thesis by (simp add: idle_step_def starts_def)
qed

interpretation idle: worker_protocol "idle_step K" k for K k
proof
  show "idle_step K w (w\<lparr>w_events := w_events w @ [ev], w_sent := ss\<rparr>)" if "\<not> is_start ev" for w ev ss
    using that by (auto simp: idle_step_def starts_add pending_def is_start_def split: video_event.splits)
qed (auto intro!: idle_update simp: transition_allowed_iff,
     auto simp: idle_step_def starts_def pending_def keeps_businessD)

text \<open>An attempt at another video announces nothing about this one.\<close>

lemma idle_elsewhere:
  assumes "k \<noteq> K"
  shows "attempt_protocol (idle_step K) k"
proof (intro attempt_protocol.intro idle.worker_protocol_axioms attempt_protocol_axioms.intro)
  show "idle_step K w (w\<lparr>w_events := w_events w @ [VideoProcessingStarted k a], w_sent := ss\<rparr>)" for w a ss
    using assms by (auto simp: idle_step_def starts_add pending_def)
qed

abbreviation spent :: "string \<Rightarrow> (world, unit) task \<Rightarrow> bool" where
  "spent K \<equiv> always (\<lambda>_. True) (idle_step K)"

section \<open>A task that can start the video once\<close>

primrec armed :: "string \<Rightarrow> (world, 'a) task \<Rightarrow> bool" where
  "armed K (Return r) = True"
| "armed K (Call f) =
     (\<forall>w. (pending K (snd (f w)) \<longrightarrow> pending K w) \<and>
        (starts K (snd (f w)) = starts K w \<and> fst ((map_prod (armed K) id \<circ> f) w) \<or>
         starts K (snd (f w)) = Suc (starts K w) \<and> always (\<lambda>_. True) (idle_step K) (fst (f w))))"

lemma spent_armed: "always (\<lambda>_. True) (idle_step K) t \<Longrightarrow> armed K t"
  by (induction t rule: task_induct) (auto simp: idle_step_def)

lemma armed_after:
  "always (\<lambda>_. True) (idle_step K) m \<Longrightarrow> (\<And>r. armed K (k r)) \<Longrightarrow> armed K (t_then m k)"
  by (induction m rule: task_induct) (auto simp: idle_step_def)

lemma armed_then:
  "armed K m \<Longrightarrow> (\<And>r. always (\<lambda>_. True) (idle_step K) (k r)) \<Longrightarrow> armed K (t_then m k)"
proof (induction m rule: task_induct)
  case (Return r)
  then show ?case by (simp add: spent_armed)
next
  case (Call f)
  have "always (\<lambda>_. True) (idle_step K) (t_then m k)" if "always (\<lambda>_. True) (idle_step K) m" for m
    using that Call.prems(2) by (rule always_then)
  with Call show ?case by fastforce
qed

section \<open>A task that waits for the move from \<open>PENDING\<close>\<close>

definition waits :: "string \<Rightarrow> (world, unit) task \<Rightarrow> bool" where
  "waits K t \<longleftrightarrow> (\<exists>f. t = Call f \<and> (\<forall>w. starts K (snd (f w)) = starts K w \<and>
     (if \<not> pending K w then \<not> pending K (snd (f w)) \<and> spent K (fst (f w))
      else if pending K (snd (f w)) then spent K (fst (f w))
      else armed K (fst (f w)))))"

definition idle_task :: "string \<Rightarrow> (world, unit) task \<Rightarrow> bool" where
  "idle_task K t \<longleftrightarrow> waits K t \<or> spent K t"

lemma no_pending_hits: "\<not> pending K w \<Longrightarrow> affected v_id K (\<lambda>v. v_status v = PENDING) (w_videos w) = 0"
  by (auto simp: affected_def pending_def filter_empty_conv)

lemma pending_hits: "pending K w \<Longrightarrow> affected v_id K (\<lambda>v. v_status v = PENDING) (w_videos w) \<noteq> 0"
  by (auto simp: affected_def pending_def filter_empty_conv)

lemma start_empties: "\<not> pending K (after_move env K PENDING PROCESSING x w)"
  by (auto simp: pending_update split: if_splits)

text \<open>An attempt that has read \<open>PENDING\<close>.\<close>

definition after_read :: "env \<Rightarrow> ai_service \<Rightarrow> storage_service \<Rightarrow> queue_job \<Rightarrow> video \<Rightarrow> (world, unit) task" where
  "after_read env ai storage job v = t_try (generate_read_task env ai storage job v) (fail_task env job)"

lemma fail_spent: "spent K (fail_task env job e)"
  by (rule idle.fail_steps) (rule refl)

lemma started_armed:
  assumes "generation_worker ai storage"
  shows "armed K (t_try (generate_started_task env ai storage job v) (fail_task env job))"
proof -
  have rest: "spent K (generate_announced_task env ai storage job v)"
    by (rule idle.announced_task [OF assms refl])
  have job: "always (\<lambda>_. True) (idle_step K) (atomic (job_updateProgress env job n))" for n
    by (rule idle.job_task)
  have emit: "armed K (atomic (emit env (VideoProcessingStarted k a)))" for k a
    by (auto simp: atomic_def emit_quiet quiet_def starts_add pending_def)
  have handler: "spent K (case r of Inl e \<Rightarrow> fail_task env job e | Inr a \<Rightarrow> t_return a)" for r :: "exn + unit"
    by (cases r) (simp_all add: fail_spent always_return)
  have announced: "spent K (t_then (case r of Inl e \<Rightarrow> t_raise e | Inr a \<Rightarrow> generate_announced_task env ai storage job v)
      (\<lambda>r. case r of Inl e \<Rightarrow> fail_task env job e | Inr a \<Rightarrow> t_return a))" for r :: "exn + unit"
    by (cases r) (use rest handler in \<open>auto intro!: always_then always_return\<close>)
  have emitted: "armed K (t_then (case r of Inl e \<Rightarrow> t_raise e | Inr a \<Rightarrow>
        t_then (atomic (emit env (VideoProcessingStarted (j_videoId job) n)))
          (\<lambda>r. case r of Inl e \<Rightarrow> t_raise e | Inr a \<Rightarrow> generate_announced_task env ai storage job v))
      (\<lambda>r. case r of Inl e \<Rightarrow> fail_task env job e | Inr a \<Rightarrow> t_return a))" for r :: "exn + unit" and n
    using armed_then [OF emit announced] handler [of "Inl _"]
    by (cases r) (simp_all add: t_raise_def spent_armed)
  show ?thesis
    unfolding t_try_def generate_started_task_def t_seq_def t_bind_def then_assoc
    by (rule armed_after [OF job emitted])
qed

text \<open>The attempt whose move to \<open>PROCESSING\<close> was made.\<close>

definition owning_task :: "env \<Rightarrow> ai_service \<Rightarrow> storage_service \<Rightarrow> queue_job \<Rightarrow> video \<Rightarrow> (world, unit) task" where
  "owning_task env ai storage job v =
     t_then (atomic (detached (writeCache env (j_videoId job) PROCESSING
        (nullish (opt_get (x_metadata start_extra) ''progressPercent'') (JNum 0))
        (nullish (opt_get (x_metadata start_extra) ''progressMessage'') (JStr [])))))
       (\<lambda>r. case r of Inl e \<Rightarrow> fail_task env job e
             | Inr a \<Rightarrow> t_try (generate_started_task env ai storage job v) (fail_task env job))"

lemma owning_armed:
  "generation_worker ai storage \<Longrightarrow> armed K (owning_task env ai storage job v)"
  unfolding owning_task_def
  using fail_spent started_armed
  by (intro armed_after always_atomic idle.detach idle.cache_write) (auto simp: spent_armed split: sum.split)

lemma after_read_first:
  assumes "transition_allowed (v_status v) PROCESSING"
  shows "after_read env ai storage job v =
    (let cas = db_update_video env (j_videoId job) (\<lambda>x. v_status x = v_status v) (apply_extra PROCESSING start_extra)
     in Call (\<lambda>w. (case fst (cas w) of Inl e \<Rightarrow> fail_task env job e
                 | Inr n \<Rightarrow> if n = 0 then t_return () else owning_task env ai storage job v, snd (cas w))))"
proof -
  let ?h = "\<lambda>r. case r of Inl e \<Rightarrow> fail_task env job e | Inr a \<Rightarrow> t_return a"
  let ?cache = "atomic (detached (writeCache env (j_videoId job) PROCESSING
      (nullish (opt_get (x_metadata start_extra) ''progressPercent'') (JNum 0))
      (nullish (opt_get (x_metadata start_extra) ''progressMessage'') (JStr []))))"
  let ?go = "\<lambda>r. case r of Inl e \<Rightarrow> t_raise e
      | Inr started \<Rightarrow> if \<not> started then t_return () else generate_started_task env ai storage job v"
  have "t_then (t_seq ?cache (t_return True)) (\<lambda>r. t_then (?go r) ?h) = owning_task env ai storage job v"
    unfolding owning_task_def t_seq_def t_bind_def t_try_def then_assoc
    by (intro arg_cong2 [of _ _ _ _ t_then] refl ext) (auto simp: t_raise_def t_return_def split: sum.split)
  then have "t_then (case r of Inl e \<Rightarrow> t_raise e | Inr n \<Rightarrow> if n = 0 then t_return False else t_seq ?cache (t_return True))
      (\<lambda>r. t_then (?go r) ?h) =
    (case r of Inl e \<Rightarrow> fail_task env job e | Inr n \<Rightarrow> if n = 0 then t_return () else owning_task env ai storage job v)"
    for r :: "exn + nat"
    by (cases r) (simp_all add: t_raise_def t_return_def)
  then show ?thesis
    using assms
    by (simp add: after_read_def generate_read_task_def transitionStatus_task_def t_try_def t_bind_def then_atomic
        comp_def Let_def)
qed

lemma started_first:
  "t_try (generate_started_task env ai storage job v) (fail_task env job) =
     t_then (atomic (job_updateProgress env job 10)) (\<lambda>r. case r of Inl e \<Rightarrow> fail_task env job e
       | Inr a \<Rightarrow> t_then (atomic (emit env (VideoProcessingStarted (j_videoId job) (j_attemptsMade job + 1))))
           (\<lambda>r. case r of Inl e \<Rightarrow> fail_task env job e
                 | Inr a \<Rightarrow> t_try (generate_announced_task env ai storage job v) (fail_task env job)))"
  unfolding generate_started_task_def t_seq_def t_bind_def t_try_def then_assoc
  by (intro arg_cong2 [of _ _ _ _ t_then] refl ext) (auto simp: t_raise_def split: sum.split
      intro!: arg_cong2 [of _ _ _ _ t_then])

lemma waits_after_read:
  assumes "generation_worker ai storage" and "v_status v = PENDING"
  shows "waits (j_videoId job) (after_read env ai storage job v)"
proof -
  let ?K = "j_videoId job"
  let ?cas = "db_update_video env ?K (\<lambda>v. v_status v = PENDING) (apply_extra PROCESSING start_extra)"
  let ?f = "\<lambda>w. (case fst (?cas w) of Inl e \<Rightarrow> fail_task env job e
      | Inr n \<Rightarrow> if n = 0 then t_return () else owning_task env ai storage job v, snd (?cas w))"
  have first: "after_read env ai storage job v = Call ?f"
    using after_read_first [of v] assms(2) by (simp add: transition_allowed_iff Let_def)
  have idle: "idle_step ?K w (after_move env ?K PENDING PROCESSING start_extra w)" for w
    by (rule idle_update) simp_all
  have same: "starts ?K (snd (?f w)) = starts ?K w" for w
    using idle [of w] by (auto simp: db_update_video_cases idle_step_def split: outcome.split)
  have race: "if \<not> pending ?K w then \<not> pending ?K (snd (?f w)) \<and> spent ?K (fst (?f w))
      else if pending ?K (snd (?f w)) then spent ?K (fst (?f w)) else armed ?K (fst (?f w))" for w
    using no_pending_hits [of ?K w] pending_hits [of ?K w] start_empties [of ?K env start_extra w]
      owning_armed [OF assms(1)] fail_spent fail_spent [THEN spent_armed] always_return(1)
    by (auto simp: db_update_video_cases split: outcome.split)
  show ?thesis
    unfolding waits_def first
    by (rule exI [of _ ?f], rule conjI, rule refl, intro allI conjI, rule same, rule race)
qed

section \<open>The pool\<close>

text \<open>The first step of an attempt reads the row.\<close>

lemma process_first:
  "j_name job = GENERATE \<Longrightarrow> process_task env ai storage job =
     Call (\<lambda>w. (case fst (findById env (j_videoId job) w) of
                   Inl e \<Rightarrow> fail_task env job e | Inr v \<Rightarrow> after_read env ai storage job v,
                 snd (findById env (j_videoId job) w)))"
proof -
  assume "j_name job = GENERATE"
  moreover have "t_then (case r of Inl e \<Rightarrow> t_raise e | Inr a \<Rightarrow> generate_read_task env ai storage job a)
      (\<lambda>r. case r of Inl e \<Rightarrow> fail_task env job e | Inr a \<Rightarrow> t_return a) =
    (case r of Inl e \<Rightarrow> fail_task env job e | Inr v \<Rightarrow> after_read env ai storage job v)" for r
    by (cases r) (simp_all add: after_read_def t_try_def t_raise_def)
  ultimately show ?thesis
    by (simp add: process_task_def t_try_def t_bind_def then_atomic comp_def)
qed

lemma read_step:
  assumes worker: "generation_worker ai storage" and status: "status_of w K = Some PENDING"
    and step: "process_task env ai storage job = Call f"
  shows "idle_task K (fst (f w)) \<and> w_videos (snd (f w)) = w_videos w \<and> w_events (snd (f w)) = w_events w"
proof (cases "j_name job = GENERATE")
  case False
  with step show ?thesis by (simp add: process_task_def t_return_def)
next
  case True
  let ?k = "j_videoId job"
  have f: "f = (\<lambda>w. (case fst (findById env ?k w) of
      Inl e \<Rightarrow> fail_task env job e | Inr v \<Rightarrow> after_read env ai storage job v, snd (findById env ?k w)))"
    using process_first [OF True] step by simp
  have frame: "snd (findById env ?k w) = ticked env w" by (simp add: findById_eval split: outcome.split option.split)
  have "idle_task K (fst (f w))"
  proof (cases "?k = K")
    case False
    from attempt_protocol.process_steps [OF idle_elsewhere [OF False] worker refl, of "\<lambda>_. True" env] step
    show ?thesis by (auto simp: idle_task_def)
  next
    case True
    have "waits K (after_read env ai storage job v)" if "row w K = Some v" for v
      using waits_after_read [OF worker, of v job env] status that True by (simp add: status_of_def)
    with True fail_spent show ?thesis
      by (auto simp: f findById_eval idle_task_def split: outcome.split option.split)
  qed
  then show ?thesis by (simp add: f frame)
qed

text \<open>The states of the pool once every attempt has read the row.\<close>

definition race :: "string \<Rightarrow> nat \<Rightarrow> (world, unit) task list \<times> world \<Rightarrow> bool" where
  "race K n s \<longleftrightarrow> (case s of (ts, w) \<Rightarrow>
     (\<forall>t \<in> set ts. idle_task K t) \<and> (if pending K w then starts K w = n else starts K w \<le> Suc n) \<or>
     \<not> pending K w \<and> starts K w = n \<and>
       (\<exists>i < length ts. armed K (ts ! i) \<and> (\<forall>j < length ts. j \<noteq> i \<longrightarrow> idle_task K (ts ! j))))"

lemma idle_task_step:
  assumes "idle_task K (Call f)"
  shows "starts K (snd (f w)) = starts K w" and "pending K (snd (f w)) \<Longrightarrow> pending K w"
    and "\<not> pending K w \<or> pending K (snd (f w)) \<Longrightarrow> idle_task K (fst (f w))"
    and "armed K (fst (f w))"
  using assms spent_armed [of K "fst (f w)"]
  by (auto simp: idle_task_def waits_def idle_step_def split: if_splits)

lemma race_idle:
  assumes "\<forall>t \<in> set ts. idle_task K t" and count: "if pending K w then starts K w = n else starts K w \<le> Suc n"
    and i: "i < length ts" and call: "ts ! i = Call f"
  shows "race K n (ts[i := fst (f w)], snd (f w))"
proof -
  have idle: "idle_task K (Call f)" using assms(1) i call by (metis nth_mem)
  note step = idle_task_step [OF idle, of w]
  have others: "\<forall>j < length ts. j \<noteq> i \<longrightarrow> idle_task K (ts[i := fst (f w)] ! j)"
    using assms(1) by simp
  show ?thesis
  proof (cases "\<not> pending K w \<or> pending K (snd (f w))")
    case True
    have "\<forall>t \<in> set (ts[i := fst (f w)]). idle_task K t"
      using assms(1) step(3) [OF True] set_update_subset_insert [of ts i "fst (f w)"] by blast
    then show ?thesis using count step(1,2) by (auto simp: race_def split: if_splits)
  next
    case False
    then have "\<not> pending K (snd (f w)) \<and> starts K (snd (f w)) = n" using count step(1) by simp
    moreover have "armed K (ts[i := fst (f w)] ! i)" using step(4) i by simp
    ultimately show ?thesis using others i by (fastforce simp: race_def)
  qed
qed

lemma race_armed:
  assumes w: "\<not> pending K w" "starts K w = n" and a: "a < length ts" "armed K (ts ! a)"
    and others: "\<forall>j < length ts. j \<noteq> a \<longrightarrow> idle_task K (ts ! j)" and i: "i < length ts" and call: "ts ! i = Call f"
  shows "race K n (ts[i := fst (f w)], snd (f w))"
proof (cases "i = a")
  case False
  then have "idle_task K (Call f)" using others i call by metis
  from idle_task_step [OF this, of w] w have step: "starts K (snd (f w)) = n" "\<not> pending K (snd (f w))"
    "idle_task K (fst (f w))" by auto
  have "\<forall>j < length ts. j \<noteq> a \<longrightarrow> idle_task K (ts[i := fst (f w)] ! j)"
    using others step(3) i by (auto simp: nth_list_update)
  then show ?thesis
    using False a step(1,2) unfolding race_def by (auto intro!: exI [of _ a])
next
  case True
  then have cases: "\<not> pending K (snd (f w))"
    "starts K (snd (f w)) = n \<and> armed K (fst (f w)) \<or> starts K (snd (f w)) = Suc n \<and> spent K (fst (f w))"
    using a(2) call w by auto
  from cases(2) show ?thesis
  proof
    assume "starts K (snd (f w)) = n \<and> armed K (fst (f w))"
    then show ?thesis
      using True cases(1) i others unfolding race_def by (auto intro!: exI [of _ i])
  next
    assume last: "starts K (snd (f w)) = Suc n \<and> spent K (fst (f w))"
    have "idle_task K (fst (f w))" using last by (simp add: idle_task_def)
    then have "idle_task K (ts[i := fst (f w)] ! j)" if "j < length ts" for j
      using True others that by (cases "j = i") simp_all
    then have "\<forall>t \<in> set (ts[i := fst (f w)]). idle_task K t" by (auto simp: in_set_conv_nth)
    then show ?thesis using last cases(1) by (simp add: race_def)
  qed
qed

lemma race_resume: "race K n s \<Longrightarrow> race K n (resume i s)"
proof (cases s)
  case (Pair ts w)
  assume r: "race K n s"
  show ?thesis
  proof (cases "i < length ts \<and> (\<exists>f. ts ! i = Call f)")
    case False
    then have "resume i s = s" using Pair by (auto split: task.split)
    with r show ?thesis by simp
  next
    case True
    then obtain f where i: "i < length ts" and call: "ts ! i = Call f" by auto
    from r consider
        "\<forall>t \<in> set ts. idle_task K t" "if pending K w then starts K w = n else starts K w \<le> Suc n"
      | a where "\<not> pending K w" "starts K w = n" "a < length ts" "armed K (ts ! a)"
          "\<forall>j < length ts. j \<noteq> a \<longrightarrow> idle_task K (ts ! j)"
      unfolding race_def Pair by auto
    then have "race K n (ts[i := fst (f w)], snd (f w))"
      by cases (rule race_idle [OF _ _ i call] race_armed [OF _ _ _ _ _ i call]; assumption)+
    then show ?thesis by (simp only: Pair resume_call [OF i call])
  qed
qed

lemma race_interleave: "race K n s \<Longrightarrow> race K n (interleave js s)"
  by (induction js arbitrary: s) (simp_all add: race_resume del: resume.simps)

lemma race_count: "race K n (ts, w) \<Longrightarrow> starts K w \<le> Suc n"
  by (auto simp: race_def split: if_splits)

text \<open>All attempts read the row before one goes on.\<close>

lemma all_read:
  assumes worker: "generation_worker ai storage" and status: "status_of w K = Some PENDING"
    and ts: "ts = map (process_task env ai storage) jobs" and m: "m \<le> length jobs"
    and run: "interleave [0..<m] (ts, w) = (ts', w')"
  shows "w_videos w' = w_videos w \<and> w_events w' = w_events w \<and> length ts' = length jobs \<and>
    (\<forall>j < m. idle_task K (ts' ! j)) \<and> (\<forall>j. m \<le> j \<longrightarrow> j < length jobs \<longrightarrow> ts' ! j = ts ! j)"
  using m run
proof (induction m arbitrary: ts' w')
  case 0
  then show ?case by (auto simp: ts)
next
  case (Suc m)
  obtain ts1 w1 where s: "interleave [0..<m] (ts, w) = (ts1, w1)" by fastforce
  from Suc.IH [OF _ s] Suc.prems(1) have IH: "w_videos w1 = w_videos w" "w_events w1 = w_events w"
    "length ts1 = length jobs" "\<forall>j < m. idle_task K (ts1 ! j)"
    "\<forall>j. m \<le> j \<longrightarrow> j < length jobs \<longrightarrow> ts1 ! j = ts ! j" by auto
  have t: "ts1 ! m = process_task env ai storage (jobs ! m)" using IH(5) Suc.prems(1) ts by simp
  have last: "resume m (ts1, w1) = (ts', w')"
    using Suc.prems(2) s by (simp add: interleave_append del: resume.simps)
  have status1: "status_of w1 K = Some PENDING" using status IH(1) by (simp add: status_of_def row_def)
  show ?case
  proof (cases "ts1 ! m")
    case (Return r)
    then have "ts' = ts1" "w' = w1" using last by (auto split: if_splits)
    moreover have "idle_task K (ts1 ! m)" using Return by (simp add: idle_task_def)
    ultimately show ?thesis using IH by (auto simp: less_Suc_eq)
  next
    case (Call f)
    have "ts' = ts1[m := fst (f w1)]" "w' = snd (f w1)"
      using last Suc.prems(1) IH(3) Call by (auto simp: resume_call)
    with read_step [OF worker status1 t [symmetric, unfolded Call]] IH Suc.prems(1) show ?thesis
      by (auto simp: less_Suc_eq)
  qed
qed

end
