(* ===== verification/Concurrency_Properties.thy ===== *)
theory Concurrency_Properties
  imports Racing
begin

text \<open>
  Properties of handlers and attempts that are interleaved at their external calls: what every
  schedule of a pool of tasks guarantees, and the races the code leaves open.
\<close>

section \<open>Attempts of workers\<close>

text \<open>C4: Of any number of attempts at a video, under any schedule and any faults, at most one
  announces that the video is being processed, if all of them have read the \<open>PENDING\<close> row before
  one of them goes on; attempts at other videos may be among them.\<close>

theorem racing_attempts_start_once:
  assumes "status_of w k = Some PENDING"
    and "interleave ([0..<length jobs] @ schedule)
      (map (process_task env (aiService env delay) (storageService env cfg)) jobs, w) = (ts, w')"
  shows "starts k w' \<le> Suc (starts k w)"
proof -
  have worker: "generation_worker (aiService env delay) (storageService env cfg)" by unfold_locales
  obtain ts1 w1 where read: "interleave [0..<length jobs]
      (map (process_task env (aiService env delay) (storageService env cfg)) jobs, w) = (ts1, w1)" by fastforce
  from all_read [OF worker assms(1) refl order.refl read]
  have "w_videos w1 = w_videos w" "w_events w1 = w_events w" "\<forall>t \<in> set ts1. idle_task k t"
    by (auto simp: in_set_conv_nth)
  moreover from this have "pending k w1" "starts k w1 = starts k w"
    using status_pending [OF assms(1)] by (simp_all add: pending_def starts_def)
  ultimately have "race k (starts k w) (ts1, w1)" by (simp add: race_def)
  then have "race k (starts k w) (ts, w')"
    using race_interleave [of k "starts k w" "(ts1, w1)" schedule] assms(2) read
    by (simp add: interleave_append)
  then show ?thesis by (rule race_count)
qed

theorem racing_attempts_start_once_witness:
  "starts ''v1'' (snd (interleave ([0, 1] @ [1, 0, 0, 1, 0])
     (map (process_task calm (aiService calm None) (storageService calm sample_config))
        [sample_job None, sample_job (Some 3)], sample_world PENDING))) \<le> 1"
proof -
  obtain ts w' where run: "interleave ([0, 1] @ [1, 0, 0, 1, 0])
     (map (process_task calm (aiService calm None) (storageService calm sample_config))
        [sample_job None, sample_job (Some 3)], sample_world PENDING) = (ts, w')" by fastforce
  have "status_of (sample_world PENDING) ''v1'' = Some PENDING" by (simp add: status_of_def)
  moreover have "[0..<length [sample_job None, sample_job (Some 3)]] = [0, 1]" by (simp add: upt_rec)
  ultimately have "starts ''v1'' w' \<le> Suc (starts ''v1'' (sample_world PENDING))"
    using racing_attempts_start_once [of "sample_world PENDING" "''v1''" "[sample_job None, sample_job (Some 3)]"
        "[1, 0, 0, 1, 0]" calm None sample_config ts w'] run by (simp del: resume.simps interleave.simps)
  then show ?thesis using run by (simp add: starts_def del: resume.simps interleave.simps)
qed

text \<open>C18: Whatever the schedule and the faults, attempts leave the rows of all videos they are not
  about as they are, and move the status of a video only along the valid edges or to \<open>FAILED\<close>; no
  attempt makes a video \<open>PENDING\<close> again.\<close>

theorem interleaved_attempts_are_confined:
  assumes "interleave schedule
    (map (process_task env (aiService env delay) (storageService env cfg)) jobs, w) = (ts, w')"
  shows "(\<forall>k. k \<notin> j_videoId ` set jobs \<longrightarrow> row w' k = row w k) \<and>
    (\<forall>k s. status_of w k = Some s \<longrightarrow>
       (\<exists>t. status_of w' k = Some t \<and> moves\<^sup>*\<^sup>* s t \<and> (t = PENDING \<longrightarrow> s = PENDING)))"
proof -
  let ?attempt = "process_task env (aiService env delay) (storageService env cfg)"
  have worker: "generation_worker (aiService env delay) (storageService env cfg)" by unfold_locales
  have "row w' k = row w k" if "k \<notin> j_videoId ` set jobs" for k
  proof -
    have "always (\<lambda>_. True) (keeps (\<lambda>w. row w k)) (?attempt job)" if "job \<in> set jobs" for job
      using \<open>k \<notin> _\<close> that
      by (intro follows_mono [OF steps_only_row.process_steps [OF worker refl]]) (auto simp: only_row_def keeps_def)
    then show ?thesis
      using keeps_row.interleaved [OF _ assms] by (simp add: keeps_def)
  qed
  moreover have "onward w w'"
    by (rule steps_onward.interleaved [OF _ assms]) (auto intro: steps_onward.process_steps worker)
  moreover have "s = PENDING" if "moves\<^sup>*\<^sup>* s PENDING" for s
    using that by cases (auto simp: moves_def elim: status_edgeE)
  ultimately show ?thesis by (fastforce simp: onward_def statuses_def)
qed

theorem interleaved_attempts_are_confined_witness:
  "\<exists>t. status_of (snd (interleave [0, 1, 0, 0] (map (process_task calm (aiService calm None)
      (storageService calm sample_config)) [sample_job None, sample_job (Some 3)], sample_world PENDING))) ''v1'' = Some t \<and>
    moves\<^sup>*\<^sup>* PENDING t"
proof -
  obtain ts w' where run: "interleave [0, 1, 0, 0] (map (process_task calm (aiService calm None)
      (storageService calm sample_config)) [sample_job None, sample_job (Some 3)], sample_world PENDING) = (ts, w')"
    by fastforce
  have "status_of (sample_world PENDING) ''v1'' = Some PENDING" by (simp add: status_of_def)
  with interleaved_attempts_are_confined [OF run] run show ?thesis
    by (metis snd_conv)
qed

text \<open>What an attempt does up to the announcement of its start.\<close>

lemma attempt_begins:
  assumes up: "up env Database" "up env Queue" and wf: "wf_world w"
    and v: "row w k = Some v" "v_status v \<in> {PENDING, PROCESSING}"
    and job: "j_name job = GENERATE" "j_videoId job = k"
    and i: "i < length ts" "ts ! i = process_task env ai storage job"
  shows "\<exists>t w'. interleave [i, i, i, i, i] (ts, w) = (ts[i := t], w') \<and> wf_world w' \<and>
    status_of w' k = Some PROCESSING \<and> starts k w' = Suc (starts k w)"
proof -
  have allowed: "transition_allowed (v_status v) PROCESSING"
    using v(2) by (auto simp: transition_allowed_iff)
  let ?w1 = "ticked env w"
  let ?w2 = "after_move env k (v_status v) PROCESSING start_extra ?w1"
  have 1: "resume i (ts, w) = (ts[i := after_read env ai storage job v], ?w1)"
    using i up(1) v(1) by (simp add: process_first [OF job(1)] job(2) findById_eval up_def)
  have "affected v_id k (\<lambda>x. v_status x = v_status v) (w_videos w) = 1"
    using affected_row [OF wf, of k] v(1) by simp
  then have 2: "resume i (ts[i := after_read env ai storage job v], ?w1) =
      (ts[i := owning_task env ai storage job v], ?w2)"
    using i(1) up(1) by (simp add: after_read_first [OF allowed] Let_def job(2) db_update_video_cases up_def)
  define w3 where "w3 = snd (detached (writeCache env k PROCESSING
      (nullish (opt_get (x_metadata start_extra) ''progressPercent'') (JNum 0))
      (nullish (opt_get (x_metadata start_extra) ''progressMessage'') (JStr []))) ?w2)"
  define w4 where "w4 = snd (job_updateProgress env job 10 w3)"
  define w5 where "w5 = snd (emit env (VideoProcessingStarted k (j_attemptsMade job + 1)) w4)"
  let ?h = "\<lambda>r. case r of Inl e \<Rightarrow> fail_task env job e
    | Inr a \<Rightarrow> t_try (generate_announced_task env ai storage job v) (fail_task env job)"
  let ?emit = "t_then (atomic (emit env (VideoProcessingStarted k (j_attemptsMade job + 1)))) ?h"
  have 3: "resume i (ts[i := owning_task env ai storage job v], ?w2) =
      (ts[i := t_try (generate_started_task env ai storage job v) (fail_task env job)], w3)"
    using i(1) by (simp add: owning_task_def then_atomic detached_def w3_def job(2))
  have 4: "resume i (ts[i := t_try (generate_started_task env ai storage job v) (fail_task env job)], w3) = (ts[i := ?emit], w4)"
    using i(1) up(2) by (simp add: started_first then_atomic w4_def job(2) job_updateProgress_eval up_def Let_def)
  have 5: "resume i (ts[i := ?emit], w4) = (ts[i := t_try (generate_announced_task env ai storage job v) (fail_task env job)], w5)"
    using i(1) by (simp add: then_atomic w5_def emit_quiet quiet_def)
  have w4: "w4 = (ticked env w3)\<lparr>w_jobs := w_jobs w4\<rparr>"
    using up(2) by (simp add: w4_def job_updateProgress_eval up_def Let_def)
  have w5: "w_videos w5 = w_videos ?w2" "w_events w5 = w_events w @ [VideoProcessingStarted k (j_attemptsMade job + 1)]"
    by (subst w5_def, simp add: emit_quiet quiet_def, subst w4, simp add: w3_def detached_eq)+
  have "row w5 k = Some (touch (w_now (ticked env ?w1)) (apply_extra PROCESSING start_extra) v)"
    using w5(1) v(1) by (simp add: row_def) (simp add: row_def [symmetric] row_after_update)
  then have "status_of w5 k = Some PROCESSING" by (simp add: status_of_def touch_def)
  moreover have "starts k w5 = Suc (starts k w)" using w5(2) by (simp add: starts_def)
  moreover have "wf_world w5"
  proof -
    have "wf_world w3" using wf by (simp add: w3_def detached_eq wf_after_update)
    then have "wf_world w4" using attempt_wf.job_step [of env job 10] by (simp add: guarantee_def keeps_wf_def w4_def)
    then show ?thesis by (simp add: w5_def emit_quiet quiet_def wf_world_def)
  qed
  ultimately show ?thesis using 1 2 3 4 5 by (auto simp del: resume.simps)
qed

text \<open>C15: An attempt that reads the row after another one has moved it to \<open>PROCESSING\<close> starts as well,
  while the other one is still running: the guarded update does not keep two attempts at one
  video from being made at the same time.\<close>

theorem late_attempt_starts_again:
  assumes "up env Database" and "up env Queue" and "wf_world w"
    and "row w k = Some v" and "v_status v \<in> {PENDING, PROCESSING}"
    and "j_name job = GENERATE" and "j_videoId job = k" and "j_name job' = GENERATE" and "j_videoId job' = k"
  shows "\<exists>schedule t t' w'. interleave schedule
      ([process_task env ai storage job, process_task env ai storage job'], w) = ([t, t'], w') \<and>
    starts k w' = starts k w + 2 \<and> status_of w' k = Some PROCESSING"
proof -
  let ?ts = "[process_task env ai storage job, process_task env ai storage job']"
  obtain t w1 where 1: "interleave [0, 0, 0, 0, 0] (?ts, w) = (?ts[0 := t], w1)" "wf_world w1"
    "status_of w1 k = Some PROCESSING" "starts k w1 = Suc (starts k w)"
    using attempt_begins [OF assms(1-7), of 0 ?ts ai storage] by auto
  then obtain v1 where v1: "row w1 k = Some v1" "v_status v1 \<in> {PENDING, PROCESSING}"
    by (auto simp: status_of_def)
  obtain t' w2 where 2: "interleave [1, 1, 1, 1, 1] (?ts[0 := t], w1) = (?ts[0 := t, 1 := t'], w2)"
    "status_of w2 k = Some PROCESSING" "starts k w2 = Suc (starts k w1)"
    using attempt_begins [OF assms(1,2) 1(2) v1 assms(8,9), of 1 "?ts[0 := t]" ai storage] by auto
  have "interleave ([0, 0, 0, 0, 0] @ [1, 1, 1, 1, 1]) (?ts, w) = ([t, t'], w2)"
    unfolding interleave_append 1(1) 2(1) by simp
  with 1(4) 2(2,3) show ?thesis by (intro exI [of _ "[0, 0, 0, 0, 0] @ [1, 1, 1, 1, 1]"]) auto
qed

theorem late_attempt_starts_again_witness:
  "\<exists>schedule t t' w'. interleave schedule
      ([process_task calm (aiService calm None) (storageService calm sample_config) (sample_job None),
        process_task calm (aiService calm None) (storageService calm sample_config) (sample_job None)],
       sample_world PENDING) = ([t, t'], w') \<and>
    starts ''v1'' w' = starts ''v1'' (sample_world PENDING) + 2 \<and> status_of w' ''v1'' = Some PROCESSING"
  by (rule late_attempt_starts_again [where v = "sample_video PENDING"]) simp_all

section \<open>Reads and writes of the endpoints\<close>

lemma saved_row:
  assumes "v_id v = k"
    and "case row w k of None \<Rightarrow> find_user (v_userId v) (w_users w) \<noteq> None | Some r \<Rightarrow> v_userId r = v_userId v"
  shows "\<exists>x. row (snd (save_row v w)) k = Some x \<and> x\<lparr>v_updatedAt := v_updatedAt v\<rparr> = v"
proof (cases "row w k")
  case None
  then show ?thesis
    using assms videos.lookup_ins [of v "w_videos w" k] by (simp add: save_row_def row_def)
next
  case (Some r)
  have r: "v_id r = k" using Some by (auto simp: row_def find_video_def dest: select_key_SomeD)
  show ?thesis
  proof (cases "v\<lparr>v_updatedAt := v_updatedAt r\<rparr> = r")
    case True
    then have "r\<lparr>v_updatedAt := v_updatedAt v\<rparr> = v" by (metis video.surjective video.update_convs(18))
    then show ?thesis using Some assms True by (simp add: save_row_def row_def)
  next
    case False
    then have "row (snd (save_row v w)) k = Some (v\<lparr>v_id := v_id r, v_updatedAt := w_now w\<rparr>)"
      using Some assms by (simp add: save_row_def row_def videos.lookup_upd)
    then show ?thesis using r assms(1) by simp
  qed
qed

text \<open>C16: An update of a title writes the row back as it was when the handler read it: whatever other
  requests and attempts have done to the video in between is undone, a status reached since then
  is lost, and a video deleted since then exists again.\<close>

theorem stale_save_undoes_changes:
  assumes "up env Database" and "row w k = Some v" and "v_userId v = u" and "uv_title changes \<noteq> Null"
    and "i < length ts" and "ts ! i = t_spawn (update_task env k u changes)"
    and "interleave (i # others) (ts, w) = (ts1, w1)" and "i \<notin> set others"
    and "case row w1 k of None \<Rightarrow> find_user u (w_users w1) \<noteq> None | Some r \<Rightarrow> v_userId r = u"
  shows "\<exists>x. row (snd (resume i (ts1, w1))) k = Some x \<and>
    x\<lparr>v_updatedAt := v_updatedAt v\<rparr> = assign_title (uv_title changes) v"
proof -
  let ?v = "assign_title (uv_title changes) v"
  have read: "findOneForUser env k u w = (Inr v, ticked env w)"
    using assms(1-3) by (simp add: findOneForUser_eval)
  let ?t = "t_spawn (atomic (db_save_video env v (uv_title changes)))"
  have "resume i (ts, w) = (ts[i := ?t], ticked env w)"
    using assms(5,6) read by (simp add: update_task_def spawn_first)
  then have rest: "interleave others (ts[i := ?t], ticked env w) = (ts1, w1)"
    using assms(7) by (simp del: resume.simps)
  then have "ts1 ! i = ?t" and "i < length ts1"
    using interleave_other [OF assms(8), of "(ts[i := ?t], ticked env w)"] assms(5)
      interleave_length [of others "(ts[i := ?t], ticked env w)"] by simp_all
  then have "snd (resume i (ts1, w1)) = snd (db_save_video env v (uv_title changes) w1)"
    by (simp add: spawn_last)
  moreover have "snd (db_save_video env v (uv_title changes) w1) = snd (save_row ?v (ticked env w1))"
    using assms(1,4) by (simp add: db_save_video_def external_up)
  moreover have "v_id v = k" using assms(2) by (auto simp: row_def find_video_def dest: select_key_SomeD)
  moreover have "case row (ticked env w1) k of None \<Rightarrow> find_user (v_userId ?v) (w_users (ticked env w1)) \<noteq> None
      | Some r \<Rightarrow> v_userId r = v_userId ?v"
    using assms(3,9) by (simp split: option.splits)
  ultimately show ?thesis
    using saved_row [of ?v k "ticked env w1"] by (simp del: resume.simps)
qed

definition retitle :: "update_video_dto" where
  "retitle = \<lparr>uv_title = Value ''new''\<rparr>"

text \<open>A worker completes the video between the read and the write.\<close>

definition title_race :: "(world, unit) task list" where
  "title_race = [t_spawn (update_task calm ''v1'' ''alice'' retitle),
     t_spawn (transitionStatus_task calm ''v1'' PROCESSING COMPLETED
       \<lparr>x_videoUrl = Some ''url'', x_thumbnailUrl = None, x_metadata = None\<rparr>)]"

lemma title_race_steps:
  "\<exists>ts1 w1. interleave [0, 1] (title_race, sample_world PROCESSING) = (ts1, w1) \<and>
     status_of w1 ''v1'' = Some COMPLETED \<and> map_option v_userId (row w1 ''v1'') = Some ''alice''"
  by (simp add: title_race_def update_task_def transitionStatus_task_def transition_allowed_iff spawn_first
      findOneForUser_eval db_update_video_cases affected_def status_of_def row_after_update touch_def)

theorem stale_save_undoes_changes_witness:
  "\<exists>ts1 w1. interleave [0, 1] (title_race, sample_world PROCESSING) = (ts1, w1) \<and>
     status_of w1 ''v1'' = Some COMPLETED \<and> status_of (snd (resume 0 (ts1, w1))) ''v1'' = Some PROCESSING"
proof -
  obtain ts1 w1 where run: "interleave (0 # [1]) (title_race, sample_world PROCESSING) = (ts1, w1)"
    and row: "status_of w1 ''v1'' = Some COMPLETED" "map_option v_userId (row w1 ''v1'') = Some ''alice''"
    using title_race_steps by auto
  have task: "title_race ! 0 = t_spawn (update_task calm ''v1'' ''alice'' retitle)" and l: "0 < length title_race"
    by (simp_all add: title_race_def)
  from row(2) have owner: "case row w1 ''v1'' of None \<Rightarrow> find_user ''alice'' (w_users w1) \<noteq> None
      | Some r \<Rightarrow> v_userId r = ''alice''" by (cases "row w1 ''v1''") simp_all
  obtain x where x: "row (snd (resume 0 (ts1, w1))) ''v1'' = Some x"
    "x\<lparr>v_updatedAt := v_updatedAt (sample_video PROCESSING)\<rparr> = assign_title (uv_title retitle) (sample_video PROCESSING)"
    using stale_save_undoes_changes [OF up_calm _ _ _ l task run _ owner, of "sample_video PROCESSING"]
    by (auto simp: retitle_def simp del: resume.simps)
  from arg_cong [OF x(2), of v_status] have "v_status x = PROCESSING" by simp
  with row(1) run x(1) show ?thesis by (auto simp: status_of_def simp del: resume.simps)
qed

lemma retry_record_calls:
  "up env Database \<Longrightarrow> up env Queue \<Longrightarrow> w_calls (snd (retry_record env rid r w)) = w_calls w + 4"
  by (simp add: retry_record_def db_update_video_def queue_add_def db_update_failed_job_def io_simps current_time_def
      Let_def split: option.split)

text \<open>C39: Two requests that retry one dead-letter record at the same time can both read it as not yet
  retried. Then both return normally, and the video is queued twice: with the services up there
  is a schedule after which both tasks have ended without an error and two new jobs of the video
  are in the queue.\<close>

theorem racing_retries_enqueue_twice:
  assumes "up env Database" and "up env Queue"
    and "find_failed_job rid (w_failed_jobs w) = Some f" and "\<not> f_retried f" and "row w (f_videoId f) = Some v"
    and "inj (e_job_id env)" and "\<And>n. find_job (e_job_id env n) (w_jobs w) = None"
  shows "\<exists>schedule a b w'. a \<noteq> b \<and>
    interleave schedule ([t_spawn (retryFailedJob_task env rid), t_spawn (retryFailedJob_task env rid)], w) =
      ([Return (Inr ()), Return (Inr ())], w') \<and>
    w_jobs w' = w_jobs w @ [new_job a GENERATE (f_videoId f) queue_module_job_defaults,
                new_job b GENERATE (f_videoId f) queue_module_job_defaults]"
proof -
  let ?ts = "[t_spawn (retryFailedJob_task env rid), t_spawn (retryFailedJob_task env rid)]"
  let ?r = "t_spawn (retry_record_task env rid f)"
  let ?w2 = "ticked env (ticked env w)"
  have "db_find_failed_job env rid u = (Inr (Some f), ticked env u)" if "w_failed_jobs u = w_failed_jobs w" for u
    using assms(1,3) that by (simp add: db_find_failed_job_def io_simps)
  then have reads: "interleave [0, 1] (?ts, w) = ([?r, ?r], ?w2)"
    using assms(4) by (simp add: retryFailedJob_task_def spawn_first)
  let ?a = "e_job_id env (Suc (Suc (w_calls ?w2)))"
  obtain w3 v3 where 3: "retry_record env rid f ?w2 = (Inr \<lparr>rf_id = f_id f, rf_retryJobId = ?a, rf_videoId = f_videoId f\<rparr>, w3)"
    "w_jobs w3 = insert_row (new_job ?a GENERATE (f_videoId f) queue_module_job_defaults) (w_jobs w)"
    "row w3 (f_videoId f) = Some v3"
    using retry_record_up [OF assms(1,2) refl, of ?w2 f v rid] assms(5,7) by auto
  have calls: "w_calls w3 = w_calls ?w2 + 4" using retry_record_calls [OF assms(1,2), of rid f ?w2] 3(1) by simp
  let ?b = "e_job_id env (Suc (Suc (w_calls w3)))"
  have ne: "?a \<noteq> ?b" using assms(6) calls by (simp add: inj_eq)
  have "find_job ?b (w_jobs w3) = None"
    using assms(7) ne jobs.lookup_ins [of "new_job ?a GENERATE (f_videoId f) queue_module_job_defaults" "w_jobs w" ?b]
    by (simp add: 3(2) new_job_def)
  then obtain w4 where 4: "retry_record env rid f w3 = (Inr \<lparr>rf_id = f_id f, rf_retryJobId = ?b, rf_videoId = f_videoId f\<rparr>, w4)"
    "w_jobs w4 = insert_row (new_job ?b GENERATE (f_videoId f) queue_module_job_defaults) (w_jobs w3)"
    using retry_record_up [OF assms(1,2) refl _ 3(3), of rid] by auto
  have "run_task ?r ?w2 = (Inr (), w3)" "run_task ?r w3 = (Inr (), w4)"
    using 3(1) 4(1) by (simp_all add: run_spawn_returns retry_task)
  then have first: "interleave (replicate (steps_alone ?r ?w2) 0) ([?r, ?r], ?w2) = ([Return (Inr ()), ?r], w3)"
    and second: "interleave (replicate (steps_alone ?r w3) 1) ([Return (Inr ()), ?r], w3) =
      ([Return (Inr ()), Return (Inr ())], w4)"
    using interleave_alone [of 0 "[?r, ?r]" ?w2] interleave_alone [of 1 "[Return (Inr ()), ?r]" w3] by simp_all
  have "interleave ([0, 1] @ replicate (steps_alone ?r ?w2) 0 @ replicate (steps_alone ?r w3) 1) (?ts, w) =
      ([Return (Inr ()), Return (Inr ())], w4)"
    unfolding interleave_append reads first by (rule second)
  moreover have "w_jobs w4 = w_jobs w @ [new_job ?a GENERATE (f_videoId f) queue_module_job_defaults,
                new_job ?b GENERATE (f_videoId f) queue_module_job_defaults]"
    by (simp add: 4(2) 3(2) insert_row_def)
  ultimately show ?thesis using ne by metis
qed

definition counting :: env where
  "counting = calm\<lparr>e_job_id := (\<lambda>n. replicate n (CHR ''x''))\<rparr>"

lemma up_counting [simp]: "up counting s"
  by (simp add: counting_def up_def)

theorem racing_retries_enqueue_twice_witness:
  "\<exists>schedule a b w'. a \<noteq> b \<and>
    interleave schedule ([t_spawn (retryFailedJob_task counting ''r1''), t_spawn (retryFailedJob_task counting ''r1'')], dlq_world) =
      ([Return (Inr ()), Return (Inr ())], w') \<and>
    w_jobs w' = w_jobs dlq_world @ [new_job a GENERATE (f_videoId sample_record) queue_module_job_defaults,
                new_job b GENERATE (f_videoId sample_record) queue_module_job_defaults]"
proof (rule racing_retries_enqueue_twice)
  show "inj (e_job_id counting)" by (auto simp: counting_def inj_def replicate_eq_replicate)
qed (simp_all add: find_failed_job_def select_key_def find_job_def)

text \<open>The first two steps of a status read that misses the cache, and what is left of it.\<close>

lemma cold_read_steps:
  assumes "up env Database" and "up env Redis" and "live_entry w k (w_now (ticked env w)) = None"
    and "row w k = Some v" and i: "i < length ts" "ts ! i = t_spawn (getCachedStatus_task env k)"
  shows "\<exists>rest. resume i (resume i (ts, w)) = (ts[i := rest], ticked env (ticked env w)) \<and>
    (\<forall>us u. i < length us \<longrightarrow> us ! i = rest \<longrightarrow> snd (resume i (resume i (us, u))) =
       snd (redis_set env (statusKey k) (Serialized (snapshot_of v (w_now u))) CACHE_TTL_SECONDS u))"
proof -
  let ?h = "\<lambda>r. case r of Inl e \<Rightarrow> t_return None | Inr a \<Rightarrow> t_return a"
  let ?store = "\<lambda>t. t_seq (atomic (redis_set env (statusKey k) (Serialized (snapshot_of v t)) CACHE_TTL_SECONDS))
      (t_return (Some (snapshot_of v t)))"
  let ?rest = "t_spawn (t_try (t_bind (atomic current_time) ?store) (\<lambda>err. t_return None))"
  have 1: "resume i (ts, w) = (ts[i := t_spawn (loadFromDb_task env k)], ticked env w)"
    using i assms(2,3)
    by (auto simp: getCachedStatus_task_def spawn_first redis_get_def io_simps live_entry_def split: option.split)
  have 2: "resume i (ts[i := t_spawn (loadFromDb_task env k)], ticked env w) = (ts[i := ?rest], ticked env (ticked env w))"
    using i(1) assms(1,4)
    by (simp add: loadFromDb_task_def t_spawn_def t_try_def t_bind_def then_atomic comp_def db_find_video_def io_simps row_def)
  have "snd (resume i (resume i (us, u))) =
       snd (redis_set env (statusKey k) (Serialized (snapshot_of v (w_now u))) CACHE_TTL_SECONDS u)"
    if "i < length us" "us ! i = ?rest" for us u
    using that by (simp add: t_spawn_def t_try_def t_bind_def t_seq_def then_atomic comp_def current_time_def)
  with 1 2 show ?thesis by (auto simp del: resume.simps)
qed

text \<open>C35: A status read that misses the cache stores the snapshot of the row it has read, however long
  ago: if a worker moves the video in between, the cached status is out of date, and the
  read that follows answers with it.\<close>

theorem slow_read_caches_stale_status:
  assumes "up env Database" and "up env Redis" and "live_entry w k (w_now (ticked env w)) = None"
    and "row w k = Some v" and "i < length ts" and "ts ! i = t_spawn (getCachedStatus_task env k)"
    and "interleave ([i, i] @ others) (ts, w) = (ts1, w1)" and "i \<notin> set others"
    and "w2 = snd (interleave [i, i] (ts1, w1))" and "int (e_latency env (w_calls w2)) < CACHE_TTL_SECONDS * 1000"
  shows "statuses w2 = statuses w1 \<and>
    (\<exists>s. fst (getCachedStatus env k w2) = Inr (Some s) \<and> s_status s = v_status v)"
proof -
  obtain rest where reads: "resume i (resume i (ts, w)) = (ts[i := rest], ticked env (ticked env w))"
    and last: "\<And>us u. i < length us \<Longrightarrow> us ! i = rest \<Longrightarrow> snd (resume i (resume i (us, u))) =
       snd (redis_set env (statusKey k) (Serialized (snapshot_of v (w_now u))) CACHE_TTL_SECONDS u)"
    using cold_read_steps [OF assms(1-6)] by blast
  let ?s = "(ts[i := rest], ticked env (ticked env w))"
  have run: "interleave others ?s = (ts1, w1)"
    using assms(7) reads by (simp add: interleave_append del: resume.simps)
  then have "ts1 ! i = rest" and "i < length ts1"
    using interleave_other [OF assms(8), of ?s] interleave_length [of others ?s] assms(5) by simp_all
  then have w2: "w2 = snd (redis_set env (statusKey k) (Serialized (snapshot_of v (w_now w1))) CACHE_TTL_SECONDS w1)"
    using last assms(9) by (simp del: resume.simps)
  then have "statuses w2 = statuses w1"
    using assms(2) by (intro statuses_eq_row ext) (simp add: redis_set_def io_simps row_def)
  moreover have "live_entry w2 k (w_now (ticked env w2)) = Some (Serialized (snapshot_of v (w_now w1)))"
    using assms(2,10) by (simp add: w2 redis_set_def io_simps live_entry_def now_ticked)
  ultimately show ?thesis
    using getCachedStatus_hit [OF assms(2)] by (auto simp: snapshot_of_def)
qed

text \<open>A worker completes the video while the read is under way.\<close>

definition read_race :: "(world, unit) task list" where
  "read_race = [t_spawn (getCachedStatus_task calm ''v1''), title_race ! 1]"

theorem slow_read_caches_stale_status_witness:
  "\<exists>ts1 w1 w2. interleave ([0, 0] @ [1]) (read_race, sample_world PROCESSING) = (ts1, w1) \<and>
     w2 = snd (interleave [0, 0] (ts1, w1)) \<and> status_of w1 ''v1'' = Some COMPLETED \<and>
     (\<exists>s. fst (getCachedStatus calm ''v1'' w2) = Inr (Some s) \<and> s_status s = PROCESSING)"
proof -
  have step: "\<exists>t w1. resume 1 ([rest, title_race ! 1], u) = ([rest, t], w1) \<and> status_of w1 ''v1'' = Some COMPLETED"
    if "row u ''v1'' = Some (sample_video PROCESSING)" "w_videos u = [sample_video PROCESSING]" for rest u
    using that
    by (simp add: title_race_def transitionStatus_task_def transition_allowed_iff spawn_first db_update_video_cases
        affected_def status_of_def row_after_update touch_def)
  have task: "read_race ! 0 = t_spawn (getCachedStatus_task calm ''v1'')" and l: "0 < length read_race"
    by (simp_all add: read_race_def)
  have cold: "live_entry (sample_world PROCESSING) ''v1'' (w_now (ticked calm (sample_world PROCESSING))) = None"
    by (simp add: live_entry_def)
  have row: "row (sample_world PROCESSING) ''v1'' = Some (sample_video PROCESSING)" by simp
  obtain rest where "resume 0 (resume 0 (read_race, sample_world PROCESSING)) =
      ([rest, title_race ! 1], ticked calm (ticked calm (sample_world PROCESSING)))"
    using cold_read_steps [OF up_calm up_calm cold row l task] by (auto simp: read_race_def simp del: resume.simps)
  with step [of "ticked calm (ticked calm (sample_world PROCESSING))" rest]
  obtain ts1 w1 where run: "interleave ([0, 0] @ [1]) (read_race, sample_world PROCESSING) = (ts1, w1)"
    and completed: "status_of w1 ''v1'' = Some COMPLETED"
    by (auto simp del: resume.simps)
  have "int (e_latency calm (w_calls (snd (interleave [0, 0] (ts1, w1))))) < CACHE_TTL_SECONDS * 1000"
    by (simp add: CACHE_TTL_SECONDS_def)
  with slow_read_caches_stale_status [OF up_calm up_calm cold row l task run _ refl] run completed
  show ?thesis by (auto simp del: resume.simps interleave.simps)
qed

end
