(* ===== verification/Monitoring.thy ===== *)
theory Monitoring
  imports Prelude
begin

text \<open>
  \<open>MonitoringAuthMiddleware\<close> (modules/monitoring): basic authentication of the queue dashboard.
  The header is decoded as \<open>Buffer.from(s, 'base64').toString('utf8')\<close> does it: the text
  ends at the padding, characters outside the alphabet are skipped, bytes that are not UTF-8 become the replacement character, and the
  result is a sequence of UTF-16 code units, which is what \<open>indexOf\<close> and \<open>slice\<close> work on.
\<close>

section \<open>Base64\<close>

definition char_sextet :: "char \<Rightarrow> nat option" where
  "char_sextet c =
     (let n = (of_char c :: nat) in
      if 65 \<le> n \<and> n \<le> 90 then Some (n - 65)
      else if 97 \<le> n \<and> n \<le> 122 then Some (n - 71)
      else if 48 \<le> n \<and> n \<le> 57 then Some (n + 4)
      else if n = 43 \<or> n = 45 then Some 62
      else if n = 47 \<or> n = 95 then Some 63
      else None)"

fun bytes_of_sextets :: "nat list \<Rightarrow> nat list" where
  "bytes_of_sextets (a # b # c # d # r) =
     (a * 4 + b div 16) # (b mod 16 * 16 + c div 4) # (c mod 4 * 64 + d) # bytes_of_sextets r"
| "bytes_of_sextets [a, b, c] = [a * 4 + b div 16, b mod 16 * 16 + c div 4]"
| "bytes_of_sextets [a, b] = [a * 4 + b div 16]"
| "bytes_of_sextets _ = []"

definition base64_decode :: "string \<Rightarrow> nat list" where
  "base64_decode s = bytes_of_sextets (List.map_filter char_sextet (takeWhile (\<lambda>c. c \<noteq> CHR ''='') s))"

text \<open>The encoding a client sends.\<close>

definition sextet_char :: "nat \<Rightarrow> char" where
  "sextet_char n = char_of
     (if n < 26 then n + 65 else if n < 52 then n + 71 else if n < 62 then n - 4
      else if n = 62 then 43 else 47)"

fun sextets_of_bytes :: "nat list \<Rightarrow> nat list" where
  "sextets_of_bytes (x # y # z # r) =
     (x div 4) # (x mod 4 * 16 + y div 16) # (y mod 16 * 4 + z div 64) # (z mod 64) # sextets_of_bytes r"
| "sextets_of_bytes [x, y] = [x div 4, x mod 4 * 16 + y div 16, y mod 16 * 4]"
| "sextets_of_bytes [x] = [x div 4, x mod 4 * 16]"
| "sextets_of_bytes [] = []"

definition base64_encode :: "string \<Rightarrow> string" where
  "base64_encode s =
     map sextet_char (sextets_of_bytes (map of_char s)) @
     replicate ((3 - length s mod 3) mod 3) (CHR ''='')"

section \<open>UTF-8 and UTF-16\<close>

definition replacement :: nat where
  "replacement = 65533"

text \<open>
  The decoder of the encoding standard: idle, or within a sequence with the bits read so far, the
  number of bytes still needed and the bounds of the next one, which exclude overlong forms and
  surrogates. A byte out of bounds ends the sequence with a replacement and is read again.
\<close>

datatype utf8_state = Idle | Within (bits: nat) (needed: nat) (lower: nat) (upper: nat)

definition utf8_start :: "nat \<Rightarrow> nat list \<times> utf8_state" where
  "utf8_start b =
     (if b < 128 then ([b], Idle)
      else if 194 \<le> b \<and> b \<le> 223 then ([], Within (b - 192) 1 128 191)
      else if 224 \<le> b \<and> b \<le> 239 then
        ([], Within (b - 224) 2 (if b = 224 then 160 else 128) (if b = 237 then 159 else 191))
      else if 240 \<le> b \<and> b \<le> 244 then
        ([], Within (b - 240) 3 (if b = 240 then 144 else 128) (if b = 244 then 143 else 191))
      else ([replacement], Idle))"

fun utf8_step :: "utf8_state \<Rightarrow> nat \<Rightarrow> nat list \<times> utf8_state" where
  "utf8_step Idle b = utf8_start b"
| "utf8_step (Within cp n lo hi) b =
     (if lo \<le> b \<and> b \<le> hi then
        if n = 1 then ([cp * 64 + (b - 128)], Idle)
        else ([], Within (cp * 64 + (b - 128)) (n - 1) 128 191)
      else (replacement # fst (utf8_start b), snd (utf8_start b)))"

fun utf8_run :: "utf8_state \<Rightarrow> nat list \<Rightarrow> nat list" where
  "utf8_run st [] = (if st = Idle then [] else [replacement])"
| "utf8_run st (b # bs) = fst (utf8_step st b) @ utf8_run (snd (utf8_step st b)) bs"

definition utf8_decode :: "nat list \<Rightarrow> nat list" where
  "utf8_decode bs = utf8_run Idle bs"

definition utf16_units :: "nat \<Rightarrow> nat list" where
  "utf16_units cp =
     (if cp < 65536 then [cp]
      else [55296 + (cp - 65536) div 1024, 56320 + (cp - 65536) mod 1024])"

definition units_of_bytes :: "nat list \<Rightarrow> nat list" where
  "units_of_bytes bs = concat (map utf16_units (utf8_decode bs))"

text \<open>A configured text, which the environment gives in UTF-8.\<close>

definition units_of :: "string \<Rightarrow> nat list" where
  "units_of s = units_of_bytes (map of_char s)"

section \<open>The middleware\<close>

definition colon :: nat where
  "colon = 58"

text \<open>\<open>s.slice(0, i)\<close> and \<open>s.slice(i + 1)\<close> for the index \<open>i\<close> of the first colon, -1 without one.\<close>

definition before_colon :: "nat list \<Rightarrow> nat list" where
  "before_colon s = (if colon \<in> set s then takeWhile (\<lambda>u. u \<noteq> colon) s else butlast s)"

definition after_colon :: "nat list \<Rightarrow> nat list" where
  "after_colon s = (if colon \<in> set s then tl (dropWhile (\<lambda>u. u \<noteq> colon) s) else s)"

datatype middleware_result = Next | Reject401 string

definition use :: "string \<Rightarrow> string \<Rightarrow> string option \<Rightarrow> middleware_result" where
  "use monitoringUser monitoringPassword authHeader =
     (case authHeader of
        None \<Rightarrow> Reject401 ''Queue monitoring requires Basic Auth''
      | Some h \<Rightarrow>
          if take 6 h \<noteq> ''Basic '' then Reject401 ''Queue monitoring requires Basic Auth''
          else
            let decoded = units_of_bytes (base64_decode (drop 6 h));
                user = before_colon decoded;
                password = after_colon decoded
            in if user \<noteq> units_of monitoringUser \<or> password \<noteq> units_of monitoringPassword
               then Reject401 ''Invalid monitoring credentials''
               else Next)"

section \<open>Lemmas\<close>

lemma sextet_of_alphabet: "n < 64 \<Longrightarrow> char_sextet (sextet_char n) = Some n"
  by (auto simp: char_sextet_def sextet_char_def Let_def)

lemma pack: "t < (k :: nat) \<Longrightarrow> (a * k + t) div k = a" "t < k \<Longrightarrow> (a * k + t) mod k = t"
  by simp_all

lemma bytes_of_sextets_of_bytes:
  "\<forall>b \<in> set bs. b < 256 \<Longrightarrow> bytes_of_sextets (sextets_of_bytes bs) = bs"
proof (induction bs rule: sextets_of_bytes.induct)
  case (1 x y z r)
  then have "y div 16 < 16" "z div 64 < 4" by (simp_all add: less_mult_imp_div_less)
  with 1 show ?case by (simp add: pack)
next
  case (2 x y)
  then have "y div 16 < 16" by (simp add: less_mult_imp_div_less)
  with 2 show ?case by (simp add: pack pack(1) [of 0, simplified])
qed simp_all

lemma sextets_bounded: "\<forall>b \<in> set bs. b < 256 \<Longrightarrow> n \<in> set (sextets_of_bytes bs) \<Longrightarrow> n < 64"
proof (induction bs rule: sextets_of_bytes.induct)
  case (1 x y z r)
  have "x div 4 < 64" "y div 16 < 16" "z div 64 < 4" using 1 by (simp_all add: less_mult_imp_div_less)
  moreover have "x mod 4 \<le> 3" "y mod 16 \<le> 15" "z mod 64 < 64" by (simp_all add: less_Suc_eq_le [symmetric])
  ultimately show ?case using 1 by auto
next
  case (2 x y)
  have "x div 4 < 64" "y div 16 < 16" using 2 by (simp_all add: less_mult_imp_div_less)
  moreover have "x mod 4 \<le> 3" "y mod 16 \<le> 15" by (simp_all add: less_Suc_eq_le [symmetric])
  ultimately show ?case using 2 by auto
next
  case (3 x)
  have "x div 4 < 64" using 3 by (simp add: less_mult_imp_div_less)
  moreover have "x mod 4 \<le> 3" by (simp add: less_Suc_eq_le [symmetric])
  ultimately show ?case using 3 by auto
qed simp

lemma base64_round_trip: "base64_decode (base64_encode s) = map of_char s"
proof -
  have bytes: "\<forall>b \<in> set (map of_char s). b < (256 :: nat)" by auto
  have "List.map_filter char_sextet (map sextet_char ns) = ns" if "\<forall>n \<in> set ns. n < 64" for ns
    using that by (induction ns) (simp_all add: List.map_filter_simps sextet_of_alphabet)
  moreover have "takeWhile (\<lambda>c. c \<noteq> CHR ''='') (map sextet_char ns @ replicate k (CHR ''='')) = map sextet_char ns"
    if "\<forall>n \<in> set ns. n < 64" for ns k
  proof -
    have "sextet_char n \<noteq> CHR ''=''" if "n < 64" for n
      using sextet_of_alphabet [OF that] by (auto simp: char_sextet_def)
    with that have "takeWhile (\<lambda>c. c \<noteq> CHR ''='') (map sextet_char ns @ replicate k (CHR ''='')) =
        map sextet_char ns @ takeWhile (\<lambda>c. c \<noteq> CHR ''='') (replicate k (CHR ''=''))"
      by (intro takeWhile_append2) auto
    then show ?thesis by (cases k) simp_all
  qed
  ultimately show ?thesis
    using bytes_of_sextets_of_bytes [OF bytes] sextets_bounded [OF bytes] by (simp add: base64_decode_def base64_encode_def)
qed

text \<open>Decoding does not look across an ASCII character.\<close>

fun utf8_valid :: "utf8_state \<Rightarrow> bool" where
  "utf8_valid Idle = True"
| "utf8_valid (Within cp n lo hi) = (128 \<le> lo)"

lemma utf8_start_simps [simp]:
  "a < 128 \<Longrightarrow> utf8_start a = ([a], Idle)" "utf8_valid (snd (utf8_start b))"
  by (simp_all add: utf8_start_def)

lemma utf8_step_valid: "utf8_valid st \<Longrightarrow> utf8_valid (snd (utf8_step st b))"
  by (cases st) simp_all

lemma utf8_run_split:
  assumes "a < 128" and "utf8_valid st"
  shows "utf8_run st (xs @ a # ys) = utf8_run st xs @ a # utf8_run Idle ys"
  using assms(2)
proof (induction xs arbitrary: st)
  case Nil
  with assms(1) show ?case by (cases st) simp_all
next
  case (Cons b xs)
  then show ?case by (simp add: utf8_step_valid)
qed

lemma utf8_decode_split: "a < 128 \<Longrightarrow> utf8_decode (xs @ a # ys) = utf8_decode xs @ a # utf8_decode ys"
  by (simp add: utf8_decode_def utf8_run_split)

text \<open>An ASCII character of the result stands in the input.\<close>

fun utf8_beyond :: "utf8_state \<Rightarrow> bool" where
  "utf8_beyond Idle = True"
| "utf8_beyond (Within cp n lo hi) =
     (128 \<le> lo \<and> (n = 1 \<and> 2 \<le> cp \<or> n = 2 \<and> (1 \<le> cp \<or> 160 \<le> lo) \<or> n = 3 \<and> (1 \<le> cp \<or> 144 \<le> lo)))"

lemma utf8_start_beyond: "utf8_beyond (snd (utf8_start b))" "x < 128 \<Longrightarrow> x \<in> set (fst (utf8_start b)) \<Longrightarrow> x = b"
  by (auto simp: utf8_start_def replacement_def split: if_splits)

lemma utf8_step_beyond:
  assumes "utf8_beyond st"
  shows "utf8_beyond (snd (utf8_step st b))" and "x < 128 \<Longrightarrow> x \<in> set (fst (utf8_step st b)) \<Longrightarrow> x = b"
  using assms utf8_start_beyond
  by (cases st; auto simp: replacement_def split: if_splits)+

lemma ascii_from_input:
  assumes "x < 128" and "x \<in> set (utf8_decode bs)"
  shows "x \<in> set bs"
proof -
  have "x \<in> set (utf8_run st bs) \<Longrightarrow> utf8_beyond st \<Longrightarrow> x \<in> set bs" for st
    using assms(1)
  proof (induction bs arbitrary: st)
    case Nil
    then show ?case by (simp add: replacement_def split: if_splits)
  next
    case (Cons b bs)
    then show ?case using utf8_step_beyond [of st] by auto
  qed
  from this [of Idle] assms(2) show ?thesis by (simp add: utf8_decode_def)
qed

text \<open>Code units of a text with a colon.\<close>

lemma units_split:
  "units_of_bytes (xs @ colon # ys) = units_of_bytes xs @ colon # units_of_bytes ys"
  by (simp add: units_of_bytes_def utf8_decode_split colon_def utf16_units_def)

lemma colon_in_units: "colon \<in> set (units_of_bytes bs) \<Longrightarrow> colon \<in> set bs"
  by (auto simp: units_of_bytes_def utf16_units_def colon_def intro: ascii_from_input split: if_splits)

lemma split_at_colon:
  "colon \<notin> set xs \<Longrightarrow> before_colon (xs @ colon # ys) = xs"
  "colon \<notin> set xs \<Longrightarrow> after_colon (xs @ colon # ys) = ys"
  by (simp_all add: before_colon_def after_colon_def takeWhile_append dropWhile_append)

lemma rejoin_at_colon: "colon \<in> set s \<Longrightarrow> s = before_colon s @ colon # after_colon s"
proof -
  assume c: "colon \<in> set s"
  then have "dropWhile (\<lambda>u. u \<noteq> colon) s \<noteq> []" by (auto simp: dropWhile_eq_Nil_conv)
  moreover from this have "hd (dropWhile (\<lambda>u. u \<noteq> colon) s) = colon" using hd_dropWhile by blast
  ultimately have "dropWhile (\<lambda>u. u \<noteq> colon) s = colon # tl (dropWhile (\<lambda>u. u \<noteq> colon) s)"
    by (metis list.collapse)
  with c show ?thesis
    by (metis after_colon_def before_colon_def takeWhile_dropWhile_id)
qed

lemma credentials_admitted:
  assumes "CHR '':'' \<notin> set u"
  shows "use u p (Some (''Basic '' @ base64_encode (u @ '':'' @ p))) = Next"
proof -
  have "units_of_bytes (map of_char (u @ '':'' @ p)) = units_of u @ colon # units_of p"
    using units_split [of "map of_char u" "map of_char p"] by (simp add: units_of_def colon_def)
  moreover have "colon \<notin> set (units_of u)"
  proof
    assume "colon \<in> set (units_of u)"
    then have "colon \<in> of_char ` set u" using colon_in_units by (fastforce simp: units_of_def)
    then obtain c where "c \<in> set u" "of_char c = colon" by auto
    moreover have "of_char (CHR '':'') = colon" by (simp add: colon_def)
    ultimately have "c = CHR '':''" by (metis char_of_char)
    with \<open>c \<in> set u\<close> assms show False by simp
  qed
  ultimately show ?thesis by (simp add: use_def Let_def base64_round_trip split_at_colon)
qed

section \<open>Who gets in\<close>

text \<open>C27: The dashboard admits the credentials of a user name without a colon, encoded as the
  standard says, for any password and any characters. Whatever header is admitted, its decoded
  text is the user name, a colon and the password, unless the configured password is the user
  name with one more code unit: then the password alone, without user and colon, is admitted as
  well.\<close>

theorem dashboard_admits_the_credentials:
  assumes "CHR '':'' \<notin> set u"
  shows "use u p (Some (''Basic '' @ base64_encode (u @ '':'' @ p))) = Next \<and>
    (use u p header = Next \<longrightarrow>
      (\<exists>h. header = Some (''Basic '' @ h) \<and>
        (units_of_bytes (base64_decode h) = units_of u @ colon # units_of p \<or>
         colon \<notin> set (units_of p) \<and> units_of_bytes (base64_decode h) = units_of p \<and> units_of u = butlast (units_of p))))"
proof (intro conjI impI)
  show "use u p (Some (''Basic '' @ base64_encode (u @ '':'' @ p))) = Next" by (rule credentials_admitted [OF assms])
next
  assume run: "use u p header = Next"
  then obtain h0 where header: "header = Some h0" "take 6 h0 = ''Basic ''"
    and eq: "before_colon (units_of_bytes (base64_decode (drop 6 h0))) = units_of u"
      "after_colon (units_of_bytes (base64_decode (drop 6 h0))) = units_of p"
    by (auto simp: use_def Let_def split: option.splits if_splits)
  from header have "header = Some (''Basic '' @ drop 6 h0)" by (metis append_take_drop_id)
  moreover let ?d = "units_of_bytes (base64_decode (drop 6 h0))"
  have "?d = units_of u @ colon # units_of p \<or>
      colon \<notin> set (units_of p) \<and> ?d = units_of p \<and> units_of u = butlast (units_of p)"
  proof (cases "colon \<in> set ?d")
    case True
    then show ?thesis using rejoin_at_colon [OF True] eq by simp
  next
    case False
    then show ?thesis using eq by (auto simp: before_colon_def after_colon_def)
  qed
  ultimately show "\<exists>h. header = Some (''Basic '' @ h) \<and>
        (units_of_bytes (base64_decode h) = units_of u @ colon # units_of p \<or>
         colon \<notin> set (units_of p) \<and> units_of_bytes (base64_decode h) = units_of p \<and> units_of u = butlast (units_of p))"
    by blast
qed

theorem dashboard_admits_the_credentials_witness:
  "use ''admin'' ''admin'' (Some (''Basic '' @ base64_encode ''admin:admin'')) = Next"
  using dashboard_admits_the_credentials [of "''admin''" "''admin''"] by simp

end
