(* ===== verification/Config.thy ===== *)
theory Config
  imports Http_Facts Monitoring
begin

text \<open>
  The configuration: what \<open>configuration.ts\<close> reads from the process environment, and what the
  modules make of it (config, app.module.ts, worker-app.module.ts, queue/redis.provider.ts,
  storage/s3.provider.ts). The environment is a map from names to texts.
\<close>

section \<open>Reading numbers\<close>

text \<open>\<open>parseInt(s, 10)\<close>; none stands for \<open>NaN\<close>.\<close>

definition is_space :: "char \<Rightarrow> bool" where
  "is_space c = (let n = (of_char c :: nat) in n = 32 \<or> (9 \<le> n \<and> n \<le> 13))"

definition digit_value :: "char \<Rightarrow> int option" where
  "digit_value c = (let n = (of_char c :: nat) in if 48 \<le> n \<and> n \<le> 57 then Some (int n - 48) else None)"

fun leading_number :: "int \<Rightarrow> string \<Rightarrow> int" where
  "leading_number acc [] = acc"
| "leading_number acc (c # s) =
     (case digit_value c of None \<Rightarrow> acc | Some d \<Rightarrow> leading_number (acc * 10 + d) s)"

definition unsigned_number :: "string \<Rightarrow> int option" where
  "unsigned_number s =
     (case s of [] \<Rightarrow> None | c # _ \<Rightarrow> if digit_value c = None then None else Some (leading_number 0 s))"

definition parse_int :: "string \<Rightarrow> int option" where
  "parse_int s =
     (let t = dropWhile is_space s in
      case t of
        [] \<Rightarrow> None
      | c # r \<Rightarrow>
          if c = CHR ''-'' then map_option uminus (unsigned_number r)
          else if c = CHR ''+'' then unsigned_number r
          else unsigned_number t)"

section \<open>The configuration object\<close>

record configuration =
  cf_nodeEnv :: string
  cf_port :: "int option"
  cf_apiPrefix :: string
  cf_corsOrigin :: string
  cf_throttleTtl :: "int option"
  cf_throttleLimit :: "int option"
  cf_monitoringUser :: string
  cf_monitoringPassword :: string
  cf_dbHost :: string
  cf_dbPort :: "int option"
  cf_dbUsername :: string
  cf_dbPassword :: string
  cf_dbDatabase :: string
  cf_dbSynchronize :: bool
  cf_dbLogging :: bool
  cf_jwtSecret :: string
  cf_jwtExpiresIn :: string
  cf_jwtRefreshSecret :: string
  cf_jwtRefreshExpiresIn :: string
  cf_redisHost :: string
  cf_redisPort :: "int option"
  cf_redisPassword :: string
  cf_region :: string
  cf_accessKeyId :: string
  cf_secretAccessKey :: string
  cf_bucket :: string
  cf_endpoint :: "string option"
  cf_openaiApiKey :: string
  cf_videoProvider :: string
  cf_videoApiKey :: string
  cf_videoApiUrl :: string

type_synonym variables = "string \<Rightarrow> string option"

definition configuration :: "variables \<Rightarrow> configuration" where
  "configuration vars =
     \<lparr>cf_nodeEnv = or_else (vars ''NODE_ENV'') ''development'',
      cf_port = parse_int (or_else (vars ''PORT'') ''3000''),
      cf_apiPrefix = or_else (vars ''API_PREFIX'') ''api/v1'',
      cf_corsOrigin = or_else (vars ''CORS_ORIGIN'') ''*'',
      cf_throttleTtl = parse_int (or_else (vars ''THROTTLE_TTL'') ''60''),
      cf_throttleLimit = parse_int (or_else (vars ''THROTTLE_LIMIT'') ''100''),
      cf_monitoringUser = or_else (vars ''MONITORING_USER'') ''admin'',
      cf_monitoringPassword = or_else (vars ''MONITORING_PASSWORD'') ''admin'',
      cf_dbHost = or_else (vars ''DB_HOST'') ''localhost'',
      cf_dbPort = parse_int (or_else (vars ''DB_PORT'') ''5432''),
      cf_dbUsername = or_else (vars ''DB_USERNAME'') ''postgres'',
      cf_dbPassword = or_else (vars ''DB_PASSWORD'') ''postgres'',
      cf_dbDatabase = or_else (vars ''DB_DATABASE'') ''ai_gen_video'',
      cf_dbSynchronize = (vars ''DB_SYNCHRONIZE'' = Some ''true''),
      cf_dbLogging = (vars ''DB_LOGGING'' = Some ''true''),
      cf_jwtSecret = or_else (vars ''JWT_SECRET'') ''change-me-in-production'',
      cf_jwtExpiresIn = or_else (vars ''JWT_EXPIRES_IN'') ''7d'',
      cf_jwtRefreshSecret = or_else (vars ''JWT_REFRESH_SECRET'') ''change-refresh-in-production'',
      cf_jwtRefreshExpiresIn = or_else (vars ''JWT_REFRESH_EXPIRES_IN'') ''30d'',
      cf_redisHost = or_else (vars ''REDIS_HOST'') ''localhost'',
      cf_redisPort = parse_int (or_else (vars ''REDIS_PORT'') ''6379''),
      cf_redisPassword = or_else (vars ''REDIS_PASSWORD'') [],
      cf_region = or_else (vars ''AWS_REGION'') ''us-east-1'',
      cf_accessKeyId = or_else (vars ''AWS_ACCESS_KEY_ID'') [],
      cf_secretAccessKey = or_else (vars ''AWS_SECRET_ACCESS_KEY'') [],
      cf_bucket = or_else (vars ''AWS_S3_BUCKET'') ''ai-gen-video-storage'',
      cf_endpoint = vars ''AWS_S3_ENDPOINT'',
      cf_openaiApiKey = or_else (vars ''OPENAI_API_KEY'') [],
      cf_videoProvider = or_else (vars ''AI_VIDEO_PROVIDER'') ''openai'',
      cf_videoApiKey = or_else (vars ''AI_VIDEO_API_KEY'') [],
      cf_videoApiUrl = or_else (vars ''AI_VIDEO_API_URL'') []\<rparr>"

section \<open>What the modules take from it\<close>

text \<open>\<open>x || undefined\<close> for a text.\<close>

definition if_nonempty :: "string \<Rightarrow> string option" where
  "if_nonempty s = (if s = [] then None else Some s)"

record connection_options =
  co_host :: string
  co_port :: "int option"
  co_password :: "string option"

definition queue_connection :: "configuration \<Rightarrow> connection_options" where
  "queue_connection c =
     \<lparr>co_host = cf_redisHost c, co_port = cf_redisPort c, co_password = if_nonempty (cf_redisPassword c)\<rparr>"

definition worker_queue_connection :: "configuration \<Rightarrow> connection_options" where
  "worker_queue_connection c =
     \<lparr>co_host = cf_redisHost c, co_port = cf_redisPort c, co_password = if_nonempty (cf_redisPassword c)\<rparr>"

definition redis_client_options :: "configuration \<Rightarrow> connection_options" where
  "redis_client_options c =
     \<lparr>co_host = cf_redisHost c, co_port = cf_redisPort c, co_password = if_nonempty (cf_redisPassword c)\<rparr>"

record database_options =
  do_host :: string
  do_port :: "int option"
  do_username :: string
  do_password :: string
  do_database :: string
  do_synchronize :: bool
  do_logging :: bool
  do_ssl :: bool

definition api_database :: "configuration \<Rightarrow> database_options" where
  "api_database c =
     \<lparr>do_host = cf_dbHost c, do_port = cf_dbPort c, do_username = cf_dbUsername c,
      do_password = cf_dbPassword c, do_database = cf_dbDatabase c, do_synchronize = cf_dbSynchronize c,
      do_logging = cf_dbLogging c, do_ssl = (cf_nodeEnv c = ''production'')\<rparr>"

definition worker_database :: "configuration \<Rightarrow> database_options" where
  "worker_database c =
     \<lparr>do_host = cf_dbHost c, do_port = cf_dbPort c, do_username = cf_dbUsername c,
      do_password = cf_dbPassword c, do_database = cf_dbDatabase c, do_synchronize = cf_dbSynchronize c,
      do_logging = cf_dbLogging c, do_ssl = (cf_nodeEnv c = ''production'')\<rparr>"

record s3_options =
  s3_region :: string
  s3_accessKeyId :: string
  s3_secretAccessKey :: string
  s3_endpoint :: "string option"
  s3_forcePathStyle :: bool

definition s3_client_options :: "configuration \<Rightarrow> s3_options" where
  "s3_client_options c =
     \<lparr>s3_region = cf_region c, s3_accessKeyId = cf_accessKeyId c, s3_secretAccessKey = cf_secretAccessKey c,
      s3_endpoint = (if truthy (cf_endpoint c) then cf_endpoint c else None),
      s3_forcePathStyle = truthy (cf_endpoint c)\<rparr>"

definition storage_settings :: "configuration \<Rightarrow> storage_config" where
  "storage_settings c =
     \<lparr>sc_bucket = Some (cf_bucket c), sc_endpoint = cf_endpoint c, sc_region = Some (cf_region c)\<rparr>"

text \<open>The options of the token service, and the secrets the auth service reads besides.\<close>

definition jwt_settings :: "configuration \<Rightarrow> jwt_config" where
  "jwt_settings c =
     \<lparr>jc_secret = cf_jwtSecret c, jc_expiresIn = cf_jwtExpiresIn c,
      jc_refreshSecret = cf_jwtRefreshSecret c, jc_refreshExpiresIn = cf_jwtRefreshExpiresIn c\<rparr>"

text \<open>The throttling tiers: name, window in milliseconds and limit; none stands for \<open>NaN\<close>.\<close>

definition throttle_tiers :: "configuration \<Rightarrow> (string \<times> int option \<times> int option) list" where
  "throttle_tiers c =
     [(''burst'', Some 10000, Some 20),
      (''standard'', map_option (\<lambda>s. s * 1000) (cf_throttleTtl c), cf_throttleLimit c),
      (''sustained'', Some 3600000, Some 1000)]"

text \<open>The tiers of a route: an override replaces the tier of its name.\<close>

definition effective_tiers :: "configuration \<Rightarrow> route \<Rightarrow> (string \<times> int option \<times> int option) list" where
  "effective_tiers c rt =
     map (\<lambda>(name, ttl, limit). case map_of (rt_throttle rt) name of
            None \<Rightarrow> (name, ttl, limit) | Some (t, l) \<Rightarrow> (name, Some t, Some l)) (throttle_tiers c)"

definition dashboard :: "configuration \<Rightarrow> string option \<Rightarrow> middleware_result" where
  "dashboard c header = use (cf_monitoringUser c) (cf_monitoringPassword c) header"

text \<open>
  The helpers of the folder \<open>config\<close>. Only \<open>getJwtConfig\<close> is used; the others repeat what the
  modules write out.
\<close>

definition getJwtConfig :: "configuration \<Rightarrow> string \<times> string" where
  "getJwtConfig c = (cf_jwtSecret c, cf_jwtExpiresIn c)"

definition getRedisConfig :: "configuration \<Rightarrow> connection_options" where
  "getRedisConfig c =
     \<lparr>co_host = cf_redisHost c, co_port = cf_redisPort c, co_password = if_nonempty (cf_redisPassword c)\<rparr>"

definition getDatabaseConfig :: "configuration \<Rightarrow> database_options" where
  "getDatabaseConfig c =
     \<lparr>do_host = cf_dbHost c, do_port = cf_dbPort c, do_username = cf_dbUsername c,
      do_password = cf_dbPassword c, do_database = cf_dbDatabase c, do_synchronize = cf_dbSynchronize c,
      do_logging = cf_dbLogging c, do_ssl = False\<rparr>"

definition createS3Client :: "configuration \<Rightarrow> s3_options" where
  "createS3Client c =
     \<lparr>s3_region = cf_region c, s3_accessKeyId = cf_accessKeyId c, s3_secretAccessKey = cf_secretAccessKey c,
      s3_endpoint = (if truthy (cf_endpoint c) then cf_endpoint c else None),
      s3_forcePathStyle = truthy (cf_endpoint c)\<rparr>"

text \<open>The API process of an environment; the packages stay parameters.\<close>

definition api_server ::
  "env \<Rightarrow> 'tok auth_lib \<Rightarrow> url_lib \<Rightarrow> validator \<Rightarrow> (string \<Rightarrow> bool) \<Rightarrow> (route \<Rightarrow> instant \<Rightarrow> bool) \<Rightarrow>
   (unit act list \<Rightarrow> string act) \<Rightarrow> (string \<Rightarrow> unit act) \<Rightarrow> variables \<Rightarrow> 'tok server" where
  "api_server env lib ulib vl is_uuid admits healthCheck pingCheck vars =
     \<lparr>sv_env = env, sv_auth = lib, sv_jwt = jwt_settings (configuration vars),
      sv_storage = storage_settings (configuration vars), sv_url = ulib, sv_validator = vl,
      sv_is_uuid = is_uuid, sv_admits = admits, sv_healthCheck = healthCheck, sv_pingCheck = pingCheck, sv_guards = app_guards\<rparr>"

section \<open>Numbers in variables\<close>

lemma digit_value_digit: "n < 10 \<Longrightarrow> digit_value (digit n) = Some (int n)"
  by (simp add: digit_value_def digit_def Let_def)

lemma leading_number_append:
  assumes "\<forall>c \<in> set s. digit_value c \<noteq> None"
  shows "leading_number acc (s @ t) = leading_number (leading_number acc s) t"
  using assms by (induction s arbitrary: acc) auto

text \<open>A number is read back from its decimal notation, whatever follows the digits.\<close>

lemma show_nat_digits:
  "show_nat n \<noteq> [] \<and> (\<forall>c \<in> set (show_nat n). digit_value c \<noteq> None) \<and> leading_number 0 (show_nat n) = int n"
proof (induction n rule: show_nat.induct)
  case (1 n)
  show ?case
  proof (cases "n < 10")
    case True
    then show ?thesis by (simp add: show_nat.simps [of n] digit_value_digit)
  next
    case False
    with 1 have IH: "\<forall>c \<in> set (show_nat (n div 10)). digit_value c \<noteq> None"
      "leading_number 0 (show_nat (n div 10)) = int (n div 10)" by simp_all
    have "int (n div 10) * 10 + int (n mod 10) = int n" by presburger
    with False IH show ?thesis
      by (simp add: show_nat.simps [of n] digit_value_digit leading_number_append del: not_None_eq)
  qed
qed

lemma unsigned_number_show:
  assumes "rest = [] \<or> digit_value (hd rest) = None"
  shows "unsigned_number (show_nat n @ rest) = Some (int n)"
proof -
  have "leading_number acc rest = acc" for acc using assms by (cases rest) simp_all
  with show_nat_digits [of n] have "leading_number 0 (show_nat n @ rest) = int n"
    by (simp add: leading_number_append del: not_None_eq)
  with show_nat_digits [of n] show ?thesis
    by (cases "show_nat n") (auto simp: unsigned_number_def)
qed

lemma parse_int_show:
  assumes "rest = [] \<or> digit_value (hd rest) = None"
  shows "parse_int (show_int i @ rest) = Some i"
proof (cases "i < 0")
  case True
  then show ?thesis
    using unsigned_number_show [OF assms, of "nat (- i)"] by (simp add: parse_int_def show_int_def is_space_def)
next
  case False
  obtain c s where n: "show_nat (nat i) = c # s" "digit_value c \<noteq> None"
    using show_nat_digits [of "nat i"] by (cases "show_nat (nat i)") auto
  then have "\<not> is_space c" "c \<noteq> CHR ''-''" "c \<noteq> CHR ''+''"
    by (auto simp: digit_value_def is_space_def Let_def split: if_splits)
  with n False show ?thesis
    using unsigned_number_show [OF assms, of "nat i"] by (simp add: parse_int_def show_int_def)
qed

section \<open>Agreement\<close>

text \<open>
  Both processes, and the helpers, make the same of a configuration, but for one thing: the
  unused helper for the database knows no encryption in production.
\<close>

lemma processes_agree:
  "worker_database c = api_database c" "worker_queue_connection c = queue_connection c"
  "redis_client_options c = queue_connection c" "getRedisConfig c = queue_connection c"
  "createS3Client c = s3_client_options c"
  "getJwtConfig c = (jc_secret (jwt_settings c), jc_expiresIn (jwt_settings c))"
  by (simp_all add: worker_database_def api_database_def worker_queue_connection_def queue_connection_def
      redis_client_options_def getRedisConfig_def createS3Client_def s3_client_options_def getJwtConfig_def
      jwt_settings_def)

lemma helper_without_encryption: "getDatabaseConfig c = api_database c \<longleftrightarrow> cf_nodeEnv c \<noteq> ''production''"
  by (simp add: getDatabaseConfig_def api_database_def)

section \<open>Properties\<close>

text \<open>C40: An installation that sets no secrets is open: a token that anyone signs with the default
  secret of the sources passes the JWT guard as any active user, and the dashboard admits the
  default credentials.\<close>

theorem default_secrets_are_public:
  assumes "auth_lib_ok lib" and "vars ''JWT_SECRET'' = None"
    and "vars ''MONITORING_USER'' = None" and "vars ''MONITORING_PASSWORD'' = None"
    and "find_user (tk_sub pl) (w_users w) = Some u" and "us_isActive u"
    and "0 < jwt_lifetime lib e" and "up env Database"
  shows "jwt_canActivate env lib (jwt_settings (configuration vars)) False
      (Some (jwt_sign lib pl ''change-me-in-production'' e (w_now w))) w = (Inr (Some (safeFields u)), ticked env w) \<and>
    dashboard (configuration vars) (Some (''Basic '' @ base64_encode ''admin:admin'')) = Next"
proof
  show "jwt_canActivate env lib (jwt_settings (configuration vars)) False
      (Some (jwt_sign lib pl ''change-me-in-production'' e (w_now w))) w = (Inr (Some (safeFields u)), ticked env w)"
    using assms
    by (simp add: jwt_canActivate_def io_bind_def passport_jwt_eval user_findById_eval auth_lib_okD(2) [OF assms(1)]
        jwt_settings_def configuration_def or_else_def up_def)
  show "dashboard (configuration vars) (Some (''Basic '' @ base64_encode ''admin:admin'')) = Next"
    using assms(3,4) credentials_admitted [of "''admin''" "''admin''"]
    by (simp add: dashboard_def configuration_def or_else_def)
qed

theorem default_secrets_are_public_witness:
  "\<exists>w'. jwt_canActivate calm sample_auth_lib (jwt_settings (configuration (\<lambda>_. None))) False
      (Some (jwt_sign sample_auth_lib (payload_of alice) ''change-me-in-production'' ''7d'' 0)) (sample_world PENDING) =
    (Inr (Some (safeFields alice)), w')"
  using default_secrets_are_public [of sample_auth_lib "\<lambda>_. None" "payload_of alice" "sample_world PENDING" alice "''7d''" calm]
  by (auto simp: sample_world_def initial_world_def find_user_def select_key_def)

text \<open>The numbers of the configuration are read back from their decimal notation, with
  whatever follows the digits ignored.\<close>

theorem configured_numbers_round_trip:
  assumes "rest = [] \<or> digit_value (hd rest) = None"
    and "vars ''PORT'' = Some (show_int i @ rest)" and "vars ''THROTTLE_LIMIT'' = Some (show_int k @ rest)"
    and "vars ''THROTTLE_TTL'' = Some (show_int j @ rest)"
  shows "cf_port (configuration vars) = Some i \<and>
    throttle_tiers (configuration vars) =
      [(''burst'', Some 10000, Some 20), (''standard'', Some (j * 1000), Some k), (''sustained'', Some 3600000, Some 1000)]"
  using assms(2-4) by (simp add: configuration_def throttle_tiers_def or_else_def parse_int_show [OF assms(1)])

theorem configured_numbers_round_trip_witness:
  "cf_port (configuration [''PORT'' \<mapsto> show_int 8080 @ ''px'', ''THROTTLE_LIMIT'' \<mapsto> show_int 50 @ ''px'',
     ''THROTTLE_TTL'' \<mapsto> show_int 30 @ ''px'']) = Some 8080"
  using configured_numbers_round_trip [of "''px''" _ 8080 50 30] by (simp add: digit_value_def)

end
