(* ===== verification/Modules.thy ===== *)
theory Modules
  imports Samples
begin

text \<open>
  The module graph of the two processes (app.module.ts, worker-app.module.ts and the feature
  modules): which modules a process loads, which providers that puts into it, and what their
  constructors ask for. What a module of a package exports is a parameter.
\<close>

section \<open>Modules and classes\<close>

datatype lib_module =
    EventEmitterRoot | ConfigRoot | WinstonRoot | TypeOrmRoot | ThrottlerRoot | BullMQRoot
  | TypeOrmPlain | TypeOrmFeature "string list" | BullMQQueue string | Passport | JwtAsync | Terminus
  | BullBoardRoot | BullBoardFeature string

datatype nest_module =
    AppModule | WorkerAppModule | AuthModule | UsersModule | VideosModule | AiModule | QueueModule
  | StorageModule | HealthModule | GatewayModule | MonitoringModule | ChatModule | Package lib_module

text \<open>A provider is known by its token; its constructor or factory injects other tokens.\<close>

record class_decl =
  cd_token :: string
  cd_injects :: "string list"

record module_decl =
  md_imports :: "nest_module list"
  md_controllers :: "class_decl list"
  md_providers :: "class_decl list"
  md_middleware :: "class_decl list"
  md_exports :: "string list"
  md_reexports :: "lib_module list"

definition repository :: "string \<Rightarrow> string" where
  "repository entity = ''Repository of '' @ entity"

definition queue_token :: "string \<Rightarrow> string" where
  "queue_token name = ''BullQueue_'' @ name"

section \<open>The constructors\<close>

definition AuthController_class :: class_decl where
  "AuthController_class = \<lparr>cd_token = ''AuthController'', cd_injects = [''AuthService'']\<rparr>"

definition AuthService_class :: class_decl where
  "AuthService_class = \<lparr>cd_token = ''AuthService'', cd_injects = [''UsersService'', ''JwtService'', ''ConfigService'']\<rparr>"

definition JwtStrategy_class :: class_decl where
  "JwtStrategy_class = \<lparr>cd_token = ''JwtStrategy'', cd_injects = [''ConfigService'', ''UsersService'']\<rparr>"

definition LocalStrategy_class :: class_decl where
  "LocalStrategy_class = \<lparr>cd_token = ''LocalStrategy'', cd_injects = [''AuthService'']\<rparr>"

definition UsersController_class :: class_decl where
  "UsersController_class = \<lparr>cd_token = ''UsersController'', cd_injects = [''UsersService'']\<rparr>"

definition UsersService_class :: class_decl where
  "UsersService_class = \<lparr>cd_token = ''UsersService'', cd_injects = [repository ''User'']\<rparr>"

definition VideosController_class :: class_decl where
  "VideosController_class = \<lparr>cd_token = ''VideosController'', cd_injects = [''VideosService'']\<rparr>"

definition VideosService_class :: class_decl where
  "VideosService_class = \<lparr>cd_token = ''VideosService'',
     cd_injects = [repository ''Video'', queue_token VIDEO_GENERATION_QUEUE, ''StorageService'', ''EventEmitter2'']\<rparr>"

definition AiService_class :: class_decl where
  "AiService_class = \<lparr>cd_token = ''AiService'', cd_injects = [''ConfigService'', ''FakeVideoProvider'']\<rparr>"

definition FakeVideoProvider_class :: class_decl where
  "FakeVideoProvider_class = \<lparr>cd_token = ''FakeVideoProvider'', cd_injects = [''ConfigService'']\<rparr>"

definition QueueController_class :: class_decl where
  "QueueController_class = \<lparr>cd_token = ''QueueController'', cd_injects = [''QueueService'', ''DlqService'']\<rparr>"

definition RedisProvider_class :: class_decl where
  "RedisProvider_class = \<lparr>cd_token = ''REDIS_CLIENT'', cd_injects = [''ConfigService'']\<rparr>"

definition JobStatusService_class :: class_decl where
  "JobStatusService_class = \<lparr>cd_token = ''JobStatusService'', cd_injects = [repository ''Video'', ''REDIS_CLIENT'']\<rparr>"

definition DlqService_class :: class_decl where
  "DlqService_class = \<lparr>cd_token = ''DlqService'',
     cd_injects = [repository ''FailedJob'', repository ''Video'', queue_token VIDEO_GENERATION_QUEUE]\<rparr>"

definition VideoGenerationProcessor_class :: class_decl where
  "VideoGenerationProcessor_class = \<lparr>cd_token = ''VideoGenerationProcessor'',
     cd_injects = [''VideosService'', ''AiService'', ''StorageService'', ''JobStatusService'', ''EventEmitter2'']\<rparr>"

definition QueueService_class :: class_decl where
  "QueueService_class = \<lparr>cd_token = ''QueueService'', cd_injects = [queue_token VIDEO_GENERATION_QUEUE]\<rparr>"

definition S3Provider_class :: class_decl where
  "S3Provider_class = \<lparr>cd_token = ''S3_CLIENT'', cd_injects = [''ConfigService'']\<rparr>"

definition StorageService_class :: class_decl where
  "StorageService_class = \<lparr>cd_token = ''StorageService'', cd_injects = [''S3_CLIENT'', ''ConfigService'']\<rparr>"

definition HealthController_class :: class_decl where
  "HealthController_class = \<lparr>cd_token = ''HealthController'',
     cd_injects = [''HealthCheckService'', ''TypeOrmHealthIndicator'', ''Connection'']\<rparr>"

definition VideoGateway_class :: class_decl where
  "VideoGateway_class = \<lparr>cd_token = ''VideoGateway'', cd_injects = []\<rparr>"

definition ChatGateway_class :: class_decl where
  "ChatGateway_class = \<lparr>cd_token = ''ChatGateway'', cd_injects = [''ChatService'', ''JwtService'', ''ConfigService'']\<rparr>"

definition ChatService_class :: class_decl where
  "ChatService_class = \<lparr>cd_token = ''ChatService'', cd_injects = [repository ''Message'']\<rparr>"

definition MonitoringAuthMiddleware_class :: class_decl where
  "MonitoringAuthMiddleware_class = \<lparr>cd_token = ''MonitoringAuthMiddleware'', cd_injects = [''ConfigService'']\<rparr>"

text \<open>The guard is a class of a package, which asks its own module for what it needs.\<close>

definition ThrottlerGuard_provider :: class_decl where
  "ThrottlerGuard_provider = \<lparr>cd_token = ''APP_GUARD'', cd_injects = []\<rparr>"

lemmas class_decls = AuthController_class_def AuthService_class_def JwtStrategy_class_def LocalStrategy_class_def
  UsersController_class_def UsersService_class_def VideosController_class_def VideosService_class_def
  AiService_class_def FakeVideoProvider_class_def QueueController_class_def RedisProvider_class_def
  JobStatusService_class_def DlqService_class_def VideoGenerationProcessor_class_def QueueService_class_def
  S3Provider_class_def StorageService_class_def HealthController_class_def VideoGateway_class_def
  ChatGateway_class_def ChatService_class_def MonitoringAuthMiddleware_class_def ThrottlerGuard_provider_def

section \<open>The modules\<close>

definition no_module :: module_decl where
  "no_module = \<lparr>md_imports = [], md_controllers = [], md_providers = [], md_middleware = [], md_exports = [],
     md_reexports = []\<rparr>"

definition app_module :: module_decl where
  "app_module = no_module\<lparr>md_imports := map Package [EventEmitterRoot, ConfigRoot, WinstonRoot, TypeOrmRoot,
       ThrottlerRoot, BullMQRoot] @
     [AuthModule, UsersModule, VideosModule, AiModule, QueueModule, StorageModule, HealthModule, GatewayModule,
      MonitoringModule, ChatModule],
     md_providers := [ThrottlerGuard_provider]\<rparr>"

definition worker_app_module :: module_decl where
  "worker_app_module = no_module\<lparr>md_imports := map Package [EventEmitterRoot, ConfigRoot, WinstonRoot,
       TypeOrmRoot, BullMQRoot] @ [VideosModule, AiModule, QueueModule, StorageModule]\<rparr>"

definition auth_module :: module_decl where
  "auth_module = no_module\<lparr>md_imports := [UsersModule, Package Passport, Package JwtAsync],
     md_controllers := [AuthController_class],
     md_providers := [AuthService_class, JwtStrategy_class, LocalStrategy_class],
     md_exports := [''AuthService''], md_reexports := [JwtAsync]\<rparr>"

definition users_module :: module_decl where
  "users_module = no_module\<lparr>md_imports := [Package (TypeOrmFeature [''User''])],
     md_controllers := [UsersController_class], md_providers := [UsersService_class],
     md_exports := [''UsersService'']\<rparr>"

definition videos_module :: module_decl where
  "videos_module = no_module\<lparr>md_imports := [Package (TypeOrmFeature [''Video'']),
       Package (BullMQQueue VIDEO_GENERATION_QUEUE), StorageModule],
     md_controllers := [VideosController_class], md_providers := [VideosService_class],
     md_exports := [''VideosService'']\<rparr>"

definition ai_module :: module_decl where
  "ai_module = no_module\<lparr>md_providers := [AiService_class, FakeVideoProvider_class], md_exports := [''AiService'']\<rparr>"

definition queue_module :: module_decl where
  "queue_module = no_module\<lparr>md_imports := [Package (TypeOrmFeature [''Video'', ''FailedJob'']),
       Package (BullMQQueue VIDEO_GENERATION_QUEUE), VideosModule, AiModule, StorageModule],
     md_controllers := [QueueController_class],
     md_providers := [RedisProvider_class, JobStatusService_class, DlqService_class,
       VideoGenerationProcessor_class, QueueService_class],
     md_exports := [''QueueService'', ''JobStatusService'', ''DlqService'']\<rparr>"

definition storage_module :: module_decl where
  "storage_module = no_module\<lparr>md_providers := [S3Provider_class, StorageService_class],
     md_exports := [''StorageService'']\<rparr>"

definition health_module :: module_decl where
  "health_module = no_module\<lparr>md_imports := [Package Terminus, Package TypeOrmPlain],
     md_controllers := [HealthController_class]\<rparr>"

definition gateway_module :: module_decl where
  "gateway_module = no_module\<lparr>md_providers := [VideoGateway_class], md_exports := [''VideoGateway'']\<rparr>"

definition monitoring_module :: module_decl where
  "monitoring_module = no_module\<lparr>md_imports := [Package BullBoardRoot,
       Package (BullBoardFeature VIDEO_GENERATION_QUEUE)],
     md_middleware := [MonitoringAuthMiddleware_class]\<rparr>"

definition chat_module :: module_decl where
  "chat_module = no_module\<lparr>md_imports := [Package (TypeOrmFeature [''Message'']), AuthModule],
     md_providers := [ChatGateway_class, ChatService_class]\<rparr>"

fun module_decl_of :: "nest_module \<Rightarrow> module_decl" where
  "module_decl_of AppModule = app_module"
| "module_decl_of WorkerAppModule = worker_app_module"
| "module_decl_of AuthModule = auth_module"
| "module_decl_of UsersModule = users_module"
| "module_decl_of VideosModule = videos_module"
| "module_decl_of AiModule = ai_module"
| "module_decl_of QueueModule = queue_module"
| "module_decl_of StorageModule = storage_module"
| "module_decl_of HealthModule = health_module"
| "module_decl_of GatewayModule = gateway_module"
| "module_decl_of MonitoringModule = monitoring_module"
| "module_decl_of ChatModule = chat_module"
| "module_decl_of (Package p) = no_module"

lemmas module_decls = no_module_def app_module_def worker_app_module_def auth_module_def users_module_def
  videos_module_def ai_module_def queue_module_def storage_module_def health_module_def gateway_module_def
  monitoring_module_def chat_module_def

section \<open>Processes\<close>

text \<open>The modules a process loads. No module imports itself, directly or through others.\<close>

fun module_depth :: "nest_module \<Rightarrow> nat" where
  "module_depth AppModule = 4"
| "module_depth WorkerAppModule = 4"
| "module_depth QueueModule = 3"
| "module_depth ChatModule = 3"
| "module_depth AuthModule = 2"
| "module_depth VideosModule = 2"
| "module_depth (Package p) = 0"
| "module_depth _ = 1"

lemma imports_are_shallower: "i \<in> set (md_imports (module_decl_of m)) \<Longrightarrow> module_depth i < module_depth m"
  by (cases m) (auto simp: module_decls)

function loaded :: "nest_module \<Rightarrow> nest_module list" where
  "loaded m = m # concat (map loaded (md_imports (module_decl_of m)))"
  by pat_completeness auto
termination
  by (relation "measure module_depth") (auto intro: imports_are_shallower)

declare loaded.simps [simp del]

definition in_process :: "nest_module \<Rightarrow> string \<Rightarrow> bool" where
  "in_process root p \<longleftrightarrow> (\<exists>m \<in> set (loaded root). p \<in> cd_token ` set (md_providers (module_decl_of m)))"

text \<open>What the packages export; a module of a package may be global to the process.\<close>

record nest_lib =
  nl_exports :: "lib_module \<Rightarrow> string list"
  nl_global :: "lib_module \<Rightarrow> bool"

definition nest_lib_ok :: "nest_lib \<Rightarrow> bool" where
  "nest_lib_ok lib \<longleftrightarrow>
     nl_global lib EventEmitterRoot \<and> ''EventEmitter2'' \<in> set (nl_exports lib EventEmitterRoot) \<and>
     nl_global lib ConfigRoot \<and> ''ConfigService'' \<in> set (nl_exports lib ConfigRoot) \<and>
     nl_global lib TypeOrmRoot \<and> ''Connection'' \<in> set (nl_exports lib TypeOrmRoot) \<and>
     (\<forall>es. \<forall>e \<in> set es. repository e \<in> set (nl_exports lib (TypeOrmFeature es))) \<and>
     (\<forall>q. queue_token q \<in> set (nl_exports lib (BullMQQueue q))) \<and>
     ''JwtService'' \<in> set (nl_exports lib JwtAsync) \<and>
     ''HealthCheckService'' \<in> set (nl_exports lib Terminus) \<and>
     ''TypeOrmHealthIndicator'' \<in> set (nl_exports lib Terminus)"

definition exported :: "nest_lib \<Rightarrow> nest_module \<Rightarrow> string set" where
  "exported lib m = (case m of Package p \<Rightarrow> set (nl_exports lib p)
     | _ \<Rightarrow> set (md_exports (module_decl_of m)) \<union>
            (\<Union>p \<in> set (md_reexports (module_decl_of m)). set (nl_exports lib p)))"

definition visible :: "nest_lib \<Rightarrow> nest_module \<Rightarrow> nest_module \<Rightarrow> string set" where
  "visible lib root m =
     cd_token ` set (md_providers (module_decl_of m)) \<union>
     (\<Union>i \<in> set (md_imports (module_decl_of m)). exported lib i) \<union>
     (\<Union>p \<in> {p. Package p \<in> set (loaded root) \<and> nl_global lib p}. set (nl_exports lib p))"

definition wired :: "nest_lib \<Rightarrow> nest_module \<Rightarrow> bool" where
  "wired lib root \<longleftrightarrow> (\<forall>m \<in> set (loaded root).
     \<forall>c \<in> set (md_controllers (module_decl_of m) @ md_providers (module_decl_of m) @ md_middleware (module_decl_of m)).
       set (cd_injects c) \<subseteq> visible lib root m)"

section \<open>What the processes load\<close>

lemma loaded_leaf: "md_imports (module_decl_of m) = [] \<Longrightarrow> loaded m = [m]"
  by (simp add: loaded.simps [of m])

lemma loaded_package [simp]: "loaded (Package p) = [Package p]"
  by (rule loaded_leaf) (simp add: no_module_def)

lemma loaded_leaves [simp]:
  "loaded AiModule = [AiModule]" "loaded StorageModule = [StorageModule]" "loaded GatewayModule = [GatewayModule]"
  by (rule loaded_leaf, simp add: module_decls)+

lemma loaded_feature [simp]:
  "loaded UsersModule = [UsersModule, Package (TypeOrmFeature [''User''])]"
  "loaded HealthModule = [HealthModule, Package Terminus, Package TypeOrmPlain]"
  "loaded MonitoringModule = [MonitoringModule, Package BullBoardRoot, Package (BullBoardFeature VIDEO_GENERATION_QUEUE)]"
  "loaded VideosModule = [VideosModule, Package (TypeOrmFeature [''Video'']),
     Package (BullMQQueue VIDEO_GENERATION_QUEUE), StorageModule]"
  by (subst loaded.simps, simp add: module_decls)+

lemma loaded_composed [simp]:
  "loaded AuthModule = AuthModule # loaded UsersModule @ [Package Passport, Package JwtAsync]"
  "loaded QueueModule = QueueModule # [Package (TypeOrmFeature [''Video'', ''FailedJob'']),
     Package (BullMQQueue VIDEO_GENERATION_QUEUE)] @ loaded VideosModule @ [AiModule, StorageModule]"
  by (subst loaded.simps, simp add: module_decls)+

lemma loaded_chat [simp]: "loaded ChatModule = ChatModule # Package (TypeOrmFeature [''Message'']) # loaded AuthModule"
  by (subst loaded.simps, simp add: module_decls)

lemma loaded_worker: "loaded WorkerAppModule = WorkerAppModule # map Package [EventEmitterRoot, ConfigRoot,
    WinstonRoot, TypeOrmRoot, BullMQRoot] @ loaded VideosModule @ [AiModule] @ loaded QueueModule @ [StorageModule]"
  by (subst loaded.simps, simp add: module_decls)

lemma loaded_app: "loaded AppModule = AppModule # map Package [EventEmitterRoot, ConfigRoot, WinstonRoot,
    TypeOrmRoot, ThrottlerRoot, BullMQRoot] @ loaded AuthModule @ loaded UsersModule @ loaded VideosModule @
    [AiModule] @ loaded QueueModule @ [StorageModule] @ loaded HealthModule @ [GatewayModule] @
    loaded MonitoringModule @ loaded ChatModule"
  by (subst loaded.simps, simp add: module_decls)

text \<open>Both processes take jobs; only one of them has the sockets.\<close>

lemma processor_in_both:
  "in_process AppModule ''VideoGenerationProcessor''" "in_process WorkerAppModule ''VideoGenerationProcessor''"
  by (simp_all add: in_process_def loaded_app loaded_worker module_decls class_decls)

lemma gateway_in_one:
  "in_process AppModule ''VideoGateway''" "\<not> in_process WorkerAppModule ''VideoGateway''"
  by (simp_all add: in_process_def loaded_app loaded_worker module_decls class_decls)

lemma failures_recorded_in_both:
  "in_process AppModule ''DlqService''" "in_process WorkerAppModule ''DlqService''"
  by (simp_all add: in_process_def loaded_app loaded_worker module_decls class_decls)

section \<open>Every class gets what it asks for\<close>

lemma global_tokens:
  assumes "nest_lib_ok lib" and "root = AppModule \<or> root = WorkerAppModule"
  shows "''EventEmitter2'' \<in> visible lib root m" "''ConfigService'' \<in> visible lib root m"
    "''Connection'' \<in> visible lib root m"
proof -
  have "Package p \<in> set (loaded root)" if "p \<in> {EventEmitterRoot, ConfigRoot, TypeOrmRoot}" for p
    using assms(2) that by (auto simp: loaded_app loaded_worker)
  with assms(1) show "''EventEmitter2'' \<in> visible lib root m" "''ConfigService'' \<in> visible lib root m"
    "''Connection'' \<in> visible lib root m"
    unfolding visible_def nest_lib_ok_def by blast+
qed

lemma package_tokens:
  assumes "nest_lib_ok lib"
  shows "e \<in> set es \<Longrightarrow> repository e \<in> set (nl_exports lib (TypeOrmFeature es))"
    "queue_token q \<in> set (nl_exports lib (BullMQQueue q))" "''JwtService'' \<in> set (nl_exports lib JwtAsync)"
    "''HealthCheckService'' \<in> set (nl_exports lib Terminus)"
    "''TypeOrmHealthIndicator'' \<in> set (nl_exports lib Terminus)"
  using assms by (simp_all add: nest_lib_ok_def)

definition asked :: "nest_module \<Rightarrow> string list" where
  "asked m = concat (map cd_injects (md_controllers (module_decl_of m) @ md_providers (module_decl_of m) @
     md_middleware (module_decl_of m)))"

definition exported_list :: "nest_lib \<Rightarrow> nest_module \<Rightarrow> string list" where
  "exported_list lib m = (case m of Package p \<Rightarrow> nl_exports lib p
     | _ \<Rightarrow> md_exports (module_decl_of m) @ concat (map (nl_exports lib) (md_reexports (module_decl_of m))))"

lemma exported_set: "exported lib m = set (exported_list lib m)"
  by (cases m) (simp_all add: exported_def exported_list_def)

definition local_list :: "nest_lib \<Rightarrow> nest_module \<Rightarrow> string list" where
  "local_list lib m = map cd_token (md_providers (module_decl_of m)) @
     concat (map (exported_list lib) (md_imports (module_decl_of m)))"

lemma local_visible: "set (local_list lib m) \<subseteq> visible lib root m"
  unfolding local_list_def visible_def exported_set by auto

lemma injects_asked:
  "c \<in> set (md_controllers (module_decl_of m) @ md_providers (module_decl_of m) @ md_middleware (module_decl_of m))
   \<Longrightarrow> set (cd_injects c) \<subseteq> set (asked m)"
  by (auto simp: asked_def)

lemma asked_locally:
  assumes "nest_lib_ok lib"
  shows "set (asked m) \<subseteq> set (local_list lib m) \<union> {''EventEmitter2'', ''ConfigService'', ''Connection''}"
  by (cases m; simp add: asked_def local_list_def exported_list_def module_decls class_decls
      package_tokens [OF assms])

theorem every_dependency_is_provided:
  assumes "nest_lib_ok lib" and "root = AppModule \<or> root = WorkerAppModule"
  shows "wired lib root"
proof -
  have "set (asked m) \<subseteq> visible lib root m" for m
    using asked_locally [OF assms(1)] local_visible global_tokens [OF assms] by blast
  then show ?thesis
    unfolding wired_def by (intro ballI) (rule subset_trans [OF injects_asked])
qed

text \<open>The packages as documented satisfy the hypothesis.\<close>

fun sample_exports :: "lib_module \<Rightarrow> string list" where
  "sample_exports EventEmitterRoot = [''EventEmitter2'']"
| "sample_exports ConfigRoot = [''ConfigService'']"
| "sample_exports TypeOrmRoot = [''Connection'']"
| "sample_exports (TypeOrmFeature es) = map repository es"
| "sample_exports (BullMQQueue q) = [queue_token q]"
| "sample_exports JwtAsync = [''JwtService'']"
| "sample_exports Terminus = [''HealthCheckService'', ''TypeOrmHealthIndicator'']"
| "sample_exports _ = []"

definition sample_nest_lib :: nest_lib where
  "sample_nest_lib = \<lparr>nl_exports = sample_exports,
     nl_global = (\<lambda>p. p \<in> {EventEmitterRoot, ConfigRoot, TypeOrmRoot})\<rparr>"

theorem every_dependency_is_provided_witness:
  "wired sample_nest_lib AppModule \<and> wired sample_nest_lib WorkerAppModule"
  by (simp add: every_dependency_is_provided nest_lib_ok_def sample_nest_lib_def)

section \<open>Progress of the worker process\<close>

text \<open>C38: Whatever fails, the sockets hear of an attempt exactly the messages of its events, in
  their order, if the attempt runs in the API process; an attempt that runs in the worker process,
  which takes jobs too but loads no gateway, is announced to no socket at all.\<close>

theorem sockets_hear_one_process:
  assumes "root = AppModule \<or> root = WorkerAppModule"
    and "e_gateway env = in_process root ''VideoGateway''"
    and "process env (aiService env delay) (storageService env cfg) job w = (r, w')"
  shows "in_process root ''VideoGenerationProcessor'' \<and>
    (\<exists>es. w_events w' = w_events w @ es \<and>
       w_sent w' = w_sent w @ (if root = AppModule then map gateway_message es else []))"
proof -
  have "e_gateway env = (root = AppModule)"
    using assms(1,2) gateway_in_one by auto
  then show ?thesis
    using guaranteeD [OF gen_worker.process_pushes assms(3)] assms(1) processor_in_both
    by (auto simp: pushed_def)
qed

definition headless :: env where
  "headless = calm\<lparr>e_gateway := False\<rparr>"

theorem sockets_hear_one_process_witness:
  "\<exists>w' v. process headless (aiService headless None) (storageService headless sample_config)
       (sample_job None) (sample_world PENDING) = (Inr (), w') \<and>
     row w' ''v1'' = Some v \<and> v_status v = COMPLETED \<and> w_sent w' = w_sent (sample_world PENDING)"
proof -
  have "up headless s" for s by (simp add: up_def headless_def calm_def)
  then obtain w' where run: "process headless (aiService headless None) (storageService headless sample_config)
      (sample_job None) (sample_world PENDING) = (Inr (), w')" and final: "published_video ''v1'' w'"
    using process_live [of headless None "sample_world PENDING" "sample_job None" "sample_video PENDING"
        "storageService headless sample_config"]
    by (auto simp: defaultDelayMs_def max_poll_attempts_def terminal_def)
  have "e_gateway headless = in_process WorkerAppModule ''VideoGateway''"
    by (simp add: headless_def gateway_in_one)
  from sockets_hear_one_process [OF _ this run] run final show ?thesis
    by (auto simp: published_video_def)
qed

end
