(* ===== verification/Bootstrap.thy ===== *)
theory Bootstrap
  imports Config Modules
begin

text \<open>
  The start of the two processes (main.ts, main.worker.ts), what the API process writes to its
  log about a request (common/interceptors/logging.interceptor.ts, the filter, and the unused
  common/middleware/logger.middleware.ts), and the throttling of the health endpoint
  (modules/health/health.controller.ts). That the packages obey these settings is theirs.
\<close>

section \<open>The processes\<close>

record cors_options =
  cr_origin :: string
  cr_methods :: "string list"
  cr_allowedHeaders :: "string list"
  cr_credentials :: bool

record pipe_options =
  po_whitelist :: bool
  po_forbidNonWhitelisted :: bool
  po_transform :: bool
  po_enableImplicitConversion :: bool

record docs_options =
  dc_path :: string
  dc_title :: string
  dc_description :: string
  dc_version :: string
  dc_bearer :: "string \<times> string \<times> string \<times> string"
  dc_tags :: "(string \<times> string) list"
  dc_persistAuthorization :: bool

definition swagger :: docs_options where
  "swagger = \<lparr>dc_path = ''docs'', dc_title = ''AI Video Generation Platform API'',
     dc_description = ''Backend API for AI-powered video generation'', dc_version = ''1.0'',
     dc_bearer = (''http'', ''bearer'', ''JWT'', ''access-token''),
     dc_tags = [(''auth'', ''Authentication endpoints''), (''users'', ''User management''),
       (''videos'', ''Video generation and management'')],
     dc_persistAuthorization = True\<rparr>"

datatype interceptor = LoggingInterceptor | TransformInterceptor

record api_process =
  ap_module :: nest_module
  ap_port :: "int option"
  ap_prefix :: string
  ap_cors :: cors_options
  ap_pipe :: pipe_options
  ap_interceptors :: "interceptor list"
  ap_docs :: "docs_options option"
  ap_log :: "string list"

definition show_number :: "int option \<Rightarrow> string" where
  "show_number n = (case n of None \<Rightarrow> ''NaN'' | Some i \<Rightarrow> show_int i)"

definition bootstrap :: "configuration \<Rightarrow> api_process" where
  "bootstrap c =
     (let base = ''http://localhost:'' @ show_number (cf_port c); docs = cf_nodeEnv c \<noteq> ''production'' in
      \<lparr>ap_module = AppModule, ap_port = cf_port c, ap_prefix = cf_apiPrefix c,
       ap_cors = \<lparr>cr_origin = cf_corsOrigin c,
         cr_methods = [''GET'', ''POST'', ''PUT'', ''PATCH'', ''DELETE'', ''OPTIONS''],
         cr_allowedHeaders = [''Content-Type'', ''Authorization''], cr_credentials = True\<rparr>,
       ap_pipe = \<lparr>po_whitelist = True, po_forbidNonWhitelisted = True, po_transform = True,
         po_enableImplicitConversion = True\<rparr>,
       ap_interceptors = [LoggingInterceptor, TransformInterceptor],
       ap_docs = (if docs then Some swagger else None),
       ap_log = (if docs then [''Swagger docs available at '' @ base @ ''/docs''] else []) @
         [''Application running on '' @ base @ ''/'' @ cf_apiPrefix c]\<rparr>)"

record worker_process =
  wp_module :: nest_module
  wp_signals :: "string list"
  wp_log :: "string list"

definition bootstrapWorker :: worker_process where
  "bootstrapWorker = \<lparr>wp_module = WorkerAppModule, wp_signals = [''SIGTERM'', ''SIGINT''],
     wp_log = [''Worker process started '' @ [CHR 0xE2, CHR 0x80, CHR 0x94] @ '' listening for video generation jobs'']\<rparr>"

text \<open>What the worker logs when it is stopped by a signal.\<close>

definition shutdown :: "string \<Rightarrow> string" where
  "shutdown signal = ''Received '' @ signal @ '', shutting down worker gracefully...''"

section \<open>The access log\<close>

datatype log_level = Log | Warn | Error

record log_line =
  ll_level :: log_level
  ll_text :: string
  ll_context :: string

record client =
  ci_ip :: string
  ci_userAgent :: "string option"

definition access_line :: "string \<Rightarrow> string \<Rightarrow> int \<Rightarrow> int \<Rightarrow> client \<Rightarrow> log_line" where
  "access_line m url statusCode duration ci = \<lparr>ll_level = Log,
     ll_text = m @ '' '' @ url @ '' '' @ show_int statusCode @ '' '' @ show_int duration @ ''ms - '' @ ci_ip ci @
       '' '' @ or_else (ci_userAgent ci) [],
     ll_context = ''HTTP''\<rparr>"

definition filter_line :: "string \<Rightarrow> string \<Rightarrow> exn \<Rightarrow> log_line" where
  "filter_line m url e = \<lparr>ll_level = (if 500 \<le> exception_status e then Error else Warn),
     ll_text = m @ '' '' @ url @ '' '' @ show_int (exception_status e), ll_context = ''HttpExceptionFilter''\<rparr>"

definition incoming_line :: "string \<Rightarrow> string \<Rightarrow> log_line" where
  "incoming_line m originalUrl = \<lparr>ll_level = Log, ll_text = ''Incoming '' @ [CHR 0xE2, CHR 0x86, CHR 0x92] @ '' '' @ m @ '' '' @ originalUrl, ll_context = ''HTTP''\<rparr>"

text \<open>
  The lines of a request: the interceptor runs after the guards and writes when the handler has
  answered, the filter when a guard or the handler has failed.
\<close>

definition request_log :: "'tok server \<Rightarrow> 'tok call \<Rightarrow> client \<Rightarrow> world \<Rightarrow> log_line list" where
  "request_log srv cl ci w =
     (let rt = route_of (cl_request cl); m = rt_method rt; url = cl_url cl in
      case run_guards srv cl (sv_guards srv @ route_guards rt) Anonymous w of
        (Inl e, w1) \<Rightarrow> [filter_line m url e]
      | (Inr p, w1) \<Rightarrow>
          (case handler_of srv p (cl_request cl) w1 of
             (Inl e, w2) \<Rightarrow> [filter_line m url e]
           | (Inr a, w2) \<Rightarrow> [access_line m url (rt_status rt) (w_now w2 - w_now w1) ci]))"

fun reply_status :: "'b http_response \<Rightarrow> int" where
  "reply_status (Reply s _) = s"
| "reply_status (Failure er) = er_statusCode er"

lemma reply_statuses: "rt_status (route_of rq) < 500"
proof (cases rq)
  case (AuthRq r)
  then show ?thesis by (cases r) (simp_all add: route_at_def)
next
  case (UsersRq r)
  then show ?thesis by (cases r) (simp_all add: route_at_def)
next
  case (VideosRq r)
  then show ?thesis by (cases r) (simp_all add: route_at_def)
next
  case (QueueRq r)
  then show ?thesis by (cases r) (simp_all add: route_at_def)
next
  case HealthRq
  then show ?thesis by (simp add: health_route_def route_at_def)
qed

text \<open>Every request leaves exactly one line, with the status of its response and its level.\<close>

theorem every_request_is_logged_once:
  "\<exists>l rest. request_log srv cl ci w = [l] \<and>
    ll_text l = rt_method (route_of (cl_request cl)) @ '' '' @ cl_url cl @ '' '' @
      show_int (reply_status (fst (handle srv cl w))) @ rest \<and>
    (ll_level l = Error) = (500 \<le> reply_status (fst (handle srv cl w))) \<and>
    (ll_level l = Log) = (\<exists>s b. fst (handle srv cl w) = Reply s b)"
  using reply_statuses [of "cl_request cl"]
  by (auto simp: request_log_def handle_def serve_def io_bind_def Let_def access_line_def filter_line_def
      exception_filter_def split: sum.split prod.split)

section \<open>The health endpoint\<close>

text \<open>
  Its controller is declared exempt from throttling by a decorator without arguments. Which tiers
  the decorator then names is up to the package, a parameter; its documented default is the tier
  \<open>default\<close>, which the application does not have.
\<close>

definition health_tiers :: "string list \<Rightarrow> configuration \<Rightarrow> (string \<times> int option \<times> int option) list" where
  "health_tiers exempt c = filter (\<lambda>(name, _, _). name \<notin> set exempt) (effective_tiers c health_route)"

theorem health_is_throttled:
  assumes "exempt = [''default'']"
  shows "health_tiers exempt c = throttle_tiers c"
  using assms
  by (simp add: health_tiers_def effective_tiers_def health_route_def route_at_def throttle_tiers_def)

theorem health_is_throttled_witness:
  "health_tiers [''default''] (configuration (\<lambda>_. None)) = throttle_tiers (configuration (\<lambda>_. None))"
  by (rule health_is_throttled) (rule refl)

text \<open>The check answers exactly while the database serves its ping, and changes nothing.\<close>

theorem health_reports_the_database:
  assumes "terminus_ok env healthCheck pingCheck"
  shows "snd (check healthCheck pingCheck w) = ticked env w \<and>
    (if e_outcome env Database (w_calls w) = Served then \<exists>a. fst (check healthCheck pingCheck w) = Inr a
     else \<exists>m. fst (check healthCheck pingCheck w) = Inl (HttpException 503 m) \<and> exception_status (HttpException 503 m) = 503)"
  using check_cases [OF assms, of w] by (auto split: if_splits)

theorem health_reports_the_database_witness:
  "\<exists>m. fst (check sample_check (sample_ping (without Database)) initial_world) = Inl (HttpException 503 m)"
  using health_reports_the_database [OF sample_check_ok, of "without Database" initial_world] by simp

section \<open>Settings\<close>

text \<open>
  Without variables the documentation is open and the cross-origin rule names any origin together
  with credentials; the pipe of the process is the one the requests of \<open>Http\<close> go through.
\<close>

lemma default_process:
  "ap_docs (bootstrap (configuration (\<lambda>_. None))) = Some swagger"
  "cr_origin (ap_cors (bootstrap (configuration (\<lambda>_. None)))) = ''*''"
  "cr_credentials (ap_cors (bootstrap (configuration (\<lambda>_. None))))"
  "ap_port (bootstrap (configuration (\<lambda>_. None))) = Some 3000"
  by (simp_all add: bootstrap_def configuration_def or_else_def Let_def parse_int_def is_space_def
      unsigned_number_def digit_value_def)

lemma docs_outside_production:
  "(ap_docs (bootstrap (configuration vars)) \<noteq> None) = (vars ''NODE_ENV'' \<noteq> Some ''production'')"
  by (auto simp: bootstrap_def configuration_def or_else_def Let_def split: option.split)

lemma processes_load_their_modules:
  "in_process (ap_module (bootstrap c)) ''VideoGateway''"
  "\<not> in_process (wp_module bootstrapWorker) ''VideoGateway''"
  by (simp_all add: bootstrap_def bootstrapWorker_def gateway_in_one Let_def)

end
