(* ===== verification/Sockets.thy ===== *)
theory Sockets
  imports Samples
begin

text \<open>
  The namespace of \<open>VideoGateway\<close> with all its sockets (modules/gateway/video.gateway.ts): sockets
  connect, subscribe, withdraw and disconnect while messages are pushed to rooms. A socket that
  connects is in the room of its own id, one that disconnects is in no room.
\<close>

section \<open>The namespace\<close>

datatype ws_action =
    Connect string
  | Disconnect string
  | Request string ws_request
  | Push ws_message

text \<open>The sockets are a table with their ids as keys; what each one is sent is logged in order.\<close>

definition find_socket :: "string \<Rightarrow> socket list \<Rightarrow> socket option" where
  "find_socket = select_key sk_id"

interpretation sockets: keyed_table sk_id find_socket "update_key sk_id" "affected sk_id"
    insert_row "delete_key sk_id" "keyed sk_id"
  unfolding find_socket_def by (rule keyed_table_list)

record hub =
  hb_sockets :: "socket list"
  hb_sent :: "(string \<times> ws_message) list"

definition new_hub :: hub where
  "new_hub = \<lparr>hb_sockets = [], hb_sent = []\<rparr>"

fun hub_step :: "ws_action \<Rightarrow> hub \<Rightarrow> hub" where
  "hub_step (Connect sid) hb =
     hb\<lparr>hb_sockets := insert_row \<lparr>sk_id = sid, sk_rooms = [sid]\<rparr> (delete_key sk_id sid (hb_sockets hb))\<rparr>"
| "hub_step (Disconnect sid) hb = hb\<lparr>hb_sockets := delete_key sk_id sid (hb_sockets hb)\<rparr>"
| "hub_step (Request sid rq) hb =
     hb\<lparr>hb_sockets := update_key sk_id sid (\<lambda>_. True) (handle_request rq) (hb_sockets hb)\<rparr>"
| "hub_step (Push m) hb =
     hb\<lparr>hb_sent := hb_sent hb @ map (\<lambda>c. (sk_id c, m)) (filter (\<lambda>c. m_room m \<in> set (sk_rooms c)) (hb_sockets hb))\<rparr>"

definition hub_run :: "ws_action list \<Rightarrow> hub" where
  "hub_run h = fold hub_step h new_hub"

definition heard :: "string \<Rightarrow> hub \<Rightarrow> ws_message list" where
  "heard sid hb = map snd (filter (\<lambda>d. fst d = sid) (hb_sent hb))"

lemma hub_run_simps [simp]: "hub_run [] = new_hub" "hub_run (h @ [a]) = hub_step a (hub_run h)"
  by (simp_all add: hub_run_def)

lemma request_key [simp]: "sk_id (handle_request rq c) = sk_id c"
  by (cases rq) (simp_all add: handleSubscribe_def handleUnsubscribe_def socket_join_def socket_leave_def Let_def)

lemma hub_keyed: "keyed sk_id (hb_sockets (hub_run h))"
proof (induction h rule: rev_induct)
  case (snoc a h)
  then show ?case
    by (cases a) (auto intro!: sockets.wf_ins sockets.wf_upd sockets.wf_del simp: sockets.lookup_del)
qed (simp add: new_hub_def keyed_def)

section \<open>Who watches what\<close>

text \<open>
  A history read backwards: the socket has connected and not disconnected since; it has subscribed
  to the room while connected, and neither withdrawn nor left nor connected anew since.
\<close>

definition online :: "string \<Rightarrow> ws_action list \<Rightarrow> bool" where
  "online sid h \<longleftrightarrow> (\<exists>a b. h = a @ Connect sid # b \<and> Disconnect sid \<notin> set b)"

definition ends_watch :: "string \<Rightarrow> string \<Rightarrow> ws_action \<Rightarrow> bool" where
  "ends_watch sid v x \<longleftrightarrow> x \<in> {Connect sid, Disconnect sid, Request sid (Unsubscribe v)}"

definition watching :: "string \<Rightarrow> string \<Rightarrow> ws_action list \<Rightarrow> bool" where
  "watching sid v h \<longleftrightarrow> (\<exists>a b. h = a @ Request sid (Subscribe v) # b \<and> online sid a \<and>
     (\<forall>x \<in> set b. \<not> ends_watch sid v x))"

lemma split_snoc:
  "(\<exists>a b. h @ [x] = a @ y # b \<and> P a b) \<longleftrightarrow> x = y \<and> P h [] \<or> (\<exists>a b. h = a @ y # b \<and> P a (b @ [x]))"
proof
  assume "\<exists>a b. h @ [x] = a @ y # b \<and> P a b"
  then obtain a b where "h @ [x] = a @ y # b" "P a b" by blast
  then show "x = y \<and> P h [] \<or> (\<exists>a b. h = a @ y # b \<and> P a (b @ [x]))"
    by (cases b rule: rev_cases) auto
next
  assume "x = y \<and> P h [] \<or> (\<exists>a b. h = a @ y # b \<and> P a (b @ [x]))"
  then show "\<exists>a b. h @ [x] = a @ y # b \<and> P a b"
    by (metis append_Cons append_Nil append_assoc)
qed

lemma online_snoc: "online sid (h @ [x]) \<longleftrightarrow> x = Connect sid \<or> online sid h \<and> x \<noteq> Disconnect sid"
  unfolding online_def split_snoc by auto

lemma watching_snoc:
  "watching sid v (h @ [x]) \<longleftrightarrow>
     x = Request sid (Subscribe v) \<and> online sid h \<or> watching sid v h \<and> \<not> ends_watch sid v x"
  unfolding watching_def split_snoc by auto

lemma not_watching_Nil [simp]: "\<not> watching sid v []" "\<not> online sid []"
  by (simp_all add: watching_def online_def)

text \<open>The rooms of a socket are those it watches.\<close>

definition in_room :: "string \<Rightarrow> string \<Rightarrow> hub \<Rightarrow> bool" where
  "in_room sid room hb = (case find_socket sid (hb_sockets hb) of None \<Rightarrow> False | Some c \<Rightarrow> room \<in> set (sk_rooms c))"

lemma find_connected:
  "find_socket sid (insert_row \<lparr>sk_id = s, sk_rooms = rs\<rparr> (delete_key sk_id s t)) =
     (if sid = s then Some \<lparr>sk_id = s, sk_rooms = rs\<rparr> else find_socket sid t)"
  using sockets.lookup_ins [of "\<lparr>sk_id = s, sk_rooms = rs\<rparr>" "delete_key sk_id s t" sid]
  by (simp add: sockets.lookup_del)

lemmas find_socket_simps = find_connected sockets.lookup_del sockets.lookup_upd [OF request_key]

lemma hub_online: "find_socket sid (hb_sockets (hub_run h)) = None \<longleftrightarrow> \<not> online sid h"
proof (induction h rule: rev_induct)
  case Nil
  show ?case by (simp add: new_hub_def find_socket_def select_key_def)
next
  case (snoc a h)
  then show ?case by (cases a) (auto simp: online_snoc find_socket_simps)
qed

lemma hub_rooms:
  assumes "roomName v \<noteq> sid"
  shows "in_room sid (roomName v) (hub_run h) \<longleftrightarrow> watching sid v h"
proof (induction h rule: rev_induct)
  case Nil
  show ?case by (simp add: in_room_def new_hub_def find_socket_def select_key_def)
next
  case (snoc a h)
  show ?case
  proof (cases a)
    case (Request s rq)
    with snoc hub_online [of sid h] show ?thesis
      by (cases rq; cases "find_socket sid (hb_sockets (hub_run h))")
        (auto simp: in_room_def watching_snoc ends_watch_def find_socket_simps)
  qed (use snoc assms in \<open>auto simp: in_room_def watching_snoc ends_watch_def find_socket_simps\<close>)
qed

section \<open>What a socket hears\<close>

lemma filter_key:
  "keyed key t \<Longrightarrow> filter (\<lambda>r. key r = k) t = (case select_key key k t of None \<Rightarrow> [] | Some r \<Rightarrow> [r])"
proof (induction t)
  case (Cons r t)
  then have "key r = k \<Longrightarrow> select_key key k t = None"
    by (auto simp: keyed_def select_key_None_iff)
  with Cons show ?case by (auto simp: keyed_def select_key_def)
qed (simp add: select_key_def)

lemma heard_push:
  assumes "keyed sk_id (hb_sockets hb)"
  shows "heard sid (hub_step (Push m) hb) = heard sid hb @ (if in_room sid (m_room m) hb then [m] else [])"
proof -
  have "filter (\<lambda>c. m_room m \<in> set (sk_rooms c) \<and> sk_id c = sid) (hb_sockets hb) =
      filter (\<lambda>c. m_room m \<in> set (sk_rooms c)) (filter (\<lambda>c. sk_id c = sid) (hb_sockets hb))"
    by (simp add: conj_commute)
  then show ?thesis
    unfolding filter_key [OF assms]
    by (auto simp: heard_def filter_map comp_def conj_commute in_room_def find_socket_def split: option.split)
qed

lemma watching_pushes: "watching sid v (h @ map Push ms) \<longleftrightarrow> watching sid v h"
proof (induction ms rule: rev_induct)
  case (snoc m ms)
  then show ?case
    using watching_snoc [of sid v "h @ map Push ms" "Push m"] by (simp add: ends_watch_def)
qed simp

lemma heard_pushes:
  assumes "roomName v \<noteq> sid" and "\<forall>m \<in> set ms. m_room m = roomName v" and "watching sid v h"
  shows "heard sid (hub_run (h @ map Push ms)) = heard sid (hub_run h) @ ms"
  using assms(2)
proof (induction ms rule: rev_induct)
  case (snoc m ms)
  have "in_room sid (roomName v) (hub_run (h @ map Push ms))"
    using hub_rooms [OF assms(1)] assms(3) by (simp add: watching_pushes)
  with snoc show ?case
    using heard_push [OF hub_keyed [of "h @ map Push ms"], of sid m]
      hub_run_simps(2) [of "h @ map Push ms" "Push m"] by simp
qed simp

section \<open>Properties\<close>

text \<open>C36: With any number of sockets that connect, subscribe, withdraw and disconnect in any order,
  a socket hears of the pushed messages, in their order and once each, exactly those about the
  videos it is watching at that moment: it subscribed while it was connected, and since then it
  has neither withdrawn nor disconnected.\<close>

theorem sockets_hear_what_they_watch:
  assumes "\<forall>v. roomName v \<noteq> sid" and "\<forall>m. Push m \<in> set h \<longrightarrow> (\<exists>v. m_room m = roomName v)"
  shows "heard sid (hub_run h) = concat (map (\<lambda>i. case h ! i of
      Push m \<Rightarrow> if \<exists>v. m_room m = roomName v \<and> watching sid v (take i h) then [m] else [] | _ \<Rightarrow> [])
    [0..<length h])"
  using assms(2)
proof (induction h rule: rev_induct)
  case Nil
  show ?case by (simp add: heard_def new_hub_def)
next
  case (snoc a h)
  let ?f = "\<lambda>h i. case h ! i of
      Push m \<Rightarrow> if \<exists>v. m_room m = roomName v \<and> watching sid v (take i h) then [m] else [] | _ \<Rightarrow> []"
  have prefix: "map (?f (h @ [a])) [0..<length h] = map (?f h) [0..<length h]"
    by (intro map_cong refl) (auto simp: nth_append split: ws_action.split)
  have last: "heard sid (hub_step a (hub_run h)) = heard sid (hub_run h) @ ?f (h @ [a]) (length h)"
  proof (cases a)
    case (Push m)
    with snoc.prems obtain v where v: "m_room m = roomName v" by auto
    then have "in_room sid (m_room m) (hub_run h) \<longleftrightarrow> watching sid v h"
      using hub_rooms [of v sid h] assms(1) by simp
    with v show ?thesis unfolding Push heard_push [OF hub_keyed] by simp
  qed (simp_all add: heard_def)
  from snoc have IH: "heard sid (hub_run h) = concat (map (?f h) [0..<length h])" by simp
  have "[0..<length (h @ [a])] = [0..<length h] @ [length h]" by simp
  then show ?case
    by (simp only: hub_run_simps last IH prefix map_append concat_append list.map concat.simps append_Nil2)
qed

theorem sockets_hear_what_they_watch_witness:
  "heard ''s'' (hub_run [Connect ''s'', Connect ''t'', Request ''s'' (Subscribe ''v1''), Push (gateway_message (VideoProcessingStarted ''v1'' 1)),
      Request ''s'' (Unsubscribe ''v1''), Push (gateway_message (VideoProcessingStarted ''v1'' 2))]) =
    [gateway_message (VideoProcessingStarted ''v1'' 1)]"
proof -
  let ?m = "\<lambda>n. gateway_message (VideoProcessingStarted ''v1'' n)"
  let ?start = "[Connect ''s'', Connect ''t'', Request ''s'' (Subscribe ''v1'')]"
  let ?h = "?start @ [Push (?m 1)] @ [Request ''s'' (Unsubscribe ''v1'')] @ [Push (?m 2)]"
  have "online ''s'' ([Connect ''s''] @ [Connect ''t''])"
    unfolding online_snoc using online_snoc [of "''s''" "[]" "Connect ''s''"] by simp
  then have 1: "watching ''s'' ''v1'' ?start"
    using watching_snoc [of "''s''" "''v1''" "[Connect ''s'', Connect ''t'']"] by simp
  have 2: "\<not> watching ''s'' ''v1'' (?start @ [Push (?m 1)] @ [Request ''s'' (Unsubscribe ''v1'')])"
    using watching_snoc [of "''s''" "''v1''" "?start @ [Push (?m 1)]" "Request ''s'' (Unsubscribe ''v1'')"]
    by (simp add: ends_watch_def)
  have "\<forall>v. roomName v \<noteq> ''s''" by (simp add: roomName_def)
  moreover have "\<forall>m. Push m \<in> set ?h \<longrightarrow> (\<exists>v. m_room m = roomName v)" by auto
  ultimately show ?thesis
    using sockets_hear_what_they_watch [of "''s''" ?h] 1 2 by (simp add: upt_rec)
qed

text \<open>What the owner of a video sees: a socket of the API process that watches a video whose attempt
  returns normally there hears that the attempt started, each of its polls, and the URL.\<close>

theorem subscriber_sees_the_delivery:
  assumes "wf_world w" and "j_name job = GENERATE" and "row w (j_videoId job) = Some v" and "\<not> terminal (v_status v)"
    and "e_gateway env" and "process env (aiService env delay) (storageService env cfg) job w = (Inr u, w')"
    and "roomName (j_videoId job) \<noteq> sid" and "watching sid (j_videoId job) h"
  shows "\<exists>n url th. 1 \<le> n \<and> n \<le> max_poll_attempts \<and>
    heard sid (hub_run (h @ map Push (drop (length (w_sent w)) (w_sent w')))) = heard sid (hub_run h) @
      map gateway_message (attempt_events (j_videoId job) (j_attemptsMade job + 1) n @
        [VideoCompleted (j_videoId job) url th])"
proof -
  let ?k = "j_videoId job"
  have "delivered w ?k (j_attemptsMade job + 1) w'"
    using gen_worker.process_returns [OF assms(1,2,6)] assms(3,4) by (auto simp: skipped_def)
  then obtain n url th where n: "1 \<le> n" "n \<le> max_poll_attempts"
      "w_events w' = w_events w @ attempt_events ?k (j_attemptsMade job + 1) n @ [VideoCompleted ?k url th]"
    by (auto simp: delivered_def phase_def)
  moreover from guaranteeD [OF gen_worker.process_pushes assms(6)] n(3) assms(5)
  have "w_sent w' = w_sent w @ map gateway_message
      (attempt_events ?k (j_attemptsMade job + 1) n @ [VideoCompleted ?k url th])"
    by (auto simp: pushed_def)
  moreover have "\<forall>m \<in> set (map gateway_message (attempt_events ?k (j_attemptsMade job + 1) n @ [VideoCompleted ?k url th])).
      m_room m = roomName ?k"
    by (auto simp: attempt_events_def progress_event_def)
  ultimately show ?thesis
    using heard_pushes [OF assms(7) _ assms(8)] by fastforce
qed

theorem subscriber_sees_the_delivery_witness:
  "\<exists>w' n url th. process calm (aiService calm None) (storageService calm sample_config) (sample_job None)
       (sample_world PENDING) = (Inr (), w') \<and>
     heard ''s'' (hub_run ([Connect ''s'', Request ''s'' (Subscribe ''v1'')] @
       map Push (drop (length (w_sent (sample_world PENDING))) (w_sent w')))) =
     map gateway_message (attempt_events ''v1'' 1 n @ [VideoCompleted ''v1'' url th])"
proof -
  obtain w' where run: "process calm (aiService calm None) (storageService calm sample_config) (sample_job None)
      (sample_world PENDING) = (Inr (), w')"
    using calm_run by blast
  have "watching ''s'' ''v1'' [Connect ''s'', Request ''s'' (Subscribe ''v1'')]"
    using watching_snoc [of "''s''" "''v1''" "[Connect ''s'']"] online_snoc [of "''s''" "[]" "Connect ''s''"] by simp
  moreover have "heard ''s'' (hub_run [Connect ''s'', Request ''s'' (Subscribe ''v1'')]) = []"
    by (simp add: hub_run_def heard_def new_hub_def)
  ultimately show ?thesis
    using subscriber_sees_the_delivery [OF sample_wf sample_job_sel(2) _ _ _ run, of "sample_video PENDING" "''s''"
        "[Connect ''s'', Request ''s'' (Subscribe ''v1'')]"] run
    by (simp add: terminal_def roomName_def calm_def) blast
qed

end
