(* ===== verification/Chat_Server.thy ===== *)
theory Chat_Server
  imports Chat_Properties Sockets
begin

text \<open>
  The namespace \<open>/chat\<close> with all its sockets (modules/chat/chat.gateway.ts): sockets connect with a
  token, join and leave rooms, send messages and disconnect, in any order; a message that was
  stored is broadcast to the sockets that are in its room at that moment.
\<close>

section \<open>The server\<close>

datatype 'tok chat_action =
    Open string "'tok option"
  | Close string
  | Ask string chat_request
  | Wait nat

definition find_member :: "string \<Rightarrow> chat_socket list \<Rightarrow> chat_socket option" where
  "find_member = select_key sk_id"

interpretation members: keyed_table "sk_id :: chat_socket \<Rightarrow> string" find_member "update_key sk_id" "affected sk_id"
    insert_row "delete_key sk_id" "keyed sk_id"
  unfolding find_member_def by (rule keyed_table_list)

record chat_server =
  cs_sockets :: "chat_socket list"
  cs_world :: world
  cs_heard :: "(string \<times> ws_message) list"

text \<open>Who hears what of a list of broadcasts.\<close>

definition deliveries :: "chat_socket list \<Rightarrow> ws_message list \<Rightarrow> (string \<times> ws_message) list" where
  "deliveries cs bs = concat (map (\<lambda>b. map (\<lambda>c. (sk_id c, b)) (filter (\<lambda>c. m_room b \<in> set (sk_rooms c)) cs)) bs)"

fun chat_step :: "env \<Rightarrow> 'tok auth_lib \<Rightarrow> jwt_config \<Rightarrow> 'tok chat_action \<Rightarrow> chat_server \<Rightarrow> chat_server" where
  "chat_step env lib cfg (Open sid token) s =
     (case chat_connect lib cfg sid token (w_now (cs_world s)) of
        Inl _ \<Rightarrow> s
      | Inr c \<Rightarrow> s\<lparr>cs_sockets := insert_row c (delete_key sk_id sid (cs_sockets s))\<rparr>)"
| "chat_step env lib cfg (Close sid) s = s\<lparr>cs_sockets := delete_key sk_id sid (cs_sockets s)\<rparr>"
| "chat_step env lib cfg (Ask sid rq) s =
     (case find_member sid (cs_sockets s) of
        None \<Rightarrow> s
      | Some c \<Rightarrow>
          let (c', handler) = chat_handle env rq c; w' = snd (handler (cs_world s));
              cs' = update_key sk_id sid (\<lambda>_. True) (\<lambda>_. c') (cs_sockets s)
          in \<lparr>cs_sockets = cs', cs_world = w',
              cs_heard = cs_heard s @ deliveries cs' (drop (length (w_chat (cs_world s))) (w_chat w'))\<rparr>)"
| "chat_step env lib cfg (Wait ms) s = s\<lparr>cs_world := (cs_world s)\<lparr>w_now := w_now (cs_world s) + int ms\<rparr>\<rparr>"

definition chat_at ::
  "env \<Rightarrow> 'tok auth_lib \<Rightarrow> jwt_config \<Rightarrow> world \<Rightarrow> 'tok chat_action list \<Rightarrow> chat_server" where
  "chat_at env lib cfg w h = fold (chat_step env lib cfg) h \<lparr>cs_sockets = [], cs_world = w, cs_heard = []\<rparr>"

lemma chat_at_simps [simp]:
  "chat_at env lib cfg w [] = \<lparr>cs_sockets = [], cs_world = w, cs_heard = []\<rparr>"
  "chat_at env lib cfg w (h @ [a]) = chat_step env lib cfg a (chat_at env lib cfg w h)"
  by (simp_all add: chat_at_def)

section \<open>What the history says of a socket and of a message\<close>

text \<open>A socket was let in with a token of the server for a user that had not expired.\<close>

definition admitted ::
  "env \<Rightarrow> 'tok auth_lib \<Rightarrow> jwt_config \<Rightarrow> world \<Rightarrow> 'tok chat_action list \<Rightarrow> string \<Rightarrow> jwt_payload \<Rightarrow> bool" where
  "admitted env lib cfg w h sid pl \<longleftrightarrow> (\<exists>pre post e t.
     h = pre @ Open sid (Some (jwt_sign lib pl (jc_secret cfg) e t)) # post \<and>
     w_now (cs_world (chat_at env lib cfg w pre)) div 1000 < t div 1000 + jwt_lifetime lib e)"

definition member_at ::
  "env \<Rightarrow> 'tok auth_lib \<Rightarrow> jwt_config \<Rightarrow> world \<Rightarrow> 'tok chat_action list \<Rightarrow> string \<Rightarrow> string \<Rightarrow> jwt_payload \<Rightarrow> bool" where
  "member_at env lib cfg w h sid room pl \<longleftrightarrow> (\<exists>c. find_member sid (cs_sockets (chat_at env lib cfg w h)) = Some c \<and>
     room \<in> set (sk_rooms c) \<and> ck_user c = pl)"

text \<open>A message that an admitted socket asked to send, in the name of its user, while it was in the room.\<close>

definition spoken_at ::
  "env \<Rightarrow> 'tok auth_lib \<Rightarrow> jwt_config \<Rightarrow> world \<Rightarrow> 'tok chat_action list \<Rightarrow> 'tok chat_action list \<Rightarrow> message \<Rightarrow> bool" where
  "spoken_at env lib cfg w h pre m \<longleftrightarrow> (\<exists>post sid pl. h = pre @ Ask sid (Send (mg_room m) (mg_content m)) # post \<and>
     admitted env lib cfg w pre sid pl \<and> member_at env lib cfg w pre sid (mg_room m) pl \<and>
     mg_senderId m = tk_sub pl \<and> mg_senderEmail m = tk_email pl)"

lemma admitted_more: "admitted env lib cfg w h sid pl \<Longrightarrow> admitted env lib cfg w (h @ [a]) sid pl"
  unfolding admitted_def by (metis append_Cons append_assoc)

lemma spoken_more: "spoken_at env lib cfg w h pre m \<Longrightarrow> spoken_at env lib cfg w (h @ [a]) pre m"
  unfolding spoken_at_def by (metis append_Cons append_assoc)

section \<open>One step\<close>

lemma chat_handle_id [simp]: "sk_id (fst (chat_handle env rq c)) = sk_id c"
  by (cases rq) (simp_all add: handleJoinRoom_def handleLeaveRoom_def socket_join_def socket_leave_def)

lemma find_member_key: "find_member sid cs = Some c \<Longrightarrow> sk_id c = sid"
  by (rule members.lookup_key)

lemma deliveries_set:
  "(sid, b) \<in> set (deliveries cs bs) \<longleftrightarrow> b \<in> set bs \<and> (\<exists>c \<in> set cs. sk_id c = sid \<and> m_room b \<in> set (sk_rooms c))"
  by (auto simp: deliveries_def)

text \<open>What an action adds: messages of one socket that is in the room, and their delivery to the members.\<close>

definition adds :: "chat_server \<Rightarrow> 'tok chat_action \<Rightarrow> message list \<Rightarrow> chat_server \<Rightarrow> bool" where
  "adds s a ms s' \<longleftrightarrow> w_messages (cs_world s') = w_messages (cs_world s) @ ms \<and>
     (\<forall>m \<in> set ms. \<exists>sid c. a = Ask sid (Send (mg_room m) (mg_content m)) \<and> find_member sid (cs_sockets s) = Some c \<and>
        mg_room m \<in> set (sk_rooms c) \<and> mg_senderId m = tk_sub (ck_user c) \<and> mg_senderEmail m = tk_email (ck_user c)) \<and>
     (\<exists>ds. cs_heard s' = cs_heard s @ ds \<and> (\<forall>(sid, b) \<in> set ds. \<exists>m \<in> set ms. b = chat_broadcast (mg_room m) m \<and>
        (\<exists>c \<in> set (cs_sockets s). sk_id c = sid \<and> mg_room m \<in> set (sk_rooms c))))"

lemma adds_nothing: "cs_heard s' = cs_heard s \<Longrightarrow> w_messages (cs_world s') = w_messages (cs_world s) \<Longrightarrow> adds s a [] s'"
  by (simp add: adds_def)

lemma update_same: "keyed sk_id cs \<Longrightarrow> find_member sid cs = Some c \<Longrightarrow> update_key sk_id sid (\<lambda>_. True) (\<lambda>_. c) cs = cs"
  unfolding update_key_def find_member_def
  by (rule map_idI) (metis option.inject select_key_set)

lemma chat_step_adds:
  assumes "keyed sk_id (cs_sockets s)"
  shows "\<exists>ms. adds s a ms (chat_step env lib cfg a s)"
proof (cases a)
  case (Open sid token)
  then show ?thesis by (intro exI [of _ "[]"] adds_nothing) (simp_all split: sum.split)
next
  case (Close sid)
  then show ?thesis by (intro exI [of _ "[]"] adds_nothing) simp_all
next
  case (Wait ms)
  then show ?thesis by (intro exI [of _ "[]"] adds_nothing) simp_all
next
  case (Ask sid rq)
  show ?thesis
  proof (cases "find_member sid (cs_sockets s)")
    case None
    with Ask show ?thesis by (intro exI [of _ "[]"] adds_nothing) simp_all
  next
    case (Some c)
    let ?w = "cs_world s" and ?h = "snd (chat_handle env rq c)"
    show ?thesis
    proof (cases "\<exists>room content. rq = Send room content")
      case False
      then have "w_messages (snd (?h ?w)) = w_messages ?w" "w_chat (snd (?h ?w)) = w_chat ?w"
        using other_requests_add_nothing [of rq env c ?w] by auto
      with Ask Some show ?thesis
        by (intro exI [of _ "[]"] adds_nothing) (simp_all add: Let_def split_def deliveries_def)
    next
      case True
      then obtain room content where rq: "rq = Send room content" by blast
      obtain r w' where run: "handleSendMessage env room content c ?w = (r, w')" by fastforce
      from send_effect [OF run] obtain ms bs where new: "w_messages w' = w_messages ?w @ ms"
          "w_chat w' = w_chat ?w @ bs"
          "\<forall>m \<in> set ms. sent_by (ck_user c) room content m \<and> room \<in> set (sk_rooms c)"
          "\<forall>b \<in> set bs. \<exists>m \<in> set ms. b = chat_broadcast room m"
        by blast
      have "chat_step env lib cfg a s = s\<lparr>cs_world := w', cs_heard := cs_heard s @ deliveries (cs_sockets s) bs\<rparr>"
        using Ask rq Some run new(2) update_same [OF assms Some] by (simp add: Let_def)
      moreover have "m_room (chat_broadcast room m) = room" for m by (simp add: chat_broadcast_def)
      ultimately have "adds s a ms (chat_step env lib cfg a s)"
        using new(1,3,4) Ask rq Some unfolding adds_def sent_by_def
        by (fastforce simp: deliveries_set)
      then show ?thesis by blast
    qed
  qed
qed

section \<open>The whole history\<close>

lemma connect_sel: "chat_connect lib cfg sid token now = Inr c \<Longrightarrow> sk_id c = sid"
  by (auto simp: chat_connect_def split: option.splits)

text \<open>A socket replaced by its next state.\<close>

lemma keyed_replace: "keyed sk_id cs \<Longrightarrow> sk_id c = sid \<Longrightarrow> keyed sk_id (update_key sk_id sid (\<lambda>_. True) (\<lambda>_. c) cs)"
proof -
  assume "sk_id c = sid"
  then have "map sk_id (update_key sk_id sid (\<lambda>_. True) (\<lambda>_. c) cs) = map sk_id cs"
    by (simp add: update_key_def)
  then show "keyed sk_id cs \<Longrightarrow> ?thesis" by (simp add: keyed_def)
qed

lemma find_replace:
  "sk_id c = sid \<Longrightarrow> find_member k (update_key sk_id sid (\<lambda>_. True) (\<lambda>_. c) cs) =
     (if k = sid then map_option (\<lambda>_. c) (find_member sid cs) else find_member k cs)"
  by (induction cs) (auto simp: find_member_def select_key_def update_key_def)

lemma find_opened:
  "find_member k (insert_row c (delete_key sk_id (sk_id c) cs)) = (if k = sk_id c then Some c else find_member k cs)"
  using members.lookup_ins [of c "delete_key sk_id (sk_id c) cs" k] by (simp add: members.lookup_del)

lemma opened_member:
  assumes "find_member k (cs_sockets (chat_step env lib cfg (Open sid token) s)) = Some c"
  shows "find_member k (cs_sockets s) = Some c \<or>
    k = sid \<and> chat_connect lib cfg sid token (w_now (cs_world s)) = Inr c"
proof (cases "chat_connect lib cfg sid token (w_now (cs_world s))")
  case (Inr d)
  with assms find_opened [of k d "cs_sockets s"] connect_sel [OF Inr] show ?thesis
    by (simp split: if_splits)
qed (use assms in simp)

lemma chat_keyed: "keyed sk_id (cs_sockets (chat_at env lib cfg w h))"
proof (induction h rule: rev_induct)
  case (snoc a h)
  then show ?case
    by (cases a)
      (auto simp: Let_def split_def members.lookup_del dest: connect_sel find_member_key
        intro!: members.wf_ins members.wf_del keyed_replace split: sum.split option.split)
qed (simp add: keyed_def)

text \<open>The sockets that are online were admitted as the users they speak for.\<close>

lemma member_admitted:
  assumes "auth_lib_ok lib" and "find_member sid (cs_sockets (chat_at env lib cfg w h)) = Some c"
  shows "admitted env lib cfg w h sid (ck_user c)"
  using assms(2)
proof (induction h arbitrary: c rule: rev_induct)
  case Nil
  then show ?case by (simp add: find_member_def select_key_def)
next
  case (snoc a h)
  let ?s = "chat_at env lib cfg w h"
  show ?case
  proof (cases "\<exists>c0. find_member sid (cs_sockets ?s) = Some c0 \<and> ck_user c0 = ck_user c")
    case True
    with snoc.IH show ?thesis by (metis admitted_more)
  next
    case False
    have "\<exists>token. a = Open sid token \<and> chat_connect lib cfg sid token (w_now (cs_world ?s)) = Inr c"
    proof (cases a)
      case (Open sid' token)
      with snoc.prems have "find_member sid (cs_sockets (chat_step env lib cfg (Open sid' token) ?s)) = Some c" by simp
      from opened_member [OF this] False Open show ?thesis by auto
    qed (use snoc.prems False in \<open>auto simp: Let_def split_def members.lookup_del find_replace find_member_key
          split: option.splits if_splits\<close>)
    then obtain token where a: "a = Open sid token"
        and c: "chat_connect lib cfg sid token (w_now (cs_world ?s)) = Inr c" by blast
    from c obtain tok where tok: "token = Some tok"
        "jwt_verify lib tok (jc_secret cfg) (w_now (cs_world ?s)) = Some (ck_user c)"
      by (auto simp: chat_connect_def split: option.splits)
    then obtain e t where sign: "tok = jwt_sign lib (ck_user c) (jc_secret cfg) e t"
      using auth_lib_okD(3) [OF assms(1)] by blast
    with tok(2) have "w_now (cs_world ?s) div 1000 < t div 1000 + jwt_lifetime lib e"
      by (simp add: auth_lib_okD(2) [OF assms(1)] split: if_splits)
    with a tok(1) sign show ?thesis unfolding admitted_def by blast
  qed
qed

text \<open>What an action adds, in terms of the history before it.\<close>

lemma chat_step_spoken:
  assumes "auth_lib_ok lib"
  shows "\<exists>ms ds. let s = chat_at env lib cfg w h; s' = chat_at env lib cfg w (h @ [a]) in
    w_messages (cs_world s') = w_messages (cs_world s) @ ms \<and> cs_heard s' = cs_heard s @ ds \<and>
    (\<forall>m \<in> set ms. spoken_at env lib cfg w (h @ [a]) h m) \<and>
    (\<forall>(sid, b) \<in> set ds. \<exists>m \<in> set ms. \<exists>pl. b = chat_broadcast (mg_room m) m \<and> member_at env lib cfg w h sid (mg_room m) pl)"
proof -
  let ?s = "chat_at env lib cfg w h"
  obtain ms where "adds ?s a ms (chat_step env lib cfg a ?s)"
    using chat_step_adds [OF chat_keyed] by blast
  then obtain ds where new: "w_messages (cs_world (chat_step env lib cfg a ?s)) = w_messages (cs_world ?s) @ ms"
      "\<forall>m \<in> set ms. \<exists>sid c. a = Ask sid (Send (mg_room m) (mg_content m)) \<and> find_member sid (cs_sockets ?s) = Some c \<and>
        mg_room m \<in> set (sk_rooms c) \<and> mg_senderId m = tk_sub (ck_user c) \<and> mg_senderEmail m = tk_email (ck_user c)"
      "cs_heard (chat_step env lib cfg a ?s) = cs_heard ?s @ ds"
      "\<forall>(sid, b) \<in> set ds. \<exists>m \<in> set ms. b = chat_broadcast (mg_room m) m \<and>
        (\<exists>c \<in> set (cs_sockets ?s). sk_id c = sid \<and> mg_room m \<in> set (sk_rooms c))"
    unfolding adds_def by blast
  have spoken: "spoken_at env lib cfg w (h @ [a]) h m" if "m \<in> set ms" for m
  proof -
    from new(2) that obtain sid c where c: "a = Ask sid (Send (mg_room m) (mg_content m))"
        "find_member sid (cs_sockets ?s) = Some c" "mg_room m \<in> set (sk_rooms c)"
        "mg_senderId m = tk_sub (ck_user c)" "mg_senderEmail m = tk_email (ck_user c)"
      by blast
    have "member_at env lib cfg w h sid (mg_room m) (ck_user c)"
      using c(2,3) by (simp add: member_at_def)
    with c member_admitted [OF assms c(2)] show ?thesis
      unfolding spoken_at_def by (intro exI [of _ "[]"] exI [of _ sid] exI [of _ "ck_user c"]) simp
  qed
  have online: "member_at env lib cfg w h (sk_id c) room (ck_user c)"
    if "c \<in> set (cs_sockets ?s)" "room \<in> set (sk_rooms c)" for c room
    using that(2) select_key_set [OF chat_keyed that(1)] by (simp add: member_at_def find_member_def)
  from new(4) online have "\<forall>(sid, b) \<in> set ds. \<exists>m \<in> set ms. \<exists>pl.
      b = chat_broadcast (mg_room m) m \<and> member_at env lib cfg w h sid (mg_room m) pl"
    by fastforce
  with new(1,3) spoken show ?thesis by (intro exI [of _ ms] exI [of _ ds]) (simp add: Let_def)
qed

text \<open>C11: With any number of sockets that connect, join, leave, send and disconnect in any order,
  and whatever calls fail: every message that is stored was asked for by a socket that had been
  admitted with an unexpired token of its user, stands in the name of that user, and was sent
  while the socket was in the room; and whatever a socket hears is such a message of a room that
  the socket itself was in when it was sent.\<close>

theorem chat_is_authentic_and_confined:
  assumes "auth_lib_ok lib"
  shows "\<exists>ms. w_messages (cs_world (chat_at env lib cfg w h)) = w_messages w @ ms \<and>
    (\<forall>m \<in> set ms. \<exists>pre. spoken_at env lib cfg w h pre m) \<and>
    (\<forall>(sid, b) \<in> set (cs_heard (chat_at env lib cfg w h)). \<exists>m \<in> set ms. \<exists>pre pl.
       b = chat_broadcast (mg_room m) m \<and> spoken_at env lib cfg w h pre m \<and>
       member_at env lib cfg w pre sid (mg_room m) pl)"
proof (induction h rule: rev_induct)
  case Nil
  show ?case by simp
next
  case (snoc a h)
  let ?s = "chat_at env lib cfg w h"
  obtain ms where IH: "w_messages (cs_world ?s) = w_messages w @ ms"
      "\<forall>m \<in> set ms. \<exists>pre. spoken_at env lib cfg w h pre m"
      "\<forall>(sid, b) \<in> set (cs_heard ?s). \<exists>m \<in> set ms. \<exists>pre pl. b = chat_broadcast (mg_room m) m \<and>
         spoken_at env lib cfg w h pre m \<and> member_at env lib cfg w pre sid (mg_room m) pl"
    using snoc.IH by blast
  obtain ms' ds where new: "w_messages (cs_world (chat_at env lib cfg w (h @ [a]))) = w_messages (cs_world ?s) @ ms'"
      "cs_heard (chat_at env lib cfg w (h @ [a])) = cs_heard ?s @ ds"
      "\<forall>m \<in> set ms'. spoken_at env lib cfg w (h @ [a]) h m"
      "\<forall>(sid, b) \<in> set ds. \<exists>m \<in> set ms'. \<exists>pl. b = chat_broadcast (mg_room m) m \<and>
         member_at env lib cfg w h sid (mg_room m) pl"
    using chat_step_spoken [OF assms, of env cfg w h a] unfolding Let_def by blast
  have old: "\<forall>(sid, b) \<in> set (cs_heard ?s). \<exists>m \<in> set ms. \<exists>pre pl. b = chat_broadcast (mg_room m) m \<and>
      spoken_at env lib cfg w (h @ [a]) pre m \<and> member_at env lib cfg w pre sid (mg_room m) pl"
    using IH(3) spoken_more by fastforce
  show ?case
  proof (intro exI [of _ "ms @ ms'"] conjI)
    show "w_messages (cs_world (chat_at env lib cfg w (h @ [a]))) = w_messages w @ ms @ ms'"
      using IH(1) new(1) by simp
    show "\<forall>m \<in> set (ms @ ms'). \<exists>pre. spoken_at env lib cfg w (h @ [a]) pre m"
      using IH(2) new(3) spoken_more by fastforce
    show "\<forall>(sid, b) \<in> set (cs_heard (chat_at env lib cfg w (h @ [a]))). \<exists>m \<in> set (ms @ ms'). \<exists>pre pl.
       b = chat_broadcast (mg_room m) m \<and> spoken_at env lib cfg w (h @ [a]) pre m \<and>
       member_at env lib cfg w pre sid (mg_room m) pl"
      unfolding new(2) set_append ball_Un using old new(3,4) by fast
  qed
qed

lemma spoken_by_admitted:
  assumes "spoken_at env lib cfg w h pre m"
  obtains sid pl e t where "Open sid (Some (jwt_sign lib pl (jc_secret cfg) e t)) \<in> set h" "mg_senderEmail m = tk_email pl"
proof -
  from assms obtain post sid pl pre' post' e t where
    "h = pre @ Ask sid (Send (mg_room m) (mg_content m)) # post" "mg_senderEmail m = tk_email pl"
    "pre = pre' @ Open sid (Some (jwt_sign lib pl (jc_secret cfg) e t)) # post'"
    unfolding spoken_at_def admitted_def by blast
  then show thesis by (intro that [of sid pl e t]) simp_all
qed

lemma send_served:
  assumes "up env Database" and "room \<in> set (sk_rooms c)"
    and "find_message (e_uuid env (Suc (w_calls w))) (w_messages w) = None"
  shows "\<exists>m w'. handleSendMessage env room content c w = (Inr (Message_sent (mg_id m)), w') \<and>
    sent_by (ck_user c) room content m \<and> w_messages w' = w_messages w @ [m] \<and> w_chat w' = w_chat w @ [chat_broadcast room m]"
  using assms
  by (simp add: handleSendMessage_def Let_def io_simps saveMessage_def db_insert_message_def insert_row_def
      sent_by_def new_message_def)

text \<open>With the database up, a message sent by a member of a room is stored once and heard once by
  every socket in the room, the sender included.\<close>

theorem members_hear_a_message:
  assumes "up env Database" and "s = chat_at env lib cfg w h" and "find_member sid (cs_sockets s) = Some c"
    and "room \<in> set (sk_rooms c)"
    and "find_message (e_uuid env (Suc (w_calls (cs_world s)))) (w_messages (cs_world s)) = None"
  shows "\<exists>m. sent_by (ck_user c) room content m \<and>
    w_messages (cs_world (chat_step env lib cfg (Ask sid (Send room content)) s)) = w_messages (cs_world s) @ [m] \<and>
    cs_heard (chat_step env lib cfg (Ask sid (Send room content)) s) = cs_heard s @
      map (\<lambda>c. (sk_id c, chat_broadcast room m)) (filter (\<lambda>c. room \<in> set (sk_rooms c)) (cs_sockets s))"
proof -
  obtain m w' where run: "handleSendMessage env room content c (cs_world s) = (Inr (Message_sent (mg_id m)), w')"
    and m: "sent_by (ck_user c) room content m" "w_messages w' = w_messages (cs_world s) @ [m]"
      "w_chat w' = w_chat (cs_world s) @ [chat_broadcast room m]"
    using send_served [OF assms(1,4,5)] by blast
  have "update_key sk_id sid (\<lambda>_. True) (\<lambda>_. c) (cs_sockets s) = cs_sockets s"
    using update_same [OF chat_keyed] assms(2,3) by blast
  with run m assms(3) show ?thesis
    by (auto simp: Let_def deliveries_def chat_broadcast_def intro!: exI [of _ m])
qed

theorem chat_is_authentic_and_confined_witness:
  "\<exists>ms. w_messages (cs_world (chat_at calm sample_auth_lib sample_jwt_config (sample_world PENDING)
      [Open ''s'' (Some (jwt_sign sample_auth_lib (payload_of alice) ''s1'' ''7d'' 0)), Ask ''s'' (Join ''general''),
       Ask ''s'' (Send ''general'' ''hi''), Ask ''s'' (Send ''secret'' ''hi'')])) = ms \<and> length ms = 1 \<and>
     (\<forall>m \<in> set ms. mg_senderEmail m = ''alice@example.com'')"
proof -
  let ?tok = "jwt_sign sample_auth_lib (payload_of alice) ''s1'' ''7d'' 0"
  let ?h = "[Open ''s'' (Some ?tok), Ask ''s'' (Join ''general''), Ask ''s'' (Send ''general'' ''hi''),
    Ask ''s'' (Send ''secret'' ''hi'')]"
  let ?s = "chat_at calm sample_auth_lib sample_jwt_config (sample_world PENDING) ?h"
  obtain ms where ms: "w_messages (cs_world ?s) = ms"
      "\<forall>m \<in> set ms. \<exists>pre. spoken_at calm sample_auth_lib sample_jwt_config (sample_world PENDING) ?h pre m"
    using chat_is_authentic_and_confined [OF sample_auth_lib_ok, of calm sample_jwt_config "sample_world PENDING" ?h] by auto
  have "mg_senderEmail m = ''alice@example.com''" if "m \<in> set ms" for m
  proof -
    from ms(2) that obtain pre where
      "spoken_at calm sample_auth_lib sample_jwt_config (sample_world PENDING) ?h pre m" by blast
    then obtain sid pl e t where "Open sid (Some (jwt_sign sample_auth_lib pl (jc_secret sample_jwt_config) e t)) \<in> set ?h"
        "mg_senderEmail m = tk_email pl"
      by (rule spoken_by_admitted)
    then show ?thesis by (auto simp: sample_auth_lib_def)
  qed
  moreover have connect: "chat_connect sample_auth_lib sample_jwt_config ''s'' (Some ?tok) 0 = Inr alice_socket"
    by (simp add: chat_connect_def auth_lib_okD(2) [OF sample_auth_lib_ok] alice_socket_def)
  have "length (w_messages (cs_world ?s)) = 1"
    by (simp add: chat_at_def connect delete_key_def insert_row_def find_member_def select_key_def update_key_def
        alice_socket_def handleJoinRoom_def socket_join_def getRoomHistory_def handleSendMessage_def io_simps
        saveMessage_def db_insert_message_def Let_def find_message_def)
  ultimately show ?thesis using ms(1) by blast
qed

end
