(* ===== verification/Lifecycle.thy ===== *)
theory Lifecycle
  imports Samples
begin

text \<open>
  The life of a queue job: the worker's attempts at it until one returns or none is left. The
  queue (BullMQ) hands a failed job out again, with its count of attempts increased, as often as
  its option \<open>attempts\<close> allows. Between two attempts the job waits, while the rest of the
  program goes on; what happens then is a parameter.
\<close>

section \<open>Attempts until the end\<close>

definition retries_left :: "queue_job \<Rightarrow> nat" where
  "retries_left job = nat (or_else (o_attempts (j_opts job)) 1 - 1 - j_attemptsMade job)"

definition next_attempt :: "queue_job \<Rightarrow> queue_job" where
  "next_attempt job = job\<lparr>j_attemptsMade := j_attemptsMade job + 1\<rparr>"

primrec attempts ::
  "(queue_job \<Rightarrow> unit act) \<Rightarrow> (nat \<Rightarrow> world \<Rightarrow> world) \<Rightarrow> nat \<Rightarrow> queue_job \<Rightarrow> unit act" where
  "attempts run pause 0 job = run job"
| "attempts run pause (Suc n) job =
     io_try (run job) (\<lambda>e. io_seq (io_modify (pause n)) (attempts run pause n (next_attempt job)))"

definition work_off ::
  "env \<Rightarrow> ai_service \<Rightarrow> storage_service \<Rightarrow> (nat \<Rightarrow> world \<Rightarrow> world) \<Rightarrow> queue_job \<Rightarrow> unit act" where
  "work_off env ai storage pause job = attempts (process env ai storage) pause (retries_left job) job"

lemma final_iff: "isFinalAttempt job \<longleftrightarrow> retries_left job = 0"
  by (auto simp: isFinalAttempt_def retries_left_def)

lemma next_attempt_sel [simp]:
  "j_name (next_attempt job) = j_name job" "j_videoId (next_attempt job) = j_videoId job"
  "j_attemptsMade (next_attempt job) = j_attemptsMade job + 1" "j_opts (next_attempt job) = j_opts job"
  by (simp_all add: next_attempt_def)

lemma retries_next: "retries_left job = Suc n \<Longrightarrow> retries_left (next_attempt job) = n"
  by (simp add: retries_left_def)

section \<open>What is known of a video\<close>

definition failures_of :: "string \<Rightarrow> world \<Rightarrow> video_event list" where
  "failures_of k w = filter (\<lambda>ev. ev_videoId ev = k \<and> \<not> quiet ev) (w_events w)"

definition records_of :: "string \<Rightarrow> world \<Rightarrow> failed_job list" where
  "records_of k w = filter (\<lambda>r. f_videoId r = k) (w_failed_jobs w)"

text \<open>Identifiers that the database can still give to a record.\<close>

definition fresh_records :: "env \<Rightarrow> world \<Rightarrow> bool" where
  "fresh_records env w \<longleftrightarrow> (\<forall>n. find_failed_job (e_uuid env n) (w_failed_jobs w) = None)"

text \<open>While the job waits, others leave its video, its announcements and its records alone.\<close>

definition undisturbed :: "env \<Rightarrow> string \<Rightarrow> (nat \<Rightarrow> world \<Rightarrow> world) \<Rightarrow> bool" where
  "undisturbed env k pause \<longleftrightarrow> (\<forall>n w. (wf_world w \<longrightarrow> wf_world (pause n w)) \<and>
     row (pause n w) k = row w k \<and> failures_of k (pause n w) = failures_of k w \<and>
     records_of k (pause n w) = records_of k w \<and> (fresh_records env w \<longrightarrow> fresh_records env (pause n w)))"

lemma quiet_attempt: "\<forall>ev \<in> set (attempt_events k a n). quiet ev"
  by (auto simp: attempt_events_def progress_event_def quiet_def)

lemma failures_append: "w_events w' = w_events w @ evs \<Longrightarrow> \<forall>ev \<in> set evs. quiet ev \<Longrightarrow> failures_of k w' = failures_of k w"
  by (simp add: failures_of_def filter_empty_conv)

lemma stopped_quiet: "stopped w k a w' \<Longrightarrow> failures_of k' w' = failures_of k' w"
  using quiet_attempt by (auto simp: stopped_def interrupted_def phase_def intro: failures_append [of _ _ "[]"] failures_append)

lemma records_frame: "w_failed_jobs w' = w_failed_jobs w \<Longrightarrow> records_of k w' = records_of k w \<and> fresh_records env w' = fresh_records env w"
  by (simp add: records_of_def fresh_records_def)

text \<open>The two outcomes of an attempt or of a life that began in \<open>w\<close>.\<close>

definition succeeded :: "string \<Rightarrow> world \<Rightarrow> world \<Rightarrow> bool" where
  "succeeded k w w' \<longleftrightarrow> statuses w' k = Some COMPLETED \<and> failures_of k w' = failures_of k w \<and>
     records_of k w' = records_of k w"

definition failed :: "string \<Rightarrow> string \<Rightarrow> int \<Rightarrow> world \<Rightarrow> world \<Rightarrow> bool" where
  "failed k m a w w' \<longleftrightarrow> (\<exists>v r. row w' k = Some v \<and> v_status v = FAILED \<and> v_errorMessage v = Some m \<and>
     failures_of k w' = failures_of k w @ [VideoFailed k m a] \<and>
     records_of k w' = records_of k w @ [r] \<and> f_errorMessage r = m \<and> f_attemptsMade r = a \<and> \<not> f_retried r)"

text \<open>A row that is neither failed nor cancelled; no failed attempt but the last changes that.\<close>

definition hopeful :: "video \<Rightarrow> bool" where
  "hopeful v \<longleftrightarrow> v_status v \<notin> {FAILED, CANCELLED}"

lemma path_not_cancelled:
  assumes "status_path s t" and "s \<noteq> CANCELLED"
  shows "t \<noteq> CANCELLED"
  using assms unfolding status_path_def
  by (induction rule: rtranclp_induct) (auto elim: status_edgeE)

lemma stays_hopeful:
  assumes "row w k = Some v" and "hopeful v" and "advances w w'" and "no_new_failure w w'"
  shows "\<exists>v'. row w' k = Some v' \<and> hopeful v'"
proof -
  have "statuses w k = Some (v_status v)" using assms(1) by (simp add: statuses_def status_of_def)
  with assms(3) obtain t where t: "statuses w' k = Some t" "status_path (v_status v) t"
    by (auto simp: advances_def)
  moreover have "t \<noteq> CANCELLED" using path_not_cancelled [OF t(2)] assms(2) by (simp add: hopeful_def)
  moreover have "t \<noteq> FAILED"
    using t(1) assms(1,2,4) by (auto simp: no_new_failure_def hopeful_def statuses_def status_of_def)
  ultimately show ?thesis by (auto simp: hopeful_def statuses_def status_of_def)
qed

lemma outcome_from:
  assumes "failures_of k u = failures_of k w" and "records_of k u = records_of k w"
  shows "succeeded k u w' = succeeded k w w'" and "failed k m a u w' = failed k m a w w'"
  using assms by (simp_all add: succeeded_def failed_def)

context generation_worker
begin

lemma return_succeeds:
  assumes "wf_world w" and "j_name job = GENERATE" and "row w (j_videoId job) = Some v" and "hopeful v"
    and "process env ai storage job w = (Inr u, w')"
  shows "succeeded (j_videoId job) w w'"
proof -
  let ?k = "j_videoId job"
  obtain r w1 where run: "generate_body env ai storage job w = (r, w1)" and keep: "keeps w_failed_jobs w w1"
    by (rule body_run)
  from handler_eval [OF run] assms(2,5) have "w' = w1"
    by (auto simp: process_generate split: sum.splits if_splits prod.splits)
  with keep have records: "records_of ?k w' = records_of ?k w"
    by (simp add: keeps_def records_of_def)
  from process_returns [OF assms(1,2,5)] show ?thesis
  proof
    assume d: "delivered w ?k (j_attemptsMade job + 1) w'"
    then have "failures_of ?k w' = failures_of ?k w"
      using quiet_attempt [of ?k "j_attemptsMade job + 1"]
      by (auto simp: delivered_def phase_def quiet_def intro!: failures_append)
    with d records show ?thesis
      by (auto simp: succeeded_def delivered_def phase_def statuses_def status_of_def)
  next
    assume "skipped w ?k w'"
    with assms(3,4) records show ?thesis
      by (auto simp: succeeded_def skipped_def failures_of_def statuses_def status_of_def row_def terminal_def hopeful_def)
  qed
qed

lemma last_error_fails:
  assumes "up env Database" and "wf_world w" and "j_name job = GENERATE" and "retries_left job = 0"
    and "row w (j_videoId job) = Some v" and "fresh_records env w"
    and "process env ai storage job w = (Inl e, w')"
  shows "failed (j_videoId job) (error_message e) (j_attemptsMade job + 1) w w'"
proof -
  have final: "isFinalAttempt job" using assms(4) by (simp add: final_iff)
  have fresh: "find_failed_job (e_uuid env n) (w_failed_jobs w) = None" for n
    using assms(6) by (simp add: fresh_records_def)
  from process_last_row [OF assms(1-3) final assms(7,5)]
    process_last_events [OF assms(1-3) final assms(7) fresh]
  show ?thesis
    by (fastforce simp: failed_def failures_of_def records_of_def quiet_def filter_empty_conv)
qed

text \<open>A life has one of two outcomes.\<close>

lemma attempts_end:
  assumes "up env Database" and "undisturbed env k pause" and "retries_left job = n"
    and "j_name job = GENERATE" and "j_videoId job = k" and "wf_world w" and "row w k = Some v" and "hopeful v"
    and "fresh_records env w" and "attempts (process env ai storage) pause n job w = (r, w')"
  shows "case r of Inr _ \<Rightarrow> succeeded k w w'
    | Inl e \<Rightarrow> failed k (error_message e) (j_attemptsMade job + int n + 1) w w'"
  using assms(3-)
proof (induction n arbitrary: job w v)
  case 0
  then have run: "process env ai storage job w = (r, w')" by simp
  show ?case
  proof (cases r)
    case (Inl e)
    then show ?thesis
      using last_error_fails [OF assms(1), of w job v e w'] 0 run by simp
  next
    case (Inr u)
    then show ?thesis
      using return_succeeds [of w job v env u w'] 0 run by simp
  qed
next
  case (Suc n)
  obtain r1 w1 where run: "process env ai storage job w = (r1, w1)" by fastforce
  show ?case
  proof (cases r1)
    case (Inr u)
    with Suc.prems run have "r = Inr u" "w' = w1" by (simp_all add: io_try_def)
    then show ?thesis
      using return_succeeds [of w job v env u w1] Suc.prems run Inr by simp
  next
    case (Inl e)
    let ?u = "pause n w1"
    have "\<not> isFinalAttempt job" using Suc.prems(1) by (simp add: final_iff)
    note retry = process_retryable [OF Suc.prems(4,2) this run [unfolded Inl]]
    have kept: "failures_of k w1 = failures_of k w" "records_of k w1 = records_of k w" "fresh_records env w1"
      using stopped_quiet [OF retry(1)] records_frame [OF retry(4), of k env] Suc.prems(7) by simp_all
    obtain v1 where v1: "row w1 k = Some v1" "hopeful v1"
      using stays_hopeful [OF Suc.prems(5,6) retry(3,2)] by blast
    have wf1: "wf_world w1" using process_wf [OF Suc.prems(4) run] .
    have calm: "wf_world w1 \<longrightarrow> wf_world ?u" "row ?u k = row w1 k" "failures_of k ?u = failures_of k w1"
      "records_of k ?u = records_of k w1" "fresh_records env w1 \<longrightarrow> fresh_records env ?u"
      using assms(2) by (simp_all add: undisturbed_def)
    have "attempts (process env ai storage) pause n (next_attempt job) ?u = (r, w')"
      using Suc.prems(8) run Inl by (simp add: io_try_def io_seq_def io_bind_def io_modify_def)
    then have "case r of Inr _ \<Rightarrow> succeeded k ?u w'
        | Inl e \<Rightarrow> failed k (error_message e) (j_attemptsMade (next_attempt job) + int n + 1) ?u w'"
      using Suc.IH [of "next_attempt job" ?u v1] Suc.prems(2,3) retries_next [OF Suc.prems(1)] wf1 v1 kept(3) calm
      by simp
    moreover have "failures_of k ?u = failures_of k w" "records_of k ?u = records_of k w"
      using calm kept by simp_all
    ultimately show ?thesis
      by (simp add: outcome_from [of k ?u w] add_ac split: sum.splits)
  qed
qed

end

section \<open>The life of a job of the program\<close>

text \<open>C2: With the database up, whatever the other services do and whatever other videos do while it
  waits, a job has exactly one of two outcomes. If some attempt returns, the video is completed,
  no failure of it was announced and no dead-letter record written. If no attempt is left, the
  video is failed with the message of the last error, its failure was announced exactly once,
  with the number of attempts, and there is exactly one new dead-letter record.\<close>

theorem job_has_one_outcome:
  assumes "up env Database" and "undisturbed env k pause" and "j_name job = GENERATE" and "j_videoId job = k"
    and "wf_world w" and "row w k = Some v" and "v_status v \<notin> {FAILED, CANCELLED}" and "fresh_records env w"
    and "work_off env (aiService env delay) (storageService env cfg) pause job w = (r, w')"
  shows "case r of
      Inr _ \<Rightarrow> statuses w' k = Some COMPLETED \<and> failures_of k w' = failures_of k w \<and>
        records_of k w' = records_of k w
    | Inl e \<Rightarrow> (\<exists>v' d. row w' k = Some v' \<and> v_status v' = FAILED \<and> v_errorMessage v' = Some (error_message e) \<and>
        failures_of k w' = failures_of k w @
          [VideoFailed k (error_message e) (j_attemptsMade job + int (retries_left job) + 1)] \<and>
        records_of k w' = records_of k w @ [d] \<and> f_errorMessage d = error_message e \<and>
        f_attemptsMade d = j_attemptsMade job + int (retries_left job) + 1 \<and> \<not> f_retried d)"
proof -
  have "hopeful v" using assms(7) by (simp add: hopeful_def)
  from gen_worker.attempts_end [OF assms(1,2) refl assms(3-6) this assms(8) assms(9) [unfolded work_off_def]]
  show ?thesis by (simp add: succeeded_def failed_def split: sum.splits)
qed

lemma undisturbed_wait: "undisturbed env k (\<lambda>n w. w\<lparr>w_now := w_now w + d n\<rparr>)"
  by (simp add: undisturbed_def wf_world_def failures_of_def records_of_def fresh_records_def)

theorem job_has_one_outcome_witness:
  "(\<exists>w'. work_off calm (aiService calm None) (storageService calm sample_config) (\<lambda>n w. w\<lparr>w_now := w_now w + 5000\<rparr>)
      (sample_job (Some 3)) (sample_world PENDING) = (Inr (), w') \<and> statuses w' ''v1'' = Some COMPLETED) \<and>
   (\<exists>w' d. work_off (without Queue) (aiService (without Queue) None) (storageService (without Queue) sample_config)
      (\<lambda>n w. w) (sample_job None) (sample_world PENDING) = (Inl (JsError ''down''), w') \<and> records_of ''v1'' w' = [d])"
proof
  have hyps: "row (sample_world PENDING) ''v1'' = Some (sample_video PENDING)"
      "v_status (sample_video PENDING) \<notin> {FAILED, CANCELLED}" "fresh_records e (sample_world PENDING)" for e
    by (simp_all add: fresh_records_def find_failed_job_def select_key_def)
  obtain w' where "process calm (aiService calm None) (storageService calm sample_config) (sample_job (Some 3))
      (sample_world PENDING) = (Inr (), w')"
    using calm_run by blast
  then have run: "work_off calm (aiService calm None) (storageService calm sample_config)
      (\<lambda>n w. w\<lparr>w_now := w_now w + 5000\<rparr>) (sample_job (Some 3)) (sample_world PENDING) = (Inr (), w')"
    by (cases "retries_left (sample_job (Some 3))") (simp_all add: work_off_def io_try_def)
  from job_has_one_outcome [OF up_calm undisturbed_wait sample_job_sel(2) sample_job_sel(3) sample_wf hyps run]
  show "\<exists>w'. work_off calm (aiService calm None) (storageService calm sample_config) (\<lambda>n w. w\<lparr>w_now := w_now w + 5000\<rparr>)
      (sample_job (Some 3)) (sample_world PENDING) = (Inr (), w') \<and> statuses w' ''v1'' = Some COMPLETED"
    using run by simp
  obtain w2 where "process (without Queue) (aiService (without Queue) None) (storageService (without Queue) sample_config)
      (sample_job None) (sample_world PENDING) = (Inl (JsError ''down''), w2)"
    using queue_down_run by blast
  then have run2: "work_off (without Queue) (aiService (without Queue) None) (storageService (without Queue) sample_config)
      (\<lambda>n w. w) (sample_job None) (sample_world PENDING) = (Inl (JsError ''down''), w2)"
    by (simp add: work_off_def retries_left_def or_else_def)
  have still: "undisturbed (without Queue) ''v1'' (\<lambda>n w. w)" by (simp add: undisturbed_def)
  have db: "up (without Queue) Database" by simp
  have "records_of ''v1'' (sample_world PENDING) = []" by (simp add: records_of_def)
  with job_has_one_outcome [OF db still sample_job_sel(2) sample_job_sel(3) sample_wf hyps run2] run2
  show "\<exists>w' d. work_off (without Queue) (aiService (without Queue) None) (storageService (without Queue) sample_config)
      (\<lambda>n w. w) (sample_job None) (sample_world PENDING) = (Inl (JsError ''down''), w') \<and> records_of ''v1'' w' = [d]"
    by auto
qed

section \<open>A second life\<close>

text \<open>An attempt neither adds nor removes jobs.\<close>

definition job_ids :: "world \<Rightarrow> string list" where
  "job_ids w = map j_id (w_jobs w)"

lemma ids_of_update: "(\<And>r. key (f r) = key r) \<Longrightarrow> map key (update_key key k p f t) = map key t"
  by (simp add: update_key_def)

interpretation attempt_job_ids: attempt_relation "keeps job_ids" env k for env k
  by unfold_locales (auto simp: keeps_def job_ids_def ids_of_update business_state_def)

lemma emit_job_ids: "guarantee (keeps job_ids) (emit env ev)"
proof -
  have "guarantee (keeps job_ids) (io_modify (\<lambda>w. w\<lparr>w_events := w_events w @ [ev]\<rparr>))"
    "guarantee (keeps job_ids) (on_gateway ev)"
    unfolding on_gateway_def by (intro attempt_job_ids.modify; simp add: keeps_def job_ids_def)+
  moreover have "guarantee (keeps job_ids) (onVideoFailed env k m a)" for k m a
    unfolding onVideoFailed_def db_insert_failed_job_def
    by (intro attempt_job_ids.world_rules attempt_job_ids.db_find attempt_job_ids.ext_call)
      (simp add: guarantee_def keeps_def job_ids_def Let_def)
  ultimately show ?thesis
    unfolding emit_def by (auto intro!: attempt_job_ids.world_rules split: video_event.split)
qed

context generation_worker
begin

lemma process_job_ids: "guarantee (keeps job_ids) (process env ai storage job)"
proof -
  have body: "guarantee (keeps job_ids) (generate_body env ai storage job)"
    by (rule attempt_job_ids.generate_body_keeps) (unfold_locales, rule refl)
  have fail: "guarantee (keeps job_ids) (markFailed env k m)" for k m
    by (intro attempt_job_ids.markFailed; simp add: keeps_def job_ids_def)
  show ?thesis
    unfolding process_def handleVideoGeneration_def Let_def
    by (intro attempt_job_ids.world_rules body fail emit_job_ids)
qed

lemma attempts_wf:
  "wf_world w \<Longrightarrow> undisturbed env k pause \<Longrightarrow> attempts (process env ai storage) pause n job w = (r, w') \<Longrightarrow> wf_world w'"
proof (induction n arbitrary: job w)
  case 0
  then show ?case by (simp add: process_wf)
next
  case (Suc n)
  obtain r1 w1 where run: "process env ai storage job w = (r1, w1)" by fastforce
  have wf1: "wf_world w1" by (rule process_wf [OF Suc.prems(1) run])
  then have "wf_world (pause n w1)" using Suc.prems(2) by (simp add: undisturbed_def)
  from Suc.IH [OF this Suc.prems(2)] Suc.prems(3) run wf1 show ?case
    by (auto simp: io_try_def io_seq_def io_bind_def io_modify_def split: sum.splits)
qed

end

lemma attempts_first_return:
  assumes "run job w = (Inr (), w')"
  shows "attempts run pause n job w = (Inr (), w')"
  using assms by (cases n) (simp_all add: io_try_def)

lemma record_is_found:
  assumes "wf_world w" and "records_of k w = rs @ [d]"
  shows "find_failed_job (f_id d) (w_failed_jobs w) = Some d" and "f_videoId d = k"
proof -
  have "d \<in> set (records_of k w)" by (simp add: assms(2))
  then have "d \<in> set (w_failed_jobs w)" "f_videoId d = k" by (simp_all add: records_of_def)
  with assms(1) show "find_failed_job (f_id d) (w_failed_jobs w) = Some d" "f_videoId d = k"
    by (simp_all add: wf_world_def find_failed_job_def select_key_set)
qed

lemma retried_job_delivers:
  assumes up: "up env Database" "up env Queue" and d: "defaultDelayMs delay \<le> 300000"
    and w: "wf_world w" "find_failed_job rid (w_failed_jobs w) = Some f" "\<not> f_retried f"
    and row: "row w (f_videoId f) = Some v"
    and jid: "jid = e_job_id env (w_calls w + 3)" "find_job jid (w_jobs w) = None"
  shows "\<exists>u w1 job w2. retryFailedJob env rid w = (Inr u, w1) \<and> find_job jid (w_jobs w1) = Some job \<and>
    work_off env (aiService env delay) storage pause job w1 = (Inr (), w2) \<and> published_video (f_videoId f) w2"
proof -
  let ?job = "new_job jid GENERATE (f_videoId f) queue_module_job_defaults"
  have "retryFailedJob env rid w = retry_record env rid f (ticked env w)"
    using up w by (simp add: retryFailedJob_def io_simps db_find_failed_job_def)
  moreover obtain u w1 v' where 1: "retry_record env rid f (ticked env w) = (Inr u, w1)"
    "w_jobs w1 = insert_row ?job (w_jobs w)" "row w1 (f_videoId f) = Some v'" "v_status v' = PENDING"
    using retry_record_up [OF up, of jid "ticked env w" f v rid] row jid by (auto simp: numeral_3_eq_3)
  moreover have "find_job jid (w_jobs w1) = Some ?job"
    using jid(2) 1(2) jobs.lookup_ins [of ?job "w_jobs w" jid] by (simp add: new_job_def)
  moreover have "wf_world w1"
    using guaranteeD [OF wf_retry_record 1(1)] w(1) by (simp add: keeps_wf_def wf_world_def)
  then have "\<exists>w2. process env (aiService env delay) storage ?job w1 = (Inr (), w2) \<and> published_video (f_videoId f) w2"
    using process_live [OF up, of delay w1 ?job v' storage] d 1(3,4)
    by (simp add: new_job_def max_poll_attempts_def terminal_def)
  ultimately show ?thesis
    by (metis work_off_def attempts_first_return)
qed

text \<open>C14: A failed job is recovered by its dead-letter record. Whatever made every attempt at a
  job fail, with the database up: once database and queue are up, a retry of the one record the
  job has left returns and queues a new job, and the attempts at that job complete the video.\<close>

theorem failed_job_is_recovered:
  assumes "up env Database" and "undisturbed env k pause" and "j_name job = GENERATE" and "j_videoId job = k"
    and "wf_world w" and "row w k = Some v" and "v_status v \<notin> {FAILED, CANCELLED}" and "fresh_records env w"
    and "work_off env (aiService env delay) (storageService env cfg) pause job w = (Inl e, w1)"
    and "up env' Database" and "up env' Queue" and "defaultDelayMs delay' \<le> 300000"
    and "jid = e_job_id env' (w_calls w1 + 3)" and "find_job jid (w_jobs w1) = None"
  shows "\<exists>d u w2 job' w3. records_of k w1 = records_of k w @ [d] \<and>
    retryFailedJob env' (f_id d) w1 = (Inr u, w2) \<and> find_job jid (w_jobs w2) = Some job' \<and>
    work_off env' (aiService env' delay') (storageService env' cfg) pause' job' w2 = (Inr (), w3) \<and>
    published_video k w3"
proof -
  note run = assms(9) [unfolded work_off_def]
  have "hopeful v" using assms(7) by (simp add: hopeful_def)
  from gen_worker.attempts_end [OF assms(1,2) refl assms(3-6) this assms(8) run]
  obtain d v' where d: "records_of k w1 = records_of k w @ [d]" "\<not> f_retried d" and v': "row w1 k = Some v'"
    by (auto simp: failed_def)
  have wf: "wf_world w1" by (rule gen_worker.attempts_wf [OF assms(5,2) run])
  note found = record_is_found [OF wf d(1)]
  from retried_job_delivers [OF assms(10-12) wf found(1) d(2) _ assms(13,14)] v' found(2) d(1)
  show ?thesis by fastforce
qed

theorem failed_job_is_recovered_witness:
  "\<exists>w1 d u w2 job w3. work_off (without Queue) (aiService (without Queue) None) (storageService (without Queue) sample_config)
      (\<lambda>n w. w) (sample_job None) (sample_world PENDING) = (Inl (JsError ''down''), w1) \<and>
    records_of ''v1'' w1 = [d] \<and> retryFailedJob calm (f_id d) w1 = (Inr u, w2) \<and>
    work_off calm (aiService calm None) (storageService calm sample_config) (\<lambda>n w. w) job w2 = (Inr (), w3) \<and>
    published_video ''v1'' w3"
proof -
  obtain w1 where run: "process (without Queue) (aiService (without Queue) None) (storageService (without Queue) sample_config)
      (sample_job None) (sample_world PENDING) = (Inl (JsError ''down''), w1)"
    using queue_down_run by blast
  then have life: "work_off (without Queue) (aiService (without Queue) None) (storageService (without Queue) sample_config)
      (\<lambda>n w. w) (sample_job None) (sample_world PENDING) = (Inl (JsError ''down''), w1)"
    by (simp add: work_off_def retries_left_def or_else_def)
  have jobs: "find_job ''7'' (w_jobs w1) = None"
    using guaranteeD [OF gen_worker.process_job_ids run] by (simp add: keeps_def job_ids_def)
  have hyps: "up (without Queue) Database" "undisturbed (without Queue) ''v1'' (\<lambda>n w. w)"
    "row (sample_world PENDING) ''v1'' = Some (sample_video PENDING)"
    "v_status (sample_video PENDING) \<notin> {FAILED, CANCELLED}" "fresh_records (without Queue) (sample_world PENDING)"
    "defaultDelayMs None \<le> 300000" "''7'' = e_job_id calm (w_calls w1 + 3)"
    by (simp_all add: undisturbed_def fresh_records_def defaultDelayMs_def)
  from failed_job_is_recovered [OF hyps(1,2) sample_job_sel(2) sample_job_sel(3) sample_wf hyps(3-5) life
      up_calm up_calm hyps(6,7) jobs, where pause' = "\<lambda>n w. w"]
  obtain d u w2 job w3 where "records_of ''v1'' w1 = [d]" "retryFailedJob calm (f_id d) w1 = (Inr u, w2)"
    "work_off calm (aiService calm None) (storageService calm sample_config) (\<lambda>n w. w) job w2 = (Inr (), w3)"
    "published_video ''v1'' w3"
    by (elim exE conjE) (rule that, simp add: records_of_def)
  with life show ?thesis by (intro exI conjI)
qed

end
