(* ===== verification/Spec2Isabelle.thy ===== *)
theory Spec2Isabelle
  imports Status_Properties Attempt_Cost Service_Properties Account_Properties Chat_Properties Http_Properties
    Concurrency_Properties
    Bootstrap Sockets Chat_Server Lifecycle
begin

text \<open>
  A model of the video generation backend of the repository (\<open>src/src\<close>, a NestJS program): users
  register and submit videos to an API process, BullMQ carries a job per video to workers, a
  worker drives an AI provider and an object store, the status of a video is kept in PostgreSQL,
  mirrored in Redis and pushed to sockets, and users chat in rooms over a second namespace.

  \<^bold>\<open>How the program is modelled.\<close> An \<open>async\<close> method is a state transformer that ends with a value
  or an exception (\<open>Effects\<close>). The state (\<open>world\<close> in \<open>World\<close>) holds the tables \<open>videos\<close>,
  \<open>failed_jobs\<close>, \<open>users\<close> and \<open>messages\<close>, the Redis keys, the jobs of the queue, the objects of the
  bucket, the memory of the simulated AI provider, the emitted events, the socket messages, the
  clock and the number of external calls made. Every call to the database, Redis, the queue,
  OpenAI, the object store or an HTTPS source goes through \<open>external\<close>: an environment \<open>env\<close>, a
  parameter of every operation, decides by the number of the call whether it is served, refused
  without effect, or executed with its reply lost, and how long it takes. \<open>up env svc\<close> says that
  a service serves all its calls; a property without such a hypothesis holds under all faults. The
  environment also gives what is generated outside the sources: row and job identifiers, the
  completion of OpenAI, the answer of a source URL, signed URLs, and whether the process loads the
  gateway. The packages \<open>bcryptjs\<close> and \<open>jsonwebtoken\<close> are the record \<open>auth_lib\<close>, whose documented
  behaviour is the hypothesis \<open>auth_lib_ok\<close>; \<open>class-validator\<close> is the record \<open>validator\<close>.

  \<^bold>\<open>Theories.\<close>
  \<^item> \<open>Prelude\<close>, \<open>Effects\<close>: operators of the source language; the effect type, triples with a
    normal and an exceptional postcondition, and guarantees, with the locale \<open>effect_preorder\<close>.
  \<^item> \<open>Entities\<close>, \<open>Video_Dto\<close>: entities, DTOs, events and contract types as records and datatypes.
  \<^item> \<open>Tables\<close>, \<open>World\<close>: tables with the laws of the locale \<open>keyed_table\<close>, interpreted for the
    four tables and the queue; the state, the environment and the primitive calls;
    \<open>world_preorder\<close>, the relations between states that no clock tick breaks, with one
    interpretation per frame; \<open>error_class\<close>, the exceptions an operation may throw.
  \<^item> \<open>Job_Status\<close>: \<open>modules/queue/job-status.service.ts\<close>; the abstract machine (\<open>cas\<close>,
    \<open>status_edge\<close>), the locale \<open>status_store\<close> and its interpretation by \<open>transitionStatus\<close>;
    \<open>Status_Cache\<close>: what a cached read returns after each operation.
  \<^item> \<open>Ai_Provider\<close>: \<open>modules/ai\<close>; the locale \<open>ai_provider\<close>, interpreted by the simulator.
  \<^item> \<open>Url\<close>, \<open>Storage\<close>: the URL class as far as it is used; \<open>modules/storage/storage.service.ts\<close>,
    the locale \<open>object_store\<close>, and an exact account of retries and backoff.
  \<^item> \<open>Gateway\<close>: \<open>modules/gateway/video.gateway.ts\<close>; \<open>Dlq\<close>: \<open>modules/queue/dlq.service.ts\<close> and
    the event bus; \<open>Queue_Api\<close>: \<open>modules/queue/queue.service.ts\<close> and its controller.
  \<^item> \<open>Videos\<close>, \<open>Videos_Facts\<close>: \<open>modules/videos/videos.service.ts\<close>, its controller, and lemmas on
    ownership, creation, listing, links and keys.
  \<^item> \<open>Processor\<close>: \<open>modules/queue/processors/video-generation.processor.ts\<close>; \<open>Worker_Run\<close>: what an
    attempt does under faults, for any services that satisfy \<open>ai_provider\<close> and \<open>object_store\<close>;
    \<open>Worker_Live\<close>: delivery with the simulated provider; \<open>Attempt_Cost\<close>: the calls and the time
    of an attempt, with the locale \<open>bounded_services\<close>.
  \<^item> \<open>Lifecycle\<close>: all attempts at a job, one after the other, with an unknown part of the program
    running while it waits, and the second life that a retry of its dead-letter record gives it;
    \<open>Sockets\<close>: the namespace of the gateway with all its sockets, who watches
    which video, and what each socket hears; \<open>Chat_Server\<close>: the same for the chat, with the messages
    it stores.
  \<^item> \<open>Users\<close>: \<open>modules/users\<close>; \<open>Auth\<close>: \<open>modules/auth\<close> and the JWT guard; \<open>Chat\<close>: \<open>modules/chat\<close>,
    with the session of a socket as the sequence of its requests.
  \<^item> \<open>Validation\<close>: the rules of the DTO classes and the global pipe; \<open>Chat_Api\<close>: the events a client
    of the chat sends, through the pipe of the gateway; \<open>Http\<close>, \<open>Http_Facts\<close>: the
    requests of the five controllers with their declarations, the guards, the pipe, the handlers,
    the envelope of \<open>TransformInterceptor\<close> and the answers of \<open>HttpExceptionFilter\<close>.
  \<^item> \<open>Monitoring\<close>: the basic authentication of the dashboard, with Base64 and UTF-8; \<open>Config\<close>:
    \<open>config/configuration.ts\<close>, what the modules take from it, and the helpers of \<open>config\<close>.
  \<^item> \<open>Modules\<close>: the modules of both processes with the providers they bring, what the constructors
    inject, and which process has which provider: everything that is asked for is provided, both
    processes take jobs, and the sockets belong to the API process alone. \<open>Bootstrap\<close>: the settings of
    \<open>main.ts\<close> and \<open>main.worker.ts\<close>, the log lines of a request, and the throttling of the health endpoint.
  \<^item> \<open>Pipeline\<close>: the invariant of the shared state and the statements that keep it. \<open>Tasks\<close>: an
    \<open>async\<close> method as a resumption, pools of tasks under a schedule, what a pool guarantees when
    every step of its tasks does (the locale \<open>protocol\<close>). \<open>Task_Programs\<close>: the handlers that
    write the tables and the attempts of the workers as tasks, each of which is the handler when it
    runs alone. \<open>Interleaving\<close>: the steps of an attempt (the locales \<open>worker_protocol\<close> and
    \<open>attempt_protocol\<close>), the tasks of the program and the states they reach. \<open>Racing\<close>: attempts
    that race for the start of a video.
  \<^item> \<open>Samples\<close>: concrete states and environments. \<open>Status_Properties\<close>, \<open>Worker_Properties\<close>,
    \<open>Service_Properties\<close>, \<open>Account_Properties\<close>, \<open>Chat_Properties\<close>, \<open>Http_Properties\<close>,
    \<open>Concurrency_Properties\<close> and this theory: the properties, each with an instance where it has
    hypotheses. A theorem without a claim number is a further result of the same kind.

  \<^bold>\<open>What the properties show.\<close> C8 and C9: the program as a whole. C1: the status machine is a
  compare-and-set. C4, C15, C16, C18, C35, C39: what holds, and what does not, when handlers and
  attempts are interleaved at their external calls; the first attempt at a \<open>PENDING\<close> video wins
  (C4), an attempt that comes later does not lose (C15). C2: how a job ends; C14: how a failed one
  is recovered. C3, C6, C7, C10, C17, C30 and C37: how and when an attempt of a
  worker ends, with which row, events and records, under faults and without. C38: what the sockets hear of an attempt in either process. C34: storage.
  C19, C32, C33: the video service. C31: the dead-letter queue. C36: the sockets. C12, C13,
  C24, C25: accounts and tokens. C11, C26, C28: the chat. C5, C20 to C23, C29: the HTTP surface. C27, C40: the dashboard and the configuration.
  Several properties state what the code does against its comments or its purpose: C15, C16, C21,
  C29, C35, C37 to C40, and the key in the link of C9.

  \<^bold>\<open>Loops and bounds.\<close> Both loops are total functions: \<open>retry_from\<close> counts up to three attempts
  and \<open>poll_loop\<close> up to 30 polls, so no fuel is needed. C6 needs a provider delay of at most 30
  polls of 10 seconds. C10 bounds the calls and the time of any attempt; an external call itself
  always ends, after the latency the environment gives it. A task is a finite resumption: it ends
  under every schedule that gives it enough steps (\<open>interleave_alone\<close>).

  \<^bold>\<open>Simplifications.\<close> A call that is not awaited (a cache write, the dead-letter listener) takes
  effect at once, without delaying or failing its caller. The properties of one operation are
  about its run without interruption; in a pool an operation is interrupted between any two of its
  external calls, except that a call of a storage or provider service and a listener are one step,
  and the clock advances by the latencies of all tasks. A list query and its count are one call.
  Saving a loaded entity writes back all its columns when one of them differs from the row. Rows of
  one instant have a fixed order. Numbers are integers, strings are byte lists, a JSON value in a
  metadata column is null, a boolean, a number or a string, and so is a property of a request body,
  whose numbers are whole and of whose equal keys the first counts. In a creation, an option given
  as null is an option left out (the code would store NULL for a width, a height or a frame rate).
  A progress report for a job that the queue does not hold is served without effect, where BullMQ
  rejects it. A token is an opaque value; the query
  parameters of a request are given as the numbers they denote; that a text is too long for its
  column shows as a refused call (\<open>up\<close> for the database includes that texts fit); the throttler, the
  UUID check and the health check of \<open>terminus\<close> (\<open>terminus_ok\<close>) are parameters; a deletion
  answers 204 with the envelope that the response then drops; the socket of a chat session holds
  its own rooms.

  \<^bold>\<open>Not modelled.\<close> Listening on a port, the delivery of signals, CORS and security headers as
  browsers see them, the pages of the documentation and the transports of the logger are the
  framework's; the log lines of services other than those of a request are left out.
  \<open>shared/contracts/video.contracts.ts\<close> holds types that nothing implements,
  \<open>modules/ai/providers/openai.provider.ts\<close> a provider that no module registers.
\<close>

section \<open>Properties of the whole program\<close>

text \<open>C8: In every state that requests, chat messages, attempts of workers, retries and the
  passing of time reach, interleaved call by call in any way and under any faults, the keys of the tables and the emails and
  usernames of the accounts are unique, every video belongs to an existing account, no account
  is an administrator, every completed video has a URL, the numbers of a video have 32 bits, and a
  dead-letter record is marked as retried exactly if it names the job of its retry.\<close>

theorem reachable_states_are_consistent:
  assumes "reachable w"
  shows "wf_world w \<and>
    (\<forall>k v. row w k = Some v \<longrightarrow> (v_status v = COMPLETED \<longrightarrow> v_videoUrl v \<noteq> None) \<and> integers_fit v \<and>
       (\<exists>u. find_user (v_userId v) (w_users w) = Some u)) \<and>
    (\<forall>u \<in> set (w_users w). us_role u = USER) \<and>
    (\<forall>k r. find_failed_job k (w_failed_jobs w) = Some r \<longrightarrow> (f_retried r \<longleftrightarrow> f_retryJobId r \<noteq> None))"
proof -
  have "find_video k t = Some v \<Longrightarrow> v \<in> set t" "find_failed_job k t' = Some r \<Longrightarrow> r \<in> set t'" for k t v t' r
    by (auto simp: find_video_def find_failed_job_def select_key_def find_Some_iff)
  with reachable_ok [OF assms] show ?thesis
    by (fastforce simp: system_ok_def row_ok_def record_ok_def row_def)
qed

lemma reachable_creation:
  assumes "reachable w"
  shows "reachable (snd (videos_create env u dto w))"
  using reachable_run [OF assms program_task.create [of env u dto]]
  by (simp add: run_spawn endpoint_tasks videos_create_def io_bind_def split_def split: sum.splits)

theorem reachable_states_are_consistent_witness:
  "\<exists>w'. w' = snd (videos_create calm ''u'' sample_dto after_registration) \<and> wf_world w' \<and>
     (\<forall>u \<in> set (w_users w'). us_role u = USER)"
proof -
  have "reachable (snd (videos_create calm ''u'' sample_dto after_registration))"
    by (rule reachable_creation) (rule reachable_after_registration)
  from reachable_states_are_consistent [OF this] show ?thesis by simp
qed

text \<open>C9: With the services up, a video created by an existing user in any reachable state is
  queued, is completed by the first attempt at its job, and its owner then gets a download link
  for it. The link is signed for the key that is left of the provider's URL when its first path
  segment is dropped.\<close>

theorem created_video_is_delivered:
  assumes "reachable w" and "up env Database" and "up env Queue" and "up env S3" and "dimensions_fit dto"
    and "find_user u (w_users w) \<noteq> None" and "defaultDelayMs delay \<le> 300000"
    and "k = e_uuid env (Suc (w_calls w))" and "find_video k (w_videos w) = None" and "plain_segment k"
    and "jid = e_job_id env (Suc (Suc (w_calls w)))" and "find_job jid (w_jobs w) = None"
    and "u_host_ok lib ''fake-cdn.example.com''"
  shows "\<exists>v w1 job w2 d w3. videos_create env u dto w = (Inr v, w1) \<and> vr_id v = k \<and>
    find_job jid (w_jobs w1) = Some job \<and>
    process env (aiService env delay) (storageService env cfg) job w1 = (Inr (), w2) \<and>
    videos_getResult env lib (storageService env cfg) u k ttl w2 = (Inr d, w3) \<and>
    vd_downloadUrl d = e_sign env (GetObject (bucket_of cfg) (k @ ''/output.mp4'')) (clamp_expiry (or_else ttl 3600))"
proof -
  let ?job = "new_job jid GENERATE k videos_module_job_defaults"
  obtain v w1 v' where created: "createAndQueue env u dto w = (Inr v, w1)" "v_id v = k"
    and row: "row w1 k = Some v'" "v_status v' = PENDING" "v_userId v' = u"
    and jobs: "w_jobs w1 = insert_row ?job (w_jobs w)"
    using createAndQueue_served [OF assms(2,3,5,6,8,9,11,12)] by (auto simp: insert_row_def)
  have run: "videos_create env u dto w = (Inr (video_response_from v), w1)"
    using created(1) by (simp add: videos_create_def io_bind_def)
  have "wf_world w1"
    using reachable_ok [OF reachable_creation [OF assms(1)]] run by (metis snd_conv system_ok_def)
  moreover have "find_job jid (w_jobs w1) = Some ?job"
    using assms(12) jobs jobs.lookup_ins [of ?job "w_jobs w" jid] by (simp add: new_job_def)
  moreover have "\<not> terminal (v_status v')" by (simp add: row(2) terminal_def)
  moreover have "j_name ?job = GENERATE" "j_videoId ?job = k" by (simp_all add: new_job_def)
  ultimately show ?thesis
    using attempt_then_result [OF assms(2,3,4,7), of w1 ?job k v' u lib cfg ttl] row run created(2) assms(10,13)
    by (auto simp: video_response_from_def)
qed

theorem created_video_is_delivered_witness:
  "\<exists>v w1 job w2 d w3. videos_create calm ''u'' sample_dto after_registration = (Inr v, w1) \<and>
    find_job ''7'' (w_jobs w1) = Some job \<and>
    process calm (aiService calm None) (storageService calm sample_config) job w1 = (Inr (), w2) \<and>
    videos_getResult calm sample_url_lib (storageService calm sample_config) ''u'' ''u'' None w2 = (Inr d, w3)"
proof -
  have "find_user ''u'' (w_users after_registration) \<noteq> None"
    by (simp add: find_user_def select_key_def)
  from created_video_is_delivered [OF reachable_after_registration up_calm up_calm up_calm _ this,
      of sample_dto None "''u''" "''7''" sample_url_lib sample_config None]
  show ?thesis
    by (simp add: dimensions_fit_def sample_dto_def defaultDelayMs_def plain_segment_def plain_char_def code_def sample_url_lib_def) blast
qed

end
